(* ===== verification/Go_Base.thy ===== *)
theory Go_Base
  imports Main "HOL-Library.Word" "HOL-Library.Monad_Syntax"
begin

text \<open>
  The prelude of the development: how the Go values, containers and control flow that every
  component uses are written in HOL, with the generic lemmas the components share.

  \<^item> A Go \<open>string\<close> is a \<open>string\<close> (a list of 8-bit characters), a \<open>[]byte\<close> a list of
    \<open>8 word\<close>, a \<open>peer.ID\<close> (in libp2p a string type) a string, a \<open>time.Time\<close> and a
    \<open>time.Duration\<close> an integer number of nanoseconds, a \<open>uint64\<close> a \<open>64 word\<close>; a Go \<open>int\<close>
    or \<open>int64\<close> is an \<open>int\<close>, with \<open>wrap64\<close> written where the code's arithmetic can leave the
    64-bit range.
  \<^item> A Go \<open>map\<close> is an association list with distinct keys (\<open>gm_wf\<close>). Its list order is the
    order one \<open>range\<close> loop happens to see; Go leaves that order open, and every theorem is
    about every list, so about every order.
  \<^item> A \<open>(T, error)\<close> result is \<open>error + T\<close>. Code that can hit a run-time panic returns a
    value of \<open>'a go\<close>, whose constructor \<open>Panic\<close> ends the computation.
  \<^item> A \<open>for\<close> loop over a slice or a map is \<open>fold\<close>, or a recursive function where it leaves
    early.
\<close>

named_theorems go_map \<open>laws of Go maps\<close>
named_theorems go_wf \<open>well-formedness is kept\<close>

section \<open>Types\<close>

type_synonym peer_id = string
type_synonym bytes = "8 word list"
type_synonym go_time = int
type_synonym u64 = "64 word"

text \<open>
  Run-time panics the modelled code can raise. \<open>log.Fatal\<close> ends the process in the same way and
  is one of them.
\<close>

datatype panic = NilDereference | IndexOutOfRange | SliceOutOfRange | MakeSliceOutOfRange
  | ExplicitPanic string | LogFatal string
  | DivisionByZero | CryptoFailure

datatype (plugins del: size) 'a go = Ret 'a | Panic panic

primrec go_bind :: "'a go \<Rightarrow> ('a \<Rightarrow> 'b go) \<Rightarrow> 'b go" where
  "go_bind (Ret x) f = f x"
| "go_bind (Panic p) f = Panic p"

fun panics :: "'a go \<Rightarrow> bool" where
  "panics (Ret x) = False"
| "panics (Panic p) = True"

lemma panics_bind [simp]:
  "panics (go_bind m f) \<longleftrightarrow> panics m \<or> (\<exists>x. m = Ret x \<and> panics (f x))"
  by (cases m) auto

lemma go_bind_Ret_iff: "go_bind m f = Ret y \<longleftrightarrow> (\<exists>x. m = Ret x \<and> f x = Ret y)"
  by (cases m) auto

lemma panics_iff: "panics m \<longleftrightarrow> (\<exists>p. m = Panic p)"
  by (cases m) auto

lemma not_panics_iff: "\<not> panics m \<longleftrightarrow> (\<exists>x. m = Ret x)"
  by (cases m) auto

text \<open>Durations, in nanoseconds.\<close>

definition second :: int where "second = 1000000000"
definition minute :: int where "minute = 60 * second"
definition hour :: int where "hour = 60 * minute"

lemmas durations = hour_def minute_def second_def

text \<open>\<open>t.Sub(u)\<close> saturates at the range of a \<open>Duration\<close>.\<close>

definition time_Sub :: "go_time \<Rightarrow> go_time \<Rightarrow> int" where
  "time_Sub t u = max (- (2 ^ 63)) (min (2 ^ 63 - 1) (t - u))"

text \<open>Reduction of an integer to Go's signed 64-bit range.\<close>

definition wrap64 :: "int \<Rightarrow> int" where
  "wrap64 x = (x + 2 ^ 63) mod 2 ^ 64 - 2 ^ 63"

lemma wrap64_id: "- (2 ^ 63) \<le> x \<Longrightarrow> x < 2 ^ 63 \<Longrightarrow> wrap64 x = x"
  by (simp add: wrap64_def)

lemma wrap64_bounds: "- (2 ^ 63) \<le> wrap64 x \<and> wrap64 x < 2 ^ 63"
proof -
  have "0 \<le> (x + 2 ^ 63) mod 2 ^ 64" and "(x + 2 ^ 63) mod 2 ^ 64 < 2 ^ 64"
    by simp_all
  then show ?thesis by (simp add: wrap64_def)
qed

text \<open>Go's integer division truncates towards zero.\<close>

definition go_div :: "int \<Rightarrow> int \<Rightarrow> int" where
  "go_div a b = sgn a * sgn b * (\<bar>a\<bar> div \<bar>b\<bar>)"

lemma go_div_nonneg: "0 \<le> a \<Longrightarrow> 0 < b \<Longrightarrow> go_div a b = a div b"
  by (cases "a = 0") (auto simp: go_div_def sgn_if)

section \<open>Maps\<close>

type_synonym ('k, 'v) gomap = "('k \<times> 'v) list"

abbreviation gm_get :: "('k, 'v) gomap \<Rightarrow> 'k \<Rightarrow> 'v option" where
  "gm_get m k \<equiv> map_of m k"

fun gm_put :: "'k \<Rightarrow> 'v \<Rightarrow> ('k, 'v) gomap \<Rightarrow> ('k, 'v) gomap" where
  "gm_put k v [] = [(k, v)]"
| "gm_put k v ((k', v') # m) = (if k' = k then (k, v) # m else (k', v') # gm_put k v m)"

fun gm_del :: "'k \<Rightarrow> ('k, 'v) gomap \<Rightarrow> ('k, 'v) gomap" where
  "gm_del k [] = []"
| "gm_del k ((k', v') # m) = (if k' = k then gm_del k m else (k', v') # gm_del k m)"

definition gm_keys :: "('k, 'v) gomap \<Rightarrow> 'k list" where
  "gm_keys m = map fst m"

definition gm_has :: "('k, 'v) gomap \<Rightarrow> 'k \<Rightarrow> bool" where
  "gm_has m k \<longleftrightarrow> k \<in> set (gm_keys m)"

definition gm_wf :: "('k, 'v) gomap \<Rightarrow> bool" where
  "gm_wf m \<longleftrightarrow> distinct (gm_keys m)"

text \<open>Go returns the zero value of the element type for a missing key.\<close>

definition gm_get_or :: "'v \<Rightarrow> ('k, 'v) gomap \<Rightarrow> 'k \<Rightarrow> 'v" where
  "gm_get_or z m k = (case gm_get m k of None \<Rightarrow> z | Some v \<Rightarrow> v)"

lemma gm_keys_simps [simp]: "gm_keys [] = []" "gm_keys (p # m) = fst p # gm_keys m"
  by (simp_all add: gm_keys_def)

lemma gm_get_put [simp, go_map]: "gm_get (gm_put k v m) k' = (if k' = k then Some v else gm_get m k')"
  by (induction m) auto

lemma gm_get_del [simp, go_map]: "gm_get (gm_del k m) k' = (if k' = k then None else gm_get m k')"
  by (induction m) auto

lemma gm_has_iff: "gm_has m k \<longleftrightarrow> gm_get m k \<noteq> None"
  by (induction m) (auto simp: gm_has_def)

lemma gm_get_None_iff: "gm_get m k = None \<longleftrightarrow> k \<notin> set (gm_keys m)"
  by (induction m) auto

lemma gm_get_in_keys: "gm_get m k = Some v \<Longrightarrow> k \<in> set (gm_keys m)"
  by (induction m) (auto split: if_splits)

lemma set_keys_put [simp]: "set (gm_keys (gm_put k v m)) = insert k (set (gm_keys m))"
  by (induction k v m rule: gm_put.induct) (simp_all add: insert_commute)

lemma set_keys_del [simp]: "set (gm_keys (gm_del k m)) = set (gm_keys m) - {k}"
  by (induction k m rule: gm_del.induct) (simp_all add: insert_Diff_if)

lemma gm_wf_Nil [simp, go_wf]: "gm_wf []"
  by (simp add: gm_wf_def)

lemma gm_wf_put [simp, go_wf]: "gm_wf m \<Longrightarrow> gm_wf (gm_put k v m)"
  unfolding gm_wf_def by (induction m) auto

lemma gm_wf_del [simp, go_wf]: "gm_wf m \<Longrightarrow> gm_wf (gm_del k m)"
  unfolding gm_wf_def by (induction m) auto

lemma gm_del_fresh [simp]: "k \<notin> set (gm_keys m) \<Longrightarrow> gm_del k m = m"
  by (induction m) auto

text \<open>A fresh key goes to the end, so deleting it again restores the very same map.\<close>

lemma gm_put_fresh: "k \<notin> set (gm_keys m) \<Longrightarrow> gm_put k v m = m @ [(k, v)]"
  by (induction m) auto

lemma gm_del_append: "gm_del k (m @ m') = gm_del k m @ gm_del k m'"
  by (induction m) auto

lemma gm_del_put_fresh: "k \<notin> set (gm_keys m) \<Longrightarrow> gm_del k (gm_put k v m) = m"
  by (simp add: gm_put_fresh gm_del_append)

lemma gm_put_swap_del: "k \<noteq> k' \<Longrightarrow> gm_del k (gm_put k' v m) = gm_put k' v (gm_del k m)"
  by (induction m) auto

lemma length_gm_put: "length (gm_put k v m) = (if k \<in> set (gm_keys m) then length m else Suc (length m))"
  by (induction m) auto

lemma gm_wf_get: "gm_wf m \<Longrightarrow> (k, v) \<in> set m \<longleftrightarrow> gm_get m k = Some v"
  by (simp add: gm_wf_def gm_keys_def)

lemma gm_wf_del_length: "gm_wf m \<Longrightarrow> k \<in> set (gm_keys m) \<Longrightarrow> Suc (length (gm_del k m)) = length m"
  unfolding gm_wf_def by (induction m) auto

text \<open>A property of all values of a map.\<close>

definition gm_all :: "('v \<Rightarrow> bool) \<Rightarrow> ('k, 'v) gomap \<Rightarrow> bool" where
  "gm_all P m \<longleftrightarrow> (\<forall>k v. gm_get m k = Some v \<longrightarrow> P v)"

lemma gm_allI: "(\<And>k v. gm_get m k = Some v \<Longrightarrow> P v) \<Longrightarrow> gm_all P m"
  unfolding gm_all_def by blast

lemma gm_allD: "gm_all P m \<Longrightarrow> gm_get m k = Some v \<Longrightarrow> P v"
  unfolding gm_all_def by blast

lemma gm_all_Nil [simp, go_wf]: "gm_all P []"
  by (rule gm_allI) simp

lemma gm_all_put [simp, go_wf]: "gm_all P m \<Longrightarrow> P v \<Longrightarrow> gm_all P (gm_put k v m)"
  by (rule gm_allI) (auto dest: gm_allD split: if_splits)

lemma gm_all_del [simp, go_wf]: "gm_all P m \<Longrightarrow> gm_all P (gm_del k m)"
  by (rule gm_allI) (auto dest: gm_allD split: if_splits)

lemma gm_all_get_or: "gm_all P m \<Longrightarrow> P z \<Longrightarrow> P (gm_get_or z m k)"
  unfolding gm_get_or_def by (cases "gm_get m k") (auto dest: gm_allD)

lemma gm_get_map: "gm_get (map (\<lambda>(k, v). (k, f v)) m) k = map_option f (gm_get m k)"
  by (induction m) auto

lemma gm_keys_map: "gm_keys (map (\<lambda>(k, v). (k, f v)) m) = gm_keys m"
  by (induction m) auto

lemma gm_wf_map [simp]: "gm_wf (map (\<lambda>(k, v). (k, f v)) m) = gm_wf m"
  by (simp add: gm_wf_def gm_keys_map)

lemma gm_all_map: "gm_all P m \<Longrightarrow> (\<And>v. P v \<Longrightarrow> Q (f v)) \<Longrightarrow> gm_all Q (map (\<lambda>(k, v). (k, f v)) m)"
  by (rule gm_allI) (auto simp: gm_get_map dest: gm_allD)

text \<open>Sums over the values of a map, in any abelian monoid (here: \<open>uint64\<close> and \<open>int64\<close>).\<close>

definition gm_sum :: "('k \<Rightarrow> 'v \<Rightarrow> 'a::comm_monoid_add) \<Rightarrow> ('k, 'v) gomap \<Rightarrow> 'a" where
  "gm_sum f m = sum_list (map (\<lambda>(k, v). f k v) m)"

lemma gm_sum_simps [simp]:
  "gm_sum f [] = 0" "gm_sum f ((k, v) # m) = f k v + gm_sum f m"
  by (simp_all add: gm_sum_def)

lemma gm_sum_append [simp]: "gm_sum f (m @ m') = gm_sum f m + gm_sum f m'"
  by (simp add: gm_sum_def)

lemma gm_sum_put_fresh: "k \<notin> set (gm_keys m) \<Longrightarrow> gm_sum f (gm_put k v m) = gm_sum f m + f k v"
  by (simp add: gm_put_fresh)

lemma gm_sum_del: "gm_wf m \<Longrightarrow> gm_get m k = Some v \<Longrightarrow> gm_sum f m = f k v + gm_sum f (gm_del k m)"
proof (induction m)
  case Nil
  then show ?case by simp
next
  case (Cons p m)
  obtain k' v' where p: "p = (k', v')" by (cases p)
  show ?case
  proof (cases "k' = k")
    case True
    with Cons.prems p have "k \<notin> set (gm_keys m)" and "v' = v"
      by (auto simp: gm_wf_def)
    with p True show ?thesis by simp
  next
    case False
    with Cons p have "gm_sum f m = f k v + gm_sum f (gm_del k m)"
      by (simp add: gm_wf_def)
    with p False show ?thesis by (simp add: ac_simps)
  qed
qed

lemma gm_sum_cong: "(\<And>k v. (k, v) \<in> set m \<Longrightarrow> f k v = g k v) \<Longrightarrow> gm_sum f m = gm_sum g m"
  by (induction m) auto

section \<open>Slices\<close>

text \<open>Appending an element a loop did not find, as the code does for peer lists.\<close>

definition append_new :: "'a \<Rightarrow> 'a list \<Rightarrow> 'a list" where
  "append_new x xs = (if x \<in> set xs then xs else xs @ [x])"

lemma distinct_append_new [simp, go_wf]: "distinct xs \<Longrightarrow> distinct (append_new x xs)"
  by (simp add: append_new_def)

lemma set_append_new [simp]: "set (append_new x xs) = insert x (set xs)"
  by (auto simp: append_new_def)

lemma append_new_idem [simp]: "append_new x (append_new x xs) = append_new x xs"
  by (auto simp: append_new_def)

lemma fold_append_new_set: "set (fold append_new ys xs) = set xs \<union> set ys"
  by (induction ys arbitrary: xs) auto

lemma fold_append_new_distinct: "distinct xs \<Longrightarrow> distinct (fold append_new ys xs)"
  by (induction ys arbitrary: xs) auto

lemma fold_append_new_id: "set ys \<subseteq> set xs \<Longrightarrow> fold append_new ys xs = xs"
  by (induction ys arbitrary: xs) (auto simp: append_new_def)

text \<open>Slice reads: an index outside the slice panics.\<close>

definition go_index :: "'a list \<Rightarrow> int \<Rightarrow> 'a go" where
  "go_index xs i = (if 0 \<le> i \<and> i < int (length xs) then Ret (xs ! nat i) else Panic IndexOutOfRange)"

definition go_update :: "'a list \<Rightarrow> int \<Rightarrow> 'a \<Rightarrow> 'a list go" where
  "go_update xs i x =
     (if 0 \<le> i \<and> i < int (length xs) then Ret (xs[nat i := x]) else Panic IndexOutOfRange)"

text \<open>\<open>s[:n]\<close>\<close>

definition go_prefix :: "'a list \<Rightarrow> int \<Rightarrow> 'a list go" where
  "go_prefix xs n = (if 0 \<le> n \<and> n \<le> int (length xs) then Ret (take (nat n) xs) else Panic SliceOutOfRange)"

text \<open>\<open>make([]T, n)\<close>: a negative length panics.\<close>

definition go_make :: "int \<Rightarrow> 'a \<Rightarrow> 'a list go" where
  "go_make n z = (if n < 0 then Panic MakeSliceOutOfRange else Ret (replicate (nat n) z))"

section \<open>Decimal strings\<close>

text \<open>\<open>%d\<close> in the format strings, and \<open>strconv.Atoi\<close>.\<close>

definition digit_char :: "nat \<Rightarrow> char" where
  "digit_char d = char_of (48 + d)"

fun dec_nat :: "nat \<Rightarrow> string" where
  "dec_nat n = (if n < 10 then [digit_char n] else dec_nat (n div 10) @ [digit_char (n mod 10)])"

declare dec_nat.simps [simp del]

definition dec :: "int \<Rightarrow> string" where
  "dec i = (if i < 0 then CHR ''-'' # dec_nat (nat (- i)) else dec_nat (nat i))"

definition char_digit :: "char \<Rightarrow> nat option" where
  "char_digit c = (let n = of_char c in if 48 \<le> n \<and> n \<le> (57 :: nat) then Some (n - 48) else None)"

fun parse_digits :: "nat \<Rightarrow> string \<Rightarrow> nat option" where
  "parse_digits acc [] = Some acc"
| "parse_digits acc (c # cs) =
     (case char_digit c of None \<Rightarrow> None | Some d \<Rightarrow> parse_digits (10 * acc + d) cs)"

lemma char_digit_digit_char [simp]: "d < 10 \<Longrightarrow> char_digit (digit_char d) = Some d"
  by (simp add: char_digit_def digit_char_def Let_def)

lemma parse_digits_append:
  "parse_digits acc (xs @ ys) =
     (case parse_digits acc xs of None \<Rightarrow> None | Some a \<Rightarrow> parse_digits a ys)"
  by (induction xs arbitrary: acc) (auto split: option.splits)

lemma parse_dec_nat: "parse_digits 0 (dec_nat n) = Some n"
proof (induction n rule: dec_nat.induct)
  case (1 n)
  show ?case
  proof (cases "n < 10")
    case True
    then show ?thesis by (simp add: dec_nat.simps [of n])
  next
    case False
    with 1 have "parse_digits 0 (dec_nat (n div 10)) = Some (n div 10)" by simp
    with False show ?thesis
      by (simp add: dec_nat.simps [of n] parse_digits_append)
  qed
qed

lemma dec_nat_inject [simp]: "dec_nat m = dec_nat n \<longleftrightarrow> m = n"
  by (metis option.inject parse_dec_nat)

lemma dec_nat_nonempty [simp]: "dec_nat n \<noteq> []"
  by (subst dec_nat.simps) simp

lemma dec_nat_chars: "c \<in> set (dec_nat n) \<Longrightarrow> \<exists>d < 10. c = digit_char d"
proof (induction n rule: dec_nat.induct)
  case (1 n)
  show ?case
  proof (cases "n < 10")
    case True
    with "1.prems" show ?thesis by (auto simp: dec_nat.simps [of n])
  next
    case False
    with "1.prems" have "c \<in> set (dec_nat (n div 10)) \<or> c = digit_char (n mod 10)"
      by (auto simp: dec_nat.simps [of n])
    with "1.IH" [OF False] show ?thesis by (auto intro: exI [of _ "n mod 10"])
  qed
qed

lemma digit_char_neq: "d < 10 \<Longrightarrow> (of_char c :: nat) < 48 \<or> 57 < (of_char c :: nat) \<Longrightarrow> digit_char d \<noteq> c"
  by (auto simp: digit_char_def)

text \<open>\<open>strconv.Atoi\<close> on 64-bit: an optional sign, digits, and the value in range.\<close>

definition Atoi :: "string \<Rightarrow> int option" where
  "Atoi s =
     (let (neg, ds) = (case s of [] \<Rightarrow> (False, [])
                       | c # cs \<Rightarrow> if c = CHR ''-'' then (True, cs)
                                   else if c = CHR ''+'' then (False, cs) else (False, s))
      in if ds = [] then None
         else case parse_digits 0 ds of None \<Rightarrow> None
              | Some n \<Rightarrow> (let v = (if neg then - int n else int n)
                           in if - (2 ^ 63) \<le> v \<and> v < 2 ^ 63 then Some v else None))"

lemma hd_dec_nat: "\<exists>d < 10. \<exists>cs. dec_nat n = digit_char d # cs"
proof -
  obtain c cs where "dec_nat n = c # cs" by (cases "dec_nat n") auto
  then show ?thesis using dec_nat_chars [of c n] by auto
qed

lemma Atoi_dec: "- (2 ^ 63) \<le> i \<Longrightarrow> i < 2 ^ 63 \<Longrightarrow> Atoi (dec i) = Some i"
proof -
  assume i: "- (2 ^ 63) \<le> i" "i < 2 ^ 63"
  obtain d cs where d: "d < 10" "dec_nat (nat i) = digit_char d # cs"
    using hd_dec_nat by blast
  have "digit_char d \<noteq> CHR ''-''" and "digit_char d \<noteq> CHR ''+''"
    using digit_char_neq [OF d(1), of "CHR ''-''"] digit_char_neq [OF d(1), of "CHR ''+''"] by simp_all
  moreover have "parse_digits 0 (digit_char d # cs) = Some (nat i)"
    using parse_dec_nat [of "nat i"] d(2) by simp
  ultimately show ?thesis
    using i d by (cases "i < 0") (auto simp: Atoi_def dec_def parse_dec_nat)
qed

lemma dec_inject: "0 \<le> i \<Longrightarrow> 0 \<le> j \<Longrightarrow> dec i = dec j \<longleftrightarrow> i = j"
  by (auto simp: dec_def)

end
