(* ===== verification/Go_Float.thy ===== *)
theory Go_Float
  imports Go_Base Complex_Main
begin

text \<open>
  Go's \<open>float64\<close>: IEEE 754 binary64 with rounding to nearest, ties to even. A finite value is
  the rational number it stands for; every arithmetic operation computes the exact rational
  result and rounds it (\<open>fl\<close>), with overflow to an infinity and the usual rules for infinities
  and NaN. The two signed zeros are one value here: the code divides only by values that are
  converted from unsigned or non-negative counters, so it cannot tell them apart.
\<close>

section \<open>Rounding\<close>

fun log2 :: "int \<Rightarrow> int" where
  "log2 n = (if n < 2 then 0 else 1 + log2 (n div 2))"

declare log2.simps [simp del]

lemma log2_nonneg: "0 \<le> log2 n"
proof (induction n rule: log2.induct)
  case (1 n)
  then show ?case by (cases "n < 2") (simp_all add: log2.simps [of n])
qed

lemma log2_bounds: "0 < n \<Longrightarrow> 2 ^ nat (log2 n) \<le> n \<and> n < 2 * 2 ^ nat (log2 n)"
proof (induction n rule: log2.induct)
  case (1 n)
  show ?case
  proof (cases "n < 2")
    case True
    with 1 show ?thesis by (simp add: log2.simps [of n])
  next
    case False
    define p :: int where "p = 2 ^ nat (log2 (n div 2))"
    from False 1 have "p \<le> n div 2" and "n div 2 < 2 * p"
      by (auto simp: p_def)
    then have "2 * p \<le> n \<and> n < 4 * p" by arith
    moreover have "nat (log2 n) = Suc (nat (log2 (n div 2)))"
      using False log2_nonneg [of "n div 2"] by (simp add: log2.simps [of n])
    ultimately show ?thesis by (simp add: p_def)
  qed
qed

definition two_pow :: "int \<Rightarrow> rat" where
  "two_pow e = (if 0 \<le> e then 2 ^ nat e else 1 / 2 ^ nat (- e))"

lemma two_pow_pos [simp]: "0 < two_pow e"
  by (simp add: two_pow_def)

lemma two_pow_nonneg [simp]: "0 \<le> two_pow e"
  by (simp add: two_pow_def)

lemma two_pow_nz [simp]: "two_pow e \<noteq> 0"
  by (simp add: two_pow_def)

lemma two_pow_Suc: "two_pow (e + 1) = 2 * two_pow e"
proof (cases "0 \<le> e")
  case True
  then have "nat (e + 1) = Suc (nat e)" by simp
  with True show ?thesis by (simp add: two_pow_def)
next
  case False
  then have "nat (- e) = Suc (nat (- (e + 1)))" by simp
  with False show ?thesis by (simp add: two_pow_def)
qed

lemma two_pow_add_nat: "two_pow (e + int k) = two_pow e * 2 ^ k"
proof (induction k)
  case 0
  show ?case by simp
next
  case (Suc k)
  have "two_pow (e + int (Suc k)) = two_pow ((e + int k) + 1)" by (simp add: ac_simps)
  with Suc show ?case by (simp only: two_pow_Suc) simp
qed

lemma two_pow_split: "e \<le> e' \<Longrightarrow> two_pow e' = two_pow e * 2 ^ nat (e' - e)"
  using two_pow_add_nat [of e "nat (e' - e)"] by simp

lemma two_pow_mono: "e \<le> e' \<Longrightarrow> two_pow e \<le> two_pow e'"
  by (simp add: two_pow_split)

text \<open>The binary exponent of a positive rational: \<open>2 ^ ilog2 x \<le> x < 2 ^ (ilog2 x + 1)\<close>.\<close>

definition ilog2 :: "rat \<Rightarrow> int" where
  "ilog2 x =
     (let (n, d) = quotient_of x;
          k = log2 n - log2 d
      in if two_pow k \<le> x then k else k - 1)"

lemma ilog2_bounds:
  assumes "0 < x"
  shows "two_pow (ilog2 x) \<le> x \<and> x < two_pow (ilog2 x + 1)"
proof -
  obtain n d where q: "quotient_of x = (n, d)" by (cases "quotient_of x")
  then have d: "0 < d" and x: "x = of_int n / of_int d"
    using quotient_of_denom_pos quotient_of_div by auto
  with assms have n: "0 < n" by (simp add: zero_less_divide_iff)
  define a where "a = nat (log2 n)"
  define b where "b = nat (log2 d)"
  define k where "k = log2 n - log2 d"
  have k: "k = int a - int b"
    using log2_nonneg [of n] log2_nonneg [of d] by (simp add: k_def a_def b_def)
  have n1: "2 ^ a \<le> n" and n2: "n < 2 * 2 ^ a" and d1: "2 ^ b \<le> d" and d2: "d < 2 * 2 ^ b"
    using log2_bounds [OF n] log2_bounds [OF d] by (simp_all add: a_def b_def)
  have "of_int (2 ^ a) \<le> (of_int n :: rat)" and "(of_int n :: rat) < of_int (2 * 2 ^ a)"
      and "of_int (2 ^ b) \<le> (of_int d :: rat)" and "(of_int d :: rat) < of_int (2 * 2 ^ b)"
    using n1 n2 d1 d2 by (simp_all only: of_int_le_iff of_int_less_iff)
  then have N: "(2 :: rat) ^ a \<le> of_int n" "(of_int n :: rat) < 2 * 2 ^ a"
      and D: "(2 :: rat) ^ b \<le> of_int d" "(of_int d :: rat) < 2 * 2 ^ b"
    by simp_all
  have T: "two_pow (int a - int b) * 2 ^ b = 2 ^ a"
    using two_pow_add_nat [of "int a - int b" b] by (simp add: two_pow_def)
  have xd: "x * of_int d = of_int n" using x d by simp
  have up: "x < two_pow (k + 1)"
  proof -
    have "of_int n < 2 * (two_pow k * 2 ^ b)" using N T by (simp add: k)
    also have "\<dots> \<le> 2 * (two_pow k * of_int d)"
      using D by (simp add: mult_left_mono)
    finally have "x * of_int d < (2 * two_pow k) * of_int d" by (simp add: xd)
    with d show ?thesis by (simp add: two_pow_Suc)
  qed
  have lo: "two_pow (k - 1) \<le> x"
  proof -
    have "two_pow (k - 1) * of_int d \<le> two_pow (k - 1) * (2 * 2 ^ b)"
      using D by (intro mult_left_mono) auto
    also have "\<dots> = two_pow k * 2 ^ b" using two_pow_Suc [of "k - 1"] by simp
    also have "\<dots> \<le> of_int n" using N T by (simp add: k)
    finally have "two_pow (k - 1) * of_int d \<le> x * of_int d" by (simp add: xd)
    with d show ?thesis by simp
  qed
  show ?thesis
    using up lo by (auto simp: ilog2_def q Let_def k_def [symmetric])
qed

lemma ilog2_less_iff: "0 < x \<Longrightarrow> x < two_pow e \<Longrightarrow> ilog2 x < e"
proof (rule ccontr)
  assume x: "0 < x" "x < two_pow e" and "\<not> ilog2 x < e"
  then have "two_pow e \<le> two_pow (ilog2 x)" by (intro two_pow_mono) simp
  with ilog2_bounds [OF x(1)] x(2) show False by simp
qed

lemma ilog2_mono: "0 < x \<Longrightarrow> x \<le> y \<Longrightarrow> ilog2 x \<le> ilog2 y"
proof -
  assume x: "0 < x" "x \<le> y"
  then have "x < two_pow (ilog2 y + 1)" using ilog2_bounds [of y] by simp
  from ilog2_less_iff [OF x(1) this] show ?thesis by simp
qed

text \<open>Rounding a rational to an integer, ties to even.\<close>

definition round_even :: "rat \<Rightarrow> int" where
  "round_even q =
     (let f = \<lfloor>q\<rfloor>; r = q - of_int f
      in if r < 1 / 2 then f else if 1 / 2 < r then f + 1 else if even f then f else f + 1)"

lemma round_even_int [simp]: "round_even (of_int n) = n"
  by (simp add: round_even_def)

lemma round_even_cases:
  "(round_even q = \<lfloor>q\<rfloor> \<and> q - of_int \<lfloor>q\<rfloor> \<le> 1 / 2) \<or> (round_even q = \<lfloor>q\<rfloor> + 1 \<and> 1 / 2 \<le> q - of_int \<lfloor>q\<rfloor>)"
  by (auto simp: round_even_def Let_def)

lemma round_even_error: "\<bar>of_int (round_even q) - q\<bar> \<le> 1 / 2"
proof -
  have "of_int \<lfloor>q\<rfloor> \<le> q" and "q < of_int \<lfloor>q\<rfloor> + 1" by linarith+
  with round_even_cases [of q] show ?thesis by auto
qed

lemma round_even_mono: "p \<le> q \<Longrightarrow> round_even p \<le> round_even q"
proof -
  assume pq: "p \<le> q"
  then have fl: "\<lfloor>p\<rfloor> \<le> \<lfloor>q\<rfloor>" by (rule floor_mono)
  show ?thesis
  proof (cases "\<lfloor>p\<rfloor> = \<lfloor>q\<rfloor>")
    case True
    with pq show ?thesis by (auto simp: round_even_def Let_def)
  next
    case False
    with fl have "\<lfloor>p\<rfloor> + 1 \<le> \<lfloor>q\<rfloor>" by simp
    moreover have "round_even p \<le> \<lfloor>p\<rfloor> + 1" and "\<lfloor>q\<rfloor> \<le> round_even q"
      using round_even_cases [of p] round_even_cases [of q] by auto
    ultimately show ?thesis by simp
  qed
qed

text \<open>
  The unit in the last place of \<open>x\<close> is \<open>2 ^ ulp_exp x\<close>: 53 significant bits, and no smaller
  than the least subnormal \<open>2 ^ - 1074\<close>.
\<close>

definition ulp_exp :: "rat \<Rightarrow> int" where
  "ulp_exp x = (if x = 0 then - 1074 else max (ilog2 \<bar>x\<bar> - 52) (- 1074))"

definition fl :: "rat \<Rightarrow> rat" where
  "fl x = of_int (round_even (x / two_pow (ulp_exp x))) * two_pow (ulp_exp x)"

lemma fl_0 [simp]: "fl 0 = 0"
  using round_even_int [of 0] by (simp add: fl_def)

text \<open>A value with at most 53 significant bits is kept.\<close>

lemma fl_exact:
  assumes e: "- 1074 \<le> e" and m: "\<bar>m\<bar> < 2 ^ 53"
  shows "fl (of_int m * two_pow e) = of_int m * two_pow e"
proof (cases "m = 0")
  case True
  then show ?thesis by simp
next
  case False
  let ?x = "of_int m * two_pow e"
  have pos: "0 < \<bar>?x\<bar>" using False by (simp add: abs_mult)
  have "\<bar>of_int m :: rat\<bar> < 2 ^ 53"
    using m by (metis of_int_abs of_int_less_iff of_int_numeral of_int_power)
  then have "\<bar>?x\<bar> < 2 ^ 53 * two_pow e" by (simp add: abs_mult)
  also have "\<dots> = two_pow (e + 53)" using two_pow_add_nat [of e 53] by (simp add: mult.commute)
  finally have "ilog2 \<bar>?x\<bar> < e + 53" by (rule ilog2_less_iff [OF pos])
  then have u: "ulp_exp ?x \<le> e" using e False by (simp add: ulp_exp_def)
  define v where "v = ulp_exp ?x"
  define k where "k = nat (e - v)"
  have e': "two_pow e = two_pow v * 2 ^ k"
    using two_pow_split [OF u] by (simp add: v_def k_def)
  then have "?x / two_pow v = of_int (m * 2 ^ k)" by simp
  then have "fl ?x = of_int (m * 2 ^ k) * two_pow v"
    unfolding fl_def v_def [symmetric] by (simp only: round_even_int)
  then show ?thesis by (simp add: e')
qed

lemma fl_1 [simp]: "fl 1 = 1"
  using fl_exact [of 0 1] by (simp add: two_pow_def)

lemma fl_of_int: "\<bar>m\<bar> < 2 ^ 53 \<Longrightarrow> fl (of_int m) = of_int m"
  using fl_exact [of 0 m] by (simp add: two_pow_def)

lemma fl_two_pow: "- 1074 \<le> e \<Longrightarrow> fl (two_pow e) = two_pow e"
  using fl_exact [of e 1] by simp

lemma ulp_exp_mono: "0 < x \<Longrightarrow> x \<le> y \<Longrightarrow> ulp_exp x \<le> ulp_exp y"
  using ilog2_mono [of x y] by (auto simp: ulp_exp_def)

lemma fl_nonneg: "0 \<le> x \<Longrightarrow> 0 \<le> fl x"
proof -
  assume "0 \<le> x"
  then have "round_even 0 \<le> round_even (x / two_pow (ulp_exp x))"
    by (intro round_even_mono) simp
  then show ?thesis using round_even_int [of 0] by (simp add: fl_def)
qed

lemma fl_mono_pos:
  assumes x: "0 < x" "x \<le> y"
  shows "fl x \<le> fl y"
proof (cases "ulp_exp x = ulp_exp y")
  case True
  have "round_even (x / two_pow (ulp_exp y)) \<le> round_even (y / two_pow (ulp_exp y))"
    using x by (intro round_even_mono) (simp add: divide_right_mono)
  with True show ?thesis by (simp add: fl_def mult_right_mono)
next
  case False
  then have less: "ulp_exp x < ulp_exp y" using ulp_exp_mono [OF x] by simp
  let ?e = "ulp_exp y"
  from less x have lx: "ilog2 x + 1 \<le> ?e + 52" and ey: "?e = ilog2 y - 52" and ge: "- 1074 \<le> ?e"
    by (auto simp: ulp_exp_def)
  let ?m = "2 ^ 52 * two_pow ?e"
  have m: "?m = two_pow (?e + 52)" using two_pow_add_nat [of ?e 52] by (simp add: mult.commute)
  have "x < two_pow (ilog2 x + 1)" using ilog2_bounds [OF x(1)] by simp
  also have "\<dots> \<le> ?m" unfolding m by (rule two_pow_mono [OF lx])
  finally have xm: "x \<le> ?m" by simp
  have ym: "?m \<le> y" unfolding m using ilog2_bounds [of y] x ey by simp
  have "round_even (x / two_pow (ulp_exp x)) \<le> round_even (of_int (2 ^ (52 + nat (?e - ulp_exp x))))"
  proof (rule round_even_mono)
    have "x \<le> 2 ^ 52 * (two_pow (ulp_exp x) * 2 ^ nat (?e - ulp_exp x))"
      using xm two_pow_split [of "ulp_exp x" ?e] less by simp
    then show "x / two_pow (ulp_exp x) \<le> of_int (2 ^ (52 + nat (?e - ulp_exp x)))"
      by (simp add: divide_le_eq power_add ac_simps)
  qed
  then have "fl x \<le> of_int (2 ^ (52 + nat (?e - ulp_exp x))) * two_pow (ulp_exp x)"
    unfolding fl_def round_even_int
    by (intro mult_right_mono) (simp_all del: of_int_power of_int_numeral)
  also have "\<dots> = ?m" using two_pow_split [of "ulp_exp x" ?e] less by (simp add: power_add)
  finally have "fl x \<le> ?m" .
  moreover have "?m \<le> fl y"
  proof -
    have "round_even (of_int (2 ^ 52)) \<le> round_even (y / two_pow ?e)"
      using ym by (intro round_even_mono) (simp add: le_divide_eq)
    then have "(2 :: rat) ^ 52 \<le> of_int (round_even (y / two_pow ?e))"
      unfolding round_even_int by (metis of_int_le_iff of_int_numeral of_int_power)
    then show ?thesis by (simp add: fl_def mult_right_mono)
  qed
  ultimately show ?thesis by simp
qed

lemma fl_mono_nonneg: "0 \<le> x \<Longrightarrow> x \<le> y \<Longrightarrow> fl x \<le> fl y"
  using fl_mono_pos [of x y] fl_nonneg [of y] by (cases "x = 0") auto

lemma fl_le_1: "0 \<le> x \<Longrightarrow> x \<le> 1 \<Longrightarrow> fl x \<le> 1"
  using fl_mono_nonneg [of x 1] by simp

lemma fl_nonpos: "x \<le> 0 \<Longrightarrow> fl x \<le> 0"
proof -
  assume "x \<le> 0"
  then have "x / two_pow (ulp_exp x) \<le> 0" by (simp add: divide_le_0_iff)
  then have "round_even (x / two_pow (ulp_exp x)) \<le> round_even (of_int 0)"
    by (intro round_even_mono) simp
  then show ?thesis unfolding round_even_int by (simp add: fl_def mult_nonpos_nonneg)
qed

lemma fl_nonpos_of_le_0_1: "x \<le> 1 \<Longrightarrow> fl x \<le> 1"
  using fl_le_1 [of x] fl_nonpos [of x] by (cases "0 \<le> x") auto

text \<open>Rounding does not pass a power of two, nor a whole multiple of one.\<close>

lemma fl_abs_bound:
  assumes x: "\<bar>x\<bar> \<le> two_pow k" and k: "- 1074 \<le> k"
  shows "\<bar>fl x\<bar> \<le> two_pow k"
proof (cases "x = 0")
  case True
  then show ?thesis by simp
next
  case False
  define e where "e = ulp_exp x"
  define m :: nat where "m = nat (k - e)"
  have "\<bar>x\<bar> < two_pow (k + 1)" using x two_pow_Suc [of k] two_pow_pos [of k] by linarith
  then have "ilog2 \<bar>x\<bar> \<le> k" using ilog2_less_iff [of "\<bar>x\<bar>" "k + 1"] False by simp
  then have "e \<le> k" using k False by (simp add: e_def ulp_exp_def)
  then have split: "two_pow k = of_int (2 ^ m) * two_pow e" using two_pow_split [of e k] by (simp add: m_def)
  have "\<bar>x\<bar> \<le> of_int (2 ^ m) * two_pow e" using x by (simp only: split)
  then have "- of_int (2 ^ m) * two_pow e \<le> x" and "x \<le> of_int (2 ^ m) * two_pow e" by linarith+
  then have "of_int (- (2 ^ m)) \<le> x / two_pow e" and "x / two_pow e \<le> of_int (2 ^ m)"
    by (simp_all add: le_divide_eq divide_le_eq)
  then have "round_even (of_int (- (2 ^ m))) \<le> round_even (x / two_pow e)"
    and "round_even (x / two_pow e) \<le> round_even (of_int (2 ^ m))"
    by (auto intro: round_even_mono)
  then have "\<bar>round_even (x / two_pow e)\<bar> \<le> 2 ^ m" unfolding round_even_int by linarith
  then have "\<bar>of_int (round_even (x / two_pow e)) :: rat\<bar> \<le> of_int (2 ^ m)" by (simp only: of_int_abs [symmetric] of_int_le_iff)
  then have "\<bar>of_int (round_even (x / two_pow e)) :: rat\<bar> * two_pow e \<le> of_int (2 ^ m) * two_pow e"
    by (intro mult_right_mono) simp_all
  then show ?thesis unfolding split by (simp add: fl_def e_def abs_mult)
qed

section \<open>The type and its operations\<close>

datatype float64 = Fin rat | PInf | NInf | NaN

definition f64 :: "rat \<Rightarrow> float64" where
  "f64 x =
     (let r = fl x
      in if r \<noteq> 0 \<and> 1024 \<le> ilog2 \<bar>r\<bar> then (if 0 < r then PInf else NInf) else Fin r)"

fun f_neg :: "float64 \<Rightarrow> float64" where
  "f_neg (Fin a) = Fin (- a)"
| "f_neg PInf = NInf"
| "f_neg NInf = PInf"
| "f_neg NaN = NaN"

fun f_add :: "float64 \<Rightarrow> float64 \<Rightarrow> float64" where
  "f_add (Fin a) (Fin b) = f64 (a + b)"
| "f_add NaN b = NaN"
| "f_add a NaN = NaN"
| "f_add PInf NInf = NaN"
| "f_add NInf PInf = NaN"
| "f_add PInf b = PInf"
| "f_add NInf b = NInf"
| "f_add a PInf = PInf"
| "f_add a NInf = NInf"

definition f_sub :: "float64 \<Rightarrow> float64 \<Rightarrow> float64" where
  "f_sub a b = f_add a (f_neg b)"

definition inf_of_sign :: "rat \<Rightarrow> float64" where
  "inf_of_sign s = (if s = 0 then NaN else if 0 < s then PInf else NInf)"

fun f_sgn :: "float64 \<Rightarrow> rat" where
  "f_sgn (Fin a) = sgn a"
| "f_sgn PInf = 1"
| "f_sgn NInf = - 1"
| "f_sgn NaN = 0"

fun f_mul :: "float64 \<Rightarrow> float64 \<Rightarrow> float64" where
  "f_mul (Fin a) (Fin b) = f64 (a * b)"
| "f_mul a b = inf_of_sign (f_sgn a * f_sgn b)"

text \<open>Division; a zero divisor counts as positive zero.\<close>

fun f_div :: "float64 \<Rightarrow> float64 \<Rightarrow> float64" where
  "f_div (Fin a) (Fin b) = (if b = 0 then inf_of_sign (sgn a) else f64 (a / b))"
| "f_div NaN b = NaN"
| "f_div a NaN = NaN"
| "f_div (Fin a) b = Fin 0"
| "f_div a (Fin b) = inf_of_sign (f_sgn a * (if b < 0 then - 1 else 1))"
| "f_div a b = NaN"

text \<open>Comparisons; every comparison with NaN is false.\<close>

fun f_lt :: "float64 \<Rightarrow> float64 \<Rightarrow> bool" where
  "f_lt (Fin a) (Fin b) = (a < b)"
| "f_lt (Fin a) PInf = True"
| "f_lt NInf (Fin b) = True"
| "f_lt NInf PInf = True"
| "f_lt a b = False"

definition f_le :: "float64 \<Rightarrow> float64 \<Rightarrow> bool" where
  "f_le a b \<longleftrightarrow> f_lt a b \<or> (a = b \<and> a \<noteq> NaN)"

definition f_of_int :: "int \<Rightarrow> float64" where
  "f_of_int n = f64 (of_int n)"

definition f_of_u64 :: "u64 \<Rightarrow> float64" where
  "f_of_u64 w = f64 (of_int (uint w))"

fun is_fin :: "float64 \<Rightarrow> bool" where
  "is_fin (Fin a) = True"
| "is_fin a = False"

text \<open>The unit interval, where the reputation scores live.\<close>

fun in_unit :: "float64 \<Rightarrow> bool" where
  "in_unit (Fin r) = (0 \<le> r \<and> r \<le> 1)"
| "in_unit x = False"

lemma in_unitE: "in_unit x \<Longrightarrow> (\<And>r. x = Fin r \<Longrightarrow> 0 \<le> r \<Longrightarrow> r \<le> 1 \<Longrightarrow> P) \<Longrightarrow> P"
  by (cases x) auto

lemma f64_Fin: "\<bar>fl x\<bar> < two_pow 1024 \<Longrightarrow> f64 x = Fin (fl x)"
  using ilog2_less_iff [of "\<bar>fl x\<bar>" 1024] by (auto simp: f64_def Let_def)

lemma f64_0 [simp]: "f64 0 = Fin 0"
  by (simp add: f64_def)

lemma two_pow_gt_1: "0 < e \<Longrightarrow> 1 < two_pow e"
  by (simp add: two_pow_def)

lemma f64_1 [simp]: "f64 1 = Fin 1"
  using f64_Fin [of 1] two_pow_gt_1 [of 1024] by simp

lemma f64_unit: "0 \<le> x \<Longrightarrow> x \<le> 1 \<Longrightarrow> f64 x = Fin (fl x)"
proof -
  assume x: "0 \<le> x" "x \<le> 1"
  have "1 < two_pow 1024" by (rule two_pow_gt_1) simp
  with fl_nonneg [OF x(1)] fl_le_1 [OF x] show ?thesis
    by (intro f64_Fin) simp
qed

lemma f64_bounded: "\<bar>x\<bar> \<le> two_pow k \<Longrightarrow> - 1074 \<le> k \<Longrightarrow> k < 1024 \<Longrightarrow> f64 x = Fin (fl x) \<and> \<bar>fl x\<bar> \<le> two_pow k"
proof -
  assume x: "\<bar>x\<bar> \<le> two_pow k" "- 1074 \<le> k" "k < 1024"
  have "two_pow k < two_pow (k + 1)" using two_pow_Suc [of k] by simp
  also have "\<dots> \<le> two_pow 1024" using x(3) by (intro two_pow_mono) simp
  finally have "two_pow k < two_pow 1024" .
  with fl_abs_bound [OF x(1,2)] show ?thesis by (intro conjI f64_Fin) simp_all
qed

lemma in_unit_f64: "0 \<le> x \<Longrightarrow> x \<le> 1 \<Longrightarrow> in_unit (f64 x)"
  using fl_nonneg [of x] fl_le_1 [of x] by (simp add: f64_unit)

lemma f_le_Fin [simp]: "f_le (Fin a) (Fin b) \<longleftrightarrow> a \<le> b"
  by (auto simp: f_le_def)

lemma f_le_refl [simp]: "x \<noteq> NaN \<Longrightarrow> f_le x x"
  by (simp add: f_le_def)

lemma f_lt_trans: "f_lt a b \<Longrightarrow> f_lt b c \<Longrightarrow> f_lt a c"
  by (cases a; cases b; cases c) auto

lemma f_le_trans: "f_le a b \<Longrightarrow> f_le b c \<Longrightarrow> f_le a c"
  by (cases a; cases b; cases c) (auto simp: f_le_def)

lemma not_f_lt: "a \<noteq> NaN \<Longrightarrow> b \<noteq> NaN \<Longrightarrow> \<not> f_lt a b \<longleftrightarrow> f_le b a"
  by (cases a; cases b) (auto simp: f_le_def)

end
