(* ===== verification/Types.thy ===== *)
theory Types
  imports Go_Float
begin

text \<open>
  The data that crosses component boundaries: the metadata of a stored file
  (\<open>internal/storage/operations.go\<close>, \<open>sharding.go\<close>) and the message types of
  \<open>pkg/types/types.go\<close>. A field of a Go struct keeps its name behind a short prefix for the
  struct, since HOL record fields share one name space. Pointers to structs the code treats
  as values are values; a pointer the code compares with \<open>nil\<close> is an \<open>option\<close>.
\<close>

record FileMetadata =
  md_FileHash :: string
  md_FileName :: string
  md_FileSize :: int
  md_TotalShards :: int
  md_RequiredShards :: int
  md_ShardHashes :: "string list"
  md_StoredPeers :: "peer_id list"
  md_CreatedAt :: go_time
  md_UpdatedAt :: go_time
  md_MimeType :: string
  md_OriginalSize :: int

record Shard =
  sh_Index :: int
  sh_Data :: bytes
  sh_Hash :: string
  sh_Size :: int

record FarmerInfo =
  fi_PeerID :: peer_id
  fi_NodeName :: string
  fi_Version :: string
  fi_Addresses :: "string list"
  fi_StorageCapacity :: u64
  fi_UsedStorage :: u64
  fi_Reliability :: float64
  fi_Latency :: int
  fi_Uptime :: float64
  fi_Location :: string
  fi_IsActive :: bool
  fi_IsPrimary :: bool
  fi_Tags :: "string list"
  fi_LastSeen :: go_time
  fi_StartTime :: go_time
  fi_LastSync :: go_time

record PeerInfo =
  pi_Info :: "FarmerInfo option"
  pi_LastSeen :: go_time
  pi_Reliability :: float64
  pi_Distance :: int

section \<open>Gossip\<close>

record FileLocation =
  fl_FileHash :: string
  fl_ShardHashes :: "string list"
  fl_PeerIDs :: "peer_id list"
  fl_Timestamp :: go_time
  fl_FileSize :: int
  fl_TotalShards :: int
  fl_RequiredShards :: int

record FileAnnounceMessage =
  fa_FileHash :: string
  fa_Locations :: "FileLocation list"
  fa_Timestamp :: go_time
  fa_SourcePeer :: peer_id

record FileDeleteMessage =
  fd_FileHash :: string
  fd_Timestamp :: go_time
  fd_PeerID :: peer_id

record ValidatorInfo =
  vi_PeerID :: peer_id
  vi_StakeAmount :: string
  vi_Reputation :: float64
  vi_Weight :: float64
  vi_IsActive :: bool
  vi_ProofsVerified :: u64
  vi_Availability :: float64
  vi_AvgResponseTime :: int

record ValidatorUpdateMessage =
  vu_CycleID :: u64
  vu_Validators :: "ValidatorInfo list"
  vu_StartTime :: go_time
  vu_EndTime :: go_time
  vu_Signature :: bytes

text \<open>
  A gossip message carries its type and a JSON payload; \<open>encoding/json\<close> is a value round trip
  here, so a payload is the structure it encodes, or \<open>BadPayload\<close> when it does not decode as
  the structure its type announces.
\<close>

datatype GossipPayload = NodeInfoPayload FarmerInfo | AnnouncePayload FileAnnounceMessage
  | DeletePayload FileDeleteMessage | ValidatorPayload ValidatorUpdateMessage | BadPayload

datatype GossipMessageType = GossipTypeNodeInfo | GossipTypeFileAnnounce
  | GossipTypeReputationUpdate | GossipTypeFileDelete | GossipTypeValidatorUpdate
  | GossipTypeOther string

record GossipMessage =
  gs_Type :: GossipMessageType
  gs_PeerID :: peer_id
  gs_Timestamp :: go_time
  gs_Payload :: GossipPayload

section \<open>Requests between nodes\<close>

record StorageRequest =
  sq_Operation :: string
  sq_FileHash :: string
  sq_FileName :: string
  sq_ShardIndex :: int
  sq_ShardData :: bytes
  sq_TotalShards :: int
  sq_RequiredShards :: int
  sq_Timestamp :: go_time

record StorageResponse =
  sr_Success :: bool
  sr_Error :: string
  sr_Message :: string
  sr_Data :: bytes

record FileMetadataResponse =
  mr_Metadata :: "FileMetadata option"
  mr_Error :: string

record ShardResponse =
  hr_Data :: bytes
  hr_Error :: string

record FileListResponse =
  lr_FileIndex :: "(string, peer_id list) gomap"
  lr_Error :: string

record NodeInfo =
  ni_ID :: string
  ni_NodeType :: string
  ni_IsActive :: bool
  ni_StorageCapacity :: u64
  ni_UsedStorage :: u64
  ni_Reliability :: float64
  ni_LastSeen :: go_time
  ni_Addresses :: "string list"
  ni_Tags :: "string list"

record GatewayInfo =
  gi_PeerID :: peer_id
  gi_NodeName :: string
  gi_APIPort :: int
  gi_NodePort :: int
  gi_Version :: string
  gi_IsActive :: bool
  gi_StartTime :: go_time
  gi_LastSeen :: go_time
  gi_ConnectedPeers :: int
  gi_TotalRequests :: int
  gi_Uptime :: string

end
