(* ===== verification/Exchange_Sort.thy ===== *)
theory Exchange_Sort
  imports Main "HOL-Library.Multiset"
begin

text \<open>
  The sorting loops of \<open>GetBestPeers\<close> and of the other selections of the code: two nested
  loops that exchange \<open>xs[i]\<close> and \<open>xs[j]\<close> (\<open>i < j\<close>) when \<open>xs[j]\<close> is greater. \<open>bubble_max\<close> is the
  inner loop: it walks over the elements behind \<open>xs[i]\<close> and returns the new \<open>xs[i]\<close> with the
  rest; \<open>exchange_sort\<close> is the outer loop. The comparison need only be a strict weak order on
  the elements that occur, which \<open>float64\<close> is without NaN.
\<close>

fun bubble_max :: "('a \<Rightarrow> 'a \<Rightarrow> bool) \<Rightarrow> 'a \<Rightarrow> 'a list \<Rightarrow> 'a \<times> 'a list" where
  "bubble_max lt x [] = (x, [])"
| "bubble_max lt x (y # ys) =
     (if lt x y then (let (m, r) = bubble_max lt y ys in (m, x # r))
      else (let (m, r) = bubble_max lt x ys in (m, y # r)))"

lemma bubble_max_mset: "bubble_max lt x ys = (m, r) \<Longrightarrow> add_mset m (mset r) = add_mset x (mset ys)"
  by (induction lt x ys arbitrary: m r rule: bubble_max.induct)
    (force split: if_splits prod.splits simp: add_mset_commute)+

lemma bubble_max_length: "bubble_max lt x ys = (m, r) \<Longrightarrow> length r = length ys"
  by (drule bubble_max_mset, drule arg_cong [of _ _ size]) simp

function exchange_sort :: "('a \<Rightarrow> 'a \<Rightarrow> bool) \<Rightarrow> 'a list \<Rightarrow> 'a list" where
  "exchange_sort lt [] = []"
| "exchange_sort lt (x # xs) = (let (m, r) = bubble_max lt x xs in m # exchange_sort lt r)"
  by pat_completeness auto
termination
  by (relation "measure (length \<circ> snd)") (auto dest!: bubble_max_length [OF sym])

lemma mset_exchange_sort [simp]: "mset (exchange_sort lt xs) = mset xs"
  by (induction lt xs rule: exchange_sort.induct)
    (auto split: prod.splits dest: bubble_max_mset)

lemma set_exchange_sort [simp]: "set (exchange_sort lt xs) = set xs"
  by (metis mset_exchange_sort set_mset_mset)

lemma length_exchange_sort [simp]: "length (exchange_sort lt xs) = length xs"
  by (metis mset_exchange_sort size_mset)

locale weak_order =
  fixes lt :: "'a \<Rightarrow> 'a \<Rightarrow> bool" and ok :: "'a \<Rightarrow> bool"
  assumes irrefl: "ok x \<Longrightarrow> \<not> lt x x"
    and asym: "ok x \<Longrightarrow> ok y \<Longrightarrow> lt x y \<Longrightarrow> \<not> lt y x"
    and ntrans: "ok x \<Longrightarrow> ok y \<Longrightarrow> ok z \<Longrightarrow> \<not> lt x y \<Longrightarrow> \<not> lt y z \<Longrightarrow> \<not> lt x z"
begin

lemma bubble_max_greatest:
  "bubble_max lt x ys = (m, r) \<Longrightarrow> \<forall>z \<in> set (x # ys). ok z \<Longrightarrow> \<forall>z \<in> set (x # ys). \<not> lt m z"
proof (induction ys arbitrary: x m r)
  case Nil
  then show ?case using irrefl by auto
next
  case (Cons y ys)
  have okm: "ok m"
    using Cons.prems bubble_max_mset [OF Cons.prems(1)]
    by (metis insertI1 list.set(2) set_mset_add_mset_insert set_mset_mset)
  show ?case
  proof (cases "lt x y")
    case True
    with Cons.prems(1) obtain r' where r': "bubble_max lt y ys = (m, r')" by (auto split: prod.splits)
    with Cons.IH [OF r'] Cons.prems(2) have g: "\<forall>z \<in> set (y # ys). \<not> lt m z" by simp
    moreover have "\<not> lt m x" using True Cons.prems(2) g okm asym ntrans by (metis list.set_intros)
    ultimately show ?thesis by simp
  next
    case False
    with Cons.prems(1) obtain r' where r': "bubble_max lt x ys = (m, r')" by (auto split: prod.splits)
    with Cons.IH [OF r'] Cons.prems(2) have g: "\<forall>z \<in> set (x # ys). \<not> lt m z" by simp
    moreover have "\<not> lt m y" using False Cons.prems(2) g okm ntrans by (metis list.set_intros)
    ultimately show ?thesis by simp
  qed
qed

lemma exchange_sort_sorted:
  "\<forall>z \<in> set xs. ok z \<Longrightarrow> sorted_wrt (\<lambda>x y. \<not> lt x y) (exchange_sort lt xs)"
proof (induction "length xs" arbitrary: xs)
  case 0
  then show ?case by simp
next
  case (Suc n)
  then obtain x ys where xs: "xs = x # ys" by (cases xs) auto
  obtain m r where b: "bubble_max lt x ys = (m, r)" by (cases "bubble_max lt x ys")
  note M = bubble_max_mset [OF b]
  have "set r \<subseteq> set xs"
    using M xs by (metis list.set(2) set_mset_add_mset_insert set_mset_mset subset_insertI)
  moreover have "sorted_wrt (\<lambda>x y. \<not> lt x y) (exchange_sort lt r)"
    using Suc xs bubble_max_length [OF b] calculation by (intro Suc.hyps(1)) auto
  moreover have "\<forall>z \<in> set xs. \<not> lt m z" using bubble_max_greatest [OF b] Suc.prems xs by simp
  ultimately show ?case using xs b by auto
qed

text \<open>The first elements are the greatest: none of the rest is greater than one of them.\<close>

lemma exchange_sort_best:
  assumes "\<forall>z \<in> set xs. ok z" and "x \<in> set (take n (exchange_sort lt xs))"
    and "y \<in> set (drop n (exchange_sort lt xs))"
  shows "\<not> lt x y"
proof -
  have "sorted_wrt (\<lambda>x y. \<not> lt x y) (take n (exchange_sort lt xs) @ drop n (exchange_sort lt xs))"
    using exchange_sort_sorted [OF assms(1)] by simp
  with assms(2,3) show ?thesis by (simp only: sorted_wrt_append) blast
qed

end

end
