(* ===== verification/Reputation.thy ===== *)
theory Reputation
  imports Types Exchange_Sort
begin

text \<open>
  The reputation system (\<open>internal/network/reputation.go\<close>). Its scores live in the node's
  \<open>NetworkView\<close> (\<open>decentralized_node.go\<close>), so every operation is a function on that record; the
  time an operation reads is the parameter \<open>now\<close>. The methods carry the receiver's name as a
  prefix (\<open>rs_UpdatePeer\<close> is \<open>(*ReputationSystem).UpdatePeer\<close>).
\<close>

record NetworkView =
  nv_peers :: "(peer_id, PeerInfo) gomap"
  nv_fileIndex :: "(string, peer_id list) gomap"
  nv_reputation :: "(peer_id, float64) gomap"
  nv_lastUpdated :: go_time

definition NewNetworkView :: NetworkView where
  "NewNetworkView = \<lparr>nv_peers = [], nv_fileIndex = [], nv_reputation = [], nv_lastUpdated = 0\<rparr>"

definition clamp :: "float64 \<Rightarrow> float64" where
  "clamp newScore =
     (if f_lt newScore (Fin 0) then Fin 0 else if f_lt (Fin 1) newScore then Fin 1 else newScore)"

definition rs_UpdatePeer :: "peer_id \<Rightarrow> float64 \<Rightarrow> NetworkView \<Rightarrow> NetworkView" where
  "rs_UpdatePeer peerID scoreChange nv =
     (let currentScore = gm_get_or (Fin 0) (nv_reputation nv) peerID;
          newScore = clamp (f_add currentScore scoreChange)
      in nv\<lparr>nv_reputation := gm_put peerID newScore (nv_reputation nv)\<rparr>)"

definition rs_GetPeerScore :: "peer_id \<Rightarrow> NetworkView \<Rightarrow> float64" where
  "rs_GetPeerScore peerID nv =
     (case gm_get (nv_reputation nv) peerID of Some score \<Rightarrow> score | None \<Rightarrow> f64 (5 / 10))"

definition rs_reviewPeer :: "go_time \<Rightarrow> peer_id \<times> PeerInfo \<Rightarrow> NetworkView \<Rightarrow> NetworkView" where
  "rs_reviewPeer currentTime p nv =
     (let (peerID, peerInfo) = p;
          staleThreshold = currentTime - 30 * minute;
          inactiveThreshold = currentTime - 2 * hour;
          timeSinceLastSeen = time_Sub currentTime (pi_LastSeen peerInfo);
          nv1 = (if pi_LastSeen peerInfo < staleThreshold then
                   let decayAmount = (if pi_LastSeen peerInfo < inactiveThreshold
                                      then f64 (- 1 / 10) else f64 (- 5 / 100))
                   in rs_UpdatePeer peerID decayAmount nv
                 else nv)
      in if timeSinceLastSeen < 10 * minute \<and> f_lt (f64 (8 / 10)) (pi_Reliability peerInfo)
         then rs_UpdatePeer peerID (f64 (2 / 100)) nv1 else nv1)"

definition rs_performReputationUpdate :: "go_time \<Rightarrow> NetworkView \<Rightarrow> NetworkView" where
  "rs_performReputationUpdate now nv = fold (rs_reviewPeer now) (nv_peers nv) nv"

definition rs_GetBestPeers :: "float64 \<Rightarrow> int \<Rightarrow> NetworkView \<Rightarrow> peer_id list go" where
  "rs_GetBestPeers minScore maxPeers nv =
     (let scoredPeers = filter (\<lambda>(peerID, score). f_le minScore score) (nv_reputation nv);
          sorted = exchange_sort (\<lambda>x y. f_lt (snd x) (snd y)) scoredPeers
      in if maxPeers < 0 then Panic MakeSliceOutOfRange
         else Ret (map fst (take (nat maxPeers) sorted)))"

definition f_min :: "float64 \<Rightarrow> float64 \<Rightarrow> float64" where
  "f_min a b = (if f_lt a b then a else b)"

definition f_max :: "float64 \<Rightarrow> float64 \<Rightarrow> float64" where
  "f_max a b = (if f_lt b a then a else b)"

definition rs_RecordSuccessfulInteraction :: "peer_id \<Rightarrow> NetworkView \<Rightarrow> NetworkView" where
  "rs_RecordSuccessfulInteraction peerID nv =
     (let nv1 = rs_UpdatePeer peerID (f64 (5 / 100)) nv
      in case gm_get (nv_peers nv1) peerID of
           None \<Rightarrow> nv1
         | Some peerInfo \<Rightarrow>
             nv1\<lparr>nv_peers := gm_put peerID
               (peerInfo\<lparr>pi_Reliability := f_min (Fin 1) (f_add (pi_Reliability peerInfo) (f64 (5 / 100)))\<rparr>)
               (nv_peers nv1)\<rparr>)"

definition rs_RecordFailedInteraction :: "peer_id \<Rightarrow> NetworkView \<Rightarrow> NetworkView" where
  "rs_RecordFailedInteraction peerID nv =
     (let nv1 = rs_UpdatePeer peerID (f64 (- 1 / 10)) nv
      in case gm_get (nv_peers nv1) peerID of
           None \<Rightarrow> nv1
         | Some peerInfo \<Rightarrow>
             nv1\<lparr>nv_peers := gm_put peerID
               (peerInfo\<lparr>pi_Reliability := f_max (Fin 0) (f_sub (pi_Reliability peerInfo) (f64 (1 / 10)))\<rparr>)
               (nv_peers nv1)\<rparr>)"

definition rs_GetPeerReliability :: "peer_id \<Rightarrow> NetworkView \<Rightarrow> float64" where
  "rs_GetPeerReliability peerID nv =
     (case gm_get (nv_peers nv) peerID of Some peerInfo \<Rightarrow> pi_Reliability peerInfo | None \<Rightarrow> f64 (5 / 10))"

section \<open>Scores stay between 0 and 1\<close>

lemma clamp_unit: "x \<noteq> NaN \<Longrightarrow> in_unit (clamp x)"
  by (cases x) (auto simp: clamp_def)

text \<open>Adding a finite change to a score of the unit interval is no NaN.\<close>

lemma f_add_not_NaN: "in_unit s \<Longrightarrow> is_fin c \<Longrightarrow> f_add s c \<noteq> NaN"
  by (cases s; cases c) (auto simp: f64_def Let_def)

lemma f_lt_neq_NaN: "f_lt a b \<Longrightarrow> a \<noteq> NaN \<and> b \<noteq> NaN"
  by (cases a; cases b) auto

lemma f_min_unit: "in_unit s \<Longrightarrow> is_fin c \<Longrightarrow> f_le (Fin 0) c \<Longrightarrow> in_unit (f_min (Fin 1) (f_add s c))"
proof -
  assume s: "in_unit s" and c: "is_fin c" "f_le (Fin 0) c"
  from s obtain a where a: "s = Fin a" "0 \<le> a" by (auto elim: in_unitE)
  from c obtain b where b: "c = Fin b" "0 \<le> b" by (cases c) auto
  have "0 \<le> fl (a + b)" using a b by (intro fl_nonneg) simp
  then show ?thesis using a b by (auto simp: f_min_def f64_def Let_def)
qed

lemma f_max_unit: "in_unit s \<Longrightarrow> is_fin c \<Longrightarrow> f_le (Fin 0) c \<Longrightarrow> in_unit (f_max (Fin 0) (f_sub s c))"
proof -
  assume s: "in_unit s" and c: "is_fin c" "f_le (Fin 0) c"
  from s obtain a where a: "s = Fin a" "0 \<le> a" "a \<le> 1" by (auto elim: in_unitE)
  from c obtain b where b: "c = Fin b" "0 \<le> b" by (cases c) auto
  have "fl (a - b) \<le> 1" using a b by (intro fl_nonpos_of_le_0_1) simp
  moreover have "\<not> (0 < fl (a - b) \<and> 1024 \<le> ilog2 \<bar>fl (a - b)\<bar>)"
  proof
    assume *: "0 < fl (a - b) \<and> 1024 \<le> ilog2 \<bar>fl (a - b)\<bar>"
    have "\<bar>fl (a - b)\<bar> < two_pow 1024"
      using * calculation two_pow_gt_1 [of 1024] by simp
    then have "ilog2 \<bar>fl (a - b)\<bar> < 1024" using * by (intro ilog2_less_iff) auto
    with * show False by linarith
  qed
  ultimately show ?thesis using a b by (auto simp: f_max_def f_sub_def f64_def Let_def)
qed

lemma f64_fin: "\<bar>x\<bar> \<le> 1 \<Longrightarrow> is_fin (f64 x)"
proof -
  assume x: "\<bar>x\<bar> \<le> 1"
  have e: "ulp_exp (- y) = ulp_exp y" for y by (simp add: ulp_exp_def)
  have "fl x \<le> 1" using x by (intro fl_nonpos_of_le_0_1) simp
  moreover have "- 1 \<le> fl x"
  proof (cases "0 \<le> x")
    case True
    then show ?thesis using fl_nonneg [of x] by simp
  next
    case False
    have "round_even (of_int (- 1 * 2 ^ nat (- ulp_exp x))) \<le> round_even (x / two_pow (ulp_exp x))"
    proof (rule round_even_mono)
      have "ilog2 \<bar>x\<bar> < 1" using x False two_pow_gt_1 [of 1] by (intro ilog2_less_iff) simp_all
      then have "ulp_exp x \<le> 0" by (simp add: ulp_exp_def)
      then have "two_pow (ulp_exp x) * 2 ^ nat (- ulp_exp x) = 1"
        using two_pow_add_nat [of "ulp_exp x" "nat (- ulp_exp x)"] by (simp add: two_pow_def)
      moreover have "- 1 \<le> x" using x by simp
      ultimately show "of_int (- 1 * 2 ^ nat (- ulp_exp x)) \<le> x / two_pow (ulp_exp x)"
        by (simp add: le_divide_eq mult.commute)
    qed
    then have r: "- (2 ^ nat (- ulp_exp x)) \<le> (of_int (round_even (x / two_pow (ulp_exp x))) :: rat)"
      unfolding round_even_int by (metis mult_minus1 of_int_le_iff of_int_minus of_int_numeral of_int_power)
    have "ilog2 \<bar>x\<bar> < 1" using x False two_pow_gt_1 [of 1] by (intro ilog2_less_iff) simp_all
    then have "ulp_exp x \<le> 0" by (simp add: ulp_exp_def)
    then have one: "2 ^ nat (- ulp_exp x) * two_pow (ulp_exp x) = 1"
      using two_pow_add_nat [of "ulp_exp x" "nat (- ulp_exp x)"] by (simp add: two_pow_def mult.commute)
    have "- (2 ^ nat (- ulp_exp x)) * two_pow (ulp_exp x) \<le> fl x"
      unfolding fl_def using r by (intro mult_right_mono) simp_all
    with one show ?thesis by simp
  qed
  ultimately have "\<bar>fl x\<bar> < two_pow 1024" using two_pow_gt_1 [of 1024] by simp
  then show ?thesis by (simp add: f64_Fin)
qed

lemma f64_nonneg: "0 \<le> x \<Longrightarrow> x \<le> 1 \<Longrightarrow> f_le (Fin 0) (f64 x)"
  by (simp add: f64_unit fl_nonneg)

text \<open>A view whose scores and reliabilities lie in the unit interval.\<close>

definition nv_scored :: "NetworkView \<Rightarrow> bool" where
  "nv_scored nv \<longleftrightarrow> gm_wf (nv_reputation nv) \<and> gm_wf (nv_peers nv) \<and>
     gm_all in_unit (nv_reputation nv) \<and> gm_all (\<lambda>i. in_unit (pi_Reliability i)) (nv_peers nv)"

lemma UpdatePeer_scored: "nv_scored nv \<Longrightarrow> is_fin c \<Longrightarrow> nv_scored (rs_UpdatePeer p c nv)"
proof -
  assume s: "nv_scored nv" and c: "is_fin c"
  have "in_unit (gm_get_or (Fin 0) (nv_reputation nv) p)"
    using s by (auto simp: nv_scored_def intro: gm_all_get_or)
  then have "in_unit (clamp (f_add (gm_get_or (Fin 0) (nv_reputation nv) p) c))"
    using c by (intro clamp_unit f_add_not_NaN)
  with s show ?thesis by (simp add: nv_scored_def rs_UpdatePeer_def)
qed

lemma UpdatePeer_frame [simp]:
  "nv_peers (rs_UpdatePeer p c nv) = nv_peers nv"
  "nv_fileIndex (rs_UpdatePeer p c nv) = nv_fileIndex nv"
  "nv_lastUpdated (rs_UpdatePeer p c nv) = nv_lastUpdated nv"
  by (simp_all add: rs_UpdatePeer_def Let_def)

lemma reviewPeer_scored: "nv_scored nv \<Longrightarrow> nv_scored (rs_reviewPeer now p nv)"
  by (simp add: rs_reviewPeer_def Let_def UpdatePeer_scored f64_fin split: prod.splits)

lemma performReputationUpdate_scored: "nv_scored nv \<Longrightarrow> nv_scored (rs_performReputationUpdate now nv)"
proof -
  have "nv_scored nv \<Longrightarrow> nv_scored (fold (rs_reviewPeer now) ps nv)" for ps
    by (induction ps arbitrary: nv) (simp_all add: reviewPeer_scored)
  then show "nv_scored nv \<Longrightarrow> ?thesis" by (simp add: rs_performReputationUpdate_def)
qed

lemma RecordSuccessful_scored: "nv_scored nv \<Longrightarrow> nv_scored (rs_RecordSuccessfulInteraction p nv)"
proof -
  assume "nv_scored nv"
  then have s: "nv_scored (rs_UpdatePeer p (f64 (5 / 100)) nv)" by (simp add: UpdatePeer_scored f64_fin)
  have c: "is_fin (f64 (1 / 20))" "f_le (Fin 0) (f64 (1 / 20))" by (simp_all add: f64_fin f64_nonneg)
  from s show ?thesis
    unfolding rs_RecordSuccessfulInteraction_def Let_def
    by (auto simp: nv_scored_def c intro!: gm_all_put f_min_unit dest: gm_allD split: option.splits)
qed

lemma RecordFailed_scored: "nv_scored nv \<Longrightarrow> nv_scored (rs_RecordFailedInteraction p nv)"
proof -
  assume "nv_scored nv"
  then have s: "nv_scored (rs_UpdatePeer p (f64 (- 1 / 10)) nv)" by (simp add: UpdatePeer_scored f64_fin)
  have c: "is_fin (f64 (1 / 10))" "f_le (Fin 0) (f64 (1 / 10))" by (simp_all add: f64_fin f64_nonneg)
  from s show ?thesis
    unfolding rs_RecordFailedInteraction_def Let_def
    by (auto simp: nv_scored_def c intro!: gm_all_put f_max_unit dest: gm_allD split: option.splits)
qed

section \<open>Choosing the best peers\<close>

interpretation scores: weak_order "\<lambda>x y. f_lt (snd x) (snd y)" "\<lambda>p :: peer_id \<times> float64. snd p \<noteq> NaN"
proof unfold_locales
  fix x y z :: "peer_id \<times> float64"
  assume "snd x \<noteq> NaN" "snd y \<noteq> NaN" "snd z \<noteq> NaN"
    and "\<not> f_lt (snd x) (snd y)" "\<not> f_lt (snd y) (snd z)"
  then show "\<not> f_lt (snd x) (snd z)"
    by (cases "snd x"; cases "snd y"; cases "snd z") auto
next
  fix x y :: "peer_id \<times> float64"
  show "snd x \<noteq> NaN \<Longrightarrow> \<not> f_lt (snd x) (snd x)" by (cases "snd x") auto
  show "snd x \<noteq> NaN \<Longrightarrow> snd y \<noteq> NaN \<Longrightarrow> f_lt (snd x) (snd y) \<Longrightarrow> \<not> f_lt (snd y) (snd x)"
    by (cases "snd x"; cases "snd y") auto
qed

lemma in_unit_not_NaN: "in_unit s \<Longrightarrow> s \<noteq> NaN"
  by auto

lemma nv_scored_not_NaN: "nv_scored nv \<Longrightarrow> (p, s) \<in> set (nv_reputation nv) \<Longrightarrow> s \<noteq> NaN"
  unfolding nv_scored_def by (metis gm_allD gm_wf_get in_unit_not_NaN)

lemma rs_GetBestPeers_spec:
  assumes "nv_scored nv" and "minScore \<noteq> NaN"
  shows "if maxPeers < 0 then rs_GetBestPeers minScore maxPeers nv = Panic MakeSliceOutOfRange
    else \<exists>best. rs_GetBestPeers minScore maxPeers nv = Ret best \<and> distinct best \<and>
      length best = min (nat maxPeers) (length (filter (\<lambda>(p, s). f_le minScore s) (nv_reputation nv))) \<and>
      sorted_wrt (\<lambda>p q. f_le (rs_GetPeerScore q nv) (rs_GetPeerScore p nv)) best \<and>
      (\<forall>p \<in> set best. gm_get (nv_reputation nv) p \<noteq> None \<and> f_le minScore (rs_GetPeerScore p nv) \<and>
         (\<forall>q s. gm_get (nv_reputation nv) q = Some s \<and> f_le minScore s \<and> q \<notin> set best \<longrightarrow>
            f_le s (rs_GetPeerScore p nv)))"
proof (cases "maxPeers < 0")
  case True
  then show ?thesis by (simp add: rs_GetBestPeers_def)
next
  case False
  let ?R = "nv_reputation nv" and ?n = "nat maxPeers"
  let ?lt = "\<lambda>x y :: peer_id \<times> float64. f_lt (snd x) (snd y)"
  define xs where "xs = filter (\<lambda>(p, s). f_le minScore s) ?R"
  define ys where "ys = exchange_sort ?lt xs"
  define best where "best = map fst (take ?n ys)"
  have wf: "gm_wf ?R" using assms(1) by (simp add: nv_scored_def)
  have ok: "\<forall>z \<in> set xs. snd z \<noteq> NaN" using nv_scored_not_NaN [OF assms(1)] by (auto simp: xs_def)
  have mem: "(p, s) \<in> set ys \<longleftrightarrow> gm_get ?R p = Some s \<and> f_le minScore s" for p s
    using gm_wf_get [OF wf] by (auto simp: ys_def xs_def)
  have "distinct (map fst xs)" using wf by (simp add: xs_def gm_wf_def gm_keys_def distinct_map_filter)
  then have dist: "distinct (map fst ys)"
    by (metis ys_def mset_exchange_sort mset_eq_imp_distinct_iff mset_map)
  have score: "rs_GetPeerScore p nv = s" if "(p, s) \<in> set ys" for p s
    using that by (simp add: mem rs_GetPeerScore_def)
  have le: "f_le (snd y) (snd x)" if "\<not> f_lt (snd x) (snd y)" "x \<in> set ys" "y \<in> set ys" for x y
    using that ok not_f_lt by (auto simp: ys_def)
  have "sorted_wrt (\<lambda>x y. \<not> ?lt x y) ys" unfolding ys_def by (rule scores.exchange_sort_sorted [OF ok])
  then have "sorted_wrt (\<lambda>x y. \<not> ?lt x y) (take ?n ys)" by (rule sorted_wrt_take)
  then have "sorted_wrt (\<lambda>p q. f_le (rs_GetPeerScore q nv) (rs_GetPeerScore p nv)) best"
    unfolding best_def sorted_wrt_map
    by (rule sorted_wrt_mono_rel [rotated]) (metis in_set_takeD le prod.collapse score)
  moreover have "rs_GetBestPeers minScore maxPeers nv = Ret best"
    using False by (simp add: rs_GetBestPeers_def best_def ys_def xs_def Let_def)
  moreover have "distinct best" using dist by (simp add: best_def take_map [symmetric])
  moreover have "length best = min ?n (length xs)" by (simp add: best_def ys_def)
  moreover have "gm_get ?R p \<noteq> None \<and> f_le minScore (rs_GetPeerScore p nv) \<and>
         (\<forall>q s. gm_get ?R q = Some s \<and> f_le minScore s \<and> q \<notin> set best \<longrightarrow> f_le s (rs_GetPeerScore p nv))"
    if p: "p \<in> set best" for p
  proof -
    from p obtain a where a: "(p, a) \<in> set (take ?n ys)" by (auto simp: best_def)
    then have pa: "(p, a) \<in> set ys" by (rule in_set_takeD)
    have "f_le s a" if q: "gm_get ?R q = Some s" "f_le minScore s" "q \<notin> set best" for q s
    proof -
      have qs: "(q, s) \<in> set ys" using q by (simp add: mem)
      have "(q, s) \<notin> set (take ?n ys)" using q(3) by (force simp: best_def)
      with qs have "(q, s) \<in> set (drop ?n ys)"
        by (metis Un_iff append_take_drop_id set_append)
      with a have "\<not> ?lt (p, a) (q, s)"
        unfolding ys_def by (intro scores.exchange_sort_best [OF ok]) auto
      from le [OF this pa qs] show ?thesis by simp
    qed
    with pa mem score [OF pa] show ?thesis by auto
  qed
  ultimately show ?thesis using False by (auto simp: xs_def)
qed

text \<open>
  C36: \<open>GetBestPeers\<close> selects the best. On a view with scores in the unit interval and a
  non-negative limit it returns distinct peers, as many as there are with the minimum score up
  to the limit, in descending order of their scores, and no peer that is left out although it
  has the minimum score has a higher score than one that is returned. A negative limit panics.
\<close>

theorem GetBestPeers_best:
  assumes "nv_scored nv" and "minScore \<noteq> NaN"
  shows "if maxPeers < 0 then rs_GetBestPeers minScore maxPeers nv = Panic MakeSliceOutOfRange
    else \<exists>best. rs_GetBestPeers minScore maxPeers nv = Ret best \<and> distinct best \<and>
      length best = min (nat maxPeers) (length (filter (\<lambda>(p, s). f_le minScore s) (nv_reputation nv))) \<and>
      sorted_wrt (\<lambda>p q. f_le (rs_GetPeerScore q nv) (rs_GetPeerScore p nv)) best \<and>
      (\<forall>p \<in> set best. gm_get (nv_reputation nv) p \<noteq> None \<and> f_le minScore (rs_GetPeerScore p nv) \<and>
         (\<forall>q s. gm_get (nv_reputation nv) q = Some s \<and> f_le minScore s \<and> q \<notin> set best \<longrightarrow>
            f_le s (rs_GetPeerScore p nv)))"
  by (rule rs_GetBestPeers_spec [OF assms])

theorem GetBestPeers_best_witness:
  "\<exists>best. rs_GetBestPeers (Fin (1 / 2)) 1
     (NewNetworkView\<lparr>nv_reputation := [(''a'', Fin (1 / 2)), (''b'', Fin 1)]\<rparr>) = Ret best \<and> length best = 1"
proof -
  let ?nv = "NewNetworkView\<lparr>nv_reputation := [(''a'', Fin (1 / 2)), (''b'', Fin 1)]\<rparr>"
  have "nv_scored ?nv"
    by (auto simp: nv_scored_def NewNetworkView_def gm_wf_def intro!: gm_allI split: if_splits)
  from GetBestPeers_best [OF this, of "Fin (1 / 2)" 1] show ?thesis by auto
qed

text \<open>
  A success lowers the score of an unknown peer. \<open>GetPeerScore\<close> gives an unknown peer
  the default 0.5, but \<open>UpdatePeer\<close> starts from the zero value of the map: after the first
  successful interaction the peer is known with 0.05, after a failed one with 0.
\<close>

theorem first_success_lowers_score:
  assumes "gm_get (nv_reputation nv) p = None"
  shows "rs_GetPeerScore p nv = f64 (5 / 10) \<and>
    rs_GetPeerScore p (rs_RecordSuccessfulInteraction p nv) = f64 (5 / 100) \<and>
    rs_GetPeerScore p (rs_RecordFailedInteraction p nv) = Fin 0 \<and>
    f_lt (f64 (5 / 100)) (f64 (5 / 10))"
proof -
  have a: "clamp (f_add (Fin 0) (f64 (5 / 100))) = f64 (5 / 100)" by code_simp
  have b: "clamp (f_add (Fin 0) (f64 (- 1 / 10))) = Fin 0" by code_simp
  have c: "f_lt (f64 (5 / 100)) (f64 (5 / 10))" by code_simp
  have "nv_reputation (rs_RecordSuccessfulInteraction p nv) = gm_put p (f64 (5 / 100)) (nv_reputation nv)"
    and "nv_reputation (rs_RecordFailedInteraction p nv) = gm_put p (Fin 0) (nv_reputation nv)"
    using assms a b
    by (simp_all add: rs_RecordSuccessfulInteraction_def rs_RecordFailedInteraction_def rs_UpdatePeer_def
        gm_get_or_def Let_def split: option.splits)
  with assms c show ?thesis by (simp add: rs_GetPeerScore_def)
qed

theorem first_success_lowers_score_witness:
  "rs_GetPeerScore ''a'' (rs_RecordSuccessfulInteraction ''a'' NewNetworkView) = f64 (5 / 100)"
  using first_success_lowers_score [of NewNetworkView "''a''"] by (simp add: NewNetworkView_def)

end
