(* ===== verification/Paths.thy ===== *)
theory Paths
  imports Go_Base
begin

text \<open>
  The part of Go's \<open>strings\<close> and \<open>path/filepath\<close> the storage code uses, on Unix paths:
  \<open>strings.Split\<close>, \<open>filepath.Clean\<close> (lexical), \<open>filepath.Join\<close> and \<open>filepath.Base\<close>, and the
  facts about joining a directory with a file name that holds no slash.
\<close>

fun split_on :: "char \<Rightarrow> string \<Rightarrow> string list" where
  "split_on c [] = [[]]"
| "split_on c (x # xs) =
     (if x = c then [] # split_on c xs
      else case split_on c xs of [] \<Rightarrow> [[x]] | w # ws \<Rightarrow> (x # w) # ws)"

fun join_with :: "string \<Rightarrow> string list \<Rightarrow> string" where
  "join_with sep [] = []"
| "join_with sep [x] = x"
| "join_with sep (x # y # ys) = x @ sep @ join_with sep (y # ys)"

abbreviation slash :: char where "slash \<equiv> CHR ''/''"

text \<open>One path element seen by \<open>Clean\<close>: \<open>xs\<close> holds the elements kept so far, last first.\<close>

definition clean_step :: "bool \<Rightarrow> string \<Rightarrow> string list \<Rightarrow> string list" where
  "clean_step rooted c xs =
     (if c = '''' \<or> c = ''.'' then xs
      else if c = ''..'' then
        (case xs of [] \<Rightarrow> (if rooted then [] else [''..''])
         | y # ys \<Rightarrow> if y = ''..'' then ''..'' # xs else ys)
      else c # xs)"

definition path_rooted :: "string \<Rightarrow> bool" where
  "path_rooted p = (case p of [] \<Rightarrow> False | c # _ \<Rightarrow> c = slash)"

definition path_comps :: "string \<Rightarrow> string list" where
  "path_comps p = rev (fold (clean_step (path_rooted p)) (split_on slash p) [])"

definition filepath_Clean :: "string \<Rightarrow> string" where
  "filepath_Clean p =
     (let s = join_with ''/'' (path_comps p)
      in if path_rooted p then slash # s else if s = '''' then ''.'' else s)"

definition filepath_Join :: "string list \<Rightarrow> string" where
  "filepath_Join ps =
     (let qs = filter (\<lambda>p. p \<noteq> '''') ps
      in if qs = [] then '''' else filepath_Clean (join_with ''/'' qs))"

definition filepath_Base :: "string \<Rightarrow> string" where
  "filepath_Base p =
     (if p = '''' then ''.''
      else let q = rev (dropWhile (\<lambda>c. c = slash) (rev p))
           in if q = '''' then ''/'' else last (split_on slash q))"

definition filepath_Dir :: "string \<Rightarrow> string" where
  "filepath_Dir p = filepath_Clean (rev (dropWhile (\<lambda>c. c \<noteq> slash) (rev p)))"

section \<open>Splitting and joining\<close>

lemma split_on_nonempty [simp]: "split_on c xs \<noteq> []"
  by (cases xs) (auto split: list.splits)

lemma split_on_append: "split_on c (xs @ c # ys) = split_on c xs @ split_on c ys"
  by (induction xs) (auto split: list.splits)

lemma split_on_free [simp]: "c \<notin> set xs \<Longrightarrow> split_on c xs = [xs]"
  by (induction xs) auto

lemma join_with_snoc:
  "xs \<noteq> [] \<Longrightarrow> join_with sep (xs @ [x]) = join_with sep xs @ sep @ x"
  by (induction sep xs rule: join_with.induct) auto

section \<open>Files of a directory\<close>

text \<open>A file name: no slash, and none of the special elements.\<close>

definition file_name :: "string \<Rightarrow> bool" where
  "file_name n \<longleftrightarrow> slash \<notin> set n \<and> n \<noteq> '''' \<and> n \<noteq> ''.'' \<and> n \<noteq> ''..''"

definition dir_prefix :: "string \<Rightarrow> string" where
  "dir_prefix d =
     (if d = '''' then ''''
      else (if path_rooted d then ''/'' else '''') @
           (if path_comps d = [] then '''' else join_with ''/'' (path_comps d) @ ''/''))"

lemma path_comps_file: "file_name n \<Longrightarrow> path_comps n = [n]"
  by (simp add: path_comps_def clean_step_def file_name_def)

lemma path_rooted_file: "file_name n \<Longrightarrow> \<not> path_rooted n"
  by (auto simp: path_rooted_def file_name_def split: list.splits)

lemma path_rooted_append: "d \<noteq> '''' \<Longrightarrow> path_rooted (d @ e) = path_rooted d"
  by (cases d) (auto simp: path_rooted_def)

lemma path_comps_append_file:
  "d \<noteq> '''' \<Longrightarrow> file_name n \<Longrightarrow> path_comps (d @ slash # n) = path_comps d @ [n]"
  unfolding path_comps_def
  by (simp add: path_rooted_append split_on_append) (simp add: clean_step_def file_name_def)

lemma join_with_ne: "\<forall>x \<in> set xs. x \<noteq> [] \<Longrightarrow> join_with sep xs = [] \<longleftrightarrow> xs = []"
  by (induction sep xs rule: join_with.induct) auto

lemma filepath_Join_file:
  assumes n: "file_name n"
  shows "filepath_Join [d, n] = dir_prefix d @ n"
proof (cases "d = ''''")
  case True
  have "n \<noteq> ''''" using n by (simp add: file_name_def)
  with True n show ?thesis
    by (simp add: filepath_Join_def filepath_Clean_def dir_prefix_def path_comps_file path_rooted_file Let_def)
next
  case False
  have ne: "n \<noteq> ''''" using n by (simp add: file_name_def)
  have "filepath_Join [d, n] = filepath_Clean (d @ slash # n)"
    using False ne by (simp add: filepath_Join_def)
  also have "\<dots> = dir_prefix d @ n"
    using False ne path_comps_append_file [OF False n] path_rooted_append [OF False, of "slash # n"]
    by (simp add: filepath_Clean_def dir_prefix_def join_with_snoc Let_def)
  finally show ?thesis .
qed

lemma filepath_Join_inj:
  "file_name m \<Longrightarrow> file_name n \<Longrightarrow> filepath_Join [d, m] = filepath_Join [d, n] \<longleftrightarrow> m = n"
  by (simp add: filepath_Join_file)

lemma dir_prefix_slash: "dir_prefix d = '''' \<or> (\<exists>e. dir_prefix d = e @ ''/'')"
  by (auto simp: dir_prefix_def)

lemma dropWhile_last: "xs \<noteq> [] \<Longrightarrow> \<not> P (last xs) \<Longrightarrow> rev (dropWhile P (rev xs)) = xs"
  by (induction xs rule: rev_induct) auto

lemma last_file_name: "file_name n \<Longrightarrow> last n \<noteq> slash"
  by (metis file_name_def last_in_set)

lemma filepath_Base_file:
  assumes n: "file_name n"
  shows "filepath_Base (dir_prefix d @ n) = n"
proof -
  have ne: "n \<noteq> ''''" and free: "slash \<notin> set n" using n by (auto simp: file_name_def)
  have "rev (dropWhile (\<lambda>c. c = slash) (rev (dir_prefix d @ n))) = dir_prefix d @ n"
    using ne last_file_name [OF n] by (intro dropWhile_last) auto
  moreover have "last (split_on slash (dir_prefix d @ n)) = n"
    using dir_prefix_slash [of d] free by (auto simp: split_on_append)
  ultimately show ?thesis using ne by (simp add: filepath_Base_def)
qed

lemma filepath_Base_Join: "file_name n \<Longrightarrow> filepath_Base (filepath_Join [d, n]) = n"
  by (simp add: filepath_Join_file filepath_Base_file)

text \<open>Names the storage code builds: a base name with an extension.\<close>

lemma file_name_ext: "slash \<notin> set n \<Longrightarrow> file_name (n @ ''.chunk'')"
  by (auto simp: file_name_def append_eq_Cons_conv)

lemma dec_no_slash: "slash \<notin> set (dec i)"
proof -
  have "slash \<notin> set (dec_nat n)" for n
  proof
    assume "slash \<in> set (dec_nat n)"
    then obtain d where d: "d < 10" and s: "slash = digit_char d" by (blast dest: dec_nat_chars)
    have "digit_char d \<noteq> slash" by (rule digit_char_neq [OF d]) simp
    with s show False by simp
  qed
  then show ?thesis by (simp add: dec_def)
qed

end
