(* ===== verification/File_System.thy ===== *)
theory File_System
  imports Paths Types
begin

text \<open>
  The disk the storage engine and the file manager share, and the calls of \<open>os\<close> and
  \<open>encoding/gob\<close> they make on it. A disk holds the contents of its files and an environment
  that decides, per call, whether that call fails; every theorem is about every such
  environment. A write can fail before the file is touched (opening it) or after (writing
  it), and the second case leaves a truncated file. A gob file is the map it encodes, since
  \<open>gob\<close> decodes what it encoded; the code never reads a gob file as a chunk, whose name ends
  in \<open>.chunk\<close>.
\<close>

datatype content = Raw bytes | GobChunks "(string, string) gomap"
  | GobFiles "(string, FileMetadata) gomap"

datatype io_call = IoMkdirAll string | IoOpenWrite string | IoWrite string | IoRead string
  | IoRemove string | IoStat string | IoReadDir string

datatype io_error = NotExist string | IOFailure io_call | DecodeFailure string

record disk =
  dk_files :: "(string, content) gomap"
  dk_fails :: "io_call \<Rightarrow> bool"
  dk_short :: "string \<Rightarrow> nat"

definition os_MkdirAll :: "string \<Rightarrow> disk \<Rightarrow> io_error + unit" where
  "os_MkdirAll p d = (if dk_fails d (IoMkdirAll p) then Inl (IOFailure (IoMkdirAll p)) else Inr ())"

definition os_WriteFile :: "string \<Rightarrow> bytes \<Rightarrow> disk \<Rightarrow> (io_error + unit) \<times> disk" where
  "os_WriteFile p b d =
     (if dk_fails d (IoOpenWrite p) then (Inl (IOFailure (IoOpenWrite p)), d)
      else if dk_fails d (IoWrite p) then
        (Inl (IOFailure (IoWrite p)), d\<lparr>dk_files := gm_put p (Raw (take (dk_short d p) b)) (dk_files d)\<rparr>)
      else (Inr (), d\<lparr>dk_files := gm_put p (Raw b) (dk_files d)\<rparr>))"

definition os_ReadFile :: "string \<Rightarrow> disk \<Rightarrow> io_error + bytes" where
  "os_ReadFile p d =
     (case gm_get (dk_files d) p of
        None \<Rightarrow> Inl (NotExist p)
      | Some (Raw b) \<Rightarrow> (if dk_fails d (IoRead p) then Inl (IOFailure (IoRead p)) else Inr b)
      | Some _ \<Rightarrow> Inl (DecodeFailure p))"

definition os_Remove :: "string \<Rightarrow> disk \<Rightarrow> (io_error + unit) \<times> disk" where
  "os_Remove p d =
     (if gm_get (dk_files d) p = None then (Inl (NotExist p), d)
      else if dk_fails d (IoRemove p) then (Inl (IOFailure (IoRemove p)), d)
      else (Inr (), d\<lparr>dk_files := gm_del p (dk_files d)\<rparr>))"

definition os_Stat :: "string \<Rightarrow> disk \<Rightarrow> io_error + nat" where
  "os_Stat p d =
     (case gm_get (dk_files d) p of
        None \<Rightarrow> Inl (NotExist p)
      | Some c \<Rightarrow> if dk_fails d (IoStat p) then Inl (IOFailure (IoStat p))
                  else Inr (case c of Raw b \<Rightarrow> length b | _ \<Rightarrow> 0))"

text \<open>\<open>os.IsNotExist\<close>\<close>

fun IsNotExist :: "io_error \<Rightarrow> bool" where
  "IsNotExist (NotExist p) = True"
| "IsNotExist _ = False"

text \<open>\<open>os.Create\<close> truncates the file, then the gob encoder writes the map.\<close>

definition write_gob :: "string \<Rightarrow> content \<Rightarrow> disk \<Rightarrow> (io_error + unit) \<times> disk" where
  "write_gob p g d =
     (if dk_fails d (IoOpenWrite p) then (Inl (IOFailure (IoOpenWrite p)), d)
      else if dk_fails d (IoWrite p) then
        (Inl (IOFailure (IoWrite p)), d\<lparr>dk_files := gm_put p (Raw []) (dk_files d)\<rparr>)
      else (Inr (), d\<lparr>dk_files := gm_put p g (dk_files d)\<rparr>))"

text \<open>\<open>os.Open\<close> and the gob decoder.\<close>

definition read_gob :: "string \<Rightarrow> disk \<Rightarrow> io_error + content" where
  "read_gob p d =
     (case gm_get (dk_files d) p of
        None \<Rightarrow> Inl (NotExist p)
      | Some (Raw b) \<Rightarrow> Inl (DecodeFailure p)
      | Some g \<Rightarrow> if dk_fails d (IoRead p) then Inl (IOFailure (IoRead p)) else Inr g)"

text \<open>\<open>os.ReadDir\<close>: the names of the plain files that lie directly in the directory.\<close>

definition os_ReadDir :: "string \<Rightarrow> disk \<Rightarrow> io_error + string list" where
  "os_ReadDir dir d =
     (if dk_fails d (IoReadDir dir) then Inl (IOFailure (IoReadDir dir))
      else Inr (map filepath_Base
                  (filter (\<lambda>p. filepath_Join [dir, filepath_Base p] = p) (gm_keys (dk_files d)))))"

definition no_faults :: "disk \<Rightarrow> bool" where
  "no_faults d \<longleftrightarrow> (\<forall>c. \<not> dk_fails d c)"

lemmas os_defs = os_MkdirAll_def os_WriteFile_def os_ReadFile_def os_Remove_def os_Stat_def

section \<open>What the calls leave alone\<close>

lemma os_WriteFile_frame:
  assumes "os_WriteFile p b d = (r, d')"
  shows "dk_fails d' = dk_fails d" and "dk_short d' = dk_short d"
    and "q \<noteq> p \<Longrightarrow> gm_get (dk_files d') q = gm_get (dk_files d) q"
  using assms by (auto simp: os_WriteFile_def split: if_splits)

lemma os_WriteFile_ok:
  "os_WriteFile p b d = (Inr u, d') \<Longrightarrow>
     d' = d\<lparr>dk_files := gm_put p (Raw b) (dk_files d)\<rparr> \<and> gm_get (dk_files d') p = Some (Raw b)"
  by (auto simp: os_WriteFile_def split: if_splits)

lemma os_Remove_frame:
  assumes "os_Remove p d = (r, d')"
  shows "dk_fails d' = dk_fails d" and "dk_short d' = dk_short d"
    and "q \<noteq> p \<Longrightarrow> gm_get (dk_files d') q = gm_get (dk_files d) q"
  using assms by (auto simp: os_Remove_def split: if_splits)

lemma os_Remove_ok:
  "os_Remove p d = (Inr u, d') \<Longrightarrow> d' = d\<lparr>dk_files := gm_del p (dk_files d)\<rparr>"
  by (auto simp: os_Remove_def split: if_splits)

lemma write_gob_frame:
  assumes "write_gob p g d = (r, d')"
  shows "dk_fails d' = dk_fails d" and "dk_short d' = dk_short d"
    and "q \<noteq> p \<Longrightarrow> gm_get (dk_files d') q = gm_get (dk_files d) q"
  using assms by (auto simp: write_gob_def split: if_splits)

lemma write_gob_ok:
  "write_gob p g d = (Inr u, d') \<Longrightarrow>
     d' = d\<lparr>dk_files := gm_put p g (dk_files d)\<rparr> \<and> gm_get (dk_files d') p = Some g"
  by (auto simp: write_gob_def split: if_splits)

lemma read_write_gob:
  "write_gob p g d = (Inr u, d') \<Longrightarrow> \<not> dk_fails d (IoRead p) \<Longrightarrow> \<forall>b. g \<noteq> Raw b \<Longrightarrow>
     read_gob p d' = Inr g"
  by (auto simp: write_gob_def read_gob_def split: if_splits content.splits)

end
