(* ===== verification/Chunk_Store.thy ===== *)
theory Chunk_Store
  imports Go_Base
begin

text \<open>
  The interface between the file manager and the storage engine: store, fetch and delete a
  chunk by its name. The locale states what a client relies on (in states that satisfy the
  provider's invariant), and proves once what the file manager's loops over shards need:
  storing all of a list of chunks, or undoing the ones already stored when one fails.
\<close>

text \<open>
  The store loop of \<open>FileManager.StoreFile\<close>: at the first failure the chunks stored so far
  are deleted again, errors ignored.
\<close>

fun put_or_undo ::
  "('k \<Rightarrow> 'v \<Rightarrow> 's \<Rightarrow> ('e + unit) \<times> 's) \<Rightarrow> ('k \<Rightarrow> 's \<Rightarrow> ('e + unit) \<times> 's) \<Rightarrow>
   'k list \<Rightarrow> ('k \<times> 'v) list \<Rightarrow> 's \<Rightarrow> ((nat \<times> 'e) + unit) \<times> 's"
where
  "put_or_undo put del stored [] s = (Inr (), s)"
| "put_or_undo put del stored ((k, v) # kvs) s =
     (case put k v s of
        (Inl e, s1) \<Rightarrow> (Inl (length stored, e), fold (\<lambda>k s. snd (del k s)) stored s1)
      | (Inr _, s1) \<Rightarrow> put_or_undo put del (stored @ [k]) kvs s1)"

locale chunk_store =
  fixes put :: "string \<Rightarrow> bytes \<Rightarrow> 's \<Rightarrow> ('e + unit) \<times> 's"
    and get :: "string \<Rightarrow> 's \<Rightarrow> 'e + bytes"
    and del :: "string \<Rightarrow> 's \<Rightarrow> ('e + unit) \<times> 's"
    and has :: "'s \<Rightarrow> string \<Rightarrow> bool"
    and valid :: "string \<Rightarrow> bool"
    and inv :: "'s \<Rightarrow> bool"
  assumes put_ok: "inv s \<Longrightarrow> valid k \<Longrightarrow> put k v s = (Inr u, s') \<Longrightarrow>
      inv s' \<and> \<not> has s k \<and> get k s' = Inr v"
    and put_has: "inv s \<Longrightarrow> valid k \<Longrightarrow> put k v s = (Inr u, s') \<Longrightarrow> has s' k' \<longleftrightarrow> k' = k \<or> has s k'"
    and put_frame: "inv s \<Longrightarrow> valid k \<Longrightarrow> put k v s = (Inr u, s') \<Longrightarrow> k' \<noteq> k \<Longrightarrow> get k' s' = get k' s"
    and put_error: "inv s \<Longrightarrow> valid k \<Longrightarrow> put k v s = (Inl x, s') \<Longrightarrow> s' = s"
    and del_inv: "inv s \<Longrightarrow> inv (snd (del k s))"
    and del_has: "inv s \<Longrightarrow> has (snd (del k s)) k' \<longleftrightarrow> k' \<noteq> k \<and> has s k'"
    and del_frame: "inv s \<Longrightarrow> k' \<noteq> k \<Longrightarrow> get k' (snd (del k s)) = get k' s"
    and get_has: "inv s \<Longrightarrow> (\<exists>v. get k s = Inr v) \<longleftrightarrow> has s k"
    and get_missing: "inv s \<Longrightarrow> inv s' \<Longrightarrow> \<not> has s k \<Longrightarrow> \<not> has s' k \<Longrightarrow> get k s = get k s'"
begin

text \<open>Two states a client cannot tell apart.\<close>

definition same_chunks :: "'s \<Rightarrow> 's \<Rightarrow> bool" where
  "same_chunks s t \<longleftrightarrow> (\<forall>k. has s k = has t k \<and> get k s = get k t)"

lemma same_chunksI:
  "inv s \<Longrightarrow> inv t \<Longrightarrow> (\<And>k. has s k \<longleftrightarrow> has t k) \<Longrightarrow> (\<And>k. has t k \<Longrightarrow> get k s = get k t) \<Longrightarrow>
     same_chunks s t"
  using get_missing by (metis same_chunks_def)

lemma del_all:
  "inv s \<Longrightarrow> inv (fold (\<lambda>k s. snd (del k s)) ks s) \<and>
     (\<forall>k. has (fold (\<lambda>k s. snd (del k s)) ks s) k \<longleftrightarrow> k \<notin> set ks \<and> has s k) \<and>
     (\<forall>k. k \<notin> set ks \<longrightarrow> get k (fold (\<lambda>k s. snd (del k s)) ks s) = get k s)"
proof (induction ks arbitrary: s)
  case Nil
  then show ?case by simp
next
  case (Cons k ks)
  from Cons.IH [OF del_inv [OF Cons.prems, of k]] show ?case
    by (auto simp: del_has [OF Cons.prems] del_frame [OF Cons.prems])
qed

text \<open>
  Undo: whatever was stored on top of \<open>s0\<close> under fresh names is gone after a failure, and a
  client sees \<open>s0\<close> again.
\<close>

lemma put_or_undo_error:
  assumes "put_or_undo put del stored kvs s = (Inl x, s')"
    and "inv s" and "inv s0" and "\<forall>k \<in> set (map fst kvs). valid k"
    and "\<forall>k. has s k \<longleftrightarrow> k \<in> set stored \<or> has s0 k" and "\<forall>k \<in> set stored. \<not> has s0 k"
    and "\<forall>k. has s0 k \<longrightarrow> get k s = get k s0"
  shows "inv s' \<and> same_chunks s' s0"
  using assms
proof (induction kvs arbitrary: stored s)
  case Nil
  then show ?case by simp
next
  case (Cons p kvs)
  obtain k v where p: "p = (k, v)" by (cases p)
  have v: "valid k" using Cons.prems p by simp
  obtain r s1 where put: "put k v s = (r, s1)" by (cases "put k v s")
  show ?case
  proof (cases r)
    case (Inl e)
    then have s1: "s1 = s" using put_error [OF Cons.prems(2) v] put by simp
    from Cons.prems(1) p put Inl s1 have s': "s' = fold (\<lambda>k s. snd (del k s)) stored s" by simp
    note d = del_all [OF Cons.prems(2), of stored, folded s']
    moreover have "same_chunks s' s0"
      using d Cons.prems by (intro same_chunksI) auto
    ultimately show ?thesis by simp
  next
    case (Inr u)
    note ok = put [unfolded Inr]
    note facts = put_ok [OF Cons.prems(2) v ok] put_has [OF Cons.prems(2) v ok]
      put_frame [OF Cons.prems(2) v ok]
    show ?thesis
    proof (rule Cons.IH)
      show "put_or_undo put del (stored @ [k]) kvs s1 = (Inl x, s')"
        using Cons.prems(1) p put Inr by simp
      show "\<forall>k. has s0 k \<longrightarrow> get k s1 = get k s0"
        using Cons.prems facts by metis
    qed (use Cons.prems p facts in auto)
  qed
qed

lemma put_or_undo_ok:
  assumes "put_or_undo put del stored kvs s = (Inr u, s')" and "inv s"
    and "distinct (map fst kvs)" and "\<forall>k \<in> set (map fst kvs). valid k"
  shows "inv s' \<and> (\<forall>(k, v) \<in> set kvs. get k s' = Inr v) \<and>
    (\<forall>k. has s' k \<longleftrightarrow> k \<in> set (map fst kvs) \<or> has s k) \<and>
    (\<forall>k. k \<notin> set (map fst kvs) \<longrightarrow> get k s' = get k s)"
  using assms
proof (induction kvs arbitrary: stored s)
  case Nil
  then show ?case by simp
next
  case (Cons p kvs)
  obtain k v where p: "p = (k, v)" by (cases p)
  have val: "valid k" using Cons.prems p by simp
  obtain r s1 where put: "put k v s = (r, s1)" by (cases "put k v s")
  with Cons.prems(1) p obtain w where r: "r = Inr w" by (cases r) auto
  note ok = put [unfolded r]
  note facts = put_ok [OF Cons.prems(2) val ok] put_has [OF Cons.prems(2) val ok]
    put_frame [OF Cons.prems(2) val ok]
  have "inv s' \<and> (\<forall>(k, v) \<in> set kvs. get k s' = Inr v) \<and>
    (\<forall>k. has s' k \<longleftrightarrow> k \<in> set (map fst kvs) \<or> has s1 k) \<and>
    (\<forall>k. k \<notin> set (map fst kvs) \<longrightarrow> get k s' = get k s1)"
    using Cons.prems p put r facts by (intro Cons.IH) auto
  with Cons.prems(3) p facts show ?case by auto
qed

text \<open>A clean start: nothing stored yet.\<close>

lemma put_or_undo_undone:
  "put_or_undo put del [] kvs s = (Inl x, s') \<Longrightarrow> inv s \<Longrightarrow> \<forall>k \<in> set (map fst kvs). valid k \<Longrightarrow>
     inv s' \<and> same_chunks s' s"
  by (rule put_or_undo_error) auto

end

end
