(* ===== verification/Engine.thy ===== *)
theory Engine
  imports File_System Chunk_Store
begin

text \<open>
  The storage engine (\<open>internal/storage/engine.go\<close>): an index from chunk names to files on
  disk, persisted as a gob file next to the chunks. An operation takes the engine and the
  disk and returns both with its Go result. The methods keep the receiver's letter as a
  prefix (\<open>e_StoreChunk\<close> is \<open>(*Engine).StoreChunk\<close>). The mutex makes every method atomic.
\<close>

record Engine =
  en_chunks :: "(string, string) gomap"
  en_MaxStorageBytes :: u64
  en_storageDir :: string
  en_metadataFile :: string

type_synonym store = "Engine \<times> disk"

datatype engine_error =
    CreateStorageDirFailed io_error
  | ChunkExists string
  | InsufficientSpace nat u64
  | CreateDirFailed string io_error
  | WriteChunkFailed io_error
  | SaveMetadataFailed io_error
  | ChunkNotFound string
  | ReadChunkFailed io_error
  | DeleteChunkFailed io_error
  | ChunkSizeFailed io_error
  | ReadStorageDirFailed io_error

text \<open>\<open>10 * 1024 * 1024 * 1024\<close>\<close>

definition DefaultMaxStorageBytes :: u64 where
  "DefaultMaxStorageBytes = 10 * 1024 * 1024 * 1024"

definition e_chunkPath :: "Engine \<Rightarrow> string \<Rightarrow> string" where
  "e_chunkPath e chunkID = filepath_Join [en_storageDir e, chunkID @ ''.chunk'']"

definition e_saveMetadata :: "Engine \<Rightarrow> disk \<Rightarrow> (io_error + unit) \<times> disk" where
  "e_saveMetadata e d = write_gob (en_metadataFile e) (GobChunks (en_chunks e)) d"

text \<open>
  \<open>loadMetadata\<close> reads the index and drops the entries whose file is gone. A missing
  metadata file is no error; any other failure is logged by \<open>NewEngine\<close> and leaves the
  index as it is.
\<close>

definition e_loadMetadata :: "Engine \<Rightarrow> disk \<Rightarrow> Engine" where
  "e_loadMetadata e d =
     (case read_gob (en_metadataFile e) d of
        Inr (GobChunks m) \<Rightarrow>
          e\<lparr>en_chunks := filter (\<lambda>(chunkID, chunkPath).
              case os_Stat chunkPath d of Inl err \<Rightarrow> \<not> IsNotExist err | Inr _ \<Rightarrow> True) m\<rparr>
      | _ \<Rightarrow> e)"

definition NewEngine :: "string \<Rightarrow> disk \<Rightarrow> engine_error + Engine" where
  "NewEngine storageDir d =
     (case os_MkdirAll storageDir d of
        Inl err \<Rightarrow> Inl (CreateStorageDirFailed err)
      | Inr _ \<Rightarrow>
          Inr (e_loadMetadata
                 \<lparr>en_chunks = [], en_MaxStorageBytes = DefaultMaxStorageBytes,
                  en_storageDir = storageDir,
                  en_metadataFile = filepath_Join [storageDir, ''metadata.gob'']\<rparr> d))"

definition NewEngineWithConfig :: "string \<Rightarrow> u64 \<Rightarrow> disk \<Rightarrow> engine_error + Engine" where
  "NewEngineWithConfig storageDir config d =
     (case NewEngine storageDir d of
        Inl err \<Rightarrow> Inl err
      | Inr e \<Rightarrow> Inr (e\<lparr>en_MaxStorageBytes := config\<rparr>))"

definition e_calculateUsedBytes :: "Engine \<Rightarrow> disk \<Rightarrow> u64" where
  "e_calculateUsedBytes e d =
     gm_sum (\<lambda>chunkID chunkPath. case os_Stat chunkPath d of Inl _ \<Rightarrow> 0 | Inr n \<Rightarrow> of_nat n)
       (en_chunks e)"

definition e_calculateUsagePercentage :: "Engine \<Rightarrow> disk \<Rightarrow> float64" where
  "e_calculateUsagePercentage e d =
     (if en_MaxStorageBytes e = 0 then Fin 0
      else f_mul (f_div (f_of_u64 (e_calculateUsedBytes e d)) (f_of_u64 (en_MaxStorageBytes e))) (Fin 100))"

definition e_StoreChunk :: "string \<Rightarrow> bytes \<Rightarrow> store \<Rightarrow> (engine_error + unit) \<times> store" where
  "e_StoreChunk chunkID data s =
     (let (e, d) = s in
      if gm_get (en_chunks e) chunkID \<noteq> None then (Inl (ChunkExists chunkID), s)
      else if en_MaxStorageBytes e < e_calculateUsedBytes e d + of_nat (length data) then
        (Inl (InsufficientSpace (length data) (en_MaxStorageBytes e - e_calculateUsedBytes e d)), s)
      else
        let chunkPath = e_chunkPath e chunkID; chunkDir = filepath_Dir chunkPath in
        case os_MkdirAll chunkDir d of
          Inl err \<Rightarrow> (Inl (CreateDirFailed chunkDir err), s)
        | Inr _ \<Rightarrow>
            (case os_WriteFile chunkPath data d of
               (Inl err, d1) \<Rightarrow> (Inl (WriteChunkFailed err), (e, d1))
             | (Inr _, d1) \<Rightarrow>
                 let e1 = e\<lparr>en_chunks := gm_put chunkID chunkPath (en_chunks e)\<rparr> in
                 (case e_saveMetadata e1 d1 of
                    (Inl err, d2) \<Rightarrow> (Inl (SaveMetadataFailed err), (e1, snd (os_Remove chunkPath d2)))
                  | (Inr _, d2) \<Rightarrow> (Inr (), (e1, d2)))))"

definition e_RetrieveChunk :: "string \<Rightarrow> store \<Rightarrow> engine_error + bytes" where
  "e_RetrieveChunk chunkID s =
     (let (e, d) = s in
      case gm_get (en_chunks e) chunkID of
        None \<Rightarrow> Inl (ChunkNotFound chunkID)
      | Some chunkPath \<Rightarrow>
          (case os_ReadFile chunkPath d of
             Inl err \<Rightarrow> Inl (ReadChunkFailed err)
           | Inr data \<Rightarrow> Inr data))"

definition e_DeleteChunk :: "string \<Rightarrow> store \<Rightarrow> (engine_error + unit) \<times> store" where
  "e_DeleteChunk chunkID s =
     (let (e, d) = s in
      case gm_get (en_chunks e) chunkID of
        None \<Rightarrow> (Inl (ChunkNotFound chunkID), s)
      | Some chunkPath \<Rightarrow>
          (case os_Remove chunkPath d of
             (Inl err, d1) \<Rightarrow> (Inl (DeleteChunkFailed err), (e, d1))
           | (Inr _, d1) \<Rightarrow>
               let e1 = e\<lparr>en_chunks := gm_del chunkID (en_chunks e)\<rparr> in
               (case e_saveMetadata e1 d1 of
                  (Inl err, d2) \<Rightarrow> (Inl (SaveMetadataFailed err), (e1, d2))
                | (Inr _, d2) \<Rightarrow> (Inr (), (e1, d2)))))"

definition e_GetChunkCount :: "Engine \<Rightarrow> int" where
  "e_GetChunkCount e = int (length (en_chunks e))"

record EngineStats =
  es_total_chunks :: int
  es_used_bytes :: u64
  es_total_capacity :: u64
  es_usage_percentage :: float64
  es_available_bytes :: u64
  es_storage_directory :: string

definition e_GetStats :: "Engine \<Rightarrow> disk \<Rightarrow> EngineStats" where
  "e_GetStats e d =
     \<lparr>es_total_chunks = int (length (en_chunks e)),
      es_used_bytes = e_calculateUsedBytes e d,
      es_total_capacity = en_MaxStorageBytes e,
      es_usage_percentage = e_calculateUsagePercentage e d,
      es_available_bytes = en_MaxStorageBytes e - e_calculateUsedBytes e d,
      es_storage_directory = en_storageDir e\<rparr>"

definition e_SetConfig :: "u64 \<Rightarrow> Engine \<Rightarrow> Engine" where
  "e_SetConfig config e = e\<lparr>en_MaxStorageBytes := config\<rparr>"

definition e_GetConfig :: "Engine \<Rightarrow> u64" where
  "e_GetConfig e = en_MaxStorageBytes e"

definition e_ListChunks :: "Engine \<Rightarrow> string list" where
  "e_ListChunks e = gm_keys (en_chunks e)"

definition e_GetChunkSize :: "string \<Rightarrow> store \<Rightarrow> engine_error + int" where
  "e_GetChunkSize chunkID s =
     (let (e, d) = s in
      case gm_get (en_chunks e) chunkID of
        None \<Rightarrow> Inl (ChunkNotFound chunkID)
      | Some chunkPath \<Rightarrow>
          (case os_Stat chunkPath d of
             Inl err \<Rightarrow> Inl (ChunkSizeFailed err)
           | Inr n \<Rightarrow> Inr (int n)))"

text \<open>
  \<open>Cleanup\<close> removes every plain file of the storage directory that is neither
  \<open>metadata.gob\<close> nor the file of an indexed chunk.
\<close>

definition e_isIndexed :: "Engine \<Rightarrow> string \<Rightarrow> bool" where
  "e_isIndexed e filename \<longleftrightarrow> list_ex (\<lambda>(chunkID, chunkPath). filepath_Base chunkPath = filename) (en_chunks e)"

definition e_cleanupFile :: "Engine \<Rightarrow> string \<Rightarrow> disk \<Rightarrow> disk" where
  "e_cleanupFile e filename d =
     (if filename = ''metadata.gob'' then d
      else if e_isIndexed e filename then d
      else snd (os_Remove (filepath_Join [en_storageDir e, filename]) d))"

definition e_Cleanup :: "store \<Rightarrow> (engine_error + unit) \<times> store" where
  "e_Cleanup s =
     (let (e, d) = s in
      case os_ReadDir (en_storageDir e) d of
        Inl err \<Rightarrow> (Inl (ReadStorageDirFailed err), s)
      | Inr files \<Rightarrow> (Inr (), (e, fold (e_cleanupFile e) files d)))"

section \<open>Well-formed engines\<close>

text \<open>
  A chunk name without a slash names a file of the storage directory (the names the file
  manager builds are of this kind). In a well-formed store the index is a map, its entries
  are the files such names stand for, and each of these files is there.
\<close>

definition valid_chunkID :: "string \<Rightarrow> bool" where
  "valid_chunkID k \<longleftrightarrow> slash \<notin> set k"

fun e_inv :: "store \<Rightarrow> bool" where
  "e_inv (e, d) \<longleftrightarrow>
     gm_wf (en_chunks e) \<and>
     en_metadataFile e = filepath_Join [en_storageDir e, ''metadata.gob''] \<and>
     (\<forall>k p. gm_get (en_chunks e) k = Some p \<longrightarrow>
        valid_chunkID k \<and> p = e_chunkPath e k \<and> (\<exists>b. gm_get (dk_files d) p = Some (Raw b)))"

text \<open>The same, on a disk whose calls do not fail.\<close>

fun e_ok :: "store \<Rightarrow> bool" where
  "e_ok (e, d) \<longleftrightarrow> e_inv (e, d) \<and> no_faults d"

definition e_has :: "store \<Rightarrow> string \<Rightarrow> bool" where
  "e_has s k \<longleftrightarrow> gm_get (en_chunks (fst s)) k \<noteq> None"

lemma e_chunkPath_put [simp]:
  "e_chunkPath (e\<lparr>en_chunks := m\<rparr>) k = e_chunkPath e k"
  by (simp add: e_chunkPath_def)

lemma chunk_file_name: "valid_chunkID k \<Longrightarrow> file_name (k @ ''.chunk'')"
  by (simp add: valid_chunkID_def file_name_ext)

lemma metadata_file_name: "file_name ''metadata.gob''"
  by (simp add: file_name_def)

lemma e_chunkPath_inj: "valid_chunkID j \<Longrightarrow> valid_chunkID k \<Longrightarrow> e_chunkPath e j = e_chunkPath e k \<longleftrightarrow> j = k"
  by (simp add: e_chunkPath_def filepath_Join_inj chunk_file_name)

lemma append_eq_last: "xs @ ys = zs \<Longrightarrow> ys \<noteq> [] \<Longrightarrow> last ys = last zs"
  by (metis last_appendR)

lemma e_chunkPath_metadata:
  assumes "valid_chunkID k"
  shows "e_chunkPath e k \<noteq> filepath_Join [en_storageDir e, ''metadata.gob'']"
proof
  assume "e_chunkPath e k = filepath_Join [en_storageDir e, ''metadata.gob'']"
  then have "k @ ''.chunk'' = ''metadata.gob''"
    using assms by (simp add: e_chunkPath_def filepath_Join_inj chunk_file_name metadata_file_name)
  then show False by (auto dest!: append_eq_last)
qed

lemma e_StoreChunk_cases:
  assumes "e_StoreChunk k b (e, d) = (r, s')"
  obtains (rejected) x where "r = Inl x" and "s' = (e, d)"
      and "(\<exists>p. x = CreateDirFailed p (IOFailure (IoMkdirAll p))) \<or> x = ChunkExists k \<or> (\<exists>n. x = InsufficientSpace (length b) n)"
  | (unwritten) x d1 where "r = Inl (WriteChunkFailed x)" and "s' = (e, d1)"
      and "os_WriteFile (e_chunkPath e k) b d = (Inl x, d1)"
  | (unsaved) x d1 d2 where "r = Inl (SaveMetadataFailed x)"
      and "gm_get (en_chunks e) k = None"
      and "s' = (e\<lparr>en_chunks := gm_put k (e_chunkPath e k) (en_chunks e)\<rparr>, snd (os_Remove (e_chunkPath e k) d2))"
      and "os_WriteFile (e_chunkPath e k) b d = (Inr (), d1)"
      and "e_saveMetadata (e\<lparr>en_chunks := gm_put k (e_chunkPath e k) (en_chunks e)\<rparr>) d1 = (Inl x, d2)"
  | (stored) d1 d2 where "r = Inr ()"
      and "gm_get (en_chunks e) k = None"
      and "e_calculateUsedBytes e d + of_nat (length b) \<le> en_MaxStorageBytes e"
      and "s' = (e\<lparr>en_chunks := gm_put k (e_chunkPath e k) (en_chunks e)\<rparr>, d2)"
      and "os_WriteFile (e_chunkPath e k) b d = (Inr (), d1)"
      and "e_saveMetadata (e\<lparr>en_chunks := gm_put k (e_chunkPath e k) (en_chunks e)\<rparr>) d1 = (Inr (), d2)"
  using assms
  by (auto simp: e_StoreChunk_def Let_def os_MkdirAll_def not_less split: if_splits sum.splits prod.splits)

lemmas disk_frames = os_WriteFile_frame os_Remove_frame write_gob_frame

lemma e_inv_D:
  assumes "e_inv (e, d)" and "gm_get (en_chunks e) k = Some p"
  shows "valid_chunkID k" and "p = e_chunkPath e k" and "\<exists>b. gm_get (dk_files d) p = Some (Raw b)"
  using assms by simp_all

lemma e_inv_I:
  assumes "gm_wf (en_chunks e)" and "en_metadataFile e = filepath_Join [en_storageDir e, ''metadata.gob'']"
    and "\<And>k p. gm_get (en_chunks e) k = Some p \<Longrightarrow>
           valid_chunkID k \<and> p = e_chunkPath e k \<and> (\<exists>b. gm_get (dk_files d) p = Some (Raw b))"
  shows "e_inv (e, d)"
  using assms by simp

lemma e_inv_meta: "e_inv (e, d) \<Longrightarrow> en_metadataFile e = filepath_Join [en_storageDir e, ''metadata.gob'']"
  by (simp add: e_inv.simps)

text \<open>The stored case: the new chunk is on disk and in the index, nothing else has moved.\<close>

lemma e_StoreChunk_stored:
  assumes inv: "e_inv (e, d)" and k: "valid_chunkID k" and r: "e_StoreChunk k b (e, d) = (Inr u, (e', d'))"
  shows "e_inv (e', d')" and "gm_get (en_chunks e) k = None"
    and "e' = e\<lparr>en_chunks := gm_put k (e_chunkPath e k) (en_chunks e)\<rparr>"
    and "gm_get (dk_files d') (e_chunkPath e k) = Some (Raw b)"
    and "\<And>q. q \<noteq> e_chunkPath e k \<Longrightarrow> q \<noteq> en_metadataFile e \<Longrightarrow> gm_get (dk_files d') q = gm_get (dk_files d) q"
    and "dk_fails d' = dk_fails d"
    and "e_calculateUsedBytes e d + of_nat (length b) \<le> en_MaxStorageBytes e"
proof -
  from r show new: "gm_get (en_chunks e) k = None"
    and e': "e' = e\<lparr>en_chunks := gm_put k (e_chunkPath e k) (en_chunks e)\<rparr>"
    and "e_calculateUsedBytes e d + of_nat (length b) \<le> en_MaxStorageBytes e"
    by (auto elim: e_StoreChunk_cases)
  from r obtain d1 where w: "os_WriteFile (e_chunkPath e k) b d = (Inr (), d1)"
    and s: "write_gob (en_metadataFile e) (GobChunks (en_chunks e')) d1 = (Inr (), d')"
    by (auto elim!: e_StoreChunk_cases simp: e_saveMetadata_def)
  have meta: "e_chunkPath e k \<noteq> en_metadataFile e"
    using inv e_chunkPath_metadata [OF k] by simp
  show onDisk: "gm_get (dk_files d') (e_chunkPath e k) = Some (Raw b)"
    using os_WriteFile_ok [OF w] write_gob_frame(3) [OF s meta] by simp
  show frame: "\<And>q. q \<noteq> e_chunkPath e k \<Longrightarrow> q \<noteq> en_metadataFile e \<Longrightarrow> gm_get (dk_files d') q = gm_get (dk_files d) q"
    using os_WriteFile_frame(3) [OF w] write_gob_frame(3) [OF s] by simp
  show "dk_fails d' = dk_fails d"
    using os_WriteFile_frame(1) [OF w] write_gob_frame(1) [OF s] by simp
  show "e_inv (e', d')"
  proof (rule e_inv_I)
    show "gm_wf (en_chunks e')" using inv e' by simp
    show "en_metadataFile e' = filepath_Join [en_storageDir e', ''metadata.gob'']" using inv e' by simp
    fix j p
    assume j: "gm_get (en_chunks e') j = Some p"
    show "valid_chunkID j \<and> p = e_chunkPath e' j \<and> (\<exists>b. gm_get (dk_files d') p = Some (Raw b))"
    proof (cases "j = k")
      case True
      with j e' k onDisk show ?thesis by simp
    next
      case False
      with j e' have old: "gm_get (en_chunks e) j = Some p" by simp
      note D = e_inv_D [OF inv old]
      have "p \<noteq> e_chunkPath e k" using D(1,2) k False by (simp add: e_chunkPath_inj)
      moreover have "p \<noteq> en_metadataFile e" using D(1,2) inv e_chunkPath_metadata by simp
      ultimately show ?thesis using D frame [of p] e' by simp
    qed
  qed
qed

text \<open>Without faults a store is either rejected, with nothing changed, or done.\<close>

lemma e_StoreChunk_quiet:
  assumes "no_faults d" and "e_StoreChunk k b (e, d) = (Inl x, s')"
  shows "s' = (e, d)"
proof -
  have "dk_fails d = (\<lambda>_. False)" using assms(1) by (auto simp: no_faults_def)
  with assms(2) show ?thesis
    by (auto simp: e_StoreChunk_def Let_def os_MkdirAll_def os_WriteFile_def e_saveMetadata_def
        write_gob_def split: if_splits)
qed

lemma e_StoreChunk_quiet_iff:
  assumes "no_faults d"
  shows "(\<exists>s'. e_StoreChunk k b (e, d) = (Inr (), s')) \<longleftrightarrow>
    gm_get (en_chunks e) k = None \<and> e_calculateUsedBytes e d + of_nat (length b) \<le> en_MaxStorageBytes e"
proof -
  have "dk_fails d = (\<lambda>_. False)" using assms by (auto simp: no_faults_def)
  then show ?thesis
    by (auto simp: e_StoreChunk_def Let_def os_MkdirAll_def os_WriteFile_def e_saveMetadata_def
        write_gob_def not_less split: if_splits)
qed

lemma e_DeleteChunk_quiet:
  assumes inv: "e_inv (e, d)" and quiet: "no_faults d" and has: "gm_get (en_chunks e) k = Some p"
  shows "\<exists>d'. e_DeleteChunk k (e, d) = (Inr (), (e\<lparr>en_chunks := gm_del k (en_chunks e)\<rparr>, d')) \<and>
    dk_fails d' = dk_fails d \<and> gm_get (dk_files d') p = None \<and>
    (\<forall>q. q \<noteq> p \<and> q \<noteq> en_metadataFile e \<longrightarrow> gm_get (dk_files d') q = gm_get (dk_files d) q)"
proof -
  have f: "dk_fails d = (\<lambda>_. False)" using quiet by (auto simp: no_faults_def)
  note D = e_inv_D [OF inv has]
  have "p \<noteq> en_metadataFile e" using D(1,2) e_inv_meta [OF inv] e_chunkPath_metadata by simp
  with D f has show ?thesis
    by (auto simp: e_DeleteChunk_def os_Remove_def e_saveMetadata_def write_gob_def)
qed

lemma e_inv_delete:
  assumes inv: "e_inv (e, d)" and has: "gm_get (en_chunks e) k = Some p"
    and frame: "\<And>q. q \<noteq> p \<Longrightarrow> q \<noteq> en_metadataFile e \<Longrightarrow> gm_get (dk_files d') q = gm_get (dk_files d) q"
  shows "e_inv (e\<lparr>en_chunks := gm_del k (en_chunks e)\<rparr>, d')"
proof (rule e_inv_I)
  fix j q
  assume "gm_get (en_chunks (e\<lparr>en_chunks := gm_del k (en_chunks e)\<rparr>)) j = Some q"
  then have j: "j \<noteq> k" "gm_get (en_chunks e) j = Some q" by (auto split: if_splits)
  note D = e_inv_D [OF inv j(2)] and Dk = e_inv_D [OF inv has]
  have "q \<noteq> p" using D(1,2) Dk(1,2) j(1) by (simp add: e_chunkPath_inj)
  moreover have "q \<noteq> en_metadataFile e" using D(1,2) inv e_chunkPath_metadata by simp
  ultimately show "valid_chunkID j \<and> q = e_chunkPath (e\<lparr>en_chunks := gm_del k (en_chunks e)\<rparr>) j \<and>
      (\<exists>b. gm_get (dk_files d') q = Some (Raw b))"
    using D frame [of q] by simp
qed (use inv in simp_all)

lemma e_RetrieveChunk_iff:
  assumes "e_ok (e, d)"
  shows "e_RetrieveChunk k (e, d) = Inr b \<longleftrightarrow>
    gm_get (en_chunks e) k \<noteq> None \<and> gm_get (dk_files d) (e_chunkPath e k) = Some (Raw b)"
  using assms
  by (auto simp: e_RetrieveChunk_def os_ReadFile_def no_faults_def
      split: option.splits content.splits)

lemma e_RetrieveChunk_missing:
  assumes "e_ok (e, d)"
  shows "e_RetrieveChunk k (e, d) = Inl x \<longleftrightarrow> gm_get (en_chunks e) k = None \<and> x = ChunkNotFound k"
proof (cases "gm_get (en_chunks e) k")
  case None
  then show ?thesis by (auto simp: e_RetrieveChunk_def)
next
  case (Some p)
  with assms obtain b where "gm_get (dk_files d) p = Some (Raw b)" by auto
  with Some assms show ?thesis by (auto simp: e_RetrieveChunk_def os_ReadFile_def no_faults_def)
qed

declare e_ok.simps [simp del] e_inv.simps [simp del]

lemma e_ok_D: "e_ok (e, d) \<Longrightarrow> e_inv (e, d) \<and> no_faults d"
  by (simp add: e_ok.simps)


lemma e_RetrieveChunk_frame:
  assumes "no_faults d" and "no_faults d'"
    and "gm_get (en_chunks e') k = gm_get (en_chunks e) k"
    and "\<And>p. gm_get (en_chunks e) k = Some p \<Longrightarrow> gm_get (dk_files d') p = gm_get (dk_files d) p"
  shows "e_RetrieveChunk k (e', d') = e_RetrieveChunk k (e, d)"
  using assms
  by (cases "gm_get (en_chunks e) k") (auto simp: e_RetrieveChunk_def os_ReadFile_def no_faults_def
      split: option.splits content.splits)

section \<open>The engine is a chunk store\<close>

lemma e_ok_Store:
  assumes ok: "e_ok s" and k: "valid_chunkID k" and r: "e_StoreChunk k b s = (Inr u, s')"
  shows "e_ok s' \<and> \<not> e_has s k \<and> e_RetrieveChunk k s' = Inr b"
    and "e_has s' k' \<longleftrightarrow> k' = k \<or> e_has s k'"
    and "k' \<noteq> k \<Longrightarrow> e_RetrieveChunk k' s' = e_RetrieveChunk k' s"
proof -
  obtain e d e' d' where s: "s = (e, d)" "s' = (e', d')" by (cases s; cases s')
  from ok s have inv: "e_inv (e, d)" and nf: "no_faults d" using e_ok_D by auto
  note S = e_StoreChunk_stored [OF inv k r [unfolded s]]
  have nf': "no_faults d'" using S(6) nf by (simp add: no_faults_def)
  then have ok': "e_ok (e', d')" using S(1) by (simp add: e_ok.simps)
  show "e_ok s' \<and> \<not> e_has s k \<and> e_RetrieveChunk k s' = Inr b"
    using ok' S(2-4) s by (simp add: e_has_def e_RetrieveChunk_iff)
  show "e_has s' k' \<longleftrightarrow> k' = k \<or> e_has s k'" using S(3) s by (simp add: e_has_def)
  assume ne: "k' \<noteq> k"
  have "gm_get (dk_files d') p = gm_get (dk_files d) p" if "gm_get (en_chunks e) k' = Some p" for p
  proof -
    note D = e_inv_D [OF inv that]
    have "p \<noteq> e_chunkPath e k" using D(1,2) k ne by (simp add: e_chunkPath_inj)
    moreover have "p \<noteq> en_metadataFile e" using D(1,2) e_inv_meta [OF inv] e_chunkPath_metadata by simp
    ultimately show ?thesis using S(5) by simp
  qed
  with nf nf' ne S(3) have "e_RetrieveChunk k' (e', d') = e_RetrieveChunk k' (e, d)"
    by (intro e_RetrieveChunk_frame) simp_all
  with s show "e_RetrieveChunk k' s' = e_RetrieveChunk k' s" by simp
qed

lemma e_ok_Delete:
  assumes ok: "e_ok s"
  shows "e_ok (snd (e_DeleteChunk k s))"
    and "e_has (snd (e_DeleteChunk k s)) k' \<longleftrightarrow> k' \<noteq> k \<and> e_has s k'"
    and "k' \<noteq> k \<Longrightarrow> e_RetrieveChunk k' (snd (e_DeleteChunk k s)) = e_RetrieveChunk k' s"
proof -
  obtain e d where s: "s = (e, d)" by (cases s)
  from ok s have inv: "e_inv (e, d)" and nf: "no_faults d" using e_ok_D by auto
  have "e_ok (snd (e_DeleteChunk k s)) \<and>
    (e_has (snd (e_DeleteChunk k s)) k' \<longleftrightarrow> k' \<noteq> k \<and> e_has s k') \<and>
    (k' \<noteq> k \<longrightarrow> e_RetrieveChunk k' (snd (e_DeleteChunk k s)) = e_RetrieveChunk k' s)"
  proof (cases "gm_get (en_chunks e) k")
    case None
    then show ?thesis using ok s by (auto simp: e_DeleteChunk_def e_has_def)
  next
    case (Some p)
    obtain d' where del: "e_DeleteChunk k (e, d) = (Inr (), (e\<lparr>en_chunks := gm_del k (en_chunks e)\<rparr>, d'))"
      and fails: "dk_fails d' = dk_fails d"
      and frame: "\<And>q. q \<noteq> p \<Longrightarrow> q \<noteq> en_metadataFile e \<Longrightarrow> gm_get (dk_files d') q = gm_get (dk_files d) q"
      using e_DeleteChunk_quiet [OF inv nf Some] by metis
    let ?e' = "e\<lparr>en_chunks := gm_del k (en_chunks e)\<rparr>"
    have nf': "no_faults d'" using nf fails by (simp add: no_faults_def)
    then have ok': "e_ok (?e', d')"
      using e_inv_delete [OF inv Some frame] by (simp add: e_ok.simps)
    moreover have "e_RetrieveChunk k' (?e', d') = e_RetrieveChunk k' (e, d)" if ne: "k' \<noteq> k"
    proof (rule e_RetrieveChunk_frame [OF nf nf'])
      fix q
      assume q: "gm_get (en_chunks e) k' = Some q"
      note D = e_inv_D [OF inv q] and Dk = e_inv_D [OF inv Some]
      have "q \<noteq> p" using D(1,2) Dk(1,2) ne by (simp add: e_chunkPath_inj)
      moreover have "q \<noteq> en_metadataFile e" using D(1,2) e_inv_meta [OF inv] e_chunkPath_metadata by simp
      ultimately show "gm_get (dk_files d') q = gm_get (dk_files d) q" by (rule frame)
    qed (use ne in simp)
    ultimately show ?thesis using s del by (simp add: e_has_def)
  qed
  then show "e_ok (snd (e_DeleteChunk k s))"
    and "e_has (snd (e_DeleteChunk k s)) k' \<longleftrightarrow> k' \<noteq> k \<and> e_has s k'"
    and "k' \<noteq> k \<Longrightarrow> e_RetrieveChunk k' (snd (e_DeleteChunk k s)) = e_RetrieveChunk k' s"
    by blast+
qed

lemma e_RetrieveChunk_has: "e_ok s \<Longrightarrow> (\<exists>b. e_RetrieveChunk k s = Inr b) \<longleftrightarrow> e_has s k"
proof -
  assume ok: "e_ok s"
  obtain e d where s: "s = (e, d)" by (cases s)
  show ?thesis
    using e_RetrieveChunk_missing [OF ok [unfolded s], of k]
    by (cases "e_RetrieveChunk k (e, d)") (auto simp: s e_has_def)
qed

interpretation chunks: chunk_store e_StoreChunk e_RetrieveChunk e_DeleteChunk e_has valid_chunkID e_ok
proof unfold_locales
  fix s s' :: store and k x and b :: bytes
  assume "e_ok s" and "e_StoreChunk k b s = (Inl x, s')"
  then show "s' = s" by (cases s) (auto dest: e_StoreChunk_quiet e_ok_D)
next
  fix s s' :: store and k
  assume "e_ok s" and "e_ok s'" and "\<not> e_has s k" and "\<not> e_has s' k"
  then show "e_RetrieveChunk k s = e_RetrieveChunk k s'"
    by (cases s; cases s') (simp add: e_has_def e_RetrieveChunk_def)
qed (rule e_ok_Store e_ok_Delete e_RetrieveChunk_has, assumption+)+

end
