(* ===== verification/Sharding.thy ===== *)
theory Sharding
  imports Types Sha256
begin

text \<open>
  The shard manager (\<open>internal/storage/sharding.go\<close>): Reed-Solomon splitting and
  reconstruction. The codec is the third-party package \<open>klauspost/reedsolomon\<close>, so it is a
  parameter: a record of the four methods the code calls on an encoder, for given numbers
  of data and parity shards. A missing shard (\<open>nil\<close>, length 0) is the empty list. The
  predicate \<open>rs_codec\<close> states what the package documents of them.
\<close>

record reed_solomon =
  rs_New :: "int \<Rightarrow> int \<Rightarrow> string + unit"
  rs_Split :: "int \<Rightarrow> int \<Rightarrow> bytes \<Rightarrow> string + bytes list"
  rs_Encode :: "int \<Rightarrow> int \<Rightarrow> bytes list \<Rightarrow> string + bytes list"
  rs_Reconstruct :: "int \<Rightarrow> int \<Rightarrow> bytes list \<Rightarrow> string + bytes list"
  rs_Join :: "int \<Rightarrow> int \<Rightarrow> bytes list \<Rightarrow> int \<Rightarrow> string + bytes"

datatype shard_error =
    DataEmpty
  | RequiredExceedsTotal
  | RequiredNotPositive
  | InvalidShardConfiguration
  | EncoderFailed string
  | SplitFailed string
  | EncodeFailed string
  | NoShards
  | InsufficientShards int int
  | ReconstructFailed string
  | JoinFailed string

record ShardMetadata =
  smd_FileHash :: string
  smd_TotalShards :: int
  smd_RequiredShards :: int
  smd_ShardSize :: int
  smd_ShardHashes :: "string list"
  smd_FarmerPeers :: "string list"

record ShardManager =
  sm_shardMap :: "(string, ShardMetadata) gomap"
  sm_chunkToShard :: "(string, string) gomap"

definition NewShardManager :: ShardManager where
  "NewShardManager = \<lparr>sm_shardMap = [], sm_chunkToShard = []\<rparr>"

definition CalculateShardHash :: "bytes \<Rightarrow> string" where
  "CalculateShardHash data = sha256_hex data"

text \<open>The loop that wraps the encoder's slices, with indices from 1.\<close>

fun wrap_shards :: "int \<Rightarrow> bytes list \<Rightarrow> Shard list" where
  "wrap_shards i [] = []"
| "wrap_shards i (b # bs) =
     \<lparr>sh_Index = i + 1, sh_Data = b, sh_Hash = CalculateShardHash b, sh_Size = int (length b)\<rparr>
       # wrap_shards (i + 1) bs"

definition sm_ShardData ::
  "reed_solomon \<Rightarrow> bytes \<Rightarrow> int \<Rightarrow> int \<Rightarrow> shard_error + Shard list" where
  "sm_ShardData rs data totalShards requiredShards =
     (if length data = 0 then Inl DataEmpty
      else if totalShards < requiredShards then Inl RequiredExceedsTotal
      else if requiredShards \<le> 0 then Inl RequiredNotPositive
      else
        let dataShards = requiredShards; parityShards = totalShards - dataShards in
        if parityShards < 0 then Inl InvalidShardConfiguration
        else case rs_New rs dataShards parityShards of
          Inl err \<Rightarrow> Inl (EncoderFailed err)
        | Inr _ \<Rightarrow>
            (case rs_Split rs dataShards parityShards data of
               Inl err \<Rightarrow> Inl (SplitFailed err)
             | Inr split \<Rightarrow>
                 (case rs_Encode rs dataShards parityShards split of
                    Inl err \<Rightarrow> Inl (EncodeFailed err)
                  | Inr shards \<Rightarrow> Inr (wrap_shards 0 shards))))"

text \<open>
  \<open>ReconstructData\<close> puts the data of its \<open>i\<close>-th argument at position \<open>i\<close>, whatever the
  shard's own \<open>Index\<close> says, and counts the positions it filled.
\<close>

definition raw_shards :: "Shard list \<Rightarrow> nat \<Rightarrow> bytes list" where
  "raw_shards shards n =
     map (\<lambda>i. if i < length shards \<and> length (sh_Data (shards ! i)) > 0 then sh_Data (shards ! i) else []) [0..<n]"

definition sm_ReconstructData ::
  "reed_solomon \<Rightarrow> Shard list \<Rightarrow> int \<Rightarrow> int \<Rightarrow> int \<Rightarrow> (shard_error + bytes) go" where
  "sm_ReconstructData rs shards totalShards requiredShards outputSize =
     (if length shards = 0 then Ret (Inl NoShards)
      else if totalShards < requiredShards then Ret (Inl RequiredExceedsTotal)
      else
        let dataShards = requiredShards; parityShards = totalShards - dataShards in
        case rs_New rs dataShards parityShards of
          Inl err \<Rightarrow> Ret (Inl (EncoderFailed err))
        | Inr _ \<Rightarrow>
            go_bind (go_make totalShards ([] :: bytes)) (\<lambda>_.
            let raw = raw_shards shards (nat totalShards);
                present = int (length (filter (\<lambda>b. b \<noteq> []) raw))
            in if present < dataShards then Ret (Inl (InsufficientShards present dataShards))
               else case rs_Reconstruct rs dataShards parityShards raw of
                 Inl err \<Rightarrow> Ret (Inl (ReconstructFailed err))
               | Inr raw' \<Rightarrow>
                   (case rs_Join rs dataShards parityShards raw' outputSize of
                      Inl err \<Rightarrow> Ret (Inl (JoinFailed err))
                    | Inr buf \<Rightarrow> Ret (Inr buf))))"

text \<open>
  \<open>StoreShardedFile\<close>. \<open>farmerPeers[:totalShards]\<close> may reach into the capacity of the slice:
  \<open>spare\<close> holds the elements of its array behind its length.
\<close>

definition sm_StoreShardedFile ::
  "reed_solomon \<Rightarrow> string \<Rightarrow> bytes \<Rightarrow> int \<Rightarrow> int \<Rightarrow> string list \<Rightarrow> string list \<Rightarrow> ShardManager \<Rightarrow>
   ((shard_error + ShardMetadata) \<times> ShardManager) go" where
  "sm_StoreShardedFile rs fileHash data totalShards requiredShards farmerPeers spare sm =
     (case sm_ShardData rs data totalShards requiredShards of
        Inl err \<Rightarrow> Ret (Inl err, sm)
      | Inr shards \<Rightarrow>
          let shardSize = (if 0 < length shards then sh_Size (shards ! 0) else 0);
              shardHashes = map sh_Hash shards;
              chunkToShard = fold (\<lambda>shard. gm_put (sh_Hash shard) fileHash) shards (sm_chunkToShard sm)
          in go_bind (go_prefix (farmerPeers @ spare) totalShards) (\<lambda>peers.
             let metadata =
                   \<lparr>smd_FileHash = fileHash, smd_TotalShards = totalShards,
                    smd_RequiredShards = requiredShards, smd_ShardSize = shardSize,
                    smd_ShardHashes = shardHashes, smd_FarmerPeers = peers\<rparr>
             in Ret (Inr metadata,
                  sm\<lparr>sm_chunkToShard := chunkToShard,
                     sm_shardMap := gm_put fileHash metadata (sm_shardMap sm)\<rparr>)))"

definition sm_GetShardMetadata :: "string \<Rightarrow> ShardManager \<Rightarrow> ShardMetadata option" where
  "sm_GetShardMetadata fileHash sm = gm_get (sm_shardMap sm) fileHash"

section \<open>What the codec documents\<close>

text \<open>
  For \<open>d\<close> data and \<open>p\<close> parity shards: the encoder exists; every non-empty input splits into
  \<open>d + p\<close> slices, whose encoding has \<open>d + p\<close> non-empty slices; from any \<open>d\<close> of them, each at
  its own position, \<open>Reconstruct\<close> restores all; and \<open>Join\<close> with the original length gives
  back the input.
\<close>

definition encodes_to :: "reed_solomon \<Rightarrow> int \<Rightarrow> int \<Rightarrow> bytes \<Rightarrow> bytes list \<Rightarrow> bool" where
  "encodes_to rs d p data t \<longleftrightarrow>
     (\<exists>s. rs_Split rs d p data = Inr s \<and> rs_Encode rs d p s = Inr t)"

definition partial_shards :: "bytes list \<Rightarrow> bytes list \<Rightarrow> int \<Rightarrow> bool" where
  "partial_shards raw t d \<longleftrightarrow>
     list_all2 (\<lambda>r x. r = [] \<or> r = x) raw t \<and> d \<le> int (length (filter (\<lambda>b. b \<noteq> []) raw))"

definition rs_codec :: "reed_solomon \<Rightarrow> int \<Rightarrow> int \<Rightarrow> bool" where
  "rs_codec rs d p \<longleftrightarrow>
     rs_New rs d p = Inr () \<and>
     (\<forall>data. data \<noteq> [] \<longrightarrow> (\<exists>t. encodes_to rs d p data t \<and> int (length t) = d + p \<and> [] \<notin> set t)) \<and>
     (\<forall>data t. data \<noteq> [] \<and> encodes_to rs d p data t \<longrightarrow>
        (\<forall>raw. partial_shards raw t d \<longrightarrow> rs_Reconstruct rs d p raw = Inr t) \<and>
        rs_Join rs d p t (int (length data)) = Inr data)"

lemma rs_codecD:
  assumes "rs_codec rs d p"
  shows "rs_New rs d p = Inr ()"
    and "data \<noteq> [] \<Longrightarrow> \<exists>t. encodes_to rs d p data t \<and> int (length t) = d + p \<and> [] \<notin> set t"
    and "data \<noteq> [] \<Longrightarrow> encodes_to rs d p data t \<Longrightarrow> partial_shards raw t d \<Longrightarrow> rs_Reconstruct rs d p raw = Inr t"
    and "data \<noteq> [] \<Longrightarrow> encodes_to rs d p data t \<Longrightarrow> rs_Join rs d p t (int (length data)) = Inr data"
  using assms unfolding rs_codec_def by blast+

lemma encodes_to_unique: "encodes_to rs d p data t \<Longrightarrow> encodes_to rs d p data t' \<Longrightarrow> t' = t"
  by (auto simp: encodes_to_def)

section \<open>A concrete codec\<close>

text \<open>
  Two data shards and one parity shard, their bitwise exclusive or: the smallest instance of
  what \<open>rs_codec\<close> describes.
\<close>

definition xor_bytes :: "bytes \<Rightarrow> bytes \<Rightarrow> bytes" where
  "xor_bytes = map2 (\<lambda>x y. x XOR y)"

definition xor_split :: "bytes \<Rightarrow> string + bytes list" where
  "xor_split data =
     (let n = (length data + 1) div 2; a = take n data; b = drop n data
      in Inr [a, b @ replicate (n - length b) 0, []])"

fun xor_encode :: "bytes list \<Rightarrow> string + bytes list" where
  "xor_encode [a, b, c] = Inr [a, b, xor_bytes a b]"
| "xor_encode _ = Inl ''wrong number of shards''"

fun xor_reconstruct :: "bytes list \<Rightarrow> string + bytes list" where
  "xor_reconstruct [a, b, c] =
     (if a = [] then Inr [xor_bytes b c, b, c]
      else if b = [] then Inr [a, xor_bytes a c, c]
      else Inr [a, b, xor_bytes a b])"
| "xor_reconstruct _ = Inl ''wrong number of shards''"

definition xor_join :: "bytes list \<Rightarrow> int \<Rightarrow> string + bytes" where
  "xor_join shards outSize =
     (let all = concat (take 2 shards)
      in if int (length all) < outSize then Inl ''short data'' else Inr (take (nat outSize) all))"

definition xor_codec :: reed_solomon where
  "xor_codec =
     \<lparr>rs_New = (\<lambda>d p. if d = 2 \<and> p = 1 then Inr () else Inl ''unsupported''),
      rs_Split = (\<lambda>d p. xor_split), rs_Encode = (\<lambda>d p. xor_encode),
      rs_Reconstruct = (\<lambda>d p. xor_reconstruct), rs_Join = (\<lambda>d p. xor_join)\<rparr>"

lemma length_xor_bytes [simp]: "length (xor_bytes a b) = min (length a) (length b)"
  by (simp add: xor_bytes_def)

lemma xor_bytes_cancel:
  assumes "length a = length b"
  shows "xor_bytes a (xor_bytes a b) = b" and "xor_bytes b (xor_bytes a b) = a"
  using assms by (induction a b rule: list_induct2) (simp_all add: xor_bytes_def xor.left_commute)

lemma xor_codec_encodes:
  "encodes_to xor_codec 2 1 data t \<longleftrightarrow>
     (let n = (length data + 1) div 2; a = take n data; b = drop n data @ replicate (n - length (drop n data)) 0
      in t = [a, b, xor_bytes a b])"
  by (auto simp: encodes_to_def xor_codec_def xor_split_def Let_def)

lemma xor_codec_ok: "rs_codec xor_codec 2 1"
  unfolding rs_codec_def
proof (intro conjI allI impI)
  show "rs_New xor_codec 2 1 = Inr ()" by (simp add: xor_codec_def)
next
  fix data :: bytes
  assume "data \<noteq> []"
  then have pos: "0 < length data" by simp
  define n where "n = (length data + 1) div 2"
  define a where "a = take n data"
  define b where "b = drop n data @ replicate (n - length (drop n data)) 0"
  have "0 < n" and "n \<le> length data" using pos by (simp_all add: n_def)
  then have "length a = n" and "length b = n"
    by (simp_all add: a_def b_def) (simp add: n_def)
  with \<open>0 < n\<close> have "a \<noteq> [] \<and> b \<noteq> [] \<and> xor_bytes a b \<noteq> []"
    by (auto simp flip: length_greater_0_conv)
  moreover have "encodes_to xor_codec 2 1 data [a, b, xor_bytes a b]"
    by (simp add: xor_codec_encodes Let_def a_def b_def n_def)
  ultimately show "\<exists>t. encodes_to xor_codec 2 1 data t \<and> int (length t) = 2 + 1 \<and> [] \<notin> set t"
    by (intro exI [of _ "[a, b, xor_bytes a b]"]) auto
next
  fix data t raw
  assume "data \<noteq> [] \<and> encodes_to xor_codec 2 1 data t" and p: "partial_shards raw t 2"
  then have ne: "data \<noteq> []" and e: "encodes_to xor_codec 2 1 data t" by auto
  obtain a b where t: "t = [a, b, xor_bytes a b]" and ab: "length a = length b" and "a \<noteq> []"
    using e ne by (auto simp: xor_codec_encodes Let_def)
  obtain x y z where raw: "raw = [x, y, z]"
      and xyz: "x = [] \<or> x = a" "y = [] \<or> y = b" "z = [] \<or> z = xor_bytes a b"
    using p t by (auto simp: partial_shards_def list_all2_Cons2)
  have "2 \<le> length (filter (\<lambda>b. b \<noteq> []) [x, y, z])"
    using p raw by (simp add: partial_shards_def)
  then show "rs_Reconstruct xor_codec 2 1 raw = Inr t"
    using xyz xor_bytes_cancel [OF ab] \<open>a \<noteq> []\<close> ab
    by (auto simp: raw t xor_codec_def split: if_splits)
next
  fix data t
  assume "data \<noteq> [] \<and> encodes_to xor_codec 2 1 data t"
  then show "rs_Join xor_codec 2 1 t (int (length data)) = Inr data"
    by (auto simp: xor_codec_encodes Let_def) (simp add: xor_codec_def xor_join_def)
qed

section \<open>Splitting and reconstructing\<close>

lemma wrap_shards_data [simp]: "map sh_Data (wrap_shards i bs) = bs"
  by (induction i bs rule: wrap_shards.induct) simp_all

lemma wrap_shards_hash [simp]: "map sh_Hash (wrap_shards i bs) = map CalculateShardHash bs"
  by (induction i bs rule: wrap_shards.induct) simp_all

lemma length_wrap_shards [simp]: "length (wrap_shards i bs) = length bs"
  by (metis length_map wrap_shards_data)

lemma wrap_shards_nth:
  "j < length bs \<Longrightarrow> wrap_shards i bs ! j =
     \<lparr>sh_Index = i + int j + 1, sh_Data = bs ! j, sh_Hash = CalculateShardHash (bs ! j), sh_Size = int (length (bs ! j))\<rparr>"
proof (induction i bs arbitrary: j rule: wrap_shards.induct)
  case (1 i)
  then show ?case by simp
next
  case (2 i b bs)
  then show ?case by (cases j) simp_all
qed

lemma sm_ShardData_ok:
  assumes "sm_ShardData rs data n k = Inr shards"
  shows "data \<noteq> []" and "0 < k" and "k \<le> n"
    and "encodes_to rs k (n - k) data (map sh_Data shards)"
    and "shards = wrap_shards 0 (map sh_Data shards)"
  using assms
  by (auto simp: sm_ShardData_def encodes_to_def Let_def split: if_splits sum.splits)

lemma sm_ShardData_total:
  assumes "rs_codec rs k (n - k)" and "data \<noteq> []" and "0 < k" and "k \<le> n"
  shows "\<exists>shards. sm_ShardData rs data n k = Inr shards \<and> int (length shards) = n"
proof -
  obtain t where t: "encodes_to rs k (n - k) data t" "int (length t) = k + (n - k)"
    using rs_codecD(2) [OF assms(1,2)] by auto
  then show ?thesis
    using assms rs_codecD(1) [OF assms(1)]
    by (auto simp: sm_ShardData_def Let_def encodes_to_def)
qed

lemma raw_shards_eq:
  "raw_shards shards n = map (\<lambda>i. if i < length shards then sh_Data (shards ! i) else []) [0..<n]"
  by (auto simp: raw_shards_def)

text \<open>
  Shards in their places: an entry is either missing (empty) or the shard of its position;
  positions behind the end of the list count as missing.
\<close>

definition in_place :: "Shard list \<Rightarrow> Shard list \<Rightarrow> bool" where
  "in_place given shards \<longleftrightarrow> length given \<le> length shards \<and>
     (\<forall>i < length given. sh_Data (given ! i) = [] \<or> sh_Data (given ! i) = sh_Data (shards ! i))"

definition present_shards :: "Shard list \<Rightarrow> int" where
  "present_shards given = int (length (filter (\<lambda>s. sh_Data s \<noteq> []) given))"

lemma raw_shards_split:
  assumes "length given \<le> n"
  shows "raw_shards given n = map sh_Data given @ replicate (n - length given) []"
proof (rule nth_equalityI)
  show "length (raw_shards given n) = length (map sh_Data given @ replicate (n - length given) [])"
    using assms by (simp add: raw_shards_eq)
next
  fix i
  assume "i < length (raw_shards given n)"
  then have i: "i < n" by (simp add: raw_shards_eq)
  show "raw_shards given n ! i = (map sh_Data given @ replicate (n - length given) []) ! i"
    using i assms by (cases "i < length given") (simp_all add: raw_shards_eq nth_append)
qed

lemma raw_shards_present:
  "length given \<le> n \<Longrightarrow> int (length (filter (\<lambda>b. b \<noteq> []) (raw_shards given n))) = present_shards given"
  by (simp add: raw_shards_split present_shards_def filter_map comp_def)

lemma raw_shards_in_place:
  "in_place given shards \<Longrightarrow>
     list_all2 (\<lambda>r x. r = [] \<or> r = x) (raw_shards given (length shards)) (map sh_Data shards)"
  by (auto simp: in_place_def raw_shards_eq list_all2_conv_all_nth)

lemma ShardData_length:
  assumes codec: "rs_codec rs k (n - k)" and sh: "sm_ShardData rs data n k = Inr shards"
  shows "int (length shards) = n" and "\<forall>s \<in> set shards. sh_Data s \<noteq> []"
proof -
  note S = sm_ShardData_ok [OF sh]
  obtain t where t: "encodes_to rs k (n - k) data t" "int (length t) = k + (n - k)" "[] \<notin> set t"
    using rs_codecD(2) [OF codec S(1)] by blast
  have "t = map sh_Data shards" by (rule encodes_to_unique [OF S(4) t(1)])
  with t show "int (length shards) = n" and "\<forall>s \<in> set shards. sh_Data s \<noteq> []" by force+
qed

lemma reconstruct_in_place:
  assumes codec: "rs_codec rs k (n - k)" and sh: "sm_ShardData rs data n k = Inr shards"
    and g: "in_place given shards" "k \<le> present_shards given"
  shows "sm_ReconstructData rs given n k (int (length data)) = Ret (Inr data)"
proof -
  note S = sm_ShardData_ok [OF sh]
  have len: "int (length shards) = n" using ShardData_length [OF codec sh] by simp
  then have n: "nat n = length shards" by simp
  have le: "length given \<le> length shards" using g(1) by (simp add: in_place_def)
  have p: "partial_shards (raw_shards given (nat n)) (map sh_Data shards) k"
    using g(2) raw_shards_in_place [OF g(1)] raw_shards_present [OF le]
    by (simp add: partial_shards_def n)
  have "given \<noteq> []" using g(2) S(2) by (auto simp: present_shards_def)
  with p g(2) S len raw_shards_present [OF le]
    rs_codecD(1) [OF codec] rs_codecD(3) [OF codec S(1,4) p] rs_codecD(4) [OF codec S(1,4)]
  show ?thesis
    by (simp add: sm_ReconstructData_def Let_def go_make_def n)
qed

text \<open>
  C7: Any \<open>k\<close> of the \<open>n\<close> shards give back the data, when each is passed at its own position
  and a missing one as an empty entry.
\<close>

theorem ReconstructData_any_k:
  assumes "rs_codec rs k (n - k)" and "data \<noteq> []" and "0 < k" and "k \<le> n"
  shows "\<exists>shards. sm_ShardData rs data n k = Inr shards \<and> int (length shards) = n \<and>
    (\<forall>given. in_place given shards \<and> k \<le> present_shards given \<longrightarrow>
       sm_ReconstructData rs given n k (int (length data)) = Ret (Inr data))"
proof -
  obtain shards where "sm_ShardData rs data n k = Inr shards" "int (length shards) = n"
    using sm_ShardData_total [OF assms] by blast
  then show ?thesis using reconstruct_in_place [OF assms(1)] by blast
qed

theorem ReconstructData_any_k_witness:
  "\<exists>shards. sm_ShardData xor_codec [1, 2, 3] 3 2 = Inr shards \<and>
     sm_ReconstructData xor_codec [(shards ! 0)\<lparr>sh_Data := []\<rparr>, shards ! 1, shards ! 2] 3 2 3 = Ret (Inr [1, 2, 3])"
proof -
  have "rs_codec xor_codec 2 (3 - 2)" using xor_codec_ok by simp
  from ReconstructData_any_k [OF this, of "[1, 2, 3]"]
  obtain shards where s: "sm_ShardData xor_codec [1, 2, 3] 3 2 = Inr shards" "length shards = 3"
    and r: "\<And>given. in_place given shards \<and> 2 \<le> present_shards given \<Longrightarrow>
       sm_ReconstructData xor_codec given 3 2 3 = Ret (Inr [1, 2, 3])" by auto
  have ne: "\<forall>s \<in> set shards. sh_Data s \<noteq> []"
    using ShardData_length(2) [of xor_codec 2 3] s(1) xor_codec_ok by simp
  let ?g = "[(shards ! 0)\<lparr>sh_Data := []\<rparr>, shards ! 1, shards ! 2]"
  have "in_place ?g shards" using s(2) by (simp add: in_place_def less_Suc_eq numeral_3_eq_3 numeral_2_eq_2)
  moreover have "2 \<le> present_shards ?g" using ne s(2) by (simp add: present_shards_def)
  ultimately show ?thesis using r s(1) by blast
qed

text \<open>
  Positions, not indices. When the caller leaves a missing shard out of the list instead,
  as the loops of \<open>RetrieveFile\<close> and \<open>RetrieveFileDistributed\<close> do, the shards behind it move
  up and \<open>ReconstructData\<close> returns wrong bytes without an error, although every shard it got
  carries its true \<open>Index\<close> and there are enough of them.
\<close>

theorem left_out_shard_corrupts:
  "\<exists>s1 s2 s3. sm_ShardData xor_codec [1, 2] 3 2 = Inr [s1, s2, s3] \<and>
     map sh_Index [s2, s3] = [2, 3] \<and>
     sm_ReconstructData xor_codec [s1, s2] 3 2 2 = Ret (Inr [1, 2]) \<and>
     sm_ReconstructData xor_codec [s2, s3] 3 2 2 = Ret (Inr [2, 3])"
proof -
  let ?s = "\<lambda>i b. \<lparr>sh_Index = i, sh_Data = [b], sh_Hash = CalculateShardHash [b], sh_Size = 1\<rparr>"
  have "xor_split [1, 2] = Inr [[1], [2], []]" by code_simp
  then have "sm_ShardData xor_codec [1, 2] 3 2 = Inr [?s 1 1, ?s 2 2, ?s 3 3]"
    by (simp add: sm_ShardData_def Let_def xor_codec_def xor_bytes_def)
  moreover have "sm_ReconstructData xor_codec [?s 1 1, ?s 2 2] 3 2 2 = Ret (Inr [1, 2])"
    and "sm_ReconstructData xor_codec [?s 2 2, ?s 3 3] 3 2 2 = Ret (Inr [2, 3])"
    by (simp_all add: sm_ReconstructData_def Let_def xor_codec_def xor_join_def xor_bytes_def go_make_def
        raw_shards_def upt_rec numeral_eq_Suc)
  ultimately show ?thesis by fastforce
qed

end
