(* ===== verification/File_Manager.thy ===== *)
theory File_Manager
  imports Engine Sharding
begin

text \<open>
  The file manager (\<open>internal/storage/operations.go\<close>): files are hashed, split into shards,
  stored through the engine under \<open><hash>_shard_<i>\<close>, and listed in an index that is saved as
  a gob file in the engine's own directory. The manager owns its engine; its state goes with
  the disk. The two calls of \<open>time.Now\<close> of an operation are parameters.
\<close>

record FileManager =
  fm_engine :: Engine
  fm_shardManager :: ShardManager
  fm_fileIndex :: "(string, FileMetadata) gomap"
  fm_metadataFile :: string
  fm_storageDir :: string

type_synonym files = "FileManager \<times> disk"

datatype file_error =
    CreateDirectoryFailed io_error
  | CreateEngineFailed engine_error
  | EmptyFile
  | TooManyRequired
  | FileExists string
  | ShardFailed shard_error
  | StoreShardFailed nat engine_error
  | SaveFileMetadataFailed io_error
  | FileNotFound string
  | MetadataOnly string
  | TooFewShards int int
  | ReconstructFileFailed shard_error
  | IntegrityFailed string string
  | ShardIntegrityFailed int
  | EngineCleanupFailed engine_error

definition shard_id :: "string \<Rightarrow> nat \<Rightarrow> string" where
  "shard_id fileHash i = fileHash @ ''_shard_'' @ dec (int i)"

definition fm_store :: "files \<Rightarrow> store" where
  "fm_store s = (fm_engine (fst s), snd s)"

definition CalculateFileHash :: "bytes \<Rightarrow> string" where
  "CalculateFileHash data = sha256_hex data"

section \<open>Start\<close>

text \<open>
  \<open>loadMetadata\<close> decodes the saved index into the (empty) map of a new manager; any failure
  is logged by the constructors and leaves the map as it is.
\<close>

definition fm_loadMetadata :: "FileManager \<Rightarrow> disk \<Rightarrow> FileManager" where
  "fm_loadMetadata fm d =
     (case read_gob (fm_metadataFile fm) d of
        Inr (GobFiles m) \<Rightarrow> fm\<lparr>fm_fileIndex := m\<rparr>
      | _ \<Rightarrow> fm)"

definition fm_saveMetadata :: "FileManager \<Rightarrow> disk \<Rightarrow> (io_error + unit) \<times> disk" where
  "fm_saveMetadata fm d = write_gob (fm_metadataFile fm) (GobFiles (fm_fileIndex fm)) d"

definition NewFileManagerWithEngine :: "Engine \<Rightarrow> ShardManager \<Rightarrow> string \<Rightarrow> disk \<Rightarrow> FileManager" where
  "NewFileManagerWithEngine engine shardManager storageDir d =
     fm_loadMetadata
       \<lparr>fm_engine = engine, fm_shardManager = shardManager, fm_fileIndex = [],
        fm_metadataFile = filepath_Join [storageDir, ''file_metadata.gob''],
        fm_storageDir = storageDir\<rparr> d"

definition NewFileManager :: "string \<Rightarrow> disk \<Rightarrow> file_error + FileManager" where
  "NewFileManager storageDir d =
     (case os_MkdirAll storageDir d of
        Inl err \<Rightarrow> Inl (CreateDirectoryFailed err)
      | Inr _ \<Rightarrow>
          (case NewEngine storageDir d of
             Inl err \<Rightarrow> Inl (CreateEngineFailed err)
           | Inr engine \<Rightarrow>
               Inr (fm_loadMetadata
                      \<lparr>fm_engine = engine, fm_shardManager = NewShardManager, fm_fileIndex = [],
                       fm_metadataFile = filepath_Join [storageDir, ''file_metadata.gob''],
                       fm_storageDir = storageDir\<rparr> d)))"

section \<open>Storing\<close>

definition new_metadata ::
  "string \<Rightarrow> string \<Rightarrow> bytes \<Rightarrow> int \<Rightarrow> int \<Rightarrow> peer_id list \<Rightarrow> go_time \<Rightarrow> go_time \<Rightarrow> FileMetadata" where
  "new_metadata fileHash fileName data totalShards requiredShards storagePeers created updated =
     \<lparr>md_FileHash = fileHash, md_FileName = fileName, md_FileSize = int (length data),
      md_TotalShards = totalShards, md_RequiredShards = requiredShards, md_ShardHashes = [],
      md_StoredPeers = storagePeers, md_CreatedAt = created, md_UpdatedAt = updated,
      md_MimeType = '''', md_OriginalSize = int (length data)\<rparr>"

definition delete_shards :: "string \<Rightarrow> int \<Rightarrow> store \<Rightarrow> store" where
  "delete_shards fileHash n s =
     fold (\<lambda>i s. snd (e_DeleteChunk (shard_id fileHash (i + 1)) s)) [0..<nat n] s"

fun number_shards :: "string \<Rightarrow> nat \<Rightarrow> Shard list \<Rightarrow> (string \<times> bytes) list" where
  "number_shards fileHash i [] = []"
| "number_shards fileHash i (shard # shards) =
     (shard_id fileHash (i + 1), sh_Data shard) # number_shards fileHash (i + 1) shards"

definition fm_StoreFile ::
  "reed_solomon \<Rightarrow> string \<Rightarrow> bytes \<Rightarrow> int \<Rightarrow> int \<Rightarrow> peer_id list \<Rightarrow> go_time \<Rightarrow> go_time \<Rightarrow> files \<Rightarrow>
   (file_error + string) \<times> files" where
  "fm_StoreFile rs fileName data totalShards requiredShards storagePeers created updated s =
     (let (fm, d) = s in
      if length data = 0 then (Inl EmptyFile, s)
      else if totalShards < requiredShards then (Inl TooManyRequired, s)
      else
        let fileHash = CalculateFileHash data in
        if gm_get (fm_fileIndex fm) fileHash \<noteq> None then (Inl (FileExists fileHash), s)
        else
          let metadata = new_metadata fileHash fileName data totalShards requiredShards storagePeers created updated in
          case sm_ShardData rs data totalShards requiredShards of
            Inl err \<Rightarrow> (Inl (ShardFailed err), s)
          | Inr shards \<Rightarrow>
              (case put_or_undo e_StoreChunk e_DeleteChunk [] (number_shards fileHash 0 shards) (fm_engine fm, d) of
                 (Inl (i, err), (e1, d1)) \<Rightarrow> (Inl (StoreShardFailed (i + 1) err), (fm\<lparr>fm_engine := e1\<rparr>, d1))
               | (Inr _, (e1, d1)) \<Rightarrow>
                   let fm1 = fm\<lparr>fm_engine := e1,
                                fm_fileIndex := gm_put fileHash (metadata\<lparr>md_ShardHashes := map sh_Hash shards\<rparr>) (fm_fileIndex fm)\<rparr>
                   in (case fm_saveMetadata fm1 d1 of
                         (Inl err, d2) \<Rightarrow>
                           let (e3, d3) = delete_shards fileHash totalShards (e1, d2)
                           in (Inl (SaveFileMetadataFailed err),
                               (fm1\<lparr>fm_engine := e3, fm_fileIndex := gm_del fileHash (fm_fileIndex fm1)\<rparr>, d3))
                       | (Inr _, d2) \<Rightarrow> (Inr fileHash, (fm1, d2)))))"

definition fm_StoreFileMetadata ::
  "string \<Rightarrow> bytes \<Rightarrow> int \<Rightarrow> int \<Rightarrow> peer_id list \<Rightarrow> go_time \<Rightarrow> go_time \<Rightarrow> files \<Rightarrow>
   (file_error + string) \<times> files" where
  "fm_StoreFileMetadata fileName data totalShards requiredShards storagePeers created updated s =
     (let (fm, d) = s in
      if length data = 0 then (Inl EmptyFile, s)
      else if totalShards < requiredShards then (Inl TooManyRequired, s)
      else
        let fileHash = CalculateFileHash data in
        if gm_get (fm_fileIndex fm) fileHash \<noteq> None then (Inl (FileExists fileHash), s)
        else
          let metadata = new_metadata fileHash fileName data totalShards requiredShards storagePeers created updated;
              fm1 = fm\<lparr>fm_fileIndex := gm_put fileHash metadata (fm_fileIndex fm)\<rparr>
          in case fm_saveMetadata fm1 d of
               (Inl err, d1) \<Rightarrow>
                 (Inl (SaveFileMetadataFailed err),
                  (fm1\<lparr>fm_fileIndex := gm_del fileHash (fm_fileIndex fm1)\<rparr>, d1))
             | (Inr _, d1) \<Rightarrow> (Inr fileHash, (fm1, d1)))"

definition fm_UpdateFileMetadata :: "FileMetadata \<Rightarrow> files \<Rightarrow> (io_error + unit) \<times> files" where
  "fm_UpdateFileMetadata metadata s =
     (let (fm, d) = s;
          fm1 = fm\<lparr>fm_fileIndex := gm_put (md_FileHash metadata) metadata (fm_fileIndex fm)\<rparr>;
          (r, d1) = fm_saveMetadata fm1 d
      in (r, (fm1, d1)))"

section \<open>Reading\<close>

text \<open>
  The loop of \<open>RetrieveFile\<close> over the shard numbers. A shard the engine cannot read is left
  out; a shard that is there but has no entry in \<open>ShardHashes\<close> makes the index expression
  panic.
\<close>

fun fetch_shards :: "string \<Rightarrow> FileMetadata \<Rightarrow> store \<Rightarrow> nat list \<Rightarrow> Shard list \<Rightarrow> Shard list go" where
  "fetch_shards fileHash metadata s [] shards = Ret shards"
| "fetch_shards fileHash metadata s (i # is) shards =
     (case e_RetrieveChunk (shard_id fileHash (i + 1)) s of
        Inl err \<Rightarrow> fetch_shards fileHash metadata s is shards
      | Inr shardData \<Rightarrow>
          go_bind (go_index (md_ShardHashes metadata) (int i)) (\<lambda>h.
            fetch_shards fileHash metadata s is
              (shards @ [\<lparr>sh_Index = int i + 1, sh_Data = shardData, sh_Hash = h,
                          sh_Size = int (length shardData)\<rparr>])))"

definition fm_RetrieveFile :: "reed_solomon \<Rightarrow> string \<Rightarrow> files \<Rightarrow> (file_error + bytes) go" where
  "fm_RetrieveFile rs fileHash s =
     (let (fm, d) = s in
      case gm_get (fm_fileIndex fm) fileHash of
        None \<Rightarrow> Ret (Inl (FileNotFound fileHash))
      | Some metadata \<Rightarrow>
          if length (md_ShardHashes metadata) = 0 then Ret (Inl (MetadataOnly fileHash))
          else
            go_bind (if md_TotalShards metadata < 0 then Panic MakeSliceOutOfRange else Ret ([] :: Shard list)) (\<lambda>shards0.
            go_bind (fetch_shards fileHash metadata (fm_engine fm, d) [0..<nat (md_TotalShards metadata)] shards0) (\<lambda>shards.
            if int (length shards) < md_RequiredShards metadata then
              Ret (Inl (TooFewShards (int (length shards)) (md_RequiredShards metadata)))
            else
              go_bind (sm_ReconstructData rs shards (md_TotalShards metadata) (md_RequiredShards metadata)
                         (md_OriginalSize metadata)) (\<lambda>r.
              case r of
                Inl err \<Rightarrow> Ret (Inl (ReconstructFileFailed err))
              | Inr data \<Rightarrow>
                  let reconstructedHash = CalculateFileHash data in
                  if reconstructedHash \<noteq> fileHash then Ret (Inl (IntegrityFailed fileHash reconstructedHash))
                  else Ret (Inr data)))))"

definition fm_GetFileInfo :: "string \<Rightarrow> FileManager \<Rightarrow> file_error + FileMetadata" where
  "fm_GetFileInfo fileHash fm =
     (case gm_get (fm_fileIndex fm) fileHash of
        None \<Rightarrow> Inl (FileNotFound fileHash)
      | Some metadata \<Rightarrow> Inr metadata)"

definition fm_GetFileMetadataInternal :: "string \<Rightarrow> FileManager \<Rightarrow> FileMetadata option" where
  "fm_GetFileMetadataInternal fileHash fm = gm_get (fm_fileIndex fm) fileHash"

definition fm_GetFileMetadata :: "string \<Rightarrow> FileManager \<Rightarrow> FileMetadata option" where
  "fm_GetFileMetadata fileHash fm =
     (case gm_get (fm_fileIndex fm) fileHash of
        None \<Rightarrow> None
      | Some metadata \<Rightarrow> Some metadata)"

definition fm_ListFiles :: "FileManager \<Rightarrow> FileMetadata list" where
  "fm_ListFiles fm = map snd (fm_fileIndex fm)"

record FileStats =
  fs_total_files :: int
  fs_total_file_size :: int
  fs_average_file_size :: float64
  fs_engine :: EngineStats

definition fm_GetFileStats :: "files \<Rightarrow> FileStats" where
  "fm_GetFileStats s =
     (let (fm, d) = s;
          totalSize = fold (\<lambda>(h, metadata) total. wrap64 (total + md_FileSize metadata)) (fm_fileIndex fm) 0
      in \<lparr>fs_total_files = int (length (fm_fileIndex fm)),
          fs_total_file_size = totalSize,
          fs_average_file_size =
            (if 0 < length (fm_fileIndex fm)
             then f_div (f_of_int totalSize) (f_of_int (int (length (fm_fileIndex fm)))) else Fin 0),
          fs_engine = e_GetStats (fm_engine fm) d\<rparr>)"

text \<open>The loop of \<open>VerifyFileIntegrity\<close>: it stops at the first bad shard and counts the missing ones.\<close>

fun verify_shards :: "string \<Rightarrow> FileMetadata \<Rightarrow> store \<Rightarrow> nat list \<Rightarrow> nat \<Rightarrow> (file_error + nat) go" where
  "verify_shards fileHash metadata s [] missing = Ret (Inr missing)"
| "verify_shards fileHash metadata s (i # is) missing =
     (case e_RetrieveChunk (shard_id fileHash (i + 1)) s of
        Inl err \<Rightarrow> verify_shards fileHash metadata s is (missing + 1)
      | Inr shardData \<Rightarrow>
          go_bind (go_index (md_ShardHashes metadata) (int i)) (\<lambda>h.
            if CalculateShardHash shardData \<noteq> h then Ret (Inl (ShardIntegrityFailed (int i + 1)))
            else verify_shards fileHash metadata s is missing))"

definition fm_VerifyFileIntegrity :: "string \<Rightarrow> files \<Rightarrow> (file_error + bool) go" where
  "fm_VerifyFileIntegrity fileHash s =
     (let (fm, d) = s in
      case fm_GetFileInfo fileHash fm of
        Inl err \<Rightarrow> Ret (Inl err)
      | Inr metadata \<Rightarrow>
          go_bind (verify_shards fileHash metadata (fm_engine fm, d) [0..<nat (md_TotalShards metadata)] 0) (\<lambda>r.
          case r of
            Inl err \<Rightarrow> Ret (Inl err)
          | Inr missing \<Rightarrow> if missing > 0 then Ret (Inr False) else Ret (Inr True)))"

section \<open>Deleting\<close>

definition fm_DeleteFile :: "string \<Rightarrow> files \<Rightarrow> (file_error + unit) \<times> files" where
  "fm_DeleteFile fileHash s =
     (let (fm, d) = s in
      case gm_get (fm_fileIndex fm) fileHash of
        None \<Rightarrow> (Inl (FileNotFound fileHash), s)
      | Some metadata \<Rightarrow>
          let (e1, d1) = delete_shards fileHash (md_TotalShards metadata) (fm_engine fm, d);
              fm1 = fm\<lparr>fm_engine := e1, fm_fileIndex := gm_del fileHash (fm_fileIndex fm)\<rparr>
          in (case fm_saveMetadata fm1 d1 of
                (Inl err, d2) \<Rightarrow> (Inl (SaveFileMetadataFailed err), (fm1, d2))
              | (Inr _, d2) \<Rightarrow> (Inr (), (fm1, d2))))"

text \<open>
  \<open>Cleanup\<close> cleans the engine's directory and then counts the files with missing shards; the
  count goes only to the log, here it is the value of the result.
\<close>

definition allShardsExist :: "string \<Rightarrow> FileMetadata \<Rightarrow> store \<Rightarrow> bool" where
  "allShardsExist fileHash metadata s =
     list_all (\<lambda>i. case e_RetrieveChunk (shard_id fileHash (i + 1)) s of Inl _ \<Rightarrow> False | Inr _ \<Rightarrow> True)
       [0..<nat (md_TotalShards metadata)]"

definition fm_Cleanup :: "files \<Rightarrow> (file_error + int) \<times> files" where
  "fm_Cleanup s =
     (let (fm, d) = s in
      case e_Cleanup (fm_engine fm, d) of
        (Inl err, (e1, d1)) \<Rightarrow> (Inl (EngineCleanupFailed err), (fm\<lparr>fm_engine := e1\<rparr>, d1))
      | (Inr _, (e1, d1)) \<Rightarrow>
          let corruptedFiles = int (length (filter
                (\<lambda>(fileHash, metadata). \<not> allShardsExist fileHash metadata (e1, d1)) (fm_fileIndex fm)))
          in (Inr corruptedFiles, (fm\<lparr>fm_engine := e1\<rparr>, d1)))"

definition fm_GetStorageDirectory :: "FileManager \<Rightarrow> string" where
  "fm_GetStorageDirectory fm = fm_storageDir fm"

definition fm_GetShardManager :: "FileManager \<Rightarrow> ShardManager" where
  "fm_GetShardManager fm = fm_shardManager fm"

end
