(* ===== verification/Network_View.thy ===== *)
theory Network_View
  imports Reputation File_Manager
begin

text \<open>
  The operations of \<open>DecentralizedNode\<close> on its network view
  (\<open>internal/network/decentralized_node.go\<close>): the index of which peer stores which file, peers
  that connect and disconnect, the periodic removal of stale peers, and the statistics.
\<close>

definition dn_GetPeerInfo :: "peer_id \<Rightarrow> NetworkView \<Rightarrow> PeerInfo option" where
  "dn_GetPeerInfo peerID nv = gm_get (nv_peers nv) peerID"

definition dn_UpdateFileIndex :: "string \<Rightarrow> peer_id \<Rightarrow> NetworkView \<Rightarrow> NetworkView" where
  "dn_UpdateFileIndex fileHash peerID nv =
     (let index = (if gm_get (nv_fileIndex nv) fileHash = None
                   then gm_put fileHash [] (nv_fileIndex nv) else nv_fileIndex nv);
          peers = gm_get_or [] index fileHash
      in if list_ex (\<lambda>existingPeer. existingPeer = peerID) peers then nv\<lparr>nv_fileIndex := index\<rparr>
         else nv\<lparr>nv_fileIndex := gm_put fileHash (peers @ [peerID]) index\<rparr>)"

definition drop_peer :: "peer_id \<Rightarrow> peer_id list \<Rightarrow> peer_id list" where
  "drop_peer peerID peers = filter (\<lambda>p. p \<noteq> peerID) peers"

definition dn_RemoveFileFromIndex :: "string \<Rightarrow> peer_id \<Rightarrow> NetworkView \<Rightarrow> NetworkView" where
  "dn_RemoveFileFromIndex fileHash peerID nv =
     (case gm_get (nv_fileIndex nv) fileHash of
        None \<Rightarrow> nv
      | Some peers \<Rightarrow>
          let updatedPeers = drop_peer peerID peers
          in if length updatedPeers = 0 then nv\<lparr>nv_fileIndex := gm_del fileHash (nv_fileIndex nv)\<rparr>
             else nv\<lparr>nv_fileIndex := gm_put fileHash updatedPeers (nv_fileIndex nv)\<rparr>)"

text \<open>The peer info of a peer the node knows nothing about yet.\<close>

definition new_peer :: "go_time \<Rightarrow> FarmerInfo option \<Rightarrow> PeerInfo" where
  "new_peer now info = \<lparr>pi_Info = info, pi_LastSeen = now, pi_Reliability = Fin 1, pi_Distance = 1\<rparr>"

definition dn_onPeerConnected :: "go_time \<Rightarrow> peer_id \<Rightarrow> NetworkView \<Rightarrow> NetworkView" where
  "dn_onPeerConnected now peerID nv =
     (let nv1 = (if gm_get (nv_peers nv) peerID = None
                 then nv\<lparr>nv_peers := gm_put peerID (new_peer now None) (nv_peers nv)\<rparr> else nv)
      in rs_UpdatePeer peerID (f64 (2 / 100)) nv1)"

definition dn_onPeerDisconnected :: "peer_id \<Rightarrow> NetworkView \<Rightarrow> NetworkView" where
  "dn_onPeerDisconnected peerID nv = rs_UpdatePeer peerID (f64 (- 1 / 100)) nv"

definition dn_removePeer :: "peer_id \<Rightarrow> NetworkView \<Rightarrow> NetworkView" where
  "dn_removePeer peerID nv =
     nv\<lparr>nv_peers := gm_del peerID (nv_peers nv),
        nv_reputation := gm_del peerID (nv_reputation nv),
        nv_fileIndex := map (\<lambda>(fileHash, peers). (fileHash, drop_peer peerID peers)) (nv_fileIndex nv)\<rparr>"

definition dn_cleanupPeer :: "go_time \<Rightarrow> peer_id \<times> PeerInfo \<Rightarrow> NetworkView \<Rightarrow> NetworkView" where
  "dn_cleanupPeer staleThreshold p nv =
     (let (peerID, peerInfo) = p
      in if pi_LastSeen peerInfo < staleThreshold then dn_removePeer peerID nv else nv)"

definition dn_cleanupStalePeers :: "go_time \<Rightarrow> NetworkView \<Rightarrow> NetworkView" where
  "dn_cleanupStalePeers now nv = fold (dn_cleanupPeer (now - 10 * minute)) (nv_peers nv) nv"

definition dn_updateNetworkMetrics :: "go_time \<Rightarrow> NetworkView \<Rightarrow> NetworkView" where
  "dn_updateNetworkMetrics now nv = nv\<lparr>nv_lastUpdated := now\<rparr>"

text \<open>\<open>rebalanceStorage\<close> only logs: these are the files it reports.\<close>

definition dn_rebalanceStorage :: "NetworkView \<Rightarrow> string list" where
  "dn_rebalanceStorage nv = map fst (filter (\<lambda>(fileHash, peers). length peers < 3) (nv_fileIndex nv))"

definition dn_maintainNetworkState :: "go_time \<Rightarrow> go_time \<Rightarrow> NetworkView \<Rightarrow> NetworkView" where
  "dn_maintainNetworkState now1 now2 nv = dn_updateNetworkMetrics now2 (dn_cleanupStalePeers now1 nv)"

definition nv_GetPeers :: "NetworkView \<Rightarrow> (peer_id, PeerInfo) gomap" where
  "nv_GetPeers nv = fold (\<lambda>(k, v) peersCopy. gm_put k v peersCopy) (nv_peers nv) []"

record NetworkStats =
  ns_total_peers :: int
  ns_known_files :: int
  ns_last_updated :: go_time
  ns_node_id :: string
  ns_dht_peers :: "int option"
  ns_avg_reputation :: float64

definition dn_GetNetworkStats :: "string \<Rightarrow> int option \<Rightarrow> NetworkView \<Rightarrow> NetworkStats" where
  "dn_GetNetworkStats node_id routingTable nv =
     (let totalRep = fold (\<lambda>(peerID, rep) totalRep. f_add totalRep rep) (nv_reputation nv) (Fin 0)
      in \<lparr>ns_total_peers = int (length (nv_peers nv)), ns_known_files = int (length (nv_fileIndex nv)),
          ns_last_updated = nv_lastUpdated nv, ns_node_id = node_id, ns_dht_peers = routingTable,
          ns_avg_reputation = (if 0 < length (nv_reputation nv)
             then f_div totalRep (f_of_int (int (length (nv_reputation nv)))) else Fin 0)\<rparr>)"

text \<open>
  The last part of \<open>NewDecentralizedNode\<close>: the files of the local file manager are entered
  with the node itself as the storing peer.
\<close>

definition populate_file :: "peer_id \<Rightarrow> FileMetadata \<Rightarrow> NetworkView \<Rightarrow> NetworkView" where
  "populate_file self meta nv =
     (let index = (if gm_get (nv_fileIndex nv) (md_FileHash meta) = None
                   then gm_put (md_FileHash meta) [] (nv_fileIndex nv) else nv_fileIndex nv)
      in nv\<lparr>nv_fileIndex := gm_put (md_FileHash meta) (gm_get_or [] index (md_FileHash meta) @ [self]) index\<rparr>)"

definition initial_view :: "peer_id \<Rightarrow> FileManager \<Rightarrow> NetworkView" where
  "initial_view self fm = fold (populate_file self) (fm_ListFiles fm) NewNetworkView"

text \<open>The rest of the \<open>FileStore\<close> interface the protocol handlers use.\<close>

definition dn_GetFileMetadata :: "string \<Rightarrow> FileManager \<Rightarrow> file_error + FileMetadata" where
  "dn_GetFileMetadata fileHash fm = fm_GetFileInfo fileHash fm"

definition dn_GetShard :: "string \<Rightarrow> int \<Rightarrow> store \<Rightarrow> engine_error + bytes" where
  "dn_GetShard fileHash shardIndex s = e_RetrieveChunk (fileHash @ ''_shard_'' @ dec shardIndex) s"

definition dn_GetFileStats :: "files \<Rightarrow> FileStats" where
  "dn_GetFileStats s = fm_GetFileStats s"

section \<open>Well-formed views\<close>

definition index_wf :: "NetworkView \<Rightarrow> bool" where
  "index_wf nv \<longleftrightarrow> gm_wf (nv_fileIndex nv) \<and> gm_all distinct (nv_fileIndex nv)"

definition nv_inv :: "NetworkView \<Rightarrow> bool" where
  "nv_inv nv \<longleftrightarrow> nv_scored nv \<and> index_wf nv"

text \<open>The peers the view lists for a file.\<close>

definition storing_peers :: "NetworkView \<Rightarrow> string \<Rightarrow> peer_id set" where
  "storing_peers nv h = set (gm_get_or [] (nv_fileIndex nv) h)"

lemma nv_scored_index [simp]: "nv_scored (nv\<lparr>nv_fileIndex := i\<rparr>) = nv_scored nv"
  by (simp add: nv_scored_def)

lemma nv_scored_updated [simp]: "nv_scored (nv\<lparr>nv_lastUpdated := t\<rparr>) = nv_scored nv"
  by (simp add: nv_scored_def)

lemma index_wf_UpdatePeer [simp]: "index_wf (rs_UpdatePeer p c nv) = index_wf nv"
  by (simp add: index_wf_def)

lemma index_wf_peers [simp]: "index_wf (nv\<lparr>nv_peers := m\<rparr>) = index_wf nv"
  by (simp add: index_wf_def)

lemma index_wf_updated [simp]: "index_wf (nv\<lparr>nv_lastUpdated := t\<rparr>) = index_wf nv"
  by (simp add: index_wf_def)

lemma index_wf_put:
  "index_wf nv \<Longrightarrow> distinct ps \<Longrightarrow> index_wf (nv\<lparr>nv_fileIndex := gm_put h ps (nv_fileIndex nv)\<rparr>)"
  by (simp add: index_wf_def)

lemma index_wf_del: "index_wf nv \<Longrightarrow> index_wf (nv\<lparr>nv_fileIndex := gm_del h (nv_fileIndex nv)\<rparr>)"
  by (simp add: index_wf_def)

lemma index_wf_distinct: "index_wf nv \<Longrightarrow> distinct (gm_get_or [] (nv_fileIndex nv) h)"
  by (auto simp: index_wf_def intro: gm_all_get_or)

lemma UpdateFileIndex_eq:
  "gm_get (nv_fileIndex (dn_UpdateFileIndex h p nv)) g =
     (if g = h then Some (append_new p (gm_get_or [] (nv_fileIndex nv) h)) else gm_get (nv_fileIndex nv) g)"
  by (auto simp: dn_UpdateFileIndex_def Let_def gm_get_or_def append_new_def list_ex_iff split: option.splits)

lemma UpdateFileIndex_inv: "nv_inv nv \<Longrightarrow> nv_inv (dn_UpdateFileIndex h p nv)"
proof -
  assume i: "nv_inv nv"
  then have "gm_wf (nv_fileIndex (dn_UpdateFileIndex h p nv))" and "nv_scored (dn_UpdateFileIndex h p nv)"
    by (simp_all add: nv_inv_def index_wf_def dn_UpdateFileIndex_def Let_def)
  moreover have "distinct (gm_get_or [] (nv_fileIndex nv) h)"
    using i by (simp add: nv_inv_def index_wf_distinct)
  then have "gm_all distinct (nv_fileIndex (dn_UpdateFileIndex h p nv))"
    using i by (intro gm_allI) (auto simp: UpdateFileIndex_eq nv_inv_def index_wf_def dest: gm_allD split: if_splits)
  ultimately show ?thesis by (simp add: nv_inv_def index_wf_def)
qed

lemma RemoveFileFromIndex_eq:
  "gm_get (nv_fileIndex (dn_RemoveFileFromIndex h p nv)) g =
     (if g = h then (case gm_get (nv_fileIndex nv) h of
        None \<Rightarrow> None | Some ps \<Rightarrow> if drop_peer p ps = [] then None else Some (drop_peer p ps))
      else gm_get (nv_fileIndex nv) g)"
  by (auto simp: dn_RemoveFileFromIndex_def Let_def split: option.splits)

lemma RemoveFileFromIndex_inv: "nv_inv nv \<Longrightarrow> nv_inv (dn_RemoveFileFromIndex h p nv)"
  by (auto simp: nv_inv_def dn_RemoveFileFromIndex_def Let_def drop_peer_def index_wf_def
      intro!: gm_all_put distinct_filter dest: gm_allD split: option.splits)

lemma nv_inv_put_peer:
  "nv_inv nv \<Longrightarrow> in_unit (pi_Reliability i) \<Longrightarrow> nv_inv (nv\<lparr>nv_peers := gm_put p i (nv_peers nv)\<rparr>)"
  by (simp add: nv_inv_def nv_scored_def)

lemma nv_inv_UpdatePeer: "nv_inv nv \<Longrightarrow> is_fin c \<Longrightarrow> nv_inv (rs_UpdatePeer p c nv)"
  by (simp add: nv_inv_def UpdatePeer_scored)

lemma nv_inv_reliability: "nv_inv nv \<Longrightarrow> gm_get (nv_peers nv) p = Some i \<Longrightarrow> in_unit (pi_Reliability i)"
  by (auto simp: nv_inv_def nv_scored_def dest: gm_allD)

lemmas nv_invs = nv_inv_put_peer nv_inv_UpdatePeer nv_inv_reliability f64_fin

lemma onPeerConnected_inv: "nv_inv nv \<Longrightarrow> nv_inv (dn_onPeerConnected now p nv)"
  by (simp add: dn_onPeerConnected_def Let_def nv_invs new_peer_def)

lemma onPeerDisconnected_inv: "nv_inv nv \<Longrightarrow> nv_inv (dn_onPeerDisconnected p nv)"
  by (simp add: nv_inv_def dn_onPeerDisconnected_def UpdatePeer_scored f64_fin)

lemma removePeer_inv: "nv_inv nv \<Longrightarrow> nv_inv (dn_removePeer p nv)"
  by (simp add: nv_inv_def nv_scored_def index_wf_def dn_removePeer_def)
    (auto simp: drop_peer_def intro: gm_all_map)

section \<open>Removing stale peers\<close>

definition stale :: "go_time \<Rightarrow> PeerInfo \<Rightarrow> bool" where
  "stale threshold info \<longleftrightarrow> pi_LastSeen info < threshold"

lemma cleanup_fold:
  "fold (dn_cleanupPeer t) ps nv =
     fold dn_removePeer (map fst (filter (\<lambda>(p, i). stale t i) ps)) nv"
  by (induction ps arbitrary: nv) (auto simp: dn_cleanupPeer_def stale_def)

lemma removePeers_eq:
  "gm_get (nv_peers (fold dn_removePeer qs nv)) p = (if p \<in> set qs then None else gm_get (nv_peers nv) p)"
  "gm_get (nv_reputation (fold dn_removePeer qs nv)) p = (if p \<in> set qs then None else gm_get (nv_reputation nv) p)"
  "gm_get (nv_fileIndex (fold dn_removePeer qs nv)) h =
     map_option (filter (\<lambda>p. p \<notin> set qs)) (gm_get (nv_fileIndex nv) h)"
proof (induction qs arbitrary: nv)
  case Nil
  { case 1 show ?case by simp }
  { case 2 show ?case by simp }
  { case 3 show ?case by (cases "gm_get (nv_fileIndex nv) h") simp_all }
next
  case (Cons q qs)
  { case 1 show ?case using Cons.IH(1) [of "dn_removePeer q nv"] by (simp add: dn_removePeer_def [of q nv]) }
  { case 2 show ?case using Cons.IH(2) [of "dn_removePeer q nv"] by (simp add: dn_removePeer_def [of q nv]) }
  { case 3 show ?case using Cons.IH(3) [of "dn_removePeer q nv"]
      by (cases "gm_get (nv_fileIndex nv) h")
        (auto simp: dn_removePeer_def [of q nv] gm_get_map drop_peer_def intro!: filter_cong) }
qed

lemma removePeers_inv: "nv_inv nv \<Longrightarrow> nv_inv (fold dn_removePeer qs nv)"
  by (induction qs arbitrary: nv) (simp_all add: removePeer_inv)

lemma cleanupStalePeers_inv: "nv_inv nv \<Longrightarrow> nv_inv (dn_cleanupStalePeers now nv)"
  by (simp add: dn_cleanupStalePeers_def cleanup_fold removePeers_inv)

lemma stale_set:
  "gm_wf (nv_peers nv) \<Longrightarrow> p \<in> set (map fst (filter (\<lambda>(p, i). stale t i) (nv_peers nv))) \<longleftrightarrow>
     (\<exists>i. gm_get (nv_peers nv) p = Some i \<and> stale t i)"
  by (force simp: gm_wf_get)

text \<open>A known peer that was last seen more than ten minutes ago.\<close>

definition stale_peer :: "go_time \<Rightarrow> NetworkView \<Rightarrow> peer_id \<Rightarrow> bool" where
  "stale_peer now nv p \<longleftrightarrow> (\<exists>i. gm_get (nv_peers nv) p = Some i \<and> stale (now - 10 * minute) i)"

text \<open>
  Stale peers. \<open>cleanupStalePeers\<close> removes exactly the known peers not seen for ten
  minutes, from the peers, from the scores and from every file's list, and touches no other
  peer; a file whose last storing peer is removed keeps an entry with an empty list.
\<close>

theorem cleanupStalePeers_exact:
  assumes "nv_inv nv"
  shows "gm_get (nv_peers (dn_cleanupStalePeers now nv)) p = (if stale_peer now nv p then None else gm_get (nv_peers nv) p) \<and>
    gm_get (nv_reputation (dn_cleanupStalePeers now nv)) p = (if stale_peer now nv p then None else gm_get (nv_reputation nv) p) \<and>
    gm_get (nv_fileIndex (dn_cleanupStalePeers now nv)) h =
      map_option (filter (\<lambda>p. \<not> stale_peer now nv p)) (gm_get (nv_fileIndex nv) h)"
proof -
  have wf: "gm_wf (nv_peers nv)" using assms(1) by (simp add: nv_inv_def nv_scored_def)
  have "p \<in> set (map fst (filter (\<lambda>(p, i). stale (now - 10 * minute) i) (nv_peers nv))) \<longleftrightarrow> stale_peer now nv p" for p
    unfolding stale_peer_def by (rule stale_set [OF wf])
  then show ?thesis
    unfolding dn_cleanupStalePeers_def cleanup_fold removePeers_eq by simp
qed

theorem cleanupStalePeers_exact_witness:
  "gm_get (nv_fileIndex (dn_cleanupStalePeers (11 * minute)
     (dn_UpdateFileIndex ''f'' ''p'' (dn_onPeerConnected 0 ''p'' NewNetworkView)))) ''f'' = Some []"
proof -
  let ?nv = "dn_UpdateFileIndex ''f'' ''p'' (dn_onPeerConnected 0 ''p'' NewNetworkView)"
  have "nv_inv NewNetworkView"
    by (simp add: nv_inv_def nv_scored_def index_wf_def NewNetworkView_def)
  then have i: "nv_inv ?nv" by (intro UpdateFileIndex_inv onPeerConnected_inv)
  have "gm_get (nv_fileIndex ?nv) ''f'' = Some [''p'']"
    by (simp add: UpdateFileIndex_eq gm_get_or_def dn_onPeerConnected_def NewNetworkView_def append_new_def Let_def)
  moreover have "stale_peer (11 * minute) ?nv ''p''"
    by (simp add: stale_peer_def dn_UpdateFileIndex_def dn_onPeerConnected_def NewNetworkView_def Let_def new_peer_def
        stale_def durations)
  ultimately show ?thesis using cleanupStalePeers_exact [OF i, of "11 * minute" "''p''" "''f''"] by auto
qed

end
