(* ===== verification/Peer_Discovery.thy ===== *)
theory Peer_Discovery
  imports Network_View
begin

text \<open>
  Peer discovery (\<open>internal/network/peer-discovery.go\<close>). What libp2p answers about one peer
  during one attempt (whether it is connected, the addresses the DHT and the peer store know,
  whether dialling succeeds) is a record; a discovery pass is the list of its attempts. The
  state is the retry map with the network view.
\<close>

record PeerDiscovery =
  pd_retryCount :: "(peer_id, int) gomap"
  pd_maxRetries :: int

definition NewPeerDiscovery :: PeerDiscovery where
  "NewPeerDiscovery = \<lparr>pd_retryCount = [], pd_maxRetries = 3\<rparr>"

record attempt =
  at_peer :: peer_id
  at_connected :: bool
  at_found :: "string list option"
  at_addrs :: "string list"
  at_connects :: bool
  at_time :: go_time

type_synonym discovery = "PeerDiscovery \<times> NetworkView"

definition pd_updateNetworkView :: "go_time \<Rightarrow> peer_id \<Rightarrow> NetworkView \<Rightarrow> NetworkView" where
  "pd_updateNetworkView now peerID nv =
     (let nv1 = (if gm_get (nv_peers nv) peerID = None
                 then nv\<lparr>nv_peers := gm_put peerID (new_peer now None) (nv_peers nv)\<rparr> else nv)
      in rs_UpdatePeer peerID (f64 (1 / 10)) nv1)"

text \<open>The addresses an attempt dials: what the DHT found, else what the peer store holds.\<close>

definition dial_addrs :: "attempt \<Rightarrow> string list" where
  "dial_addrs a = (case at_found a of Some (x # xs) \<Rightarrow> x # xs | _ \<Rightarrow> at_addrs a)"

definition pd_tryConnectToPeer :: "attempt \<Rightarrow> discovery \<Rightarrow> discovery" where
  "pd_tryConnectToPeer a s =
     (let (pd, nv) = s; peerID = at_peer a; known = (gm_get (nv_peers nv) peerID \<noteq> None)
      in if known \<and> at_connected a then s
         else
           let retries = gm_get_or 0 (pd_retryCount pd) peerID
           in if pd_maxRetries pd \<le> retries then s
              else if length (dial_addrs a) = 0 then s
              else if \<not> at_connects a then
                (pd\<lparr>pd_retryCount := gm_put peerID (retries + 1) (pd_retryCount pd)\<rparr>, nv)
              else (pd\<lparr>pd_retryCount := gm_del peerID (pd_retryCount pd)\<rparr>,
                    pd_updateNetworkView (at_time a) peerID nv))"

text \<open>\<open>None\<close>: the routing table is not there yet.\<close>

definition pd_discoverFromDHT :: "attempt list option \<Rightarrow> discovery \<Rightarrow> discovery" where
  "pd_discoverFromDHT routingTable s =
     (case routingTable of None \<Rightarrow> s | Some peers \<Rightarrow> fold pd_tryConnectToPeer peers s)"

definition peerstore_attempt :: "peer_id \<Rightarrow> attempt \<Rightarrow> discovery \<Rightarrow> discovery" where
  "peerstore_attempt self a s =
     (if at_peer a = self \<or> at_peer a = '''' then s
      else if at_connected a then s
      else if 0 < length (at_addrs a) then pd_tryConnectToPeer a s else s)"

definition pd_discoverFromPeerstore :: "peer_id \<Rightarrow> attempt list \<Rightarrow> discovery \<Rightarrow> discovery" where
  "pd_discoverFromPeerstore self peers s = fold (peerstore_attempt self) peers s"

definition pd_discoverPeers :: "peer_id \<Rightarrow> attempt list option \<Rightarrow> attempt list \<Rightarrow> discovery \<Rightarrow> discovery" where
  "pd_discoverPeers self routingTable peerstore s =
     pd_discoverFromPeerstore self peerstore (pd_discoverFromDHT routingTable s)"

definition pd_CleanupRetryHistory :: "PeerDiscovery \<Rightarrow> PeerDiscovery" where
  "pd_CleanupRetryHistory pd =
     (if 1000 < length (pd_retryCount pd) then pd\<lparr>pd_retryCount := []\<rparr> else pd)"

section \<open>Retries are bounded\<close>

definition pd_inv :: "PeerDiscovery \<Rightarrow> bool" where
  "pd_inv pd \<longleftrightarrow> gm_wf (pd_retryCount pd) \<and> pd_maxRetries pd = 3 \<and>
     gm_all (\<lambda>n. 0 < n \<and> n \<le> 3) (pd_retryCount pd)"

lemma pd_updateNetworkView_inv: "nv_inv nv \<Longrightarrow> nv_inv (pd_updateNetworkView now p nv)"
  by (simp add: pd_updateNetworkView_def Let_def nv_invs new_peer_def)

lemma retries_nonneg: "pd_inv pd \<Longrightarrow> 0 \<le> gm_get_or 0 (pd_retryCount pd) p"
  by (auto simp: pd_inv_def gm_get_or_def dest: gm_allD split: option.splits)

lemma tryConnect_inv:
  "pd_inv (fst s) \<Longrightarrow> nv_inv (snd s) \<Longrightarrow>
     pd_inv (fst (pd_tryConnectToPeer a s)) \<and> nv_inv (snd (pd_tryConnectToPeer a s))"
proof -
  assume pd: "pd_inv (fst s)" and nv: "nv_inv (snd s)"
  then have "0 \<le> gm_get_or 0 (pd_retryCount (fst s)) (at_peer a)" by (intro retries_nonneg)
  with pd nv show ?thesis
    by (auto simp: pd_tryConnectToPeer_def Let_def pd_inv_def pd_updateNetworkView_inv intro!: gm_all_put
        split: prod.splits)
qed

text \<open>The dials of a peer that fail in a sequence of attempts, counted as the code makes them.\<close>

fun failed_dials :: "peer_id \<Rightarrow> attempt list \<Rightarrow> discovery \<Rightarrow> nat" where
  "failed_dials p [] s = 0"
| "failed_dials p (a # as) s =
     (if at_peer a = p \<and> \<not> (gm_get (nv_peers (snd s)) p \<noteq> None \<and> at_connected a) \<and>
         gm_get_or 0 (pd_retryCount (fst s)) p < pd_maxRetries (fst s) \<and> dial_addrs a \<noteq> [] \<and> \<not> at_connects a
      then 1 else 0) + failed_dials p as (pd_tryConnectToPeer a s)"

text \<open>
  Bounded retries. Whatever the network answers and however the attempts of different
  peers interleave, a peer to which no dial succeeds is dialled at most three times in all;
  its retry count never exceeds the limit, and the counts of the other peers do not matter.
\<close>

theorem failed_dials_bounded:
  assumes "pd_inv (fst s)" and "nv_inv (snd s)"
    and "list_all (\<lambda>a. at_peer a = p \<longrightarrow> \<not> at_connects a) as"
  shows "int (failed_dials p as s) + gm_get_or 0 (pd_retryCount (fst s)) p =
      gm_get_or 0 (pd_retryCount (fst (fold pd_tryConnectToPeer as s))) p \<and>
    gm_get_or 0 (pd_retryCount (fst (fold pd_tryConnectToPeer as s))) p \<le> 3"
  using assms
proof (induction "as" arbitrary: s)
  case Nil
  then have "gm_get_or 0 (pd_retryCount (fst s)) p \<le> 3"
    by (auto simp: pd_inv_def gm_get_or_def dest: gm_allD split: option.splits)
  then show ?case by simp
next
  case (Cons a "as")
  let ?s = "pd_tryConnectToPeer a s"
  obtain pd nv where s: "s = (pd, nv)" by (cases s)
  have "int (failed_dials p as ?s) + gm_get_or 0 (pd_retryCount (fst ?s)) p =
      gm_get_or 0 (pd_retryCount (fst (fold pd_tryConnectToPeer as ?s))) p \<and>
    gm_get_or 0 (pd_retryCount (fst (fold pd_tryConnectToPeer as ?s))) p \<le> 3"
    using tryConnect_inv [OF Cons.prems(1,2), of a] Cons.prems(3) by (intro Cons.IH) simp_all
  moreover have "gm_get_or 0 (pd_retryCount (fst ?s)) p =
      gm_get_or 0 (pd_retryCount pd) p + int (failed_dials p [a] s)"
    using Cons.prems(3)
    by (auto simp: pd_tryConnectToPeer_def Let_def s gm_get_or_def split: option.splits)
  ultimately show ?case using s by (auto simp: algebra_simps)
qed

theorem failed_dials_bounded_witness:
  "failed_dials ''p'' (replicate 5 \<lparr>at_peer = ''p'', at_connected = False, at_found = None, at_addrs = [''x''],
      at_connects = False, at_time = 0\<rparr>) (NewPeerDiscovery, NewNetworkView) \<le> 3"
proof -
  let ?s = "(NewPeerDiscovery, NewNetworkView)"
  have "pd_inv (fst ?s)" and "nv_inv (snd ?s)"
    by (simp_all add: pd_inv_def NewPeerDiscovery_def nv_inv_def nv_scored_def index_wf_def NewNetworkView_def)
  from failed_dials_bounded [OF this, of "''p''" "replicate 5 \<lparr>at_peer = ''p'', at_connected = False,
      at_found = None, at_addrs = [''x''], at_connects = False, at_time = 0\<rparr>"]
  show ?thesis by (simp add: list_all_iff NewPeerDiscovery_def gm_get_or_def del: failed_dials.simps)
qed

end
