(* ===== verification/Gossip.thy ===== *)
theory Gossip
  imports Network_View
begin

text \<open>
  The gossip manager (\<open>internal/network/gossip-discovery.go\<close>): what a node does with the
  messages of the gossip topic, which any peer can publish. A handler is a function on the
  network view; since every message is handled in a goroutine of its own, a panic in a handler
  ends the whole process, and is the value \<open>Panic\<close> here. A payload that does not decode as the
  message type demands is logged and ignored. \<open>pid_String\<close> stands for libp2p's
  \<open>(peer.ID).String\<close>.
\<close>

definition gm_handleNodeInfoMessage :: "go_time \<Rightarrow> GossipMessage \<Rightarrow> NetworkView \<Rightarrow> NetworkView" where
  "gm_handleNodeInfoMessage now msg nv =
     (case gs_Payload msg of
        NodeInfoPayload farmerInfo \<Rightarrow>
          let nv1 = (case gm_get (nv_peers nv) (fi_PeerID farmerInfo) of
                None \<Rightarrow> nv\<lparr>nv_peers := gm_put (fi_PeerID farmerInfo) (new_peer now (Some farmerInfo)) (nv_peers nv)\<rparr>
              | Some peerInfo \<Rightarrow>
                  nv\<lparr>nv_peers := gm_put (fi_PeerID farmerInfo)
                    (peerInfo\<lparr>pi_Info := Some farmerInfo, pi_LastSeen := now\<rparr>) (nv_peers nv)\<rparr>)
          in rs_UpdatePeer (fi_PeerID farmerInfo) (f64 (1 / 10)) nv1
      | _ \<Rightarrow> nv)"

text \<open>One location of an announcement: peers the list does not hold yet are appended.\<close>

definition add_location :: "FileLocation \<Rightarrow> NetworkView \<Rightarrow> NetworkView" where
  "add_location location nv =
     (let index = (if gm_get (nv_fileIndex nv) (fl_FileHash location) = None
                   then gm_put (fl_FileHash location) [] (nv_fileIndex nv) else nv_fileIndex nv);
          existingPeers = fold append_new (fl_PeerIDs location) (gm_get_or [] index (fl_FileHash location))
      in nv\<lparr>nv_fileIndex := gm_put (fl_FileHash location) existingPeers index\<rparr>)"

text \<open>After the loop the log line reads \<open>Locations[0]\<close>.\<close>

definition gm_handleFileAnnounceMessage :: "GossipMessage \<Rightarrow> NetworkView \<Rightarrow> NetworkView go" where
  "gm_handleFileAnnounceMessage msg nv =
     (case gs_Payload msg of
        AnnouncePayload fileAnnounce \<Rightarrow>
          let nv1 = fold add_location (fa_Locations fileAnnounce) nv
          in go_bind (go_index (fa_Locations fileAnnounce) 0) (\<lambda>location. Ret nv1)
      | _ \<Rightarrow> Ret nv)"

text \<open>The loop that logs the validators slices each peer name to its first 8 characters.\<close>

fun log_validators :: "(peer_id \<Rightarrow> string) \<Rightarrow> ValidatorInfo list \<Rightarrow> unit go" where
  "log_validators pid_String [] = Ret ()"
| "log_validators pid_String (validator # vs) =
     go_bind (go_prefix (pid_String (vi_PeerID validator)) 8) (\<lambda>s. log_validators pid_String vs)"

definition gm_handleValidatorUpdateMessage ::
  "(peer_id \<Rightarrow> string) \<Rightarrow> GossipMessage \<Rightarrow> NetworkView \<Rightarrow> NetworkView go" where
  "gm_handleValidatorUpdateMessage pid_String msg nv =
     (case gs_Payload msg of
        ValidatorPayload validatorUpdate \<Rightarrow>
          go_bind (log_validators pid_String (vu_Validators validatorUpdate)) (\<lambda>_. Ret nv)
      | _ \<Rightarrow> Ret nv)"

definition gm_handleFileDeleteMessage :: "GossipMessage \<Rightarrow> NetworkView \<Rightarrow> NetworkView" where
  "gm_handleFileDeleteMessage msg nv =
     (case gs_Payload msg of
        DeletePayload deleteMsg \<Rightarrow>
          (case gm_get (nv_fileIndex nv) (fd_FileHash deleteMsg) of
             None \<Rightarrow> nv
           | Some peers \<Rightarrow>
               let updatedPeers = filter (\<lambda>peerID. peerID \<noteq> fd_PeerID deleteMsg) peers
               in if length updatedPeers = 0
                  then nv\<lparr>nv_fileIndex := gm_del (fd_FileHash deleteMsg) (nv_fileIndex nv)\<rparr>
                  else nv\<lparr>nv_fileIndex := gm_put (fd_FileHash deleteMsg) updatedPeers (nv_fileIndex nv)\<rparr>)
      | _ \<Rightarrow> nv)"

definition gm_handleGossipMessage ::
  "(peer_id \<Rightarrow> string) \<Rightarrow> go_time \<Rightarrow> GossipMessage \<Rightarrow> NetworkView \<Rightarrow> NetworkView go" where
  "gm_handleGossipMessage pid_String now msg nv =
     (case gs_Type msg of
        GossipTypeNodeInfo \<Rightarrow> Ret (gm_handleNodeInfoMessage now msg nv)
      | GossipTypeFileAnnounce \<Rightarrow> gm_handleFileAnnounceMessage msg nv
      | GossipTypeFileDelete \<Rightarrow> Ret (gm_handleFileDeleteMessage msg nv)
      | GossipTypeValidatorUpdate \<Rightarrow> gm_handleValidatorUpdateMessage pid_String msg nv
      | _ \<Rightarrow> Ret nv)"

text \<open>One round of \<open>readMessages\<close>: \<open>None\<close> is a message that is no gossip message at all.\<close>

definition gm_readMessage ::
  "(peer_id \<Rightarrow> string) \<Rightarrow> peer_id \<Rightarrow> go_time \<Rightarrow> peer_id \<Rightarrow> GossipMessage option \<Rightarrow> NetworkView \<Rightarrow> NetworkView go" where
  "gm_readMessage pid_String self now receivedFrom data nv =
     (if receivedFrom = self then Ret nv
      else case data of None \<Rightarrow> Ret nv
        | Some gossipMsg \<Rightarrow> gm_handleGossipMessage pid_String now gossipMsg nv)"

text \<open>
  One tick of \<open>broadcastNodeInfo\<close>: the node's own record is updated in place, and the message
  carries it. \<open>GossipManager.topic\<close> is nil until \<open>Start\<close> has joined it.
\<close>

definition gm_broadcastNodeInfo ::
  "peer_id \<Rightarrow> go_time \<Rightarrow> go_time \<Rightarrow> EngineStats \<Rightarrow> FarmerInfo \<Rightarrow> FarmerInfo \<times> GossipMessage" where
  "gm_broadcastNodeInfo self now1 now2 stats farmerInfo =
     (let farmerInfo1 = farmerInfo\<lparr>fi_UsedStorage := es_used_bytes stats, fi_LastSeen := now1\<rparr>
      in (farmerInfo1,
          \<lparr>gs_Type = GossipTypeNodeInfo, gs_PeerID = self, gs_Timestamp = now2,
           gs_Payload = NodeInfoPayload farmerInfo1\<rparr>))"

datatype publish_error = TopicNotInitialized | PublishFailed string

definition gm_PublishMessage ::
  "bool \<Rightarrow> (GossipMessage \<Rightarrow> string + unit) \<Rightarrow> GossipMessage \<Rightarrow> publish_error + unit" where
  "gm_PublishMessage joined publish msg =
     (if \<not> joined then Inl TopicNotInitialized
      else case publish msg of Inl err \<Rightarrow> Inl (PublishFailed err) | Inr _ \<Rightarrow> Inr ())"

section \<open>What a message does to the view\<close>

lemma handleFileDelete_eq:
  "gm_handleFileDeleteMessage msg nv =
     (case gs_Payload msg of DeletePayload m \<Rightarrow> dn_RemoveFileFromIndex (fd_FileHash m) (fd_PeerID m) nv | _ \<Rightarrow> nv)"
  by (auto simp: gm_handleFileDeleteMessage_def dn_RemoveFileFromIndex_def drop_peer_def
      split: GossipPayload.splits option.splits)

lemma add_location_eq:
  "gm_get (nv_fileIndex (add_location l nv)) h =
     (if h = fl_FileHash l then Some (fold append_new (fl_PeerIDs l) (gm_get_or [] (nv_fileIndex nv) h))
      else gm_get (nv_fileIndex nv) h)"
  by (auto simp: add_location_def Let_def gm_get_or_def split: option.splits)

lemma add_location_frame [simp]:
  "nv_peers (add_location l nv) = nv_peers nv"
  "nv_reputation (add_location l nv) = nv_reputation nv"
  by (simp_all add: add_location_def Let_def)

lemma add_location_inv: "nv_inv nv \<Longrightarrow> nv_inv (add_location l nv)"
proof -
  assume i: "nv_inv nv"
  then have "gm_wf (nv_fileIndex (add_location l nv))" and "nv_scored (add_location l nv)"
    by (simp_all add: nv_inv_def index_wf_def add_location_def Let_def)
  moreover have "distinct (gm_get_or [] (nv_fileIndex nv) h)" for h
    using i by (simp add: nv_inv_def index_wf_distinct)
  then have "gm_all distinct (nv_fileIndex (add_location l nv))"
    using i by (intro gm_allI)
      (auto simp: add_location_eq nv_inv_def index_wf_def fold_append_new_distinct dest: gm_allD split: if_splits)
  ultimately show ?thesis by (simp add: nv_inv_def index_wf_def)
qed

lemma add_locations_inv: "nv_inv nv \<Longrightarrow> nv_inv (fold add_location ls nv)"
  by (induction ls arbitrary: nv) (simp_all add: add_location_inv)

lemma handleNodeInfo_inv: "nv_inv nv \<Longrightarrow> nv_inv (gm_handleNodeInfoMessage now msg nv)"
  by (auto simp: gm_handleNodeInfoMessage_def Let_def new_peer_def intro!: nv_invs(1,2)
      intro: nv_invs split: GossipPayload.splits option.splits)

lemma handleGossipMessage_inv:
  "nv_inv nv \<Longrightarrow> gm_handleGossipMessage pid now msg nv = Ret nv' \<Longrightarrow> nv_inv nv'"
  by (auto simp: gm_handleGossipMessage_def gm_handleFileAnnounceMessage_def handleFileDelete_eq Let_def
      gm_handleValidatorUpdateMessage_def go_bind_Ret_iff handleNodeInfo_inv add_locations_inv
      RemoveFileFromIndex_inv split: GossipMessageType.splits GossipPayload.splits)

lemma readMessage_inv:
  "nv_inv nv \<Longrightarrow> gm_readMessage pid self now from data nv = Ret nv' \<Longrightarrow> nv_inv nv'"
  by (auto simp: gm_readMessage_def handleGossipMessage_inv split: if_splits option.splits)

section \<open>Remote crashes\<close>

text \<open>The two kinds of message whose handler runs out of bounds.\<close>

fun crashes :: "(peer_id \<Rightarrow> string) \<Rightarrow> GossipMessageType \<Rightarrow> GossipPayload \<Rightarrow> bool" where
  "crashes pid GossipTypeFileAnnounce (AnnouncePayload m) = (fa_Locations m = [])"
| "crashes pid GossipTypeValidatorUpdate (ValidatorPayload m) =
     list_ex (\<lambda>v. length (pid (vi_PeerID v)) < 8) (vu_Validators m)"
| "crashes pid t p = False"

lemma log_validators_panics:
  "panics (log_validators pid vs) \<longleftrightarrow> list_ex (\<lambda>v. length (pid (vi_PeerID v)) < 8) vs"
  by (induction vs) (auto simp: go_prefix_def)

text \<open>
  Remote crash. A node that receives a gossip message dies of it exactly when a peer other
  than itself sent a file announcement without locations, or a validator update that names a
  validator whose peer name has fewer than 8 characters (such as the empty one of a missing
  field); every other message, whatever its content, is handled or ignored.
\<close>

theorem readMessage_panics_iff:
  "panics (gm_readMessage pid self now from data nv) \<longleftrightarrow>
     from \<noteq> self \<and> (\<exists>msg. data = Some msg \<and> crashes pid (gs_Type msg) (gs_Payload msg))"
proof (cases "from = self \<or> data = None")
  case True
  then show ?thesis by (auto simp: gm_readMessage_def)
next
  case False
  then obtain msg where d: "data = Some msg" "from \<noteq> self" by auto
  have "panics (gm_handleGossipMessage pid now msg nv) \<longleftrightarrow> crashes pid (gs_Type msg) (gs_Payload msg)"
    by (cases "gs_Type msg"; cases "gs_Payload msg")
      (auto simp: gm_handleGossipMessage_def gm_handleFileAnnounceMessage_def
        gm_handleValidatorUpdateMessage_def log_validators_panics go_index_def Let_def)
  with d show ?thesis by (simp add: gm_readMessage_def)
qed

section \<open>Announcements and deletions\<close>

lemma add_locations_peers:
  "storing_peers (fold add_location ls nv) h =
     storing_peers nv h \<union> (\<Union>l \<in> {l \<in> set ls. fl_FileHash l = h}. set (fl_PeerIDs l))"
proof (induction ls arbitrary: nv)
  case Nil
  then show ?case by simp
next
  case (Cons l ls)
  have "storing_peers (add_location l nv) h =
      storing_peers nv h \<union> (if fl_FileHash l = h then set (fl_PeerIDs l) else {})"
    by (auto simp: storing_peers_def gm_get_or_def [of _ "nv_fileIndex (add_location l nv)"] add_location_eq
        fold_append_new_set) (auto simp: gm_get_or_def)
  with Cons.IH [of "add_location l nv"] show ?case by auto
qed

text \<open>
  A file announcement adds exactly the announced peers: for every file the listed peers
  afterwards are the ones listed before together with the peers of the message's locations for
  that file, and handling the same message again changes nothing in any list.
\<close>

theorem announce_adds_peers:
  assumes "gs_Type msg = GossipTypeFileAnnounce" and "gs_Payload msg = AnnouncePayload m"
    and "gm_handleGossipMessage pid now msg nv = Ret nv'"
  shows "storing_peers nv' h = storing_peers nv h \<union>
      (\<Union>l \<in> {l \<in> set (fa_Locations m). fl_FileHash l = h}. set (fl_PeerIDs l)) \<and>
    (\<exists>nv''. gm_handleGossipMessage pid now msg nv' = Ret nv'' \<and>
       storing_peers nv'' h = storing_peers nv' h \<and> nv_peers nv'' = nv_peers nv \<and>
       nv_reputation nv'' = nv_reputation nv)"
proof -
  have r: "gm_handleGossipMessage pid now msg v =
      go_bind (go_index (fa_Locations m) 0) (\<lambda>_. Ret (fold add_location (fa_Locations m) v))" for v
    using assms(1,2) by (simp add: gm_handleGossipMessage_def gm_handleFileAnnounceMessage_def Let_def)
  obtain l where l: "go_index (fa_Locations m) 0 = Ret l" and nv': "nv' = fold add_location (fa_Locations m) nv"
    using assms(3) by (auto simp: r go_bind_Ret_iff)
  have frame: "nv_peers (fold add_location ls v) = nv_peers v \<and> nv_reputation (fold add_location ls v) = nv_reputation v" for ls v
    by (induction ls arbitrary: v) simp_all
  show ?thesis
    using add_locations_peers [of "fa_Locations m" nv h] add_locations_peers [of "fa_Locations m" nv' h]
      frame l by (simp add: r nv')
qed

text \<open>An announcement of one file by one peer, and what it does to an empty view.\<close>

definition announcement :: GossipMessage where
  "announcement =
     \<lparr>gs_Type = GossipTypeFileAnnounce, gs_PeerID = ''p'', gs_Timestamp = 0,
      gs_Payload = AnnouncePayload
        \<lparr>fa_FileHash = ''f'',
         fa_Locations = [\<lparr>fl_FileHash = ''f'', fl_ShardHashes = [], fl_PeerIDs = [''p'', ''q''],
                          fl_Timestamp = 0, fl_FileSize = 1, fl_TotalShards = 1, fl_RequiredShards = 1\<rparr>],
         fa_Timestamp = 0, fa_SourcePeer = ''p''\<rparr>\<rparr>"

theorem announce_adds_peers_witness:
  "\<exists>nv'. gm_handleGossipMessage id 0 announcement NewNetworkView = Ret nv' \<and>
     storing_peers nv' ''f'' = {''p'', ''q''}"
proof -
  obtain m where m: "gs_Payload announcement = AnnouncePayload m" "gs_Type announcement = GossipTypeFileAnnounce"
    and l: "fa_Locations m \<noteq> []" "\<Union> (set ` fl_PeerIDs ` {l \<in> set (fa_Locations m). fl_FileHash l = ''f''}) = {''p'', ''q''}"
    by (auto simp: announcement_def)
  obtain nv' where nv': "gm_handleGossipMessage id 0 announcement NewNetworkView = Ret nv'"
    using m l(1) by (auto simp: gm_handleGossipMessage_def gm_handleFileAnnounceMessage_def Let_def go_index_def)
  have "storing_peers NewNetworkView ''f'' = {}"
    by (simp add: storing_peers_def NewNetworkView_def gm_get_or_def)
  with announce_adds_peers [OF m(2,1) nv', of "''f''"] l(2) nv' show ?thesis
    by (auto simp: image_image)
qed

text \<open>
  A file deletion is believed. Whoever sent the message, the peer it names is taken off
  the file's list and no other peer or file is affected; when no peer is left the entry goes.
\<close>

theorem delete_removes_named_peer:
  assumes "gs_Type msg = GossipTypeFileDelete" and "gs_Payload msg = DeletePayload m"
  shows "\<exists>nv'. gm_handleGossipMessage pid now msg nv = Ret nv' \<and>
    storing_peers nv' h = storing_peers nv h - (if h = fd_FileHash m then {fd_PeerID m} else {}) \<and>
    (h = fd_FileHash m \<and> storing_peers nv h \<subseteq> {fd_PeerID m} \<longrightarrow> gm_get (nv_fileIndex nv') h = None) \<and>
    nv_peers nv' = nv_peers nv \<and> nv_reputation nv' = nv_reputation nv"
proof -
  let ?nv = "dn_RemoveFileFromIndex (fd_FileHash m) (fd_PeerID m) nv"
  have "gm_handleGossipMessage pid now msg nv = Ret ?nv"
    using assms by (simp add: gm_handleGossipMessage_def handleFileDelete_eq)
  moreover have "storing_peers ?nv h = storing_peers nv h - (if h = fd_FileHash m then {fd_PeerID m} else {})"
    by (auto simp: storing_peers_def gm_get_or_def RemoveFileFromIndex_eq drop_peer_def filter_empty_conv
        split: option.splits)
  moreover have "h = fd_FileHash m \<and> storing_peers nv h \<subseteq> {fd_PeerID m} \<Longrightarrow> gm_get (nv_fileIndex ?nv) h = None"
    by (auto simp: storing_peers_def gm_get_or_def RemoveFileFromIndex_eq drop_peer_def filter_empty_conv
        split: option.splits)
  moreover have "nv_peers ?nv = nv_peers nv" and "nv_reputation ?nv = nv_reputation nv"
    by (simp_all add: dn_RemoveFileFromIndex_def Let_def split: option.splits)
  ultimately show ?thesis by blast
qed

theorem delete_removes_named_peer_witness:
  "\<exists>nv'. gm_handleGossipMessage id 0
     \<lparr>gs_Type = GossipTypeFileDelete, gs_PeerID = ''x'', gs_Timestamp = 0,
      gs_Payload = DeletePayload \<lparr>fd_FileHash = ''f'', fd_Timestamp = 0, fd_PeerID = ''p''\<rparr>\<rparr>
     (dn_UpdateFileIndex ''f'' ''p'' NewNetworkView) = Ret nv' \<and> gm_get (nv_fileIndex nv') ''f'' = None"
proof -
  let ?m = "\<lparr>fd_FileHash = ''f'', fd_Timestamp = 0, fd_PeerID = ''p''\<rparr>"
  let ?msg = "\<lparr>gs_Type = GossipTypeFileDelete, gs_PeerID = ''x'', gs_Timestamp = 0, gs_Payload = DeletePayload ?m\<rparr>"
  let ?nv = "dn_UpdateFileIndex ''f'' ''p'' NewNetworkView"
  have "storing_peers ?nv ''f'' \<subseteq> {''p''}"
    by (simp add: storing_peers_def gm_get_or_def UpdateFileIndex_eq append_new_def NewNetworkView_def)
  with delete_removes_named_peer [of ?msg ?m id 0 ?nv "''f''"] show ?thesis by auto
qed

end
