(* ===== verification/Node_State.thy ===== *)
theory Node_State
  imports Gossip
begin

text \<open>
  The state of a \<open>DecentralizedNode\<close> that its storage operations and its protocol handlers
  share: its identity, its network view, its storage engine, its file manager (with an engine of
  its own, opened on the same directory of the same disk), and the operations under way.
  \<open>nd_connected\<close> is what \<open>Host.Network().Peers()\<close> answers, \<open>nd_published\<close> the gossip messages
  that went out. The answers of other nodes are the functions of a record \<open>rpc\<close>: \<open>Inl\<close> when the
  stream cannot be opened, written or read.
\<close>

record ShardTransfer =
  st_ShardIndex :: int
  st_PeerID :: peer_id
  st_Status :: string
  st_Size :: int

record StorageOperation =
  op_FileHash :: string
  op_Operation :: string
  op_Status :: string
  op_Shards :: "ShardTransfer option list"
  op_StartTime :: go_time
  op_CompletedAt :: go_time

record DNode =
  nd_self :: peer_id
  nd_connected :: "peer_id list"
  nd_view :: NetworkView
  nd_storage :: Engine
  nd_fileManager :: FileManager
  nd_disk :: disk
  nd_pendingOps :: "(string, StorageOperation) gomap"
  nd_published :: "GossipMessage list"

record rpc =
  rpc_store :: "peer_id \<Rightarrow> StorageRequest \<Rightarrow> string + StorageResponse"
  rpc_metadata :: "peer_id \<Rightarrow> string \<Rightarrow> string + FileMetadataResponse"
  rpc_shard :: "peer_id \<Rightarrow> string \<Rightarrow> int \<Rightarrow> string + ShardResponse"
  rpc_list :: "peer_id \<Rightarrow> string + FileListResponse"
  rpc_publish :: "nat \<Rightarrow> bool"

text \<open>The zero value of \<open>time.Time\<close>, 1 January of year 1, before every time the clock shows.\<close>

definition zero_time :: go_time where
  "zero_time = - 62135596800 * second"

definition nd_files :: "DNode \<Rightarrow> files" where
  "nd_files nd = (nd_fileManager nd, nd_disk nd)"

definition nd_store :: "DNode \<Rightarrow> store" where
  "nd_store nd = (nd_storage nd, nd_disk nd)"

definition set_files :: "files \<Rightarrow> DNode \<Rightarrow> DNode" where
  "set_files s nd = nd\<lparr>nd_fileManager := fst s, nd_disk := snd s\<rparr>"

definition set_store :: "store \<Rightarrow> DNode \<Rightarrow> DNode" where
  "set_store s nd = nd\<lparr>nd_storage := fst s, nd_disk := snd s\<rparr>"

definition nd_index :: "DNode \<Rightarrow> (string, peer_id list) gomap" where
  "nd_index nd = nv_fileIndex (nd_view nd)"

lemmas node_defs = nd_files_def nd_store_def set_files_def set_store_def nd_index_def

end
