(* ===== verification/Storage_Ops.thy ===== *)
theory Storage_Ops
  imports Node_State
begin

text \<open>
  The distributed storage operations (\<open>internal/network/storage_operations.go\<close>): choosing
  peers, distributing the shards of a file, announcing it, finding and fetching it again. The
  goroutines that send or fetch shards write to different positions, so their order does not
  show. \<open>clock n\<close> is the time the operation's \<open>n\<close>-th reading of the clock gives.
\<close>

datatype distributed_error =
    NotEnoughPeers int int
  | ShardingFailed shard_error
  | TooFewDistributed int int
  | FileNotInNetwork string
  | NoMetadata
  | TooFewRetrieved int int
  | ReconstructionFailed shard_error
  | LocalDeleteFailed file_error

datatype request_error =
    LocalMetadataNotFound file_error
  | LocalShardFailed engine_error
  | StreamFailed string
  | PeerError string
  | InvalidMetadata peer_id
  | HashMismatch string string
  | NoPeers

section \<open>Gateway tags\<close>

text \<open>
  \<open>strings.ToLower\<close> on UTF-8 bytes, as far as ASCII letters come out: besides the ASCII capitals,
  only the dotted capital I (\<open>C4 B0\<close>) and the Kelvin sign (\<open>E2 84 AA\<close>) have an ASCII lower case.
\<close>

definition lower_char :: "char \<Rightarrow> char" where
  "lower_char c = (let n = of_char c in if (65 :: nat) \<le> n \<and> n \<le> 90 then char_of (n + 32) else c)"

fun ToLower :: "string \<Rightarrow> string" where
  "ToLower [] = []"
| "ToLower (c # cs) =
     (if c = CHR 0xC4 \<and> take 1 cs = [CHR 0xB0] then CHR ''i'' # ToLower (drop 1 cs)
      else if c = CHR 0xE2 \<and> take 2 cs = [CHR 0x84, CHR 0xAA] then CHR ''k'' # ToLower (drop 2 cs)
      else lower_char c # ToLower cs)"

fun str_contains :: "string \<Rightarrow> string \<Rightarrow> bool" where
  "str_contains s sub =
     (take (length sub) s = sub \<or> (case s of [] \<Rightarrow> False | c # cs \<Rightarrow> str_contains cs sub))"

declare str_contains.simps [simp del]

definition gatewayIndicators :: "string list" where
  "gatewayIndicators = [''gateway'', ''api'', ''apigateway'', ''gateway_node'', ''http_gateway'']"

definition so_hasGatewayTags :: "string list \<Rightarrow> bool" where
  "so_hasGatewayTags tags =
     list_ex (\<lambda>tag. list_ex (\<lambda>indicator. str_contains (ToLower tag) indicator) gatewayIndicators) tags"

definition so_isGatewayTag :: "string \<Rightarrow> bool" where
  "so_isGatewayTag tag \<longleftrightarrow> tag \<in> {''gateway'', ''api'', ''apigateway'', ''http_gateway'', ''rest_gateway''}"

definition so_isGatewayNode :: "peer_id \<Rightarrow> NetworkView \<Rightarrow> bool" where
  "so_isGatewayNode peerID nv =
     (case gm_get (nv_peers nv) peerID of
        None \<Rightarrow> False
      | Some peerInfo \<Rightarrow> (case pi_Info peerInfo of None \<Rightarrow> False | Some info \<Rightarrow> so_hasGatewayTags (fi_Tags info)))"

definition so_findGatewayPeers :: "DNode \<Rightarrow> peer_id list" where
  "so_findGatewayPeers nd =
     map fst (filter (\<lambda>(peerID, peerInfo).
        peerID \<noteq> nd_self nd \<and> peerID \<in> set (nd_connected nd) \<and>
        (case pi_Info peerInfo of None \<Rightarrow> False | Some info \<Rightarrow> so_hasGatewayTags (fi_Tags info)))
      (nv_peers (nd_view nd)))"

definition so_getAnnouncementPeers :: "peer_id list \<Rightarrow> DNode \<Rightarrow> peer_id list" where
  "so_getAnnouncementPeers storagePeers nd =
     fold append_new (so_findGatewayPeers nd) (storagePeers @ [nd_self nd])"

section \<open>Choosing storage peers\<close>

text \<open>
  The loop over the peers with the best reputation: \<open>Inl\<close> is its early return. Self and
  gateways are skipped before the length is checked.
\<close>

fun pick_best :: "DNode \<Rightarrow> int \<Rightarrow> peer_id list \<Rightarrow> peer_id list \<Rightarrow> peer_id list + peer_id list" where
  "pick_best nd wanted [] candidates = Inr candidates"
| "pick_best nd wanted (peerID # peers) candidates =
     (if peerID = nd_self nd then pick_best nd wanted peers candidates
      else if so_isGatewayNode peerID (nd_view nd) then pick_best nd wanted peers candidates
      else
        let candidates1 = (if peerID \<in> set (nd_connected nd) then candidates @ [peerID] else candidates)
        in if wanted \<le> int (length candidates1) then Inl (take (nat wanted) candidates1)
           else pick_best nd wanted peers candidates1)"

definition peer_suitable :: "PeerInfo \<Rightarrow> bool" where
  "peer_suitable peerInfo =
     (case pi_Info peerInfo of
        Some info \<Rightarrow>
          \<not> (\<not> fi_IsActive info \<or> fi_StorageCapacity info - fi_UsedStorage info \<le> 100 * 1024 * 1024)
      | None \<Rightarrow> \<not> f_lt (pi_Reliability peerInfo) (f64 (3 / 10)))"

fun pick_others :: "DNode \<Rightarrow> int \<Rightarrow> (peer_id \<times> PeerInfo) list \<Rightarrow> peer_id list \<Rightarrow> peer_id list" where
  "pick_others nd wanted [] candidates = candidates"
| "pick_others nd wanted ((peerID, peerInfo) # peers) candidates =
     (if wanted \<le> int (length candidates) then candidates
      else if peerID \<in> set candidates then pick_others nd wanted peers candidates
      else if peerID = nd_self nd then pick_others nd wanted peers candidates
      else if peerID \<notin> set (nd_connected nd) then pick_others nd wanted peers candidates
      else pick_others nd wanted peers (if peer_suitable peerInfo then candidates @ [peerID] else candidates))"

definition so_selectStoragePeers :: "int \<Rightarrow> DNode \<Rightarrow> peer_id list go" where
  "so_selectStoragePeers wanted nd =
     go_bind (rs_GetBestPeers (f64 (7 / 10)) wanted (nd_view nd)) (\<lambda>bestPeers.
       Ret (case pick_best nd wanted bestPeers [] of
              Inl selected \<Rightarrow> selected
            | Inr candidates \<Rightarrow> pick_others nd wanted (nv_peers (nd_view nd)) candidates))"

section \<open>Announcing\<close>

text \<open>Up to three attempts to publish; the message goes out at the first that succeeds.\<close>

definition publish_retry :: "(nat \<Rightarrow> bool) \<Rightarrow> GossipMessage \<Rightarrow> DNode \<Rightarrow> DNode" where
  "publish_retry publish msg nd =
     (if list_ex publish [0, 1, 2] then nd\<lparr>nd_published := nd_published nd @ [msg]\<rparr> else nd)"

definition so_announceFileToNetwork ::
  "rpc \<Rightarrow> (nat \<Rightarrow> go_time) \<Rightarrow> string \<Rightarrow> peer_id list \<Rightarrow> DNode \<Rightarrow> DNode" where
  "so_announceFileToNetwork env clock fileHash storagePeers nd =
     (case fm_GetFileInfo fileHash (nd_fileManager nd) of
        Inl err \<Rightarrow> nd
      | Inr fileInfo \<Rightarrow>
          let nd1 = nd\<lparr>nd_view := (nd_view nd)\<lparr>nv_fileIndex := gm_put fileHash storagePeers (nv_fileIndex (nd_view nd))\<rparr>\<rparr>;
              location = \<lparr>fl_FileHash = fileHash, fl_ShardHashes = md_ShardHashes fileInfo,
                          fl_PeerIDs = storagePeers, fl_Timestamp = clock 2,
                          fl_FileSize = md_FileSize fileInfo, fl_TotalShards = md_TotalShards fileInfo,
                          fl_RequiredShards = md_RequiredShards fileInfo\<rparr>;
              fileAnnounce = \<lparr>fa_FileHash = fileHash, fa_Locations = [location], fa_Timestamp = clock 3,
                              fa_SourcePeer = nd_self nd\<rparr>;
              msg = \<lparr>gs_Type = GossipTypeFileAnnounce, gs_PeerID = nd_self nd, gs_Timestamp = clock 4,
                     gs_Payload = AnnouncePayload fileAnnounce\<rparr>
          in publish_retry (rpc_publish env) msg nd1)"

definition so_announceFileDeletion :: "rpc \<Rightarrow> (nat \<Rightarrow> go_time) \<Rightarrow> string \<Rightarrow> DNode \<Rightarrow> DNode" where
  "so_announceFileDeletion env clock fileHash nd =
     (let deleteMsg = \<lparr>fd_FileHash = fileHash, fd_Timestamp = clock 0, fd_PeerID = nd_self nd\<rparr>;
          msg = \<lparr>gs_Type = GossipTypeFileDelete, gs_PeerID = nd_self nd, gs_Timestamp = clock 1,
                 gs_Payload = DeletePayload deleteMsg\<rparr>
      in if rpc_publish env 0 then nd\<lparr>nd_published := nd_published nd @ [msg]\<rparr> else nd)"

section \<open>Storing\<close>

definition so_distributeShardToPeer ::
  "rpc \<Rightarrow> go_time \<Rightarrow> string \<Rightarrow> string \<Rightarrow> int \<Rightarrow> bytes \<Rightarrow> peer_id \<Rightarrow> int \<Rightarrow> int \<Rightarrow> request_error + unit" where
  "so_distributeShardToPeer env now fileHash fileName shardIndex shardData peerID totalShards requiredShards =
     (case rpc_store env peerID
        \<lparr>sq_Operation = ''store_shard'', sq_FileHash = fileHash, sq_FileName = fileName,
         sq_ShardIndex = shardIndex, sq_ShardData = shardData, sq_TotalShards = totalShards,
         sq_RequiredShards = requiredShards, sq_Timestamp = now\<rparr> of
        Inl err \<Rightarrow> Inl (StreamFailed err)
      | Inr response \<Rightarrow> if \<not> sr_Success response then Inl (PeerError (sr_Error response)) else Inr ())"

text \<open>The transfers, by position; a position no goroutine writes stays nil.\<close>

fun distribute ::
  "rpc \<Rightarrow> (nat \<Rightarrow> go_time) \<Rightarrow> string \<Rightarrow> string \<Rightarrow> int \<Rightarrow> int \<Rightarrow> nat \<Rightarrow> Shard list \<Rightarrow> peer_id list \<Rightarrow>
   ShardTransfer list" where
  "distribute env clock fileHash fileName totalShards requiredShards i (shard # shards) (targetPeer # peers) =
     \<lparr>st_ShardIndex = int i + 1, st_PeerID = targetPeer,
      st_Status = (case so_distributeShardToPeer env (clock (7 + i)) fileHash fileName (int i + 1) (sh_Data shard)
                          targetPeer totalShards requiredShards of
                     Inl err \<Rightarrow> ''failed'' | Inr _ \<Rightarrow> ''completed''),
      st_Size = int (length (sh_Data shard))\<rparr>
     # distribute env clock fileHash fileName totalShards requiredShards (i + 1) shards peers"
| "distribute env clock fileHash fileName totalShards requiredShards i shards peers = []"

definition so_storeFileMetadataLocally ::
  "(nat \<Rightarrow> go_time) \<Rightarrow> string \<Rightarrow> string \<Rightarrow> bytes \<Rightarrow> int \<Rightarrow> int \<Rightarrow> peer_id list \<Rightarrow> DNode \<Rightarrow> (io_error + unit) \<times> DNode" where
  "so_storeFileMetadataLocally clock fileHash fileName data totalShards requiredShards storagePeers nd =
     (let metadata = new_metadata fileHash fileName data totalShards requiredShards storagePeers (clock 5) (clock 6);
          (r, s) = fm_UpdateFileMetadata metadata (nd_files nd)
      in (r, set_files s nd))"

definition so_StoreFileDistributed ::
  "reed_solomon \<Rightarrow> rpc \<Rightarrow> (nat \<Rightarrow> go_time) \<Rightarrow> string \<Rightarrow> bytes \<Rightarrow> int \<Rightarrow> int \<Rightarrow> DNode \<Rightarrow>
   ((distributed_error + string) \<times> DNode) go" where
  "so_StoreFileDistributed rs env clock fileName data totalShards requiredShards nd =
     go_bind (so_selectStoragePeers totalShards nd) (\<lambda>storagePeers.
     if int (length storagePeers) < totalShards then
       Ret (Inl (NotEnoughPeers totalShards (int (length storagePeers))), nd)
     else
       let fileHash = CalculateFileHash data in
       case sm_ShardData rs data totalShards requiredShards of
         Inl err \<Rightarrow> Ret (Inl (ShardingFailed err), nd)
       | Inr shards \<Rightarrow>
           go_bind (go_make totalShards (None :: ShardTransfer option)) (\<lambda>slots.
           let transfers = distribute env clock fileHash fileName totalShards requiredShards 0 shards storagePeers;
               opShards = map Some transfers @ drop (length transfers) slots;
               successfulShards = int (length (filter
                 (\<lambda>shard. case shard of None \<Rightarrow> False | Some t \<Rightarrow> st_Status t = ''completed'') opShards))
           in if successfulShards < requiredShards then
                Ret (Inl (TooFewDistributed successfulShards requiredShards), nd)
              else
                let operation = \<lparr>op_FileHash = fileHash, op_Operation = ''store'', op_Status = ''completed'',
                                 op_Shards = opShards, op_StartTime = clock 0, op_CompletedAt = clock 1\<rparr>;
                    nd1 = nd\<lparr>nd_pendingOps := gm_put fileHash operation (nd_pendingOps nd)\<rparr>;
                    nd2 = so_announceFileToNetwork env clock fileHash (so_getAnnouncementPeers storagePeers nd1) nd1;
                    nd3 = snd (so_storeFileMetadataLocally clock fileHash fileName data totalShards requiredShards storagePeers nd2)
                in Ret (Inr fileHash, nd3)))"

section \<open>Retrieving\<close>

definition so_mergePeers :: "string \<times> peer_id list \<Rightarrow> NetworkView \<Rightarrow> NetworkView" where
  "so_mergePeers entry nv =
     (let (fileHash, storingPeers) = entry;
          index = (if gm_get (nv_fileIndex nv) fileHash = None
                   then gm_put fileHash [] (nv_fileIndex nv) else nv_fileIndex nv);
          currentPeers = fold append_new storingPeers (gm_get_or [] index fileHash)
      in nv\<lparr>nv_fileIndex := gm_put fileHash currentPeers index\<rparr>)"

definition so_queryPeerForFiles :: "rpc \<Rightarrow> peer_id \<Rightarrow> DNode \<Rightarrow> DNode" where
  "so_queryPeerForFiles env peerID nd =
     (if peerID = nd_self nd then nd
      else case rpc_list env peerID of
        Inl err \<Rightarrow> nd
      | Inr response \<Rightarrow>
          if lr_Error response \<noteq> '''' then nd
          else nd\<lparr>nd_view := fold so_mergePeers (lr_FileIndex response) (nd_view nd)\<rparr>)"

definition so_SyncNetworkView :: "rpc \<Rightarrow> DNode \<Rightarrow> DNode" where
  "so_SyncNetworkView env nd =
     (let peers = filter (\<lambda>peerID. peerID \<noteq> nd_self nd) (gm_keys (nv_peers (nd_view nd)))
      in fold (so_queryPeerForFiles env) peers nd)"

definition so_requestFileMetadata ::
  "rpc \<Rightarrow> peer_id \<Rightarrow> string \<Rightarrow> DNode \<Rightarrow> request_error + FileMetadata option" where
  "so_requestFileMetadata env peerID fileHash nd =
     (if peerID = nd_self nd then
        (case fm_GetFileInfo fileHash (nd_fileManager nd) of
           Inl err \<Rightarrow> Inl (LocalMetadataNotFound err) | Inr meta \<Rightarrow> Inr (Some meta))
      else case rpc_metadata env peerID fileHash of
        Inl err \<Rightarrow> Inl (StreamFailed err)
      | Inr response \<Rightarrow>
          if mr_Error response \<noteq> '''' then Inl (PeerError (mr_Error response)) else Inr (mr_Metadata response))"

definition valid_metadata :: "FileMetadata \<Rightarrow> bool" where
  "valid_metadata metadata \<longleftrightarrow>
     0 < md_TotalShards metadata \<and> 0 < md_RequiredShards metadata \<and>
     md_RequiredShards metadata \<le> md_TotalShards metadata"

fun so_getFileMetadataFromNetwork ::
  "rpc \<Rightarrow> string \<Rightarrow> DNode \<Rightarrow> peer_id list \<Rightarrow> FileMetadata option" where
  "so_getFileMetadataFromNetwork env fileHash nd [] = None"
| "so_getFileMetadataFromNetwork env fileHash nd (peerID # peers) =
     (case so_requestFileMetadata env peerID fileHash nd of
        Inr (Some metadata) \<Rightarrow>
          if valid_metadata metadata then Some metadata
          else so_getFileMetadataFromNetwork env fileHash nd peers
      | _ \<Rightarrow> so_getFileMetadataFromNetwork env fileHash nd peers)"

definition check_shard :: "int \<Rightarrow> bytes \<Rightarrow> string \<Rightarrow> request_error + Shard" where
  "check_shard shardIndex data expectedHash =
     (if expectedHash \<noteq> '''' \<and> CalculateShardHash data \<noteq> expectedHash
      then Inl (HashMismatch expectedHash (CalculateShardHash data))
      else Inr \<lparr>sh_Index = shardIndex, sh_Data = data, sh_Hash = CalculateShardHash data,
                sh_Size = int (length data)\<rparr>)"

definition so_requestShardFromPeer ::
  "rpc \<Rightarrow> peer_id \<Rightarrow> string \<Rightarrow> int \<Rightarrow> string \<Rightarrow> DNode \<Rightarrow> request_error + Shard" where
  "so_requestShardFromPeer env peerID fileHash shardIndex expectedHash nd =
     (if peerID = nd_self nd then
        (case dn_GetShard fileHash shardIndex (nd_store nd) of
           Inl err \<Rightarrow> Inl (LocalShardFailed err)
         | Inr data \<Rightarrow> check_shard shardIndex data expectedHash)
      else case rpc_shard env peerID fileHash shardIndex of
        Inl err \<Rightarrow> Inl (StreamFailed err)
      | Inr response \<Rightarrow>
          if hr_Error response \<noteq> '''' then Inl (PeerError (hr_Error response))
          else check_shard shardIndex (hr_Data response) expectedHash)"

fun so_retrieveShardFromPeers ::
  "rpc \<Rightarrow> string \<Rightarrow> int \<Rightarrow> string \<Rightarrow> DNode \<Rightarrow> peer_id list \<Rightarrow> request_error option \<Rightarrow> request_error + Shard" where
  "so_retrieveShardFromPeers env fileHash shardIndex shardHash nd [] lastError =
     Inl (case lastError of None \<Rightarrow> NoPeers | Some err \<Rightarrow> err)"
| "so_retrieveShardFromPeers env fileHash shardIndex shardHash nd (peerID # peers) lastError =
     (case so_requestShardFromPeer env peerID fileHash shardIndex shardHash nd of
        Inr shard \<Rightarrow> Inr shard
      | Inl err \<Rightarrow> so_retrieveShardFromPeers env fileHash shardIndex shardHash nd peers (Some err))"

definition expected_hash :: "FileMetadata \<Rightarrow> nat \<Rightarrow> string" where
  "expected_hash metadata i =
     (if i < length (md_ShardHashes metadata) \<and> md_ShardHashes metadata ! i \<noteq> ''''
      then md_ShardHashes metadata ! i else '''')"

text \<open>
  The shards that could be fetched, in the order of their indices. The list holds only these:
  the place of a shard that is missing is taken by the next one.
\<close>

definition fetched_shards :: "rpc \<Rightarrow> string \<Rightarrow> FileMetadata \<Rightarrow> peer_id list \<Rightarrow> DNode \<Rightarrow> Shard list" where
  "fetched_shards env fileHash metadata storingPeers nd =
     concat (map (\<lambda>i. case so_retrieveShardFromPeers env fileHash (int i + 1) (expected_hash metadata i) nd storingPeers None of
                        Inl err \<Rightarrow> [] | Inr shard \<Rightarrow> [shard])
       [0..<nat (md_TotalShards metadata)])"

definition so_retrieveShardsFromPeers ::
  "rpc \<Rightarrow> string \<Rightarrow> FileMetadata \<Rightarrow> peer_id list \<Rightarrow> DNode \<Rightarrow> distributed_error + Shard list" where
  "so_retrieveShardsFromPeers env fileHash metadata storingPeers nd =
     (let shards = fetched_shards env fileHash metadata storingPeers nd
      in if int (length shards) < md_RequiredShards metadata
         then Inl (TooFewRetrieved (int (length shards)) (md_RequiredShards metadata))
         else Inr shards)"

text \<open>
  A wrong hash of the reconstructed data is only logged: the data are returned all the same.
\<close>

definition so_RetrieveFileDistributed ::
  "reed_solomon \<Rightarrow> rpc \<Rightarrow> string \<Rightarrow> DNode \<Rightarrow> ((distributed_error + bytes) \<times> DNode) go" where
  "so_RetrieveFileDistributed rs env fileHash nd0 =
     (let nd = so_SyncNetworkView env nd0;
          storingPeers = gm_get_or [] (nd_index nd) fileHash
      in if gm_get (nd_index nd) fileHash = None \<or> length storingPeers = 0
         then Ret (Inl (FileNotInNetwork fileHash), nd)
         else case so_getFileMetadataFromNetwork env fileHash nd storingPeers of
           None \<Rightarrow> Ret (Inl NoMetadata, nd)
         | Some fileMetadata \<Rightarrow>
             (case so_retrieveShardsFromPeers env fileHash fileMetadata storingPeers nd of
                Inl err \<Rightarrow> Ret (Inl err, nd)
              | Inr shards \<Rightarrow>
                  go_bind (sm_ReconstructData rs shards (md_TotalShards fileMetadata)
                             (md_RequiredShards fileMetadata) (md_OriginalSize fileMetadata)) (\<lambda>r.
                  case r of
                    Inl err \<Rightarrow> Ret (Inl (ReconstructionFailed err), nd)
                  | Inr reconstructedData \<Rightarrow> Ret (Inr reconstructedData, nd))))"

section \<open>Deleting and housekeeping\<close>

definition so_DeleteFileDistributed ::
  "rpc \<Rightarrow> (nat \<Rightarrow> go_time) \<Rightarrow> string \<Rightarrow> DNode \<Rightarrow> (distributed_error + unit) \<times> DNode" where
  "so_DeleteFileDistributed env clock fileHash nd =
     (case fm_DeleteFile fileHash (nd_files nd) of
        (Inl err, s) \<Rightarrow> (Inl (LocalDeleteFailed err), set_files s nd)
      | (Inr _, s) \<Rightarrow> (Inr (), so_announceFileDeletion env clock fileHash (set_files s nd)))"

record StorageStats =
  ss_pending_operations :: int
  ss_completed_operations :: int
  ss_failed_operations :: int
  ss_files :: FileStats

definition so_GetStorageStats :: "DNode \<Rightarrow> StorageStats" where
  "so_GetStorageStats nd =
     \<lparr>ss_pending_operations = int (length (nd_pendingOps nd)),
      ss_completed_operations = int (length (filter (\<lambda>(h, op). op_Status op = ''completed'') (nd_pendingOps nd))),
      ss_failed_operations = int (length (filter (\<lambda>(h, op). op_Status op = ''failed'') (nd_pendingOps nd))),
      ss_files = fm_GetFileStats (nd_files nd)\<rparr>"

definition so_cleanupCompletedOperations :: "go_time \<Rightarrow> DNode \<Rightarrow> DNode" where
  "so_cleanupCompletedOperations now nd =
     (let cleanupThreshold = now - hour
      in nd\<lparr>nd_pendingOps := filter (\<lambda>(fileHash, operation).
              \<not> ((op_Status operation = ''completed'' \<or> op_Status operation = ''failed'') \<and>
                 op_CompletedAt operation < cleanupThreshold)) (nd_pendingOps nd)\<rparr>)"

definition so_IsPeerOnline :: "peer_id \<Rightarrow> DNode \<Rightarrow> bool" where
  "so_IsPeerOnline peerID nd \<longleftrightarrow> peerID = nd_self nd \<or> peerID \<in> set (nd_connected nd)"

definition so_GetOnlinePeers :: "DNode \<Rightarrow> peer_id list" where
  "so_GetOnlinePeers nd = nd_connected nd"

end
