(* ===== verification/Storage_Ops_Correct.thy ===== *)
theory Storage_Ops_Correct
  imports Storage_Ops
begin

text \<open>
  What the distributed storage operations guarantee: which peers are chosen, when a file comes
  back from the network, and where the code does not do what it announces.
\<close>

section \<open>Choosing storage peers\<close>

text \<open>A peer that may be chosen: for its reputation, or as a suitable known peer.\<close>

definition eligible :: "DNode \<Rightarrow> peer_id \<Rightarrow> bool" where
  "eligible nd p \<longleftrightarrow>
     (gm_get (nv_reputation (nd_view nd)) p \<noteq> None \<and> f_le (f64 (7 / 10)) (rs_GetPeerScore p (nd_view nd)) \<and>
        \<not> so_isGatewayNode p (nd_view nd)) \<or>
     (\<exists>i. gm_get (nv_peers (nd_view nd)) p = Some i \<and> peer_suitable i)"

definition selectable :: "DNode \<Rightarrow> peer_id list \<Rightarrow> bool" where
  "selectable nd ps \<longleftrightarrow> distinct ps \<and>
     (\<forall>p \<in> set ps. p \<noteq> nd_self nd \<and> p \<in> set (nd_connected nd) \<and> eligible nd p)"

lemma selectable_append:
  "selectable nd ps \<Longrightarrow> p \<notin> set ps \<Longrightarrow> p \<noteq> nd_self nd \<Longrightarrow> p \<in> set (nd_connected nd) \<Longrightarrow>
     eligible nd p \<Longrightarrow> selectable nd (ps @ [p])"
  by (auto simp: selectable_def)

lemma selectable_take: "selectable nd ps \<Longrightarrow> selectable nd (take n ps)"
  by (auto simp: selectable_def dest: in_set_takeD)

lemma pick_best_selectable:
  assumes "selectable nd cs" and "distinct ps" and "set ps \<inter> set cs = {}"
    and "\<forall>p \<in> set ps. \<not> so_isGatewayNode p (nd_view nd) \<longrightarrow> eligible nd p"
    and "0 \<le> n" and "int (length cs) \<le> n"
  shows "case pick_best nd n ps cs of
      Inl sel \<Rightarrow> selectable nd sel \<and> int (length sel) \<le> n
    | Inr cs' \<Rightarrow> selectable nd cs' \<and> int (length cs') \<le> n"
  using assms
proof (induction nd n ps cs rule: pick_best.induct)
  case (1 nd n cs)
  then show ?case by simp
next
  case (2 nd n p ps cs)
  let ?c = "if p \<in> set (nd_connected nd) then cs @ [p] else cs"
  consider (skip) "p = nd_self nd \<or> so_isGatewayNode p (nd_view nd)"
    | (take) "p \<noteq> nd_self nd" "\<not> so_isGatewayNode p (nd_view nd)" by blast
  then show ?case
  proof cases
    case skip
    with 2 show ?thesis by auto
  next
    case take
    have sel: "selectable nd ?c"
      using 2(4-) take by (auto intro!: selectable_append)
    show ?thesis
    proof (cases "n \<le> int (length ?c)")
      case True
      have "selectable nd (take (nat n) ?c)" by (rule selectable_take [OF sel])
      with True take 2(8) show ?thesis by (simp add: Let_def del: take_append)
    next
      case False
      then show ?thesis using 2(3) [OF take refl False sel] 2(4-) take by (auto simp: Let_def)
    qed
  qed
qed

lemma pick_others_selectable:
  assumes "selectable nd cs" and "\<forall>(p, i) \<in> set ps. gm_get (nv_peers (nd_view nd)) p = Some i"
    and "int (length cs) \<le> n"
  shows "selectable nd (pick_others nd n ps cs) \<and> int (length (pick_others nd n ps cs)) \<le> n"
  using assms
proof (induction nd n ps cs rule: pick_others.induct)
  case (1 nd n cs)
  then show ?case by simp
next
  case (2 nd n p i ps cs)
  have el: "peer_suitable i \<Longrightarrow> eligible nd p" using 2(6) by (auto simp: eligible_def)
  show ?case
    using 2 el by (auto simp: selectable_append)
qed

lemma selectStoragePeers_spec:
  assumes "nv_inv (nd_view nd)"
  shows "if n < 0 then so_selectStoragePeers n nd = Panic MakeSliceOutOfRange
    else \<exists>sel. so_selectStoragePeers n nd = Ret sel \<and> int (length sel) \<le> n \<and> distinct sel \<and>
      (\<forall>p \<in> set sel. p \<noteq> nd_self nd \<and> p \<in> set (nd_connected nd) \<and> eligible nd p)"
proof (cases "n < 0")
  case True
  then show ?thesis by (simp add: so_selectStoragePeers_def rs_GetBestPeers_def)
next
  case False
  have sc: "nv_scored (nd_view nd)" using assms by (simp add: nv_inv_def)
  have nn: "f64 (7 / 10) \<noteq> NaN" by (rule in_unit_not_NaN, rule in_unit_f64) simp_all
  obtain best where best: "rs_GetBestPeers (f64 (7 / 10)) n (nd_view nd) = Ret best" and d: "distinct best"
    and el: "\<forall>p \<in> set best. gm_get (nv_reputation (nd_view nd)) p \<noteq> None \<and> f_le (f64 (7 / 10)) (rs_GetPeerScore p (nd_view nd))"
    using rs_GetBestPeers_spec [OF sc nn, of n] False by auto
  have empty: "selectable nd []" by (simp add: selectable_def)
  have P: "case pick_best nd n best [] of
      Inl sel \<Rightarrow> selectable nd sel \<and> int (length sel) \<le> n
    | Inr cs' \<Rightarrow> selectable nd cs' \<and> int (length cs') \<le> n"
    using pick_best_selectable [OF empty d, of n] el False by (auto simp: eligible_def)
  have wf: "\<forall>(p, i) \<in> set (nv_peers (nd_view nd)). gm_get (nv_peers (nd_view nd)) p = Some i"
    using sc by (auto simp: nv_scored_def gm_wf_get)
  show ?thesis
  proof (cases "pick_best nd n best []")
    case (Inl sel)
    with P False best show ?thesis by (simp add: so_selectStoragePeers_def selectable_def)
  next
    case (Inr cs)
    with P have "selectable nd cs \<and> int (length cs) \<le> n" by simp
    then have "selectable nd (pick_others nd n (nv_peers (nd_view nd)) cs) \<and>
        int (length (pick_others nd n (nv_peers (nd_view nd)) cs)) \<le> n"
      using pick_others_selectable [OF _ wf] by blast
    with Inr False best show ?thesis by (simp add: so_selectStoragePeers_def selectable_def)
  qed
qed

text \<open>
  C35: Selection. From a well-formed view, \<open>selectStoragePeers\<close> returns at most the wanted
  number of peers, all different, all connected, never the node itself, and each of them either
  has a reputation of at least 0.7 and is no gateway, or is a known peer that counts as
  suitable; a negative number of peers makes it panic.
\<close>

theorem selectStoragePeers_sound:
  assumes "nv_inv (nd_view nd)"
  shows "if n < 0 then so_selectStoragePeers n nd = Panic MakeSliceOutOfRange
    else \<exists>sel. so_selectStoragePeers n nd = Ret sel \<and> int (length sel) \<le> n \<and> distinct sel \<and>
      (\<forall>p \<in> set sel. p \<noteq> nd_self nd \<and> p \<in> set (nd_connected nd) \<and> eligible nd p)"
  using assms by (rule selectStoragePeers_spec)

theorem selectStoragePeers_sound_witness:
  "\<exists>sel. so_selectStoragePeers 2
     \<lparr>nd_self = ''me'', nd_connected = [''p''], nd_view = NewNetworkView,
      nd_storage = \<lparr>en_chunks = [], en_MaxStorageBytes = 0, en_storageDir = ''d'', en_metadataFile = ''m''\<rparr>,
      nd_fileManager = \<lparr>fm_engine = \<lparr>en_chunks = [], en_MaxStorageBytes = 0, en_storageDir = ''d'', en_metadataFile = ''m''\<rparr>,
        fm_shardManager = NewShardManager, fm_fileIndex = [], fm_metadataFile = ''m'', fm_storageDir = ''d''\<rparr>,
      nd_disk = \<lparr>dk_files = [], dk_fails = (\<lambda>_. False), dk_short = (\<lambda>_. 0)\<rparr>,
      nd_pendingOps = [], nd_published = []\<rparr> = Ret sel \<and> distinct sel"
  (is "\<exists>sel. so_selectStoragePeers 2 ?nd = Ret sel \<and> distinct sel")
proof -
  have "nv_inv (nd_view ?nd)"
    by (simp add: nv_inv_def nv_scored_def index_wf_def NewNetworkView_def)
  from selectStoragePeers_sound [OF this, of 2] show ?thesis by auto
qed

text \<open>
  An overfull gateway is chosen. The free space of a peer is a \<open>uint64\<close> difference, so a
  peer that reports more used space than capacity counts as having almost \<open>2 ^ 64\<close> bytes free,
  and the second loop does not skip gateways: such a peer, known and connected, is selected.
\<close>

theorem overfull_gateway_selected:
  assumes "nv_peers (nd_view nd) = [(p, i)]" and "nv_reputation (nd_view nd) = []"
    and "pi_Info i = Some info" and "fi_IsActive info" and "fi_Tags info = [''gateway'']"
    and "fi_StorageCapacity info < fi_UsedStorage info"
    and "unat (fi_UsedStorage info) - unat (fi_StorageCapacity info) < 2 ^ 63"
    and "p \<noteq> nd_self nd" and "p \<in> set (nd_connected nd)"
  shows "so_selectStoragePeers 1 nd = Ret [p] \<and> so_isGatewayNode p (nd_view nd)"
proof -
  let ?c = "fi_StorageCapacity info" and ?u = "fi_UsedStorage info"
  have lt: "unat ?c < unat ?u" using assms(6) by (simp add: word_less_nat_alt)
  then have "unat (?c - ?u) = unat ?c + 2 ^ 64 - unat ?u" by (simp add: unat_sub_if')
  moreover have "unat ?u < 2 ^ 64" using unsigned_less [of ?u] by simp
  ultimately have "104857600 < unat (?c - ?u)" using assms(7) lt by simp
  moreover have "unat (104857600 :: u64) = 104857600" by simp
  ultimately have "\<not> ?c - ?u \<le> 100 * 1024 * 1024" by (simp add: word_le_nat_alt)
  then have suit: "peer_suitable i" using assms(3,4) by (simp add: peer_suitable_def)
  have "so_hasGatewayTags [''gateway'']" by code_simp
  then have "so_isGatewayNode p (nd_view nd)" using assms(1,3,5) by (simp add: so_isGatewayNode_def)
  with assms suit show ?thesis
    by (simp add: so_selectStoragePeers_def rs_GetBestPeers_def)
qed

text \<open>A node that only knows an overfull gateway.\<close>

definition example_node :: DNode where
  "example_node =
     \<lparr>nd_self = ''me'', nd_connected = [''p''], nd_view = NewNetworkView,
      nd_storage = \<lparr>en_chunks = [], en_MaxStorageBytes = 10, en_storageDir = ''d'', en_metadataFile = ''d/metadata.gob''\<rparr>,
      nd_fileManager = \<lparr>fm_engine = \<lparr>en_chunks = [], en_MaxStorageBytes = 10, en_storageDir = ''d'', en_metadataFile = ''d/metadata.gob''\<rparr>,
        fm_shardManager = NewShardManager, fm_fileIndex = [], fm_metadataFile = ''d/file_metadata.gob'', fm_storageDir = ''d''\<rparr>,
      nd_disk = \<lparr>dk_files = [], dk_fails = (\<lambda>_. False), dk_short = (\<lambda>_. 0)\<rparr>,
      nd_pendingOps = [], nd_published = []\<rparr>"

definition gateway_info :: FarmerInfo where
  "gateway_info =
     \<lparr>fi_PeerID = ''p'', fi_NodeName = '''', fi_Version = '''', fi_Addresses = [], fi_StorageCapacity = 10,
      fi_UsedStorage = 11, fi_Reliability = Fin 1, fi_Latency = 0, fi_Uptime = Fin 0, fi_Location = '''',
      fi_IsActive = True, fi_IsPrimary = False, fi_Tags = [''gateway''], fi_LastSeen = 0, fi_StartTime = 0,
      fi_LastSync = 0\<rparr>"

theorem overfull_gateway_selected_witness:
  "so_selectStoragePeers 1
     (example_node\<lparr>nd_view := NewNetworkView\<lparr>nv_peers := [(''p'', new_peer 0 (Some gateway_info))]\<rparr>\<rparr>) = Ret [''p'']"
  using overfull_gateway_selected [of "example_node\<lparr>nd_view := NewNetworkView\<lparr>nv_peers := [(''p'', new_peer 0 (Some gateway_info))]\<rparr>\<rparr>"
      "''p''" "new_peer 0 (Some gateway_info)" gateway_info]
  by (simp add: example_node_def NewNetworkView_def new_peer_def gateway_info_def)

section \<open>Storing\<close>

lemma announce_unknown: "gm_get (fm_fileIndex (nd_fileManager nd)) h = None \<Longrightarrow> so_announceFileToNetwork env clock h ps nd = nd"
  by (simp add: so_announceFileToNetwork_def fm_GetFileInfo_def)

lemma announce_files [simp]: "nd_fileManager (so_announceFileToNetwork env clock h ps nd) = nd_fileManager nd"
  by (simp add: so_announceFileToNetwork_def publish_retry_def Let_def split: sum.splits)

lemma first_store_facts:
  assumes "gm_get (fm_fileIndex (nd_fileManager nd)) (CalculateFileHash data) = None"
    and "so_StoreFileDistributed rs env clock fileName data n k nd = Ret (Inr h, nd')"
  shows "h = CalculateFileHash data \<and> nd_published nd' = nd_published nd \<and> nd_view nd' = nd_view nd \<and>
    (\<exists>md. gm_get (fm_fileIndex (nd_fileManager nd')) h = Some md \<and> md_TotalShards md = n \<and>
       md_RequiredShards md = k \<and> md_OriginalSize md = int (length data) \<and> md_ShardHashes md = [])"
proof -
  let ?op = "\<lambda>opShards. \<lparr>op_FileHash = CalculateFileHash data, op_Operation = ''store'', op_Status = ''completed'',
                                 op_Shards = opShards, op_StartTime = clock 0, op_CompletedAt = clock 1\<rparr>"
  from assms(2) obtain peers opShards where h: "h = CalculateFileHash data"
    and nd': "nd' = (let nd1 = nd\<lparr>nd_pendingOps := gm_put h (?op opShards) (nd_pendingOps nd)\<rparr>
        in snd (so_storeFileMetadataLocally clock h fileName data n k peers
             (so_announceFileToNetwork env clock h (so_getAnnouncementPeers peers nd1) nd1)))"
    by (auto simp: so_StoreFileDistributed_def go_bind_Ret_iff Let_def split: if_splits sum.splits)
  have a: "so_announceFileToNetwork env clock h ps (nd\<lparr>nd_pendingOps := m\<rparr>) = nd\<lparr>nd_pendingOps := m\<rparr>" for ps m
    using assms(1) h by (intro announce_unknown) simp
  show ?thesis
    unfolding nd' Let_def a
    by (auto simp: so_storeFileMetadataLocally_def fm_UpdateFileMetadata_def node_defs new_metadata_def h Let_def
        split: prod.splits)
qed

text \<open>
  A new file is not announced. \<open>StoreFileDistributed\<close> announces a file before it enters
  the file's metadata locally, and the announcement gives up when there are none: after the
  first successful store of a file nothing has been published and the node's own file index
  is unchanged, although the metadata are there afterwards and the call succeeded.
\<close>

theorem first_store_not_announced:
  assumes "gm_get (fm_fileIndex (nd_fileManager nd)) (CalculateFileHash data) = None"
    and "so_StoreFileDistributed rs env clock fileName data n k nd = Ret (Inr h, nd')"
  shows "h = CalculateFileHash data \<and> nd_published nd' = nd_published nd \<and> nd_view nd' = nd_view nd \<and>
    (\<exists>md. gm_get (fm_fileIndex (nd_fileManager nd')) h = Some md \<and> md_TotalShards md = n \<and>
       md_RequiredShards md = k \<and> md_OriginalSize md = int (length data) \<and> md_ShardHashes md = [])"
  using assms by (rule first_store_facts)

text \<open>Three peers that accept every shard.\<close>

definition accepting_rpc :: rpc where
  "accepting_rpc =
     \<lparr>rpc_store = (\<lambda>p r. Inr \<lparr>sr_Success = True, sr_Error = '''', sr_Message = '''', sr_Data = []\<rparr>),
      rpc_metadata = (\<lambda>p h. Inl ''closed''), rpc_shard = (\<lambda>p h i. Inl ''closed''),
      rpc_list = (\<lambda>p. Inl ''closed''), rpc_publish = (\<lambda>n. True)\<rparr>"

definition three_peer_node :: DNode where
  "three_peer_node = example_node\<lparr>nd_connected := [''a'', ''b'', ''c''],
     nd_view := NewNetworkView\<lparr>nv_peers := [(''a'', new_peer 0 None), (''b'', new_peer 0 None), (''c'', new_peer 0 None)]\<rparr>\<rparr>"

lemma xor_shards_12:
  "sm_ShardData xor_codec [1, 2] 3 2 =
     Inr [\<lparr>sh_Index = 1, sh_Data = [1], sh_Hash = CalculateShardHash [1], sh_Size = 1\<rparr>,
          \<lparr>sh_Index = 2, sh_Data = [2], sh_Hash = CalculateShardHash [2], sh_Size = 1\<rparr>,
          \<lparr>sh_Index = 3, sh_Data = [3], sh_Hash = CalculateShardHash [3], sh_Size = 1\<rparr>]"
proof -
  have "xor_split [1, 2] = Inr [[1], [2], []]" by code_simp
  then show ?thesis by (simp add: sm_ShardData_def Let_def xor_codec_def xor_bytes_def)
qed

lemma three_peers_selected: "so_selectStoragePeers 3 three_peer_node = Ret [''a'', ''b'', ''c'']"
proof -
  have "\<not> f_lt (Fin 1) (f64 (3 / 10))" by code_simp
  then have "peer_suitable (new_peer 0 None)" by (simp add: peer_suitable_def new_peer_def)
  then show ?thesis
    by (simp add: so_selectStoragePeers_def rs_GetBestPeers_def three_peer_node_def example_node_def
        NewNetworkView_def)
qed

theorem first_store_not_announced_witness:
  "\<exists>nd'. so_StoreFileDistributed xor_codec accepting_rpc (\<lambda>_. 0) ''f'' [1, 2] 3 2 three_peer_node =
       Ret (Inr (CalculateFileHash [1, 2]), nd') \<and> nd_published nd' = [] \<and>
     gm_get (nd_index nd') (CalculateFileHash [1, 2]) = None"
proof -
  have "\<exists>nd'. so_StoreFileDistributed xor_codec accepting_rpc (\<lambda>_. 0) ''f'' [1, 2] 3 2 three_peer_node =
      Ret (Inr (CalculateFileHash [1, 2]), nd')"
    by (simp add: so_StoreFileDistributed_def three_peers_selected xor_shards_12 go_make_def Let_def
        so_distributeShardToPeer_def accepting_rpc_def)
  then obtain nd' where st: "so_StoreFileDistributed xor_codec accepting_rpc (\<lambda>_. 0) ''f'' [1, 2] 3 2 three_peer_node =
      Ret (Inr (CalculateFileHash [1, 2]), nd')" by blast
  have "gm_get (fm_fileIndex (nd_fileManager three_peer_node)) (CalculateFileHash [1, 2]) = None"
    by (simp add: three_peer_node_def example_node_def)
  from first_store_not_announced [OF this st] st show ?thesis
    by (simp add: three_peer_node_def example_node_def NewNetworkView_def nd_index_def)
qed

section \<open>Retrieving\<close>

lemma Sync_disk: "nd_disk (so_SyncNetworkView env nd) = nd_disk nd \<and> nd_fileManager (so_SyncNetworkView env nd) = nd_fileManager nd"
proof -
  have "nd_disk (fold (so_queryPeerForFiles env) ps nd) = nd_disk nd \<and>
      nd_fileManager (fold (so_queryPeerForFiles env) ps nd) = nd_fileManager nd" for ps
    by (induction ps arbitrary: nd) (auto simp: so_queryPeerForFiles_def split: sum.splits)
  then show ?thesis by (simp add: so_SyncNetworkView_def)
qed

lemma Retrieve_state:
  "so_RetrieveFileDistributed rs env h nd = Ret (r, nd') \<Longrightarrow> nd' = so_SyncNetworkView env nd"
  by (auto simp: so_RetrieveFileDistributed_def go_bind_Ret_iff Let_def split: if_splits option.splits sum.splits)
    (metis sum.exhaust)

lemma check_shard_data: "check_shard i b e = Inr s \<Longrightarrow> sh_Data s = b"
  by (auto simp: check_shard_def split: if_splits)

lemma concat_prefix:
  assumes "\<And>i. i < m \<Longrightarrow> f i = [g i]" and "\<And>i. m \<le> i \<Longrightarrow> i < n \<Longrightarrow> f i = []" and "m \<le> n"
  shows "concat (map f [0..<n]) = map g [0..<m]"
proof -
  have split: "[0..<n] = [0..<m] @ [m..<n]"
    using assms(3) by (metis le_add_diff_inverse upt_add_eq_append zero_le)
  have none: "concat (map f [m..<n]) = []" using assms(2) by simp
  have "map f [0..<m] = map (\<lambda>i. [g i]) [0..<m]" using assms(1) by simp
  then have some: "concat (map f [0..<m]) = map g [0..<m]" by (simp only: concat_map_singleton)
  show ?thesis by (simp only: split map_append concat_append none some append_Nil2)
qed

text \<open>What the peers of a file deliver: its first \<open>m\<close> shards, and nothing for the others.\<close>

definition delivers :: "rpc \<Rightarrow> string \<Rightarrow> FileMetadata \<Rightarrow> peer_id list \<Rightarrow> DNode \<Rightarrow> Shard list \<Rightarrow> nat \<Rightarrow> bool" where
  "delivers env h md peers nd shards m \<longleftrightarrow>
     (\<forall>i < length shards.
        case so_retrieveShardFromPeers env h (int i + 1) (expected_hash md i) nd peers None of
          Inl err \<Rightarrow> m \<le> i
        | Inr s \<Rightarrow> i < m \<and> sh_Data s = sh_Data (shards ! i))"

lemma fetched_delivers:
  assumes "delivers env h md peers nd shards m" and "md_TotalShards md = int (length shards)" and "m \<le> length shards"
  shows "length (fetched_shards env h md peers nd) = m \<and>
    (\<forall>i < m. sh_Data (fetched_shards env h md peers nd ! i) = sh_Data (shards ! i))"
proof -
  define g where "g = (\<lambda>i. case so_retrieveShardFromPeers env h (int i + 1) (expected_hash md i) nd peers None of
      Inl err \<Rightarrow> undefined | Inr s \<Rightarrow> s)"
  have d: "case so_retrieveShardFromPeers env h (int i + 1) (expected_hash md i) nd peers None of
          Inl err \<Rightarrow> m \<le> i | Inr s \<Rightarrow> i < m \<and> sh_Data s = sh_Data (shards ! i)"
    if "i < length shards" for i
    using assms(1) that unfolding delivers_def by blast
  have "fetched_shards env h md peers nd = map g [0..<m]"
    unfolding fetched_shards_def assms(2) nat_int
  proof (rule concat_prefix [OF _ _ assms(3)])
    fix i
    assume "i < m"
    then show "(case so_retrieveShardFromPeers env h (int i + 1) (expected_hash md i) nd peers None of
        Inl err \<Rightarrow> [] | Inr s \<Rightarrow> [s]) = [g i]"
      using d [of i] assms(3) by (auto simp: g_def split: sum.splits)
  next
    fix i
    assume "m \<le> i" "i < length shards"
    then show "(case so_retrieveShardFromPeers env h (int i + 1) (expected_hash md i) nd peers None of
        Inl err \<Rightarrow> [] | Inr s \<Rightarrow> [s]) = []"
      using d [of i] by (auto split: sum.splits)
  qed
  moreover have "sh_Data (g i) = sh_Data (shards ! i)" if "i < m" for i
    using d [of i] that assms(3) by (auto simp: g_def split: sum.splits)
  ultimately show ?thesis by simp
qed

lemma fetched_in_place:
  assumes "rs_codec rs k (n - k)" and "sm_ShardData rs data n k = Inr shards" and "md_TotalShards md = n"
    and "delivers env h md peers nd shards m" and "int m \<le> n"
  shows "length (fetched_shards env h md peers nd) = m" and "in_place (fetched_shards env h md peers nd) shards"
    and "present_shards (fetched_shards env h md peers nd) = int m"
proof -
  let ?got = "fetched_shards env h md peers nd"
  note L = ShardData_length [OF assms(1,2)]
  have m: "m \<le> length shards" using L(1) assms(5) by simp
  have got: "length ?got = m" "\<forall>i < m. sh_Data (?got ! i) = sh_Data (shards ! i)"
    using fetched_delivers [OF assms(4) _ m] L(1) assms(3) by simp_all
  show "length ?got = m" by (rule got)
  show "in_place ?got shards" using got m by (simp add: in_place_def)
  have "sh_Data (shards ! i) \<noteq> []" if "i < length shards" for i using L(2) nth_mem [OF that] by blast
  then have "\<forall>s \<in> set ?got. sh_Data s \<noteq> []"
    using got m by (auto simp: in_set_conv_nth)
  then have "filter (\<lambda>s. sh_Data s \<noteq> []) ?got = ?got" by (simp add: filter_id_conv)
  then show "present_shards ?got = int m" using got(1) by (simp add: present_shards_def)
qed

lemma retrieve_prefix:
  assumes "rs_codec rs k (n - k)" and "sm_ShardData rs data n k = Inr shards"
    and "gm_get (nd_index (so_SyncNetworkView env nd)) h = Some (p # peers)"
    and "so_getFileMetadataFromNetwork env h (so_SyncNetworkView env nd) (p # peers) = Some md"
    and "md_TotalShards md = n" and "md_RequiredShards md = k" and "md_OriginalSize md = int (length data)"
    and "delivers env h md (p # peers) (so_SyncNetworkView env nd) shards m" and "k \<le> int m" and "int m \<le> n"
  shows "so_RetrieveFileDistributed rs env h nd = Ret (Inr data, so_SyncNetworkView env nd)"
proof -
  let ?got = "fetched_shards env h md (p # peers) (so_SyncNetworkView env nd)"
  note got = fetched_in_place [OF assms(1,2,5,8,10)]
  have "sm_ReconstructData rs ?got n k (int (length data)) = Ret (Inr data)"
    using reconstruct_in_place [OF assms(1,2) got(2)] got(3) assms(9) by simp
  then show ?thesis
    using assms(3-7,9) got(1)
    by (simp add: so_RetrieveFileDistributed_def so_retrieveShardsFromPeers_def gm_get_or_def Let_def)
qed

text \<open>
  Retrieval. When, after the file lists have been merged, the index names peers for the
  file, the first valid metadata they serve are those of the stored data, and for some
  \<open>m \<ge> k\<close> they deliver exactly the first \<open>m\<close> of the \<open>n\<close> shards, \<open>RetrieveFileDistributed\<close>
  returns the stored data.
\<close>

theorem RetrieveFileDistributed_prefix:
  assumes "rs_codec rs k (n - k)" and "sm_ShardData rs data n k = Inr shards"
    and "gm_get (nd_index (so_SyncNetworkView env nd)) h = Some (p # peers)"
    and "so_getFileMetadataFromNetwork env h (so_SyncNetworkView env nd) (p # peers) = Some md"
    and "md_TotalShards md = n" and "md_RequiredShards md = k" and "md_OriginalSize md = int (length data)"
    and "delivers env h md (p # peers) (so_SyncNetworkView env nd) shards m" and "k \<le> int m" and "int m \<le> n"
  shows "so_RetrieveFileDistributed rs env h nd = Ret (Inr data, so_SyncNetworkView env nd)"
  using assms by (rule retrieve_prefix)

text \<open>
  Peers that hold the shards of the data \<open>[1, 2]\<close>, all but the ones in \<open>missing\<close>, and metadata
  without shard hashes, as the storing node keeps them.
\<close>

definition holder_rpc :: "int set \<Rightarrow> rpc" where
  "holder_rpc missing =
     \<lparr>rpc_store = (\<lambda>p r. Inl ''closed''),
      rpc_metadata = (\<lambda>p h. Inr \<lparr>mr_Metadata = Some (new_metadata h ''f'' [1, 2] 3 2 [''p''] 0 0), mr_Error = ''''\<rparr>),
      rpc_shard = (\<lambda>p h i. if i \<in> missing then Inl ''not found''
                    else Inr \<lparr>hr_Data = [word_of_int i], hr_Error = ''''\<rparr>),
      rpc_list = (\<lambda>p. Inl ''closed''), rpc_publish = (\<lambda>n. True)\<rparr>"

definition finder_node :: "string \<Rightarrow> DNode" where
  "finder_node h = example_node\<lparr>nd_view := NewNetworkView\<lparr>nv_fileIndex := [(h, [''p''])]\<rparr>\<rparr>"

lemma finder_sync: "so_SyncNetworkView env (finder_node h) = finder_node h"
  by (simp add: so_SyncNetworkView_def finder_node_def NewNetworkView_def)

lemma finder_index: "gm_get (nd_index (finder_node h)) h = Some [''p'']"
  by (simp add: finder_node_def nd_index_def)

lemma finder_metadata:
  "so_getFileMetadataFromNetwork (holder_rpc missing) h (finder_node h) [''p''] =
     Some (new_metadata h ''f'' [1, 2] 3 2 [''p''] 0 0)"
  by (simp add: so_requestFileMetadata_def holder_rpc_def finder_node_def example_node_def valid_metadata_def
      new_metadata_def)

lemma finder_shard:
  "so_retrieveShardFromPeers (holder_rpc missing) h i '''' (finder_node h) [''p''] None =
     (if i \<in> missing then Inl (StreamFailed ''not found'')
      else Inr \<lparr>sh_Index = i, sh_Data = [word_of_int i], sh_Hash = CalculateShardHash [word_of_int i], sh_Size = 1\<rparr>)"
  by (simp add: so_requestShardFromPeer_def holder_rpc_def finder_node_def example_node_def check_shard_def)

lemma no_expected_hash: "expected_hash (new_metadata h ''f'' [1, 2] 3 2 [''p''] 0 0) i = ''''"
  by (simp add: expected_hash_def new_metadata_def)

theorem RetrieveFileDistributed_prefix_witness:
  "so_RetrieveFileDistributed xor_codec (holder_rpc {3}) (CalculateFileHash [1, 2])
     (finder_node (CalculateFileHash [1, 2])) = Ret (Inr [1, 2], finder_node (CalculateFileHash [1, 2]))"
proof -
  let ?h = "CalculateFileHash [1, 2]"
  have c: "rs_codec xor_codec 2 (3 - 2)" using xor_codec_ok by simp
  have d: "delivers (holder_rpc {3}) ?h (new_metadata ?h ''f'' [1, 2] 3 2 [''p''] 0 0) [''p''] (finder_node ?h)
      [\<lparr>sh_Index = 1, sh_Data = [1], sh_Hash = CalculateShardHash [1], sh_Size = 1\<rparr>,
       \<lparr>sh_Index = 2, sh_Data = [2], sh_Hash = CalculateShardHash [2], sh_Size = 1\<rparr>,
       \<lparr>sh_Index = 3, sh_Data = [3], sh_Hash = CalculateShardHash [3], sh_Size = 1\<rparr>] 2"
    unfolding delivers_def no_expected_hash finder_shard by (simp add: less_Suc_eq numeral_2_eq_2)
  show ?thesis
    using RetrieveFileDistributed_prefix [OF c xor_shards_12, of "holder_rpc {3}" "finder_node ?h" ?h "''p''" "[]"
        "new_metadata ?h ''f'' [1, 2] 3 2 [''p''] 0 0" 2] d finder_metadata
    by (simp add: finder_sync finder_index new_metadata_def)
qed

text \<open>
  A wrong file without an error. When an earlier shard is the missing one, the fetched
  shards move up; the reconstruction yields other bytes, the hash check only logs a warning,
  and \<open>RetrieveFileDistributed\<close> returns \<open>[2, 3]\<close> for the file \<open>[1, 2]\<close>, although the peers
  hold two of its three shards unharmed.
\<close>

theorem wrong_file_returned:
  "so_RetrieveFileDistributed xor_codec (holder_rpc {1}) (CalculateFileHash [1, 2])
     (finder_node (CalculateFileHash [1, 2])) = Ret (Inr [2, 3], finder_node (CalculateFileHash [1, 2]))"
proof -
  let ?h = "CalculateFileHash [1, 2]"
  let ?md = "new_metadata ?h ''f'' [1, 2] 3 2 [''p''] 0 0"
  let ?s = "\<lambda>i b. \<lparr>sh_Index = i, sh_Data = [b], sh_Hash = CalculateShardHash [b], sh_Size = 1\<rparr>"
  have "fetched_shards (holder_rpc {1}) ?h ?md [''p''] (finder_node ?h) = [?s 2 2, ?s 3 3]"
    unfolding fetched_shards_def no_expected_hash finder_shard
    by (simp add: new_metadata_def upt_rec)
  moreover have "sm_ReconstructData xor_codec [?s 2 2, ?s 3 3] 3 2 2 = Ret (Inr [2, 3])"
    by (simp add: sm_ReconstructData_def Let_def xor_codec_def xor_join_def xor_bytes_def go_make_def
        raw_shards_def upt_rec numeral_eq_Suc)
  ultimately show ?thesis
    using finder_metadata [of "{1}" ?h]
    by (simp add: so_RetrieveFileDistributed_def finder_sync finder_index gm_get_or_def
        so_retrieveShardsFromPeers_def Let_def) (simp add: new_metadata_def)
qed

end
