(* ===== verification/Message_Handlers.thy ===== *)
theory Message_Handlers
  imports Types
begin

text \<open>
  The protocol handlers of the original master/farmer protocol
  (\<open>internal/protocol/handlers.go\<close>), which \<open>node.go\<close> still serves on its bitswap, storage,
  discovery and proof-of-storage streams. The master node behind the handler is an interface; it
  is a record of the methods the handlers call, on a state of its own, and \<open>None\<close> is the nil
  interface. A message that arrived is its base part with the body its type announces, \<open>NoBody\<close>
  when that does not decode. \<open>writes\<close> tells whether writing to the stream succeeds.
\<close>

record Message =
  mg_Type :: string
  mg_ID :: string
  mg_Timestamp :: go_time
  mg_PeerID :: peer_id
  mg_Success :: bool

record PerformanceMetrics =
  pm_Reliability :: float64
  pm_ResponseTime :: int
  pm_SuccessRate :: float64
  pm_StorageHealth :: float64
  pm_ChunksStored :: int

record StorageProof =
  sp_ChunkHash :: string
  sp_Proof :: bytes
  sp_Timestamp :: go_time
  sp_Size :: int

record RegistrationRequest =
  rq_StorageCapacity :: u64
  rq_UsedStorage :: u64
  rq_Addresses :: "string list"
  rq_ProtocolVersion :: string
  rq_Location :: string
  rq_NodeName :: string
  rq_Version :: string

record ProofOfStorage =
  ps_UsedStorage :: u64
  ps_AvailableStorage :: u64
  ps_ChunksStored :: int
  ps_Uptime :: float64
  ps_StorageProofs :: "StorageProof list"
  ps_Performance :: PerformanceMetrics
  ps_Location :: string
  ps_Latency :: int

record ChallengeResponse =
  cr_ChallengeID :: string
  cr_Proofs :: "StorageProof list"
  cr_RespondedAt :: go_time

record StorageOffer =
  of_ChunkHash :: string
  of_Size :: u64
  of_Duration :: int
  of_Price :: u64

record ChunkResponse =
  ck_ChunkHash :: string
  ck_Data :: bytes
  ck_Error :: string
  ck_Success :: bool

record RegistrationResponse =
  rg_StatusMessage :: string
  rg_AssignedID :: string

record FileLocationQuery =
  fq_FileHash :: string
  fq_ChunkIndex :: int

record ChunkLocation =
  cl_ChunkHash :: string
  cl_Farmers :: "peer_id list"

record FileLocationResponse =
  fr_FileHash :: string
  fr_Locations :: "ChunkLocation list"

record ChunkRequest =
  cq_ChunkHash :: string
  cq_Priority :: int

datatype Body = RegistrationBody RegistrationRequest | ProofBody ProofOfStorage
  | QueryBody FileLocationQuery | ChallengeBody ChallengeResponse | OfferBody StorageOffer
  | ChunkRequestBody ChunkRequest | ChunkResponseBody ChunkResponse | NoBody

datatype Reply = RegistrationReply Message RegistrationResponse | MessageReply Message
  | LocationReply Message FileLocationResponse | ChunkReply Message ChunkResponse

record 'm MasterNode =
  ms_HostID :: peer_id
  ms_HandleIncomingRegistration :: "peer_id \<Rightarrow> RegistrationRequest \<Rightarrow> 'm \<Rightarrow> string option \<times> 'm"
  ms_HandleProofOfStorage :: "peer_id \<Rightarrow> ProofOfStorage \<Rightarrow> 'm \<Rightarrow> 'm"

datatype handler_error = UnmarshalFailed | UnknownMessageType string | WriteFailed

text \<open>The result of a handler: an error, or the reply it wrote (\<open>None\<close>: it writes none).\<close>

type_synonym 'm handled = "((handler_error + Reply option) \<times> 'm) go"

definition h_sendResponse :: "bool \<Rightarrow> Reply \<Rightarrow> 'm \<Rightarrow> 'm handled" where
  "h_sendResponse writes response m = Ret (if writes then Inr (Some response) else Inl WriteFailed, m)"

text \<open>A method call on the master node: a nil interface panics.\<close>

definition with_master :: "'m MasterNode option \<Rightarrow> ('m MasterNode \<Rightarrow> 'm handled) \<Rightarrow> 'm handled" where
  "with_master mn f = (case mn of None \<Rightarrow> Panic NilDereference | Some master \<Rightarrow> f master)"

section \<open>Proofs\<close>

definition h_validateSingleProof :: "StorageProof \<Rightarrow> bool" where
  "h_validateSingleProof proof \<longleftrightarrow> 0 < length (sp_Proof proof) \<and> 0 < sp_Size proof"

definition h_validateStorageProofs :: "StorageProof list \<Rightarrow> StorageProof list" where
  "h_validateStorageProofs proofs = filter h_validateSingleProof proofs"

definition h_validateChallengeProofs :: "StorageProof list \<Rightarrow> string \<Rightarrow> bool" where
  "h_validateChallengeProofs proofs challengeID \<longleftrightarrow> 0 < length proofs"

definition h_calculateReliability :: "StorageProof list \<Rightarrow> PerformanceMetrics \<Rightarrow> float64" where
  "h_calculateReliability validProofs metrics =
     (if length validProofs = 0 then Fin 0
      else
        let proofScore = f_div (f_of_int (int (length validProofs))) (f_of_int (int (length validProofs) + 1));
            reliability = f_div (f_add (f_add proofScore (pm_SuccessRate metrics)) (pm_StorageHealth metrics)) (Fin 3)
        in if f_lt (Fin 0) (pm_Reliability metrics)
           then f_div (f_add reliability (pm_Reliability metrics)) (Fin 2) else reliability)"

section \<open>Handlers\<close>

definition h_handleRegistrationRequest ::
  "'m MasterNode option \<Rightarrow> bool \<Rightarrow> go_time \<Rightarrow> Message \<Rightarrow> Body \<Rightarrow> 'm \<Rightarrow> 'm handled" where
  "h_handleRegistrationRequest mn writes now base body m =
     (case body of
        RegistrationBody req \<Rightarrow>
          with_master mn (\<lambda>master.
            case ms_HandleIncomingRegistration master (mg_PeerID base) req m of
              (Some err, m1) \<Rightarrow>
                h_sendResponse writes
                  (RegistrationReply \<lparr>mg_Type = ''registration_response'', mg_ID = ''resp-'' @ mg_ID base, mg_Timestamp = now,
                                      mg_PeerID = ms_HostID master, mg_Success = False\<rparr>
                     \<lparr>rg_StatusMessage = ''Registration failed: '' @ err, rg_AssignedID = ''''\<rparr>) m1
            | (None, m1) \<Rightarrow>
                h_sendResponse writes
                  (RegistrationReply \<lparr>mg_Type = ''registration_response'', mg_ID = ''resp-'' @ mg_ID base, mg_Timestamp = now,
                                      mg_PeerID = ms_HostID master, mg_Success = True\<rparr>
                     \<lparr>rg_StatusMessage = ''Registration successful - Ready for storage challenges'', rg_AssignedID = ''''\<rparr>) m1)
      | _ \<Rightarrow> Ret (Inl UnmarshalFailed, m))"

definition h_HandleProofOfStorageMessage ::
  "'m MasterNode option \<Rightarrow> bool \<Rightarrow> go_time \<Rightarrow> Message \<Rightarrow> Body \<Rightarrow> 'm \<Rightarrow> 'm handled" where
  "h_HandleProofOfStorageMessage mn writes now base body m =
     (case body of
        ProofBody proofMsg \<Rightarrow>
          let validProofs = h_validateStorageProofs (ps_StorageProofs proofMsg)
          in with_master mn (\<lambda>master.
               let m1 = ms_HandleProofOfStorage master (mg_PeerID base) proofMsg m
               in h_sendResponse writes
                    (MessageReply \<lparr>mg_Type = ''proof_acknowledged'', mg_ID = ''ack-'' @ mg_ID base, mg_Timestamp = now,
                                   mg_PeerID = ms_HostID master, mg_Success = (0 < length validProofs)\<rparr>) m1)
      | _ \<Rightarrow> Ret (Inl UnmarshalFailed, m))"

text \<open>
  \<open>handleChallengeResponse\<close>: the expiry check changes \<open>challengeResp.Success\<close>, the reply takes
  \<open>valid\<close>.
\<close>

definition h_handleChallengeResponse ::
  "'m MasterNode option \<Rightarrow> bool \<Rightarrow> go_time \<Rightarrow> go_time \<Rightarrow> Message \<Rightarrow> Body \<Rightarrow> 'm \<Rightarrow> 'm handled" where
  "h_handleChallengeResponse mn writes now1 now2 base body m =
     (case body of
        ChallengeBody challengeResp \<Rightarrow>
          let challengeSuccess = (if cr_RespondedAt challengeResp + 5 * minute < now1 then False else mg_Success base);
              valid = h_validateChallengeProofs (cr_Proofs challengeResp) (cr_ChallengeID challengeResp)
          in with_master mn (\<lambda>master.
               h_sendResponse writes
                 (MessageReply \<lparr>mg_Type = ''challenge_result'', mg_ID = ''result-'' @ mg_ID base, mg_Timestamp = now2,
                                mg_PeerID = ms_HostID master, mg_Success = valid\<rparr>) m)
      | _ \<Rightarrow> Ret (Inl UnmarshalFailed, m))"

definition h_handleFileLocationQuery ::
  "'m MasterNode option \<Rightarrow> bool \<Rightarrow> go_time \<Rightarrow> Message \<Rightarrow> Body \<Rightarrow> 'm \<Rightarrow> 'm handled" where
  "h_handleFileLocationQuery mn writes now base body m =
     (case body of
        QueryBody query \<Rightarrow>
          with_master mn (\<lambda>master.
            h_sendResponse writes
              (LocationReply \<lparr>mg_Type = ''file_location_response'', mg_ID = ''resp-'' @ mg_ID base, mg_Timestamp = now,
                              mg_PeerID = ms_HostID master, mg_Success = True\<rparr>
                 \<lparr>fr_FileHash = fq_FileHash query, fr_Locations = []\<rparr>) m)
      | _ \<Rightarrow> Ret (Inl UnmarshalFailed, m))"

definition h_handleStorageOffer ::
  "'m MasterNode option \<Rightarrow> bool \<Rightarrow> go_time \<Rightarrow> Message \<Rightarrow> Body \<Rightarrow> 'm \<Rightarrow> 'm handled" where
  "h_handleStorageOffer mn writes now base body m =
     (case body of
        OfferBody offer \<Rightarrow>
          with_master mn (\<lambda>master.
            h_sendResponse writes
              (MessageReply \<lparr>mg_Type = ''storage_offer_ack'', mg_ID = ''ack-'' @ mg_ID base, mg_Timestamp = now,
                             mg_PeerID = ms_HostID master, mg_Success = True\<rparr>) m)
      | _ \<Rightarrow> Ret (Inl UnmarshalFailed, m))"

definition h_handleChunkRequest ::
  "'m MasterNode option \<Rightarrow> bool \<Rightarrow> go_time \<Rightarrow> Message \<Rightarrow> Body \<Rightarrow> 'm \<Rightarrow> 'm handled" where
  "h_handleChunkRequest mn writes now base body m =
     (case body of
        ChunkRequestBody req \<Rightarrow>
          with_master mn (\<lambda>master.
            h_sendResponse writes
              (ChunkReply \<lparr>mg_Type = ''chunk_response'', mg_ID = ''resp-'' @ mg_ID base, mg_Timestamp = now,
                           mg_PeerID = ms_HostID master, mg_Success = False\<rparr>
                 \<lparr>ck_ChunkHash = cq_ChunkHash req, ck_Data = [], ck_Error = ''Chunk retrieval not implemented'',
                  ck_Success = False\<rparr>) m)
      | _ \<Rightarrow> Ret (Inl UnmarshalFailed, m))"

definition h_handleChunkResponse :: "Body \<Rightarrow> 'm \<Rightarrow> 'm handled" where
  "h_handleChunkResponse body m =
     (case body of ChunkResponseBody resp \<Rightarrow> Ret (Inr None, m) | _ \<Rightarrow> Ret (Inl UnmarshalFailed, m))"

text \<open>The three dispatchers; \<open>None\<close> is data that is no message at all.\<close>

definition h_HandleDiscoveryMessage ::
  "'m MasterNode option \<Rightarrow> bool \<Rightarrow> go_time \<Rightarrow> go_time \<Rightarrow> (Message \<times> Body) option \<Rightarrow> 'm \<Rightarrow> 'm handled" where
  "h_HandleDiscoveryMessage mn writes now1 now2 messageData m =
     (case messageData of
        None \<Rightarrow> Ret (Inl UnmarshalFailed, m)
      | Some (base, body) \<Rightarrow>
          if mg_Type base = ''registration_request'' then h_handleRegistrationRequest mn writes now1 base body m
          else if mg_Type base = ''proof_of_storage'' then h_HandleProofOfStorageMessage mn writes now1 base body m
          else if mg_Type base = ''file_location_query'' then h_handleFileLocationQuery mn writes now1 base body m
          else if mg_Type base = ''challenge_response'' then h_handleChallengeResponse mn writes now1 now2 base body m
          else Ret (Inl (UnknownMessageType (mg_Type base)), m))"

definition h_HandleStorageMessage ::
  "'m MasterNode option \<Rightarrow> bool \<Rightarrow> go_time \<Rightarrow> (Message \<times> Body) option \<Rightarrow> 'm \<Rightarrow> 'm handled" where
  "h_HandleStorageMessage mn writes now messageData m =
     (case messageData of
        None \<Rightarrow> Ret (Inl UnmarshalFailed, m)
      | Some (base, body) \<Rightarrow>
          if mg_Type base = ''storage_offer'' then h_handleStorageOffer mn writes now base body m
          else Ret (Inl (UnknownMessageType (mg_Type base)), m))"

definition h_HandleBitSwapMessage ::
  "'m MasterNode option \<Rightarrow> bool \<Rightarrow> go_time \<Rightarrow> (Message \<times> Body) option \<Rightarrow> 'm \<Rightarrow> 'm handled" where
  "h_HandleBitSwapMessage mn writes now messageData m =
     (case messageData of
        None \<Rightarrow> Ret (Inl UnmarshalFailed, m)
      | Some (base, body) \<Rightarrow>
          if mg_Type base = ''chunk_request'' then h_handleChunkRequest mn writes now base body m
          else if mg_Type base = ''chunk_response'' then h_handleChunkResponse body m
          else Ret (Inl (UnknownMessageType (mg_Type base)), m))"

section \<open>Without a master node\<close>

text \<open>The messages whose handler reaches the master node.\<close>

fun reaches_master :: "string \<Rightarrow> Body \<Rightarrow> bool" where
  "reaches_master t (RegistrationBody r) = (t = ''registration_request'')"
| "reaches_master t (ProofBody p) = (t = ''proof_of_storage'')"
| "reaches_master t (QueryBody q) = (t = ''file_location_query'')"
| "reaches_master t (ChallengeBody c) = (t = ''challenge_response'')"
| "reaches_master t (OfferBody s) = (t = ''storage_offer'')"
| "reaches_master t (ChunkRequestBody q) = (t = ''chunk_request'')"
| "reaches_master t b = False"

lemmas handler_defs = h_HandleDiscoveryMessage_def h_HandleStorageMessage_def h_HandleBitSwapMessage_def
  h_handleRegistrationRequest_def h_HandleProofOfStorageMessage_def h_handleFileLocationQuery_def
  h_handleChallengeResponse_def h_handleStorageOffer_def h_handleChunkRequest_def h_handleChunkResponse_def
  h_sendResponse_def with_master_def

text \<open>
  No master node. \<open>NewNode\<close> builds its message handler with a nil master node and nothing
  sets another: then every well-formed registration, proof, location query or challenge
  response on the discovery stream, every storage offer and every chunk request makes the
  handler dereference nil and ends the process; any other message is answered with an error or
  silence, and with a master node no message at all panics.
\<close>

theorem handlers_panic_iff:
  "(panics (h_HandleDiscoveryMessage mn writes now1 now2 msg m) \<longleftrightarrow> mn = None \<and>
      (\<exists>base body. msg = Some (base, body) \<and> reaches_master (mg_Type base) body \<and>
         mg_Type base \<in> {''registration_request'', ''proof_of_storage'', ''file_location_query'', ''challenge_response''})) \<and>
   (panics (h_HandleStorageMessage mn writes now1 msg m) \<longleftrightarrow> mn = None \<and>
      (\<exists>base body. msg = Some (base, body) \<and> reaches_master (mg_Type base) body \<and> mg_Type base = ''storage_offer'')) \<and>
   (panics (h_HandleBitSwapMessage mn writes now1 msg m) \<longleftrightarrow> mn = None \<and>
      (\<exists>base body. msg = Some (base, body) \<and> reaches_master (mg_Type base) body \<and> mg_Type base = ''chunk_request''))"
proof (cases msg)
  case None
  then show ?thesis by (simp add: handler_defs)
next
  case (Some p)
  obtain base body where p: "p = (base, body)" by (cases p)
  show ?thesis
    unfolding Some p
    by (cases body; cases mn)
      (auto simp: handler_defs Let_def split: prod.splits option.splits)
qed

section \<open>Challenges\<close>

text \<open>
  Expired challenge responses pass. The reply to a challenge response reports success
  exactly when it carries at least one proof, whatever the proofs say, whenever it was given and
  whatever time the handler reads: the expiry check has no effect on it.
\<close>

theorem challenge_expiry_ignored:
  assumes "mg_Type base = ''challenge_response''"
  shows "\<exists>reply. h_HandleDiscoveryMessage (Some master) True now1 now2 (Some (base, ChallengeBody c)) m =
      Ret (Inr (Some (MessageReply reply)), m) \<and> mg_Success reply = (cr_Proofs c \<noteq> [])"
  using assms by (simp add: handler_defs h_validateChallengeProofs_def Let_def)

theorem challenge_expiry_ignored_witness:
  "\<exists>reply. h_HandleDiscoveryMessage
     (Some \<lparr>ms_HostID = ''me'', ms_HandleIncomingRegistration = (\<lambda>p r u. (None, u)), ms_HandleProofOfStorage = (\<lambda>p r u. u)\<rparr>)
     True (100 * hour) (100 * hour)
     (Some (\<lparr>mg_Type = ''challenge_response'', mg_ID = ''1'', mg_Timestamp = 0, mg_PeerID = ''p'', mg_Success = True\<rparr>,
        ChallengeBody \<lparr>cr_ChallengeID = ''c'', cr_Proofs = [\<lparr>sp_ChunkHash = ''x'', sp_Proof = [], sp_Timestamp = 0, sp_Size = 0\<rparr>],
                       cr_RespondedAt = 0\<rparr>)) () = Ret (Inr (Some (MessageReply reply)), ()) \<and> mg_Success reply"
  using challenge_expiry_ignored [of "\<lparr>mg_Type = ''challenge_response'', mg_ID = ''1'', mg_Timestamp = 0, mg_PeerID = ''p'', mg_Success = True\<rparr>"
      "\<lparr>ms_HostID = ''me'', ms_HandleIncomingRegistration = (\<lambda>p r u. (None, u)), ms_HandleProofOfStorage = (\<lambda>p r u. u)\<rparr>"
      "100 * hour" "100 * hour"
      "\<lparr>cr_ChallengeID = ''c'', cr_Proofs = [\<lparr>sp_ChunkHash = ''x'', sp_Proof = [], sp_Timestamp = 0, sp_Size = 0\<rparr>], cr_RespondedAt = 0\<rparr>"
      "()"]
  by auto

end
