(* ===== verification/Node_Protocol.thy ===== *)
theory Node_Protocol
  imports Storage_Ops Message_Handlers
begin

text \<open>
  What a node answers on its protocol streams (\<open>internal/network/node.go\<close>): file metadata,
  shards, the file list, and the shards other nodes hand it to store. The node's file store is
  an interface of which \<open>DecentralizedNode\<close> is the one implementation; \<open>None\<close> is the nil
  interface of a node nobody called \<open>SetFileStore\<close> on. A request that does not decode is
  \<open>None\<close> and gets no answer. How the errors of the two storage layers read as text is the
  record \<open>err_text\<close>.
\<close>

record err_text =
  et_file :: "file_error \<Rightarrow> string"
  et_chunk :: "engine_error \<Rightarrow> string"

definition unavailable :: string where
  "unavailable = ''file storage not available''"

definition n_SetFileStore :: "DNode \<Rightarrow> DNode option \<Rightarrow> DNode option" where
  "n_SetFileStore store fileStore = Some store"

definition n_handleFileMetadataRequest ::
  "err_text \<Rightarrow> string option \<Rightarrow> DNode option \<Rightarrow> FileMetadataResponse option" where
  "n_handleFileMetadataRequest et request fileStore =
     (case request of
        None \<Rightarrow> None
      | Some fileHash \<Rightarrow>
          Some (case fileStore of
             None \<Rightarrow> \<lparr>mr_Metadata = None, mr_Error = unavailable\<rparr>
           | Some nd \<Rightarrow>
               (case dn_GetFileMetadata fileHash (nd_fileManager nd) of
                  Inl err \<Rightarrow> \<lparr>mr_Metadata = None, mr_Error = ''failed to get file metadata: '' @ et_file et err\<rparr>
                | Inr metadata \<Rightarrow> \<lparr>mr_Metadata = Some metadata, mr_Error = ''''\<rparr>)))"

definition n_handleShardRequest ::
  "err_text \<Rightarrow> (string \<times> int) option \<Rightarrow> DNode option \<Rightarrow> ShardResponse option" where
  "n_handleShardRequest et request fileStore =
     (case request of
        None \<Rightarrow> None
      | Some (fileHash, shardIndex) \<Rightarrow>
          Some (case fileStore of
             None \<Rightarrow> \<lparr>hr_Data = [], hr_Error = unavailable\<rparr>
           | Some nd \<Rightarrow>
               (case dn_GetShard fileHash shardIndex (nd_store nd) of
                  Inl err \<Rightarrow> \<lparr>hr_Data = [], hr_Error = ''failed to get shard: '' @ et_chunk et err\<rparr>
                | Inr shardData \<Rightarrow> \<lparr>hr_Data = shardData, hr_Error = ''''\<rparr>)))"

definition n_handleFileListRequest :: "unit option \<Rightarrow> DNode option \<Rightarrow> FileListResponse option" where
  "n_handleFileListRequest request fileStore =
     (case request of
        None \<Rightarrow> None
      | Some _ \<Rightarrow>
          Some (case fileStore of
             None \<Rightarrow> \<lparr>lr_FileIndex = [], lr_Error = unavailable\<rparr>
           | Some nd \<Rightarrow>
               \<lparr>lr_FileIndex = fold (\<lambda>meta. gm_put (md_FileHash meta) [nd_self nd]) (fm_ListFiles (nd_fileManager nd)) [],
                lr_Error = ''''\<rparr>))"

section \<open>Storing a shard for another node\<close>

text \<open>
  \<open>if request.ShardIndex-1 < len(hashes) { hashes[request.ShardIndex-1] = shardHash }\<close>: the
  subtraction wraps, and the guard has no lower bound.
\<close>

definition set_shard_hash :: "int \<Rightarrow> string \<Rightarrow> string list \<Rightarrow> string list go" where
  "set_shard_hash shardIndex shardHash hashes =
     (if wrap64 (shardIndex - 1) < int (length hashes)
      then go_update hashes (wrap64 (shardIndex - 1)) shardHash else Ret hashes)"

definition estimated_metadata :: "go_time \<Rightarrow> go_time \<Rightarrow> StorageRequest \<Rightarrow> peer_id \<Rightarrow> string list \<Rightarrow> FileMetadata" where
  "estimated_metadata now1 now2 request self hashes =
     \<lparr>md_FileHash = sq_FileHash request, md_FileName = sq_FileName request,
      md_FileSize = wrap64 (int (length (sq_ShardData request)) * sq_TotalShards request),
      md_TotalShards = sq_TotalShards request, md_RequiredShards = sq_RequiredShards request,
      md_ShardHashes = hashes, md_StoredPeers = [self], md_CreatedAt = now1, md_UpdatedAt = now2,
      md_MimeType = '''',
      md_OriginalSize = wrap64 (int (length (sq_ShardData request)) * sq_TotalShards request)\<rparr>"

text \<open>The entry of the index is updated through the pointer before it is saved.\<close>

definition known_metadata :: "go_time \<Rightarrow> peer_id \<Rightarrow> string list \<Rightarrow> FileMetadata \<Rightarrow> FileMetadata" where
  "known_metadata now self hashes metadata =
     metadata\<lparr>md_UpdatedAt := now, md_ShardHashes := hashes,
              md_StoredPeers := append_new self (md_StoredPeers metadata)\<rparr>"

definition index_own_shard :: "string \<Rightarrow> peer_id \<Rightarrow> NetworkView \<Rightarrow> NetworkView" where
  "index_own_shard fileHash self nv =
     (case gm_get (nv_fileIndex nv) fileHash of
        None \<Rightarrow> nv\<lparr>nv_fileIndex := gm_put fileHash [self] (nv_fileIndex nv)\<rparr>
      | Some peers \<Rightarrow>
          if list_ex (\<lambda>p. p = self) peers then nv
          else nv\<lparr>nv_fileIndex := gm_put fileHash (peers @ [self]) (nv_fileIndex nv)\<rparr>)"

definition save_shard_metadata ::
  "go_time \<Rightarrow> go_time \<Rightarrow> StorageRequest \<Rightarrow> DNode \<Rightarrow> ((io_error + unit) \<times> files) go" where
  "save_shard_metadata now1 now2 request nd =
     (let shardHash = CalculateShardHash (sq_ShardData request);
          fm = nd_fileManager nd
      in case fm_GetFileInfo (sq_FileHash request) fm of
           Inl err \<Rightarrow>
             go_bind (go_make (sq_TotalShards request) '''') (\<lambda>hashes.
             go_bind (set_shard_hash (sq_ShardIndex request) shardHash hashes) (\<lambda>hashes1.
             Ret (fm_UpdateFileMetadata (estimated_metadata now1 now2 request (nd_self nd) hashes1) (nd_files nd))))
         | Inr existing \<Rightarrow>
             go_bind (set_shard_hash (sq_ShardIndex request) shardHash (md_ShardHashes existing)) (\<lambda>hashes1.
             let metadata = known_metadata now1 (nd_self nd) hashes1 existing;
                 fm1 = fm\<lparr>fm_fileIndex := gm_put (sq_FileHash request) metadata (fm_fileIndex fm)\<rparr>
             in Ret (fm_UpdateFileMetadata metadata (fm1, nd_disk nd))))"

definition n_updateFileMetadata ::
  "go_time \<Rightarrow> go_time \<Rightarrow> StorageRequest \<Rightarrow> DNode \<Rightarrow> ((io_error + unit) \<times> DNode) go" where
  "n_updateFileMetadata now1 now2 request nd =
     go_bind (save_shard_metadata now1 now2 request nd) (\<lambda>(r, s).
       let nd1 = set_files s nd
       in case r of
            Inl err \<Rightarrow> Ret (Inl err, nd1)
          | Inr _ \<Rightarrow> Ret (Inr (), nd1\<lparr>nd_view := index_own_shard (sq_FileHash request) (nd_self nd) (nd_view nd)\<rparr>))"

definition n_handleStoreShard ::
  "err_text \<Rightarrow> go_time \<Rightarrow> go_time \<Rightarrow> StorageRequest \<Rightarrow> DNode option \<Rightarrow> (StorageResponse \<times> DNode option) go" where
  "n_handleStoreShard et now1 now2 request fileStore =
     (case fileStore of
        None \<Rightarrow> Ret (\<lparr>sr_Success = False, sr_Error = unavailable, sr_Message = '''', sr_Data = []\<rparr>, None)
      | Some nd \<Rightarrow>
          let shardID = sq_FileHash request @ ''_shard_'' @ dec (sq_ShardIndex request)
          in case e_StoreChunk shardID (sq_ShardData request) (nd_store nd) of
               (Inl err, s) \<Rightarrow>
                 Ret (\<lparr>sr_Success = False, sr_Error = ''failed to store shard: '' @ et_chunk et err,
                       sr_Message = '''', sr_Data = []\<rparr>, Some (set_store s nd))
             | (Inr _, s) \<Rightarrow>
                 go_bind (n_updateFileMetadata now1 now2 request (set_store s nd)) (\<lambda>(r, nd1).
                 Ret (\<lparr>sr_Success = True, sr_Error = '''', sr_Message = ''shard stored successfully'', sr_Data = []\<rparr>,
                      Some nd1)))"

definition n_handleStorageProtocol ::
  "err_text \<Rightarrow> go_time \<Rightarrow> go_time \<Rightarrow> StorageRequest option \<Rightarrow> DNode option \<Rightarrow>
   (StorageResponse option \<times> DNode option) go" where
  "n_handleStorageProtocol et now1 now2 request fileStore =
     (case request of
        None \<Rightarrow> Ret (None, fileStore)
      | Some req \<Rightarrow>
          if sq_Operation req = ''store_shard'' then
            go_bind (n_handleStoreShard et now1 now2 req fileStore) (\<lambda>(response, fileStore1).
            Ret (Some response, fileStore1))
          else Ret (Some \<lparr>sr_Success = False, sr_Error = ''unknown operation: '' @ sq_Operation req,
                          sr_Message = '''', sr_Data = []\<rparr>, fileStore))"

section \<open>The streams of the master protocol\<close>

text \<open>
  What a stream yields: nothing that can be read, or data, which is a message or not. The
  handler's error is logged.
\<close>

datatype stream_input = ReadFailed | StreamData "(Message \<times> Body) option"

definition on_stream :: "((Message \<times> Body) option \<Rightarrow> 'm \<Rightarrow> 'm handled) \<Rightarrow> stream_input \<Rightarrow> 'm \<Rightarrow> 'm go" where
  "on_stream handle input m =
     (case input of ReadFailed \<Rightarrow> Ret m | StreamData d \<Rightarrow> go_bind (handle d m) (\<lambda>(r, m1). Ret m1))"

definition n_handleBitSwapStream :: "'m MasterNode option \<Rightarrow> bool \<Rightarrow> go_time \<Rightarrow> stream_input \<Rightarrow> 'm \<Rightarrow> 'm go" where
  "n_handleBitSwapStream handler writes now = on_stream (h_HandleBitSwapMessage handler writes now)"

definition n_handleStorageStream :: "'m MasterNode option \<Rightarrow> bool \<Rightarrow> go_time \<Rightarrow> stream_input \<Rightarrow> 'm \<Rightarrow> 'm go" where
  "n_handleStorageStream handler writes now = on_stream (h_HandleStorageMessage handler writes now)"

definition n_handleDiscoveryStream ::
  "'m MasterNode option \<Rightarrow> bool \<Rightarrow> go_time \<Rightarrow> go_time \<Rightarrow> stream_input \<Rightarrow> 'm \<Rightarrow> 'm go" where
  "n_handleDiscoveryStream handler writes now1 now2 = on_stream (h_HandleDiscoveryMessage handler writes now1 now2)"

definition n_handleProofOfStorageStream ::
  "'m MasterNode option \<Rightarrow> bool \<Rightarrow> go_time \<Rightarrow> stream_input \<Rightarrow> 'm \<Rightarrow> 'm go" where
  "n_handleProofOfStorageStream handler writes now =
     on_stream (\<lambda>d m. case d of
        None \<Rightarrow> Ret (Inl UnmarshalFailed, m)
      | Some (base, body) \<Rightarrow> h_HandleProofOfStorageMessage handler writes now base body m)"

definition n_SetHandler :: "'m MasterNode option \<Rightarrow> 'm MasterNode option \<Rightarrow> 'm MasterNode option" where
  "n_SetHandler handler n = handler"

end
