(* ===== verification/Engine_Correct.thy ===== *)
theory Engine_Correct
  imports Engine
begin

text \<open>
  What the storage engine promises: it refines a map from chunk names to bytes, stays within
  its capacity over every sequence of operations, survives a restart, and leaves the index
  alone when an operation is refused; and the states in which it breaks these promises (a
  failed metadata write, chunk names with a slash, a shrunken capacity).
\<close>

section \<open>The abstract map\<close>

text \<open>What a client can read: the bytes of each chunk.\<close>

definition e_abs :: "store \<Rightarrow> string \<rightharpoonup> bytes" where
  "e_abs s k = (case e_RetrieveChunk k s of Inl _ \<Rightarrow> None | Inr b \<Rightarrow> Some b)"

lemma e_abs_None: "e_ok s \<Longrightarrow> e_abs s k = None \<longleftrightarrow> \<not> e_has s k"
  using chunks.get_has [of s k] by (auto simp: e_abs_def split: sum.splits)

lemma e_abs_has: "e_ok s \<Longrightarrow> e_has s k \<longleftrightarrow> (\<exists>b. e_abs s k = Some b)"
  using e_abs_None [of s k] by auto

definition e_fits :: "store \<Rightarrow> bytes \<Rightarrow> bool" where
  "e_fits s b \<longleftrightarrow>
     e_calculateUsedBytes (fst s) (snd s) + of_nat (length b) \<le> en_MaxStorageBytes (fst s)"

lemma e_abs_store:
  assumes "e_ok s" and "valid_chunkID k" and "e_StoreChunk k b s = (Inr u, s')"
  shows "e_abs s' = (e_abs s)(k \<mapsto> b)"
proof
  fix j
  show "e_abs s' j = ((e_abs s)(k \<mapsto> b)) j"
    using chunks.put_ok [OF assms] chunks.put_frame [OF assms, of j]
    by (cases "j = k") (simp_all add: e_abs_def)
qed

lemma e_abs_delete: "e_ok s \<Longrightarrow> e_abs (snd (e_DeleteChunk k s)) = (e_abs s)(k := None)"
proof
  fix j
  assume ok: "e_ok s"
  show "e_abs (snd (e_DeleteChunk k s)) j = ((e_abs s)(k := None)) j"
  proof (cases "j = k")
    case True
    have "e_ok (snd (e_DeleteChunk k s))" using ok by (rule chunks.del_inv)
    with True show ?thesis using chunks.del_has [OF ok, of k k] by (simp add: e_abs_None)
  next
    case False
    with ok show ?thesis by (simp add: e_abs_def chunks.del_frame)
  qed
qed

text \<open>
  C4: Storing a chunk refines the update of a map. On a well-formed store without disk faults,
  \<open>StoreChunk\<close> succeeds exactly when the name is new and the bytes fit, a success updates the
  map a client reads at that one name, and a refusal changes nothing at all.
\<close>

theorem StoreChunk_refines:
  assumes "e_ok s" and "valid_chunkID k"
  shows "case e_StoreChunk k b s of
      (Inr _, s') \<Rightarrow> e_abs s k = None \<and> e_fits s b \<and> e_ok s' \<and> e_abs s' = (e_abs s)(k \<mapsto> b)
    | (Inl _, s') \<Rightarrow> (e_abs s k \<noteq> None \<or> \<not> e_fits s b) \<and> s' = s"
proof -
  obtain e d where s: "s = (e, d)" by (cases s)
  obtain r s' where r: "e_StoreChunk k b s = (r, s')" by (cases "e_StoreChunk k b s")
  have iff: "(\<exists>s'. e_StoreChunk k b s = (Inr (), s')) \<longleftrightarrow> \<not> e_has s k \<and> e_fits s b"
    using e_StoreChunk_quiet_iff [of d k b e] assms(1) e_ok_D [of e d]
    by (simp add: s e_has_def e_fits_def)
  show ?thesis
  proof (cases r)
    case (Inl x)
    with r have "s' = s" using chunks.put_error [OF assms] by simp
    moreover have "e_has s k \<or> \<not> e_fits s b" using iff r Inl by auto
    ultimately show ?thesis using r Inl e_abs_None [OF assms(1), of k] by simp
  next
    case (Inr u)
    with r have ok: "e_StoreChunk k b s = (Inr u, s')" by simp
    then have "\<not> e_has s k \<and> e_fits s b" using iff by auto
    moreover have "e_ok s'" using chunks.put_ok [OF assms ok] by simp
    ultimately show ?thesis
      using r Inr e_abs_None [OF assms(1), of k] e_abs_store [OF assms ok] by simp
  qed
qed

lemma StoreChunk_fits:
  assumes "e_ok s" and "valid_chunkID k" and "\<not> e_has s k" and "e_fits s b"
  shows "\<exists>s'. e_StoreChunk k b s = (Inr (), s')"
  using e_StoreChunk_quiet_iff [of "snd s" k b "fst s"] assms e_ok_D [of "fst s" "snd s"]
  by (simp add: e_has_def e_fits_def)

text \<open>An empty store, to start from and for the examples.\<close>

definition quiet_disk :: disk where
  "quiet_disk = \<lparr>dk_files = [], dk_fails = (\<lambda>_. False), dk_short = (\<lambda>_. 0)\<rparr>"

definition fresh_engine :: "string \<Rightarrow> u64 \<Rightarrow> Engine" where
  "fresh_engine dir maxBytes =
     \<lparr>en_chunks = [], en_MaxStorageBytes = maxBytes, en_storageDir = dir,
      en_metadataFile = filepath_Join [dir, ''metadata.gob'']\<rparr>"

lemma e_ok_fresh: "e_ok (fresh_engine dir n, quiet_disk)"
  by (simp add: e_ok.simps e_inv.simps fresh_engine_def quiet_disk_def no_faults_def)

lemma e_abs_fresh: "e_abs (fresh_engine dir n, quiet_disk) = Map.empty"
  by (auto simp: e_abs_def e_RetrieveChunk_def fresh_engine_def fun_eq_iff)

theorem StoreChunk_refines_witness:
  "\<exists>s'. e_StoreChunk ''k'' [1, 2] (fresh_engine ''d'' 10, quiet_disk) = (Inr (), s') \<and>
     e_abs s' = [''k'' \<mapsto> [1, 2]]"
proof -
  let ?s = "(fresh_engine ''d'' 10, quiet_disk)"
  have v: "valid_chunkID ''k''" by (simp add: valid_chunkID_def)
  have "e_fits ?s [1, 2]"
    by (simp add: e_fits_def e_calculateUsedBytes_def fresh_engine_def)
  then show ?thesis
    using StoreChunk_refines [OF e_ok_fresh v, of "''d''" 10 "[1, 2]"]
    by (auto simp: e_abs_fresh split: prod.splits sum.splits)
qed

section \<open>Capacity\<close>

text \<open>The bytes the indexed chunks occupy, counted without wrap-around.\<close>

definition e_total :: "store \<Rightarrow> nat" where
  "e_total s = gm_sum (\<lambda>k p. case gm_get (dk_files (snd s)) p of Some (Raw b) \<Rightarrow> length b | _ \<Rightarrow> 0)
      (en_chunks (fst s))"

lemma gm_sum_of_nat: "of_nat (gm_sum f m) = (gm_sum (\<lambda>k v. of_nat (f k v)) m :: 'a::semiring_1)"
  by (induction m) auto

lemma used_total:
  assumes ok: "e_ok (e, d)"
  shows "e_calculateUsedBytes e d = of_nat (e_total (e, d))"
  unfolding e_calculateUsedBytes_def e_total_def gm_sum_of_nat fst_conv snd_conv
proof (rule gm_sum_cong)
  fix k p
  assume kp: "(k, p) \<in> set (en_chunks e)"
  then have "gm_get (en_chunks e) k = Some p"
    using e_ok_D [OF ok] by (simp add: e_inv.simps flip: gm_wf_get)
  with ok obtain b where "gm_get (dk_files d) p = Some (Raw b)"
    using e_ok_D [OF ok] by (auto simp: e_inv.simps)
  moreover have "\<not> dk_fails d c" for c using e_ok_D [OF ok] by (simp add: no_faults_def)
  ultimately show "(case os_Stat p d of Inl _ \<Rightarrow> 0 | Inr n \<Rightarrow> of_nat n) =
      of_nat (case gm_get (dk_files d) p of Some (Raw b) \<Rightarrow> length b | _ \<Rightarrow> 0)"
    by (simp add: os_Stat_def)
qed

lemma e_total_frame:
  assumes "\<And>k p. (k, p) \<in> set m \<Longrightarrow> gm_get (dk_files d') p = gm_get (dk_files d) p"
  shows "e_total (e'\<lparr>en_chunks := m\<rparr>, d') = e_total (e\<lparr>en_chunks := m\<rparr>, d)"
  unfolding e_total_def using assms by (auto intro!: gm_sum_cong)

lemma e_total_store:
  assumes ok: "e_ok (e, d)" and k: "valid_chunkID k"
    and r: "e_StoreChunk k b (e, d) = (Inr u, (e', d'))"
  shows "e_total (e', d') = e_total (e, d) + length b"
proof -
  have inv: "e_inv (e, d)" using ok e_ok_D by simp
  note S = e_StoreChunk_stored [OF inv k r]
  have new: "k \<notin> set (gm_keys (en_chunks e))" using S(2) by (simp add: gm_get_None_iff)
  have "e_total (e', d') = e_total (e'\<lparr>en_chunks := en_chunks e\<rparr>, d') + length b"
    using S(3,4) new by (simp add: e_total_def gm_sum_put_fresh)
  also have "e_total (e'\<lparr>en_chunks := en_chunks e\<rparr>, d') = e_total (e\<lparr>en_chunks := en_chunks e\<rparr>, d)"
  proof (rule e_total_frame)
    fix j p
    assume "(j, p) \<in> set (en_chunks e)"
    then have "gm_get (en_chunks e) j = Some p"
      using inv by (simp add: e_inv.simps flip: gm_wf_get)
    note D = e_inv_D [OF inv this] and j = this
    have "p \<noteq> e_chunkPath e k" using D(1,2) k S(2) j by (auto simp: e_chunkPath_inj)
    moreover have "p \<noteq> en_metadataFile e" using D(1,2) e_inv_meta [OF inv] e_chunkPath_metadata by simp
    ultimately show "gm_get (dk_files d') p = gm_get (dk_files d) p" by (rule S(5))
  qed
  finally show ?thesis by simp
qed

lemma e_total_delete:
  assumes ok: "e_ok s"
  shows "e_total (snd (e_DeleteChunk k s)) \<le> e_total s"
proof -
  obtain e d where s: "s = (e, d)" by (cases s)
  have inv: "e_inv (e, d)" and nf: "no_faults d" using ok s e_ok_D by auto
  show ?thesis
  proof (cases "gm_get (en_chunks e) k")
    case None
    then show ?thesis by (simp add: s e_DeleteChunk_def)
  next
    case (Some p)
    let ?m = "gm_del k (en_chunks e)"
    obtain d' where del: "e_DeleteChunk k (e, d) = (Inr (), (e\<lparr>en_chunks := ?m\<rparr>, d'))"
      and frame: "\<And>q. q \<noteq> p \<Longrightarrow> q \<noteq> en_metadataFile e \<Longrightarrow> gm_get (dk_files d') q = gm_get (dk_files d) q"
      using e_DeleteChunk_quiet [OF inv nf Some] by metis
    have "e_total (e\<lparr>en_chunks := ?m\<rparr>, d') = e_total (e\<lparr>en_chunks := ?m\<rparr>, d)"
    proof (rule e_total_frame)
      fix j q
      assume "(j, q) \<in> set ?m"
      then have j: "j \<noteq> k" "gm_get (en_chunks e) j = Some q"
        using inv gm_wf_get [of ?m j q] by (auto simp: e_inv.simps split: if_splits)
      note D = e_inv_D [OF inv j(2)] and Dk = e_inv_D [OF inv Some]
      have "q \<noteq> p" using D(1,2) Dk(1,2) j(1) by (simp add: e_chunkPath_inj)
      moreover have "q \<noteq> en_metadataFile e" using D(1,2) e_inv_meta [OF inv] e_chunkPath_metadata by simp
      ultimately show "gm_get (dk_files d') q = gm_get (dk_files d) q" by (rule frame)
    qed
    also have "\<dots> \<le> e_total (e, d)"
    proof -
      have wf: "gm_wf (en_chunks e)" using inv by (simp add: e_inv.simps)
      show ?thesis by (simp add: e_total_def gm_sum_del [OF wf Some])
    qed
    finally show ?thesis by (simp add: s del)
  qed
qed

lemma e_Max_Store: "e_StoreChunk k b s = (r, s') \<Longrightarrow> en_MaxStorageBytes (fst s') = en_MaxStorageBytes (fst s)"
  by (cases s) (auto elim!: e_StoreChunk_cases)

lemma e_Max_Delete: "en_MaxStorageBytes (fst (snd (e_DeleteChunk k s))) = en_MaxStorageBytes (fst s)"
  by (auto simp: e_DeleteChunk_def Let_def split: prod.splits option.splits sum.splits)

text \<open>
  Runs of the engine: any sequence of stores and deletes, from an empty engine on a disk
  without faults, with chunks short enough for the byte count not to wrap.
\<close>

inductive e_run :: "string \<Rightarrow> u64 \<Rightarrow> store \<Rightarrow> bool" for dir maxBytes where
  fresh: "e_run dir maxBytes (fresh_engine dir maxBytes, quiet_disk)"
| store: "e_run dir maxBytes s \<Longrightarrow> valid_chunkID k \<Longrightarrow> length b < 2 ^ 63 \<Longrightarrow>
    e_run dir maxBytes (snd (e_StoreChunk k b s))"
| delete: "e_run dir maxBytes s \<Longrightarrow> e_run dir maxBytes (snd (e_DeleteChunk k s))"

inductive_cases e_runE: "e_run dir maxBytes s"

lemma e_run_ok: "e_run dir maxBytes s \<Longrightarrow> e_ok s"
proof (induction rule: e_run.induct)
  case fresh
  show ?case by (rule e_ok_fresh)
next
  case (store s k b)
  then show ?case
    using chunks.put_ok [of s k b] chunks.put_error [of s k b]
    by (cases "e_StoreChunk k b s"; cases "fst (e_StoreChunk k b s)") auto
next
  case (delete s k)
  then show ?case by (simp add: chunks.del_inv)
qed

lemma e_run_Max: "e_run dir maxBytes s \<Longrightarrow> en_MaxStorageBytes (fst s) = maxBytes"
proof (induction rule: e_run.induct)
  case fresh
  show ?case by (simp add: fresh_engine_def)
next
  case (store s k b)
  then show ?case by (cases "e_StoreChunk k b s") (auto dest: e_Max_Store)
next
  case (delete s k)
  then show ?case by (simp add: e_Max_Delete)
qed

text \<open>
  C5: Capacity. Over every sequence of \<open>StoreChunk\<close> and \<open>DeleteChunk\<close> calls on an engine of
  at most \<open>2 ^ 63\<close> bytes, the chunks on disk never take more than \<open>MaxStorageBytes\<close> bytes, and
  the \<open>uint64\<close> count the engine compares with it has not wrapped.
\<close>

theorem capacity_kept:
  assumes "e_run dir maxBytes s" and "unat maxBytes \<le> 2 ^ 63"
  shows "e_total s \<le> unat maxBytes \<and>
    unat (e_calculateUsedBytes (fst s) (snd s)) = e_total s"
proof -
  have cap: "e_total s \<le> unat maxBytes"
    using assms
  proof (induction rule: e_run.induct)
    case fresh
    show ?case by (simp add: e_total_def fresh_engine_def)
  next
    case (store s k b)
    obtain e d where s: "s = (e, d)" by (cases s)
    have ok: "e_ok (e, d)" using store.hyps(1) s e_run_ok by blast
    obtain r e' d' where r: "e_StoreChunk k b (e, d) = (r, (e', d'))" by (metis surj_pair)
    show ?case
    proof (cases r)
      case (Inl x)
      then show ?thesis using r s store.IH [OF store.prems] chunks.put_error [OF ok store.hyps(2)] by auto
    next
      case (Inr u)
      have le: "of_nat (e_total (e, d) + length b) \<le> maxBytes"
        using e_StoreChunk_stored(7) [of e d k b u e' d'] r Inr ok store.hyps s
          e_ok_D [OF ok] used_total [OF ok] e_run_Max [of dir maxBytes s]
        by simp
      have "e_total (e, d) + length b < 2 ^ 64"
        using store s by simp
      then have "unat (of_nat (e_total (e, d) + length b) :: u64) = e_total (e, d) + length b"
        by (simp add: unat_of_nat del: of_nat_add)
      with le have "e_total (e, d) + length b \<le> unat maxBytes"
        by (simp only: word_le_nat_alt)
      then show ?thesis
        using e_total_store [OF ok store.hyps(2), of b u e' d'] r Inr s by simp
    qed
  next
    case (delete s k)
    then show ?case using e_total_delete [OF e_run_ok, of dir maxBytes s k] by simp
  qed
  obtain e d where s: "s = (e, d)" by (cases s)
  have "e_calculateUsedBytes e d = of_nat (e_total s)"
    using e_run_ok [OF assms(1)] s used_total by simp
  moreover have "e_total s < 2 ^ 64" using cap assms(2) by simp
  ultimately show ?thesis using cap s by (simp add: unat_of_nat)
qed

theorem capacity_kept_witness:
  "e_total (snd (e_StoreChunk ''a'' [1] (fresh_engine ''d'' 5, quiet_disk))) \<le> 5"
proof -
  have "e_run ''d'' 5 (snd (e_StoreChunk ''a'' [1] (fresh_engine ''d'' 5, quiet_disk)))"
    by (intro e_run.store e_run.fresh) (simp_all add: valid_chunkID_def)
  from capacity_kept [OF this] show ?thesis by simp
qed

section \<open>Restart\<close>

lemma filter_all: "(\<And>x. x \<in> set xs \<Longrightarrow> P x) \<Longrightarrow> filter P xs = xs"
  by (induction xs) auto

lemma load_after_save:
  assumes inv: "e_inv (e, d)" and nf: "no_faults d"
    and meta: "gm_get (dk_files d) (en_metadataFile e) = Some (GobChunks (en_chunks e))"
  shows "NewEngine (en_storageDir e) d = Inr (e\<lparr>en_MaxStorageBytes := DefaultMaxStorageBytes\<rparr>)"
proof -
  have f: "dk_fails d = (\<lambda>_. False)" using nf by (auto simp: no_faults_def)
  have m: "filepath_Join [en_storageDir e, ''metadata.gob''] = en_metadataFile e"
    using e_inv_meta [OF inv] by simp
  have "filter (\<lambda>(k, p). case os_Stat p d of Inl err \<Rightarrow> \<not> IsNotExist err | Inr _ \<Rightarrow> True) (en_chunks e)
      = en_chunks e"
  proof (rule filter_all)
    fix x
    assume "x \<in> set (en_chunks e)"
    moreover obtain k p where x: "x = (k, p)" by (cases x)
    ultimately have "gm_get (en_chunks e) k = Some p"
      using inv by (simp add: e_inv.simps flip: gm_wf_get)
    with e_inv_D(3) [OF inv] obtain b where "gm_get (dk_files d) p = Some (Raw b)" by blast
    with f x show "case x of (k, p) \<Rightarrow> (case os_Stat p d of Inl err \<Rightarrow> \<not> IsNotExist err | Inr _ \<Rightarrow> True)"
      by (simp add: os_Stat_def)
  qed
  then show ?thesis
    using meta f m by (simp add: NewEngine_def os_MkdirAll_def e_loadMetadata_def read_gob_def)
qed

text \<open>
  C6: Restart. After a successful \<open>StoreChunk\<close>, a new engine opened on the same directory has
  exactly the index of the engine that stored the chunk, so it reads the same bytes for every
  chunk; only the configured capacity is back at its default.
\<close>

theorem restart_keeps_chunks:
  assumes "e_ok (e, d)" and "valid_chunkID k" and "e_StoreChunk k b (e, d) = (Inr u, (e', d'))"
  shows "\<exists>e2. NewEngine (en_storageDir e) d' = Inr e2 \<and> en_chunks e2 = en_chunks e' \<and>
    e_abs (e2, d') = e_abs (e', d') \<and> e_abs (e2, d') k = Some b"
proof -
  have inv: "e_inv (e, d)" and nf: "no_faults d" using e_ok_D [OF assms(1)] by auto
  note S = e_StoreChunk_stored [OF inv assms(2,3)]
  have nf': "no_faults d'" using nf S(6) by (simp add: no_faults_def)
  obtain d1 where "e_saveMetadata e' d1 = (Inr (), d')"
    using assms(3) S(3) by (auto elim!: e_StoreChunk_cases)
  then have "gm_get (dk_files d') (en_metadataFile e') = Some (GobChunks (en_chunks e'))"
    by (auto simp: e_saveMetadata_def dest: write_gob_ok)
  from load_after_save [OF S(1) nf' this] S(3)
  have "NewEngine (en_storageDir e) d' = Inr (e'\<lparr>en_MaxStorageBytes := DefaultMaxStorageBytes\<rparr>)"
    by simp
  moreover have "e_abs (e'\<lparr>en_MaxStorageBytes := DefaultMaxStorageBytes\<rparr>, d') = e_abs (e', d')"
    by (rule ext) (simp add: e_abs_def e_RetrieveChunk_def)
  moreover have "e_abs (e', d') k = Some b"
    using e_abs_store [OF assms] by simp
  ultimately show ?thesis by simp
qed

theorem restart_keeps_chunks_witness:
  "\<exists>e' d' e2. e_StoreChunk ''k'' [7] (fresh_engine ''d'' 10, quiet_disk) = (Inr (), (e', d')) \<and>
     NewEngine ''d'' d' = Inr e2 \<and> e_abs (e2, d') ''k'' = Some [7]"
proof -
  have v: "valid_chunkID ''k''" by (simp add: valid_chunkID_def)
  have "e_fits (fresh_engine ''d'' 10, quiet_disk) [7]"
    by (simp add: e_fits_def e_calculateUsedBytes_def fresh_engine_def)
  moreover have "\<not> e_has (fresh_engine ''d'' 10, quiet_disk) ''k''"
    by (simp add: e_has_def fresh_engine_def)
  ultimately obtain e' d' where st: "e_StoreChunk ''k'' [7] (fresh_engine ''d'' 10, quiet_disk) = (Inr (), (e', d'))"
    using StoreChunk_fits [OF e_ok_fresh v, of "''d''" 10 "[7]"] by (metis surj_pair)
  from restart_keeps_chunks [OF e_ok_fresh v st] st show ?thesis
    by (auto simp: fresh_engine_def)
qed

section \<open>Where the promises end\<close>

text \<open>
  A failed metadata write. When \<open>StoreChunk\<close> reports that the metadata could not be
  saved, it has removed the chunk's file but kept the chunk in the in-memory index (unless
  the removal failed too): the chunk cannot be read, a retry is refused as a duplicate, and
  it cannot be deleted either.
\<close>

theorem save_failure_leaves_stale_entry:
  assumes "e_StoreChunk k b (e, d) = (Inl (SaveMetadataFailed x), (e', d'))"
    and "\<not> dk_fails d (IoRemove (e_chunkPath e k))" and "e_chunkPath e k \<noteq> en_metadataFile e"
  shows "gm_get (en_chunks e) k = None \<and> gm_get (en_chunks e') k = Some (e_chunkPath e k) \<and>
    e_RetrieveChunk k (e', d') = Inl (ReadChunkFailed (NotExist (e_chunkPath e k))) \<and>
    fst (e_StoreChunk k b2 (e', d')) = Inl (ChunkExists k) \<and>
    fst (e_DeleteChunk k (e', d')) = Inl (DeleteChunkFailed (NotExist (e_chunkPath e k)))"
proof -
  from assms(1) obtain d1 d2 where new: "gm_get (en_chunks e) k = None"
    and e': "e' = e\<lparr>en_chunks := gm_put k (e_chunkPath e k) (en_chunks e)\<rparr>"
    and w: "os_WriteFile (e_chunkPath e k) b d = (Inr (), d1)"
    and g: "write_gob (en_metadataFile e) (GobChunks (en_chunks e')) d1 = (Inl x, d2)"
    and d': "d' = snd (os_Remove (e_chunkPath e k) d2)"
    by (auto elim!: e_StoreChunk_cases simp: e_saveMetadata_def)
  have idx: "gm_get (en_chunks e') k = Some (e_chunkPath e k)" using e' by simp
  have "gm_get (dk_files d2) (e_chunkPath e k) = Some (Raw b)"
    using os_WriteFile_ok [OF w] write_gob_frame(3) [OF g assms(3)] by simp
  moreover have "\<not> dk_fails d2 (IoRemove (e_chunkPath e k))"
    using os_WriteFile_frame(1) [OF w] write_gob_frame(1) [OF g] assms(2) by simp
  ultimately have gone: "gm_get (dk_files d') (e_chunkPath e k) = None"
    using d' by (simp add: os_Remove_def)
  have "e_RetrieveChunk k (e', d') = Inl (ReadChunkFailed (NotExist (e_chunkPath e k)))"
    using idx gone by (simp add: e_RetrieveChunk_def os_ReadFile_def)
  moreover have "fst (e_StoreChunk k b2 (e', d')) = Inl (ChunkExists k)"
    using idx by (simp add: e_StoreChunk_def)
  moreover have "fst (e_DeleteChunk k (e', d')) = Inl (DeleteChunkFailed (NotExist (e_chunkPath e k)))"
    using idx gone by (simp add: e_DeleteChunk_def os_Remove_def)
  ultimately show ?thesis using new idx by simp
qed

text \<open>A disk on which only writing the metadata file fails.\<close>

definition metadata_faults :: disk where
  "metadata_faults =
     \<lparr>dk_files = [], dk_fails = (\<lambda>c. c = IoWrite ''d/metadata.gob''), dk_short = (\<lambda>_. 0)\<rparr>"

theorem save_failure_leaves_stale_entry_witness:
  "\<exists>x e' d'. e_StoreChunk ''k'' [7] (fresh_engine ''d'' 10, metadata_faults) =
       (Inl (SaveMetadataFailed x), (e', d')) \<and>
     gm_get (en_chunks e') ''k'' = Some ''d/k.chunk'' \<and>
     e_RetrieveChunk ''k'' (e', d') = Inl (ReadChunkFailed (NotExist ''d/k.chunk''))"
proof -
  have p: "e_chunkPath (fresh_engine ''d'' 10) ''k'' = ''d/k.chunk''" by code_simp
  have m: "en_metadataFile (fresh_engine ''d'' 10) = ''d/metadata.gob''" by code_simp
  have st: "\<exists>x e' d'. e_StoreChunk ''k'' [7] (fresh_engine ''d'' 10, metadata_faults) =
      (Inl (SaveMetadataFailed x), (e', d'))"
    by (simp add: e_StoreChunk_def p m metadata_faults_def os_MkdirAll_def os_WriteFile_def
        e_saveMetadata_def write_gob_def e_calculateUsedBytes_def) (simp add: fresh_engine_def Let_def)
  then obtain x e' d' where st: "e_StoreChunk ''k'' [7] (fresh_engine ''d'' 10, metadata_faults) =
      (Inl (SaveMetadataFailed x), (e', d'))" by blast
  from save_failure_leaves_stale_entry [OF st] st show ?thesis
    by (auto simp: p m metadata_faults_def)
qed

text \<open>
  Reported space. \<open>GetStats\<close> reports as available the difference of capacity and used
  bytes in \<open>uint64\<close>: exact while the chunks fit the capacity, but larger than the whole
  capacity as soon as \<open>SetConfig\<close> has lowered it below what is already stored.
\<close>

theorem available_bytes_wrap:
  "if e_calculateUsedBytes e d \<le> c
   then unat (es_available_bytes (e_GetStats (e_SetConfig c e) d)) = unat c - unat (e_calculateUsedBytes e d)
   else c < es_available_bytes (e_GetStats (e_SetConfig c e) d)"
proof -
  let ?u = "e_calculateUsedBytes e d"
  have u: "e_calculateUsedBytes (e_SetConfig c e) d = ?u"
    by (simp add: e_calculateUsedBytes_def e_SetConfig_def)
  have a: "es_available_bytes (e_GetStats (e_SetConfig c e) d) = c - ?u"
    using u by (simp add: e_GetStats_def e_SetConfig_def)
  show ?thesis
  proof (cases "?u \<le> c")
    case True
    then show ?thesis by (simp add: a unat_sub)
  next
    case False
    then have "uint c < uint ?u" by (simp add: word_le_def)
    moreover have "uint ?u < 2 ^ 64" using uint_lt2p [of ?u] by simp
    ultimately have "uint (c - ?u) = uint c - uint ?u + 2 ^ 64"
      using uint_ge_0 [of c] by (simp add: uint_sub_if' word_le_def)
    with \<open>uint ?u < 2 ^ 64\<close> have "c < c - ?u" by (simp add: word_less_def)
    with False show ?thesis by (simp add: a)
  qed
qed

section \<open>Cleanup\<close>

lemma cleanup_files:
  assumes "no_faults d"
  shows "gm_get (dk_files (fold (e_cleanupFile e) fs d)) p =
      (if \<exists>f \<in> set fs. f \<noteq> ''metadata.gob'' \<and> \<not> e_isIndexed e f \<and> p = filepath_Join [en_storageDir e, f]
       then None else gm_get (dk_files d) p) \<and>
    dk_fails (fold (e_cleanupFile e) fs d) = dk_fails d"
  using assms
proof (induction fs arbitrary: d)
  case Nil
  then show ?case by simp
next
  case (Cons f fs)
  let ?d = "e_cleanupFile e f d"
  have nf: "dk_fails ?d = dk_fails d" by (simp add: e_cleanupFile_def os_Remove_def)
  have g: "gm_get (dk_files ?d) q =
      (if f \<noteq> ''metadata.gob'' \<and> \<not> e_isIndexed e f \<and> q = filepath_Join [en_storageDir e, f]
       then None else gm_get (dk_files d) q)" for q
    using Cons.prems by (auto simp: e_cleanupFile_def os_Remove_def no_faults_def)
  have "no_faults ?d" using Cons.prems nf by (simp add: no_faults_def)
  from Cons.IH [OF this] show ?case by (auto simp: nf g)
qed

lemma e_Cleanup_ok:
  assumes "e_ok (e, d)"
  shows "\<exists>d'. e_Cleanup (e, d) = (Inr (), (e, d')) \<and> e_ok (e, d') \<and> e_abs (e, d') = e_abs (e, d) \<and>
    gm_get (dk_files d') (en_metadataFile e) = gm_get (dk_files d) (en_metadataFile e) \<and>
    (\<forall>f. file_name f \<and> f \<noteq> ''metadata.gob'' \<and> \<not> e_isIndexed e f \<longrightarrow>
       gm_get (dk_files d') (filepath_Join [en_storageDir e, f]) = None)"
proof -
  have inv: "e_inv (e, d)" and nf: "no_faults d" using e_ok_D [OF assms] by auto
  define fs where "fs = map filepath_Base
      (filter (\<lambda>p. filepath_Join [en_storageDir e, filepath_Base p] = p) (gm_keys (dk_files d)))"
  define d' where "d' = fold (e_cleanupFile e) fs d"
  note files = cleanup_files [OF nf, of e fs, folded d'_def]
  have nf': "no_faults d'" using files nf by (simp add: no_faults_def)
  have kept: "gm_get (dk_files d') p = gm_get (dk_files d) p"
    if "gm_get (en_chunks e) k = Some p" for k p
  proof -
    have "e_isIndexed e (filepath_Base p)"
      using that by (auto simp: e_isIndexed_def list_ex_iff dest: map_of_SomeD)
    then show ?thesis by (auto simp: files fs_def)
  qed
  have meta: "gm_get (dk_files d') (en_metadataFile e) = gm_get (dk_files d) (en_metadataFile e)"
    using e_inv_meta [OF inv]
    by (auto simp: files fs_def filepath_Base_Join metadata_file_name)
  have gone: "gm_get (dk_files d') (filepath_Join [en_storageDir e, f]) = None"
    if f: "file_name f" "f \<noteq> ''metadata.gob''" "\<not> e_isIndexed e f" for f
  proof (cases "gm_get (dk_files d) (filepath_Join [en_storageDir e, f])")
    case None
    then show ?thesis by (simp add: files)
  next
    case (Some c)
    then have "filepath_Join [en_storageDir e, f] \<in> set (gm_keys (dk_files d))"
      by (rule gm_get_in_keys)
    then have "f \<in> set fs" using f(1) by (force simp: fs_def filepath_Base_Join)
    with f show ?thesis by (auto simp: files)
  qed
  have inv': "e_inv (e, d')"
  proof (rule e_inv_I)
    fix k p
    assume k: "gm_get (en_chunks e) k = Some p"
    from e_inv_D [OF inv k] kept [OF k]
    show "valid_chunkID k \<and> p = e_chunkPath e k \<and> (\<exists>b. gm_get (dk_files d') p = Some (Raw b))" by simp
  qed (use inv e_inv_meta [OF inv] in \<open>simp_all add: e_inv.simps\<close>)
  have "e_abs (e, d') = e_abs (e, d)"
    using e_RetrieveChunk_frame [OF nf nf', of e _ e] kept by (auto simp: e_abs_def fun_eq_iff)
  moreover have "e_Cleanup (e, d) = (Inr (), (e, d'))"
    using nf by (simp add: e_Cleanup_def os_ReadDir_def no_faults_def fs_def d'_def)
  ultimately show ?thesis
    using inv' nf' meta gone by (auto simp: e_ok.simps)
qed

text \<open>
  Cleanup. On a well-formed store without disk faults, \<open>Cleanup\<close> leaves the engine, every
  chunk a client can read and the engine's own metadata file alone, and removes every other
  plain file of the directory: also \<open>file_metadata.gob\<close>, in which the file manager, which
  calls \<open>Cleanup\<close> on the directory it shares with its engine, keeps its own metadata.
\<close>

theorem Cleanup_keeps_chunks_only:
  assumes "e_ok (e, d)"
  shows "\<exists>d'. e_Cleanup (e, d) = (Inr (), (e, d')) \<and> e_ok (e, d') \<and> e_abs (e, d') = e_abs (e, d) \<and>
    gm_get (dk_files d') (en_metadataFile e) = gm_get (dk_files d) (en_metadataFile e) \<and>
    (\<forall>f. file_name f \<and> f \<noteq> ''metadata.gob'' \<and> \<not> e_isIndexed e f \<longrightarrow>
       gm_get (dk_files d') (filepath_Join [en_storageDir e, f]) = None)"
  by (rule e_Cleanup_ok [OF assms])

theorem Cleanup_keeps_chunks_only_witness:
  "\<exists>d'. e_Cleanup (fresh_engine ''d'' 10, quiet_disk\<lparr>dk_files := [(''d/file_metadata.gob'', GobFiles [])]\<rparr>) =
      (Inr (), (fresh_engine ''d'' 10, d')) \<and> gm_get (dk_files d') ''d/file_metadata.gob'' = None"
proof -
  let ?d = "quiet_disk\<lparr>dk_files := [(''d/file_metadata.gob'', GobFiles [])]\<rparr>"
  have ok: "e_ok (fresh_engine ''d'' 10, ?d)"
    by (simp add: e_ok.simps e_inv.simps fresh_engine_def quiet_disk_def no_faults_def)
  have f: "file_name ''file_metadata.gob'' \<and> ''file_metadata.gob'' \<noteq> ''metadata.gob'' \<and>
      \<not> e_isIndexed (fresh_engine ''d'' 10) ''file_metadata.gob''"
    by (simp add: file_name_def e_isIndexed_def fresh_engine_def)
  have "filepath_Join [en_storageDir (fresh_engine ''d'' 10), ''file_metadata.gob''] = ''d/file_metadata.gob''"
    by code_simp
  with Cleanup_keeps_chunks_only [OF ok] f show ?thesis by metis
qed

section \<open>Chunk names with a slash\<close>

lemma path_comps_detour:
  assumes "file_name n"
  shows "path_comps (''x/../'' @ n) = path_comps n"
    and "p \<noteq> '''' \<Longrightarrow> path_comps (p @ ''/x/../'' @ n) = path_comps (p @ slash # n)"
proof -
  have n: "slash \<notin> set n" using assms by (simp add: file_name_def)
  then have s: "split_on slash (''x/../'' @ n) = [''x'', ''..'', n]" by simp
  then show "path_comps (''x/../'' @ n) = path_comps n"
    using assms n by (simp add: path_comps_def path_rooted_file [OF assms]) (simp add: clean_step_def path_rooted_def)
  assume p: "p \<noteq> ''''"
  have "split_on slash (p @ ''/x/../'' @ n) = split_on slash p @ [''x'', ''..'', n]"
    using s split_on_append [of slash p "''x/../'' @ n"] by simp
  moreover have "split_on slash (p @ slash # n) = split_on slash p @ [n]"
    using n split_on_append [of slash p n] by simp
  ultimately show "path_comps (p @ ''/x/../'' @ n) = path_comps (p @ slash # n)"
    by (simp add: path_comps_def path_rooted_append [OF p]) (simp add: clean_step_def)
qed

lemma chunkPath_alias: "valid_chunkID k \<Longrightarrow> e_chunkPath e (''x/../'' @ k) = e_chunkPath e k"
proof -
  assume "valid_chunkID k"
  then have n: "file_name (k @ ''.chunk'')" by (rule chunk_file_name)
  show ?thesis
  proof (cases "en_storageDir e = ''''")
    case True
    with path_comps_detour(1) [OF n] path_rooted_file [OF n] show ?thesis
      by (simp add: e_chunkPath_def filepath_Join_def filepath_Clean_def) (simp add: path_rooted_def)
  next
    case False
    with path_comps_detour(2) [OF n False] show ?thesis
      by (simp add: e_chunkPath_def filepath_Join_def filepath_Clean_def path_rooted_append)
  qed
qed

text \<open>
  Aliasing. \<open>StoreChunk\<close> does not check its chunk name, and \<open>filepath.Join\<close> cleans it: a
  chunk named \<open>x/../k\<close> is a different entry of the index on the same file as \<open>k\<close>. Storing it
  succeeds and silently replaces the bytes of chunk \<open>k\<close>.
\<close>

theorem slash_names_alias:
  assumes "e_ok (e, d)" and "e_has (e, d) k" and "gm_get (en_chunks e) (''x/../'' @ k) = None"
    and "e_fits (e, d) b"
  shows "\<exists>s'. e_StoreChunk (''x/../'' @ k) b (e, d) = (Inr (), s') \<and> e_RetrieveChunk k s' = Inr b"
proof -
  have inv: "e_inv (e, d)" and nf: "no_faults d" using e_ok_D [OF assms(1)] by auto
  obtain p where kp: "gm_get (en_chunks e) k = Some p" using assms(2) by (auto simp: e_has_def)
  note D = e_inv_D [OF inv kp]
  have path: "e_chunkPath e (''x/../'' @ k) = p" using D(2) chunkPath_alias [OF D(1)] by simp
  have meta: "p \<noteq> en_metadataFile e"
    using D(1,2) e_inv_meta [OF inv] e_chunkPath_metadata by simp
  have f: "dk_fails d = (\<lambda>_. False)" using nf by (auto simp: no_faults_def)
  show ?thesis
    using assms(3,4) f path meta kp
    by (auto simp: e_StoreChunk_def Let_def e_fits_def os_MkdirAll_def os_WriteFile_def e_saveMetadata_def
        write_gob_def e_RetrieveChunk_def os_ReadFile_def not_less)
qed

theorem slash_names_alias_witness:
  "\<exists>s s'. e_RetrieveChunk ''k'' s = Inr [7] \<and> e_StoreChunk ''x/../k'' [8] s = (Inr (), s') \<and>
     e_RetrieveChunk ''k'' s' = Inr [8]"
proof -
  let ?e = "(fresh_engine ''d'' 10)\<lparr>en_chunks := [(''k'', ''d/k.chunk'')]\<rparr>"
  let ?d = "quiet_disk\<lparr>dk_files := [(''d/k.chunk'', Raw [7])]\<rparr>"
  have p: "e_chunkPath (fresh_engine ''d'' 10) ''k'' = ''d/k.chunk''" by code_simp
  have ok: "e_ok (?e, ?d)"
    by (simp add: e_ok.simps e_inv.simps p valid_chunkID_def no_faults_def quiet_disk_def gm_wf_def)
      (simp add: fresh_engine_def)
  have fits: "e_fits (?e, ?d) [8]" by code_simp
  have r: "e_RetrieveChunk ''k'' (?e, ?d) = Inr [7]" by code_simp
  show ?thesis
    using slash_names_alias [OF ok, of "''k''" "[8]"] fits r by (force simp: e_has_def)
qed

end
