(* ===== verification/File_Manager_Correct.thy ===== *)
theory File_Manager_Correct
  imports File_Manager Engine_Correct
begin

text \<open>
  What the file manager promises: what it stores it gives back, a refused store leaves no
  trace, and over every sequence of its operations each listed file can be read and passes
  its integrity check. The proofs use the engine only through the laws of \<open>chunk_store\<close>.
\<close>

section \<open>Shard names\<close>

lemma dec_of_nat: "dec (int i) = dec_nat i"
  by (simp add: dec_def)

lemma shard_id_inject:
  "length h = length h' \<Longrightarrow> shard_id h i = shard_id h' j \<longleftrightarrow> h = h' \<and> i = j"
  by (simp add: shard_id_def dec_of_nat)

lemma valid_shard_id: "slash \<notin> set h \<Longrightarrow> valid_chunkID (shard_id h i)"
  using dec_no_slash [of "int i"] by (simp add: valid_chunkID_def shard_id_def)

lemma FileHash_props [simp]:
  "length (CalculateFileHash data) = 64" "slash \<notin> set (CalculateFileHash data)"
  using sha256_hex_free [of data] by (simp_all add: CalculateFileHash_def)

definition shard_ids :: "string \<Rightarrow> nat \<Rightarrow> string list" where
  "shard_ids h n = map (\<lambda>i. shard_id h (i + 1)) [0..<n]"

lemma set_shard_ids: "k \<in> set (shard_ids h n) \<longleftrightarrow> (\<exists>i < n. k = shard_id h (i + 1))"
  by (auto simp: shard_ids_def)

lemma distinct_shard_ids: "distinct (shard_ids h n)"
  by (auto simp: shard_ids_def distinct_map inj_on_def shard_id_inject)

lemma number_shards_eq:
  "number_shards h i shards = map (\<lambda>j. (shard_id h (i + j + 1), sh_Data (shards ! j))) [0..<length shards]"
proof (induction h i shards rule: number_shards.induct)
  case (1 h i)
  then show ?case by simp
next
  case (2 h i shard shards)
  have "[0..<length (shard # shards)] = 0 # map Suc [0..<length shards]"
    by (simp add: map_Suc_upt upt_conv_Cons del: upt_Suc)
  with 2 show ?case by (simp add: comp_def)
qed

lemma number_shards_ids: "map fst (number_shards h 0 shards) = shard_ids h (length shards)"
  by (simp add: number_shards_eq shard_ids_def comp_def)

lemma delete_shards_fold:
  "delete_shards h n s = fold (\<lambda>k s. snd (e_DeleteChunk k s)) (shard_ids h (nat n)) s"
  by (simp add: delete_shards_def shard_ids_def fold_map comp_def)

section \<open>Well-formed managers\<close>

fun fm_ok :: "files \<Rightarrow> bool" where
  "fm_ok (fm, d) \<longleftrightarrow> e_ok (fm_engine fm, d) \<and> gm_wf (fm_fileIndex fm) \<and>
     fm_metadataFile fm = filepath_Join [en_storageDir (fm_engine fm), ''file_metadata.gob'']"

declare fm_ok.simps [simp del]

lemma e_dir_Store: "e_StoreChunk k b s = (r, s') \<Longrightarrow> en_storageDir (fst s') = en_storageDir (fst s)"
  by (cases s) (auto elim!: e_StoreChunk_cases)

lemma e_dir_Delete: "en_storageDir (fst (snd (e_DeleteChunk k s))) = en_storageDir (fst s)"
  by (auto simp: e_DeleteChunk_def Let_def split: prod.splits option.splits sum.splits)

lemma e_dir_del_all: "en_storageDir (fst (fold (\<lambda>k s. snd (e_DeleteChunk k s)) ks s)) = en_storageDir (fst s)"
  by (induction ks arbitrary: s) (simp_all add: e_dir_Delete)

lemma e_dir_put: "put_or_undo e_StoreChunk e_DeleteChunk st kvs s = (r, s') \<Longrightarrow>
    en_storageDir (fst s') = en_storageDir (fst s)"
proof (induction kvs arbitrary: st s)
  case Nil
  then show ?case by simp
next
  case (Cons p kvs)
  obtain k v where p: "p = (k, v)" by (cases p)
  obtain q s1 where q: "e_StoreChunk k v s = (q, s1)" by (cases "e_StoreChunk k v s")
  with Cons p e_dir_Store [OF q] show ?case by (cases q) (auto simp: e_dir_del_all)
qed

text \<open>Writing the manager's own metadata touches neither the chunks nor the engine's index.\<close>

lemma save_frame:
  assumes ok: "e_ok (e, d)" and f: "f = filepath_Join [en_storageDir e, ''file_metadata.gob'']"
    and g: "\<And>b. g \<noteq> Raw b" and w: "write_gob f g d = (r, d')"
  shows "r = Inr ()" and "e_ok (e, d')" and "e_RetrieveChunk k (e, d') = e_RetrieveChunk k (e, d)"
proof -
  have inv: "e_inv (e, d)" and nf: "no_faults d" using e_ok_D [OF ok] by auto
  show "r = Inr ()" using w nf by (simp add: write_gob_def no_faults_def)
  have nf': "no_faults d'" using write_gob_frame(1) [OF w] nf by (simp add: no_faults_def)
  have fn: "file_name ''file_metadata.gob''" by (simp add: file_name_def)
  have keep: "gm_get (dk_files d') p = gm_get (dk_files d) p" if "gm_get (en_chunks e) j = Some p" for j p
  proof (rule write_gob_frame(3) [OF w])
    note D = e_inv_D [OF inv that]
    have "j @ ''.chunk'' \<noteq> ''file_metadata.gob''" by (auto dest: append_eq_last)
    then show "p \<noteq> f"
      using D(1,2) f fn by (simp add: e_chunkPath_def filepath_Join_inj chunk_file_name)
  qed
  have "e_inv (e, d')"
  proof (rule e_inv_I)
    fix j p
    assume j: "gm_get (en_chunks e) j = Some p"
    from e_inv_D [OF inv j] keep [OF j]
    show "valid_chunkID j \<and> p = e_chunkPath e j \<and> (\<exists>b. gm_get (dk_files d') p = Some (Raw b))" by simp
  qed (use inv e_inv_meta [OF inv] in \<open>simp_all add: e_inv.simps\<close>)
  with nf' show "e_ok (e, d')" by (simp add: e_ok.simps)
  show "e_RetrieveChunk k (e, d') = e_RetrieveChunk k (e, d)"
    by (rule e_RetrieveChunk_frame [OF nf nf' refl keep])
qed

lemma fm_saveMetadata_ok:
  assumes "e_ok (fm_engine fm, d)"
    and "fm_metadataFile fm = filepath_Join [en_storageDir (fm_engine fm), ''file_metadata.gob'']"
  shows "\<exists>d'. fm_saveMetadata fm d = (Inr (), d') \<and> e_ok (fm_engine fm, d') \<and>
    (\<forall>k. e_RetrieveChunk k (fm_engine fm, d') = e_RetrieveChunk k (fm_engine fm, d))"
proof -
  obtain r d' where w: "write_gob (fm_metadataFile fm) (GobFiles (fm_fileIndex fm)) d = (r, d')"
    by (metis surj_pair)
  have g: "\<And>b. GobFiles (fm_fileIndex fm) \<noteq> Raw b" by simp
  show ?thesis using save_frame [OF assms g w] w by (simp add: fm_saveMetadata_def)
qed

section \<open>Storing a file\<close>

text \<open>The outcomes of \<open>StoreFile\<close> on a well-formed manager.\<close>

lemma fm_StoreFile_outcome:
  assumes ok: "fm_ok (fm, d)"
    and r: "fm_StoreFile rs fileName data n k peers t1 t2 (fm, d) = (r, (fm', d'))"
  shows "case r of
      Inl x \<Rightarrow> fm_ok (fm', d') \<and> fm_fileIndex fm' = fm_fileIndex fm \<and>
        chunks.same_chunks (fm_engine fm', d') (fm_engine fm, d)
    | Inr h \<Rightarrow> fm_ok (fm', d') \<and> h = CalculateFileHash data \<and> gm_get (fm_fileIndex fm) h = None \<and>
        (\<exists>shards. sm_ShardData rs data n k = Inr shards \<and>
           fm_fileIndex fm' = gm_put h ((new_metadata h fileName data n k peers t1 t2)
             \<lparr>md_ShardHashes := map sh_Hash shards\<rparr>) (fm_fileIndex fm) \<and>
           (\<forall>i < length shards. e_RetrieveChunk (shard_id h (i + 1)) (fm_engine fm', d') = Inr (sh_Data (shards ! i))) \<and>
           (\<forall>j. j \<notin> set (shard_ids h (length shards)) \<longrightarrow>
              e_RetrieveChunk j (fm_engine fm', d') = e_RetrieveChunk j (fm_engine fm, d)))"
proof -
  let ?h = "CalculateFileHash data"
  let ?s = "(fm_engine fm, d)"
  have e: "e_ok ?s" and wf: "gm_wf (fm_fileIndex fm)"
    and mf: "fm_metadataFile fm = filepath_Join [en_storageDir (fm_engine fm), ''file_metadata.gob'']"
    using ok by (simp_all add: fm_ok.simps)
  have same: "chunks.same_chunks ?s ?s" by (simp add: chunks.same_chunks_def)
  consider (refused) x where "r = Inl x" "fm' = fm" "d' = d"
    | (go) shards where "gm_get (fm_fileIndex fm) ?h = None" "sm_ShardData rs data n k = Inr shards"
    using r by (auto simp: fm_StoreFile_def Let_def split: if_splits sum.splits)
  then show ?thesis
  proof cases
    case refused
    with ok same show ?thesis by simp
  next
    case go
    have val: "\<forall>j \<in> set (map fst (number_shards ?h 0 shards)). valid_chunkID j"
      by (auto simp: number_shards_ids set_shard_ids valid_shard_id)
    have dist: "distinct (map fst (number_shards ?h 0 shards))"
      by (simp only: number_shards_ids distinct_shard_ids)
    have guard: "data \<noteq> []" "\<not> n < k" using sm_ShardData_ok [OF go(2)] by auto
    obtain q e1 d1 where put: "put_or_undo e_StoreChunk e_DeleteChunk [] (number_shards ?h 0 shards) ?s = (q, (e1, d1))"
      by (metis surj_pair)
    have dir: "en_storageDir e1 = en_storageDir (fm_engine fm)" using e_dir_put [OF put] by simp
    show ?thesis
    proof (cases q)
      case (Inl x)
      with chunks.put_or_undo_undone [OF _ e val] put
      have "e_ok (e1, d1)" and "chunks.same_chunks (e1, d1) ?s" by auto
      with r go put Inl guard wf mf dir show ?thesis
        by (cases x) (auto simp: fm_StoreFile_def fm_ok.simps)
    next
      case (Inr u)
      note P = chunks.put_or_undo_ok [OF put [unfolded Inr] e dist val]
      let ?m = "(new_metadata ?h fileName data n k peers t1 t2)\<lparr>md_ShardHashes := map sh_Hash shards\<rparr>"
      let ?fm = "fm\<lparr>fm_engine := e1, fm_fileIndex := gm_put ?h ?m (fm_fileIndex fm)\<rparr>"
      obtain d2 where sv: "fm_saveMetadata ?fm d1 = (Inr (), d2)" and ok2: "e_ok (e1, d2)"
        and same2: "\<And>j. e_RetrieveChunk j (e1, d2) = e_RetrieveChunk j (e1, d1)"
        using fm_saveMetadata_ok [of ?fm d1] P dir mf by auto
      have "r = Inr ?h" and fm': "fm' = ?fm" and d': "d' = d2"
        using r go put Inr guard sv by (auto simp: fm_StoreFile_def Let_def)
      moreover have "e_RetrieveChunk (shard_id ?h (i + 1)) (e1, d2) = Inr (sh_Data (shards ! i))"
        if "i < length shards" for i
      proof -
        have "(shard_id ?h (i + 1), sh_Data (shards ! i)) \<in> set (number_shards ?h 0 shards)"
          using that by (auto simp: number_shards_eq)
        with P same2 show ?thesis by auto
      qed
      moreover have "e_RetrieveChunk j (e1, d2) = e_RetrieveChunk j ?s"
        if "j \<notin> set (shard_ids ?h (length shards))" for j
        using P same2 that by (simp add: number_shards_ids)
      ultimately show ?thesis
        using go ok2 wf mf dir by (simp add: fm_ok.simps)
    qed
  qed
qed

section \<open>Reading a file\<close>

text \<open>The shards of a file that are readable, when these are the first \<open>m\<close>.\<close>

definition local_shards :: "store \<Rightarrow> string \<Rightarrow> Shard list \<Rightarrow> nat \<Rightarrow> bool" where
  "local_shards s h shards m \<longleftrightarrow>
     (\<forall>i < length shards. if i < m then e_RetrieveChunk (shard_id h (i + 1)) s = Inr (sh_Data (shards ! i))
        else \<exists>x. e_RetrieveChunk (shard_id h (i + 1)) s = Inl x)"

lemma local_shardsD:
  assumes "local_shards s h shards m" and "i < length shards"
  shows "i < m \<Longrightarrow> e_RetrieveChunk (shard_id h (i + 1)) s = Inr (sh_Data (shards ! i))"
    and "\<not> i < m \<Longrightarrow> \<exists>x. e_RetrieveChunk (shard_id h (i + 1)) s = Inl x"
  using assms unfolding local_shards_def by metis+

text \<open>An index entry that describes the stored shards of \<open>data\<close>.\<close>

definition describes :: "FileMetadata \<Rightarrow> bytes \<Rightarrow> Shard list \<Rightarrow> bool" where
  "describes md data shards \<longleftrightarrow> md_ShardHashes md = map sh_Hash shards \<and>
     md_TotalShards md = int (length shards) \<and> md_OriginalSize md = int (length data)"

lemma fetch_shards_append:
  "fetch_shards h md s (is @ js) acc = go_bind (fetch_shards h md s is acc) (fetch_shards h md s js)"
proof (induction "is" arbitrary: acc)
  case Nil
  then show ?case by simp
next
  case (Cons i "is")
  then show ?case
    by (cases "e_RetrieveChunk (shard_id h (i + 1)) s"; cases "go_index (md_ShardHashes md) (int i)")
      simp_all
qed

lemma wrapped_nth:
  assumes "sm_ShardData rs data n k = Inr shards" and "i < length shards"
  shows "\<lparr>sh_Index = int i + 1, sh_Data = sh_Data (shards ! i), sh_Hash = sh_Hash (shards ! i),
          sh_Size = int (length (sh_Data (shards ! i)))\<rparr> = shards ! i"
    and "sh_Hash (shards ! i) = CalculateShardHash (sh_Data (shards ! i))"
proof -
  have "shards ! i = wrap_shards 0 (map sh_Data shards) ! i"
    using sm_ShardData_ok(5) [OF assms(1)] by simp
  also have "\<dots> = \<lparr>sh_Index = int i + 1, sh_Data = sh_Data (shards ! i),
      sh_Hash = CalculateShardHash (sh_Data (shards ! i)), sh_Size = int (length (sh_Data (shards ! i)))\<rparr>"
    using assms(2) by (simp add: wrap_shards_nth)
  finally show h: "sh_Hash (shards ! i) = CalculateShardHash (sh_Data (shards ! i))"
    and "\<lparr>sh_Index = int i + 1, sh_Data = sh_Data (shards ! i), sh_Hash = sh_Hash (shards ! i),
          sh_Size = int (length (sh_Data (shards ! i)))\<rparr> = shards ! i"
    by (metis Shard.select_convs(3))+
qed

lemma fetch_local:
  assumes sh: "sm_ShardData rs data n k = Inr shards" and d: "describes md data shards"
    and l: "local_shards s h shards m" and j: "j \<le> length shards"
  shows "fetch_shards h md s [0..<j] [] = Ret (take m (take j shards))"
  using j
proof (induction j)
  case 0
  then show ?case by simp
next
  case (Suc j)
  then have j: "j < length shards" by simp
  have idx: "go_index (md_ShardHashes md) (int j) = Ret (sh_Hash (shards ! j))"
    using d j by (simp add: describes_def go_index_def)
  have IH: "fetch_shards h md s [0..<j] [] = Ret (take m (take j shards))" using Suc by simp
  show ?case
  proof (cases "j < m")
    case True
    then have "e_RetrieveChunk (shard_id h (j + 1)) s = Inr (sh_Data (shards ! j))"
      by (rule local_shardsD(1) [OF l j])
    with True j IH idx show ?thesis
      by (simp add: fetch_shards_append wrapped_nth(1) [OF sh j] take_Suc_conv_app_nth)
  next
    case False
    then obtain x where "e_RetrieveChunk (shard_id h (j + 1)) s = Inl x"
      using local_shardsD(2) [OF l j] by blast
    with False j IH show ?thesis by (simp add: fetch_shards_append take_Suc_conv_app_nth)
  qed
qed

lemma in_place_take: "m \<le> length shards \<Longrightarrow> in_place (take m shards) shards"
  by (simp add: in_place_def)

lemma present_take:
  assumes "\<forall>s \<in> set shards. sh_Data s \<noteq> []" and "m \<le> length shards"
  shows "present_shards (take m shards) = int m"
proof -
  have "filter (\<lambda>s. sh_Data s \<noteq> []) (take m shards) = take m shards"
    using assms(1) by (auto simp: filter_id_conv dest: in_set_takeD)
  then show ?thesis using assms(2) by (simp add: present_shards_def)
qed

lemma fm_RetrieveFile_local:
  assumes codec: "rs_codec rs k (n - k)" and sh: "sm_ShardData rs data n k = Inr shards"
    and md: "gm_get (fm_fileIndex fm) (CalculateFileHash data) = Some md" "describes md data shards"
      "md_RequiredShards md = k"
    and m: "k \<le> int m" "int m \<le> n"
    and l: "local_shards (fm_engine fm, d) (CalculateFileHash data) shards m"
  shows "fm_RetrieveFile rs (CalculateFileHash data) (fm, d) = Ret (Inr data)"
proof -
  note L = ShardData_length [OF codec sh]
  have total: "md_TotalShards md = n" and m': "m \<le> length shards" and n: "nat n = length shards"
    using md(2) L(1) m by (auto simp: describes_def)
  have "0 < k" using sm_ShardData_ok [OF sh] by simp
  with m m' have ne: "md_ShardHashes md \<noteq> []" using md(2) by (auto simp: describes_def)
  have rec: "sm_ReconstructData rs (take m shards) n k (int (length data)) = Ret (Inr data)"
    using reconstruct_in_place [OF codec sh in_place_take [OF m']] present_take [OF L(2) m'] m by simp
  have "fetch_shards (CalculateFileHash data) md (fm_engine fm, d) [0..<nat n] [] = Ret (take m shards)"
    using fetch_local [OF sh md(2) l, of "length shards"] n by simp
  with md ne total m m' rec show ?thesis
    by (simp add: fm_RetrieveFile_def describes_def min_def)
qed

lemma verify_local:
  assumes sh: "sm_ShardData rs data n k = Inr shards" and d: "describes md data shards"
    and l: "local_shards s h shards (length shards)" and js: "set js \<subseteq> {..<length shards}"
  shows "verify_shards h md s js c = Ret (Inr c)"
  using js
proof (induction js)
  case Nil
  then show ?case by simp
next
  case (Cons j js)
  then have j: "j < length shards" by simp
  have idx: "go_index (md_ShardHashes md) (int j) = Ret (sh_Hash (shards ! j))"
    using d j by (simp add: describes_def go_index_def)
  moreover have "e_RetrieveChunk (shard_id h (j + 1)) s = Inr (sh_Data (shards ! j))"
    by (rule local_shardsD(1) [OF l j j])
  ultimately show ?case using Cons wrapped_nth(2) [OF sh j] by simp
qed


section \<open>Round trip and refusal\<close>

text \<open>Losing the shards with the given numbers from the local store.\<close>

definition lose_shards :: "string \<Rightarrow> nat list \<Rightarrow> store \<Rightarrow> store" where
  "lose_shards h is s = fold (\<lambda>i s. snd (e_DeleteChunk (shard_id h (i + 1)) s)) is s"

lemma lose_shards_fold:
  "lose_shards h is s = fold (\<lambda>k s. snd (e_DeleteChunk k s)) (map (\<lambda>i. shard_id h (i + 1)) is) s"
  by (simp add: lose_shards_def fold_map comp_def)

lemma lose_local:
  assumes ok: "e_ok s" and h: "length h = 64"
    and all: "\<forall>i < n. e_RetrieveChunk (shard_id h (i + 1)) s = Inr (sh_Data (shards ! i))" "n = length shards"
  shows "local_shards (lose_shards h [m..<n] s) h shards m"
  unfolding local_shards_def
proof (intro allI impI)
  fix i
  assume i: "i < length shards"
  let ?ks = "map (\<lambda>i. shard_id h (i + 1)) [m..<n]"
  note D = chunks.del_all [OF ok, of ?ks]
  have mem: "shard_id h (i + 1) \<in> set ?ks \<longleftrightarrow> \<not> i < m"
    using i all(2) by (auto simp: shard_id_inject)
  show "if i < m then e_RetrieveChunk (shard_id h (i + 1)) (lose_shards h [m..<n] s) = Inr (sh_Data (shards ! i))
      else \<exists>x. e_RetrieveChunk (shard_id h (i + 1)) (lose_shards h [m..<n] s) = Inl x"
  proof (cases "i < m")
    case True
    with D mem all i show ?thesis by (simp only: lose_shards_fold) metis
  next
    case False
    with D mem have "\<not> e_has (lose_shards h [m..<n] s) (shard_id h (i + 1))"
      by (simp only: lose_shards_fold) blast
    then have "\<not> (\<exists>b. e_RetrieveChunk (shard_id h (i + 1)) (lose_shards h [m..<n] s) = Inr b)"
      using D e_RetrieveChunk_has by (simp only: lose_shards_fold) blast
    with False show ?thesis
      by (cases "e_RetrieveChunk (shard_id h (i + 1)) (lose_shards h [m..<n] s)") simp_all
  qed
qed

lemma retrieve_after_store:
  assumes "fm_ok (fm, d)" and "rs_codec rs k (n - k)"
    and "fm_StoreFile rs fileName data n k peers t1 t2 (fm, d) = (Inr h, (fm', d'))"
    and "k \<le> int m" and "int m \<le> n"
    and "lose_shards h [m..<nat n] (fm_engine fm', d') = (e2, d2)"
  shows "fm_RetrieveFile rs h (fm'\<lparr>fm_engine := e2\<rparr>, d2) = Ret (Inr data)"
proof -
  note O = fm_StoreFile_outcome [OF assms(1,3), simplified]
  then obtain shards where sh: "sm_ShardData rs data n k = Inr shards"
    and idx: "fm_fileIndex fm' = gm_put h ((new_metadata h fileName data n k peers t1 t2)
             \<lparr>md_ShardHashes := map sh_Hash shards\<rparr>) (fm_fileIndex fm)"
    and get: "\<forall>i < length shards. e_RetrieveChunk (shard_id h (i + 1)) (fm_engine fm', d') = Inr (sh_Data (shards ! i))"
    and h: "h = CalculateFileHash data" and ok: "e_ok (fm_engine fm', d')"
    by (auto simp: fm_ok.simps)
  have len: "int (length shards) = n" using ShardData_length [OF assms(2) sh] by simp
  then have l: "local_shards (e2, d2) h shards m"
    using lose_local [OF ok, of h "nat n" shards m] get h assms(6) by auto
  define md where "md = (new_metadata h fileName data n k peers t1 t2)\<lparr>md_ShardHashes := map sh_Hash shards\<rparr>"
  have "describes md data shards" and "md_RequiredShards md = k"
    using len by (simp_all add: describes_def new_metadata_def md_def)
  with idx l show ?thesis
    unfolding h
    by (intro fm_RetrieveFile_local [OF assms(2) sh _ _ _ assms(4,5), of _ md]) (simp_all add: md_def h)
qed

text \<open>
  C2: Round trip. A file that \<open>StoreFile\<close> accepted is read back byte by byte by
  \<open>RetrieveFile\<close> under the hash it returned, also after the engine has lost any of the
  shards behind the first \<open>m \<ge> k\<close>.
\<close>

theorem StoreFile_RetrieveFile:
  assumes "fm_ok (fm, d)" and "rs_codec rs k (n - k)"
    and "fm_StoreFile rs fileName data n k peers t1 t2 (fm, d) = (Inr h, (fm', d'))"
    and "k \<le> int m" and "int m \<le> n"
    and "lose_shards h [m..<nat n] (fm_engine fm', d') = (e2, d2)"
  shows "fm_RetrieveFile rs h (fm'\<lparr>fm_engine := e2\<rparr>, d2) = Ret (Inr data)"
  using assms by (rule retrieve_after_store)


section \<open>Every reachable manager\<close>

definition file_stored :: "reed_solomon \<Rightarrow> store \<Rightarrow> string \<Rightarrow> FileMetadata \<Rightarrow> bool" where
  "file_stored rs s h md \<longleftrightarrow> (\<exists>data. h = CalculateFileHash data \<and>
     (md_ShardHashes md = [] \<or>
      (\<exists>k shards. rs_codec rs k (int (length shards) - k) \<and>
         sm_ShardData rs data (int (length shards)) k = Inr shards \<and> md_RequiredShards md = k \<and>
         describes md data shards \<and> local_shards s h shards (length shards))))"

fun fm_good :: "reed_solomon \<Rightarrow> files \<Rightarrow> bool" where
  "fm_good rs (fm, d) \<longleftrightarrow> fm_ok (fm, d) \<and>
     (\<forall>h md. gm_get (fm_fileIndex fm) h = Some md \<longrightarrow> file_stored rs (fm_engine fm, d) h md)"

declare fm_good.simps [simp del]

text \<open>
  Runs of the manager: a new manager on an empty disk, then any sequence of calls, each with
  any arguments for which the codec supports the requested numbers of shards.
\<close>

inductive fm_run :: "reed_solomon \<Rightarrow> string \<Rightarrow> files \<Rightarrow> bool" for rs dir where
  new: "NewFileManager dir quiet_disk = Inr fm \<Longrightarrow> fm_run rs dir (fm, quiet_disk)"
| store_file: "fm_run rs dir s \<Longrightarrow> rs_codec rs k (n - k) \<Longrightarrow>
    fm_run rs dir (snd (fm_StoreFile rs fileName data n k peers t1 t2 s))"
| store_metadata: "fm_run rs dir s \<Longrightarrow>
    fm_run rs dir (snd (fm_StoreFileMetadata fileName data n k peers t1 t2 s))"
| delete_file: "fm_run rs dir s \<Longrightarrow> fm_run rs dir (snd (fm_DeleteFile h s))"
| cleanup: "fm_run rs dir s \<Longrightarrow> fm_run rs dir (snd (fm_Cleanup s))"

lemma file_stored_hash: "file_stored rs s h md \<Longrightarrow> length h = 64"
  by (auto simp: file_stored_def)

lemma file_stored_frame:
  assumes "file_stored rs s h md"
    and "\<And>i. e_RetrieveChunk (shard_id h i) s' = e_RetrieveChunk (shard_id h i) s"
  shows "file_stored rs s' h md"
  using assms by (simp add: file_stored_def local_shards_def)

lemma fm_good_StoreFile:
  assumes good: "fm_good rs (fm, d)" and codec: "rs_codec rs k (n - k)"
    and r: "fm_StoreFile rs fileName data n k peers t1 t2 (fm, d) = (r, (fm', d'))"
  shows "fm_good rs (fm', d')"
proof -
  have ok: "fm_ok (fm, d)" using good by (simp add: fm_good.simps)
  note O = fm_StoreFile_outcome [OF ok r]
  show ?thesis
  proof (cases r)
    case (Inl x)
    then have same: "\<And>j. e_RetrieveChunk j (fm_engine fm', d') = e_RetrieveChunk j (fm_engine fm, d)"
      using O by (simp add: chunks.same_chunks_def)
    then show ?thesis using O Inl good by (auto simp: fm_good.simps intro: file_stored_frame)
  next
    case (Inr h)
    with O obtain shards where h: "h = CalculateFileHash data" and sh: "sm_ShardData rs data n k = Inr shards"
      and idx: "fm_fileIndex fm' = gm_put h ((new_metadata h fileName data n k peers t1 t2)
             \<lparr>md_ShardHashes := map sh_Hash shards\<rparr>) (fm_fileIndex fm)"
      and get: "\<forall>i < length shards. e_RetrieveChunk (shard_id h (i + 1)) (fm_engine fm', d') = Inr (sh_Data (shards ! i))"
      and frame: "\<forall>j. j \<notin> set (shard_ids h (length shards)) \<longrightarrow>
              e_RetrieveChunk j (fm_engine fm', d') = e_RetrieveChunk j (fm_engine fm, d)"
      and ok': "fm_ok (fm', d')" by auto
    have len: "int (length shards) = n" using ShardData_length [OF codec sh] by simp
    have "file_stored rs (fm_engine fm', d') g md" if g: "gm_get (fm_fileIndex fm') g = Some md" for g md
    proof (cases "g = h")
      case True
      have "local_shards (fm_engine fm', d') h shards (length shards)"
        using get unfolding local_shards_def by simp
      moreover have "describes md data shards" and "md_RequiredShards md = k"
        using g True idx len by (auto simp: describes_def new_metadata_def)
      ultimately show ?thesis using True h sh codec len by (auto simp: file_stored_def)
    next
      case False
      then have old: "file_stored rs (fm_engine fm, d) g md" using g idx good by (auto simp: fm_good.simps)
      then have "length g = length h" using h by (auto simp: file_stored_def)
      then have "shard_id g i \<notin> set (shard_ids h (length shards))" for i
        using False by (simp add: set_shard_ids shard_id_inject)
      with frame old show ?thesis by (intro file_stored_frame [OF old]) simp
    qed
    with ok' show ?thesis by (simp add: fm_good.simps)
  qed
qed

lemma fm_good_update:
  assumes ok: "e_ok (e1, d1)" and dir: "en_storageDir e1 = en_storageDir (fm_engine fm)"
    and good: "fm_good rs (fm, d)" and wf: "gm_wf m"
    and stored: "\<And>h md. gm_get m h = Some md \<Longrightarrow> file_stored rs (e1, d1) h md"
    and sv: "fm_saveMetadata (fm\<lparr>fm_engine := e1, fm_fileIndex := m\<rparr>) d1 = (r, d2)"
  shows "r = Inr () \<and> fm_good rs (fm\<lparr>fm_engine := e1, fm_fileIndex := m\<rparr>, d2)"
proof -
  have mf: "fm_metadataFile fm = filepath_Join [en_storageDir (fm_engine fm), ''file_metadata.gob'']"
    using good by (simp add: fm_good.simps fm_ok.simps)
  obtain d' where "fm_saveMetadata (fm\<lparr>fm_engine := e1, fm_fileIndex := m\<rparr>) d1 = (Inr (), d')"
    and e: "e_ok (e1, d')" and same: "\<And>j. e_RetrieveChunk j (e1, d') = e_RetrieveChunk j (e1, d1)"
    using fm_saveMetadata_ok [of "fm\<lparr>fm_engine := e1, fm_fileIndex := m\<rparr>" d1] ok dir mf by auto
  then have r: "r = Inr ()" "d' = d2" using sv by auto
  with e mf dir wf stored same show ?thesis
    by (auto simp: fm_good.simps fm_ok.simps intro: file_stored_frame)
qed

lemma fm_good_StoreFileMetadata:
  assumes good: "fm_good rs (fm, d)"
    and r: "fm_StoreFileMetadata fileName data n k peers t1 t2 (fm, d) = (r, (fm', d'))"
  shows "fm_good rs (fm', d')"
proof (cases "fm' = fm \<and> d' = d")
  case True
  with good show ?thesis by simp
next
  case False
  let ?h = "CalculateFileHash data"
  let ?m = "gm_put ?h (new_metadata ?h fileName data n k peers t1 t2) (fm_fileIndex fm)"
  obtain q d2 where sv: "fm_saveMetadata (fm\<lparr>fm_engine := fm_engine fm, fm_fileIndex := ?m\<rparr>) d = (q, d2)"
    by (metis surj_pair)
  have "file_stored rs (fm_engine fm, d) h md" if "gm_get ?m h = Some md" for h md
    using that good by (auto simp: fm_good.simps file_stored_def new_metadata_def split: if_splits)
  then have "q = Inr () \<and> fm_good rs (fm\<lparr>fm_engine := fm_engine fm, fm_fileIndex := ?m\<rparr>, d2)"
    using good by (intro fm_good_update [OF _ _ good _ _ sv]) (simp_all add: fm_good.simps fm_ok.simps)
  with r sv False show ?thesis
    by (auto simp: fm_StoreFileMetadata_def Let_def split: if_splits)
qed

lemma fm_good_DeleteFile:
  assumes good: "fm_good rs (fm, d)" and r: "fm_DeleteFile h (fm, d) = (r, (fm', d'))"
  shows "fm_good rs (fm', d')"
proof (cases "gm_get (fm_fileIndex fm) h")
  case None
  with r good show ?thesis by (simp add: fm_DeleteFile_def)
next
  case (Some md)
  have ok: "e_ok (fm_engine fm, d)" and wf: "gm_wf (fm_fileIndex fm)"
    using good by (simp_all add: fm_good.simps fm_ok.simps)
  let ?ids = "shard_ids h (nat (md_TotalShards md))"
  obtain e1 d1 where del: "delete_shards h (md_TotalShards md) (fm_engine fm, d) = (e1, d1)"
    by (metis surj_pair)
  note D = chunks.del_all [OF ok, of ?ids, folded delete_shards_fold, unfolded del]
  have dir: "en_storageDir e1 = en_storageDir (fm_engine fm)"
    using e_dir_del_all [of ?ids "(fm_engine fm, d)"] del by (simp add: delete_shards_fold)
  obtain q d2 where sv: "fm_saveMetadata (fm\<lparr>fm_engine := e1, fm_fileIndex := gm_del h (fm_fileIndex fm)\<rparr>) d1 = (q, d2)"
    by (metis surj_pair)
  have h: "length h = 64" using good Some by (auto simp: fm_good.simps dest: file_stored_hash)
  have "file_stored rs (e1, d1) g md'" if g: "gm_get (gm_del h (fm_fileIndex fm)) g = Some md'" for g md'
  proof (rule file_stored_frame)
    show old: "file_stored rs (fm_engine fm, d) g md'"
      using g good by (auto simp: fm_good.simps split: if_splits)
    have "g \<noteq> h" using g by auto
    moreover have "length g = length h" using old h by (auto simp: file_stored_def)
    ultimately have "shard_id g i \<notin> set ?ids" for i by (simp add: set_shard_ids shard_id_inject)
    then show "e_RetrieveChunk (shard_id g i) (e1, d1) = e_RetrieveChunk (shard_id g i) (fm_engine fm, d)" for i
      using D by blast
  qed
  then have "q = Inr () \<and> fm_good rs (fm\<lparr>fm_engine := e1, fm_fileIndex := gm_del h (fm_fileIndex fm)\<rparr>, d2)"
    using D dir wf by (intro fm_good_update [OF _ _ good _ _ sv]) simp_all
  with r Some del sv show ?thesis by (auto simp: fm_DeleteFile_def)
qed

lemma fm_good_Cleanup:
  assumes good: "fm_good rs (fm, d)" and r: "fm_Cleanup (fm, d) = (r, (fm', d'))"
  shows "fm_good rs (fm', d')"
proof -
  have ok: "e_ok (fm_engine fm, d)" using good by (simp add: fm_good.simps fm_ok.simps)
  obtain d1 where c: "e_Cleanup (fm_engine fm, d) = (Inr (), (fm_engine fm, d1))" and ok1: "e_ok (fm_engine fm, d1)"
    and abs: "e_abs (fm_engine fm, d1) = e_abs (fm_engine fm, d)"
    using e_Cleanup_ok [OF ok] by blast
  have "e_RetrieveChunk j (fm_engine fm, d1) = e_RetrieveChunk j (fm_engine fm, d)" for j
  proof (cases "e_has (fm_engine fm, d) j")
    case True
    then obtain b where "e_RetrieveChunk j (fm_engine fm, d) = Inr b" using e_RetrieveChunk_has [OF ok] by blast
    then show ?thesis using fun_cong [OF abs, of j] by (auto simp: e_abs_def split: sum.splits)
  next
    case False
    then show ?thesis using chunks.get_missing [OF ok1 ok] by (simp add: e_has_def)
  qed
  then have "file_stored rs (fm_engine fm, d1) h md" if "gm_get (fm_fileIndex fm) h = Some md" for h md
    using that good by (auto simp: fm_good.simps intro: file_stored_frame)
  with r c ok1 good show ?thesis by (auto simp: fm_Cleanup_def fm_good.simps fm_ok.simps)
qed

lemma fm_run_good: "fm_run rs dir s \<Longrightarrow> fm_good rs s"
proof (induction rule: fm_run.induct)
  case (new fm)
  then have "fm_engine fm = fresh_engine dir DefaultMaxStorageBytes" and "fm_fileIndex fm = []"
    and "fm_metadataFile fm = filepath_Join [dir, ''file_metadata.gob'']"
    by (auto simp: NewFileManager_def NewEngine_def e_loadMetadata_def fm_loadMetadata_def read_gob_def
        fresh_engine_def quiet_disk_def os_MkdirAll_def)
  then show ?case by (simp add: fm_good.simps fm_ok.simps e_ok_fresh) (simp add: fresh_engine_def)
next
  case (store_file s k n fileName data peers t1 t2)
  then show ?case using fm_good_StoreFile by (metis prod.collapse)
next
  case (store_metadata s fileName data n k peers t1 t2)
  then show ?case using fm_good_StoreFileMetadata by (metis prod.collapse)
next
  case (delete_file s h)
  then show ?case using fm_good_DeleteFile by (metis prod.collapse)
next
  case (cleanup s)
  then show ?case using fm_good_Cleanup by (metis prod.collapse)
qed


section \<open>Examples\<close>

text \<open>A new manager in a directory \<open>d\<close>, and a file of three bytes in two data and one parity shard.\<close>

definition fresh_manager :: FileManager where
  "fresh_manager =
     \<lparr>fm_engine = fresh_engine ''d'' DefaultMaxStorageBytes, fm_shardManager = NewShardManager, fm_fileIndex = [],
      fm_metadataFile = filepath_Join [''d'', ''file_metadata.gob''], fm_storageDir = ''d''\<rparr>"

lemma fm_ok_fresh: "fm_ok (fresh_manager, quiet_disk)"
  by (simp add: fm_ok.simps fresh_manager_def e_ok_fresh) (simp add: fresh_engine_def)

lemma xor_3_2: "rs_codec xor_codec 2 (3 - 2)"
  using xor_codec_ok by simp

lemma sum_cases: "(case x of Inl e \<Rightarrow> P | Inr v \<Rightarrow> Q v) \<Longrightarrow> (\<And>e. x = Inl e \<Longrightarrow> \<not> P) \<Longrightarrow> \<exists>v. x = Inr v"
  by (cases x) auto

text \<open>A nearly empty engine takes a few more bytes.\<close>

lemma fits_small:
  assumes "e_ok s" and "en_MaxStorageBytes (fst s) = DefaultMaxStorageBytes" and "e_total s + length b \<le> 10"
  shows "e_fits s b"
proof -
  obtain e d where s: "s = (e, d)" by (cases s)
  have u: "e_calculateUsedBytes e d + of_nat (length b) = of_nat (e_total s + length b)"
    using used_total [of e d] assms(1) by (simp add: s)
  have "(of_nat (e_total s + length b) :: u64) \<le> of_nat 10"
    using assms(3) by (simp add: word_le_nat_alt unat_of_nat del: of_nat_add)
  also have "(of_nat 10 :: u64) \<le> DefaultMaxStorageBytes" by (simp add: DefaultMaxStorageBytes_def)
  finally show ?thesis using u assms(2) by (simp add: e_fits_def s)
qed

lemma fits_step:
  assumes ok: "e_ok s" and k: "valid_chunkID k" and n: "\<not> e_has s k"
    and m: "en_MaxStorageBytes (fst s) = DefaultMaxStorageBytes" and t: "e_total s + length b \<le> 10"
  shows "\<exists>s'. e_StoreChunk k b s = (Inr (), s') \<and> e_ok s' \<and> en_MaxStorageBytes (fst s') = DefaultMaxStorageBytes \<and>
    e_total s' = e_total s + length b \<and> (\<forall>j. e_has s' j \<longleftrightarrow> j = k \<or> e_has s j)"
proof -
  obtain e d where s: "s = (e, d)" by (cases s)
  from StoreChunk_fits [OF ok k n fits_small [OF ok m t]] obtain s' where r: "e_StoreChunk k b s = (Inr (), s')" by blast
  obtain e' d' where s': "s' = (e', d')" by (cases s')
  show ?thesis
    using r chunks.put_ok [OF ok k r] chunks.put_has [OF ok k r] e_Max_Store [OF r] m
      e_total_store [of e d k b "()" e' d'] ok k s s' by auto
qed

lemma store_example:
  "\<exists>s'. fm_StoreFile xor_codec ''f'' [1, 2] 3 2 [] 0 0 (fresh_manager, quiet_disk) =
     (Inr (CalculateFileHash [1, 2]), s')"
proof -
  let ?h = "CalculateFileHash [1, 2]"
  let ?s = "\<lambda>i b. \<lparr>sh_Index = i, sh_Data = [b], sh_Hash = CalculateShardHash [b], sh_Size = 1\<rparr>"
  have "xor_split [1, 2] = Inr [[1], [2], []]" by code_simp
  then have sh: "sm_ShardData xor_codec [1, 2] 3 2 = Inr [?s 1 1, ?s 2 2, ?s 3 3]"
    by (simp add: sm_ShardData_def Let_def xor_codec_def xor_bytes_def)
  let ?e0 = "(fresh_engine ''d'' DefaultMaxStorageBytes, quiet_disk)"
  have e0: "e_ok ?e0" "en_MaxStorageBytes (fst ?e0) = DefaultMaxStorageBytes" "e_total ?e0 = 0" "\<And>j. \<not> e_has ?e0 j"
    by (simp_all add: e_ok_fresh) (simp_all add: fresh_engine_def e_total_def e_has_def)
  have val: "valid_chunkID (shard_id ?h i)" for i by (simp add: valid_shard_id)
  have ne: "shard_id ?h i = shard_id ?h j \<longleftrightarrow> i = j" for i j by (simp add: shard_id_inject)
  obtain s1 where s1: "e_StoreChunk (shard_id ?h 1) [1] ?e0 = (Inr (), s1)" "e_ok s1"
      "en_MaxStorageBytes (fst s1) = DefaultMaxStorageBytes" "e_total s1 = 1" "\<And>j. e_has s1 j \<longleftrightarrow> j = shard_id ?h 1"
    using fits_step [OF e0(1) val e0(4,2), of "[1]" 1] e0(3,4) by auto
  obtain s2 where s2: "e_StoreChunk (shard_id ?h 2) [2] s1 = (Inr (), s2)" "e_ok s2"
      "en_MaxStorageBytes (fst s2) = DefaultMaxStorageBytes" "e_total s2 = 2"
      "\<And>j. e_has s2 j \<longleftrightarrow> j = shard_id ?h 2 \<or> j = shard_id ?h 1"
    using fits_step [OF s1(2) val _ s1(3), of 2 "[2]"] s1(4,5) ne by auto
  obtain s3 where s3: "e_StoreChunk (shard_id ?h 3) [3] s2 = (Inr (), s3)" "e_ok s3"
    using fits_step [OF s2(2) val _ s2(3), of 3 "[3]"] s2(4,5) ne by auto
  obtain e3 d3 where e3: "s3 = (e3, d3)" by (cases s3)
  have put: "put_or_undo e_StoreChunk e_DeleteChunk [] (number_shards ?h 0 [?s 1 1, ?s 2 2, ?s 3 3]) ?e0 = (Inr (), (e3, d3))"
    using s1(1) s2(1) s3(1) e3 by (simp add: numeral_2_eq_2 numeral_3_eq_3)
  have dir: "en_storageDir e3 = ''d''" using e_dir_put [OF put] by (simp add: fresh_engine_def)
  let ?m = "(new_metadata ?h ''f'' [1, 2] 3 2 [] 0 0)\<lparr>md_ShardHashes := map sh_Hash [?s 1 1, ?s 2 2, ?s 3 3]\<rparr>"
  let ?fm = "fresh_manager\<lparr>fm_engine := e3, fm_fileIndex := gm_put ?h ?m (fm_fileIndex fresh_manager)\<rparr>"
  obtain d4 where sv: "fm_saveMetadata ?fm d3 = (Inr (), d4)"
    using fm_saveMetadata_ok [of ?fm d3] s3(2) e3 dir by (auto simp: fresh_manager_def)
  have "fm_StoreFile xor_codec ''f'' [1, 2] 3 2 [] 0 0 (fresh_manager, quiet_disk) = (Inr ?h, (?fm, d4))"
    using put sh sv by (simp add: fm_StoreFile_def Let_def) (simp add: fresh_manager_def)
  then show ?thesis by blast
qed

lemma retrieve_example:
  "\<exists>s md. gm_get (fm_fileIndex (fst s)) (CalculateFileHash [1, 2]) = Some md \<and>
     fm_RetrieveFile xor_codec (CalculateFileHash [1, 2]) s = Ret (Inr [1, 2])"
proof -
  obtain fm d where st: "fm_StoreFile xor_codec ''f'' [1, 2] 3 2 [] 0 0 (fresh_manager, quiet_disk) =
      (Inr (CalculateFileHash [1, 2]), (fm, d))" using store_example by (metis surj_pair)
  have "lose_shards (CalculateFileHash [1, 2]) [3..<nat 3] (fm_engine fm, d) = (fm_engine fm, d)"
    by (simp add: lose_shards_def)
  from retrieve_after_store [OF fm_ok_fresh xor_3_2 st _ _ this]
  have "fm_RetrieveFile xor_codec (CalculateFileHash [1, 2]) (fm, d) = Ret (Inr [1, 2])" by simp
  moreover have "gm_get (fm_fileIndex fm) (CalculateFileHash [1, 2]) \<noteq> None"
    using fm_StoreFile_outcome [OF fm_ok_fresh st] by auto
  ultimately show ?thesis by (intro exI [of _ "(fm, d)"]) auto
qed

lemma run_example: "fm_run rs ''d'' (fresh_manager, quiet_disk)"
proof (rule fm_run.new)
  have "os_MkdirAll ''d'' quiet_disk = Inr ()" by (simp add: os_MkdirAll_def quiet_disk_def)
  then show "NewFileManager ''d'' quiet_disk = Inr fresh_manager"
    by (simp add: NewFileManager_def NewEngine_def e_loadMetadata_def fm_loadMetadata_def read_gob_def
        fresh_manager_def fresh_engine_def) (simp add: quiet_disk_def)
qed

theorem StoreFile_RetrieveFile_witness:
  "\<exists>fm d e2 d2. fm_StoreFile xor_codec ''f'' [1, 2] 3 2 [] 0 0 (fresh_manager, quiet_disk) =
       (Inr (CalculateFileHash [1, 2]), (fm, d)) \<and>
     lose_shards (CalculateFileHash [1, 2]) [2] (fm_engine fm, d) = (e2, d2) \<and>
     fm_RetrieveFile xor_codec (CalculateFileHash [1, 2]) (fm\<lparr>fm_engine := e2\<rparr>, d2) = Ret (Inr [1, 2])"
proof -
  obtain fm d where st: "fm_StoreFile xor_codec ''f'' [1, 2] 3 2 [] 0 0 (fresh_manager, quiet_disk) =
      (Inr (CalculateFileHash [1, 2]), (fm, d))" using store_example by (metis surj_pair)
  obtain e2 d2 where l: "lose_shards (CalculateFileHash [1, 2]) [2..<nat 3] (fm_engine fm, d) = (e2, d2)"
    by (metis surj_pair)
  from StoreFile_RetrieveFile [OF fm_ok_fresh xor_3_2 st _ _ l] st l show ?thesis
    by (simp add: upt_rec)
qed



section \<open>A panic\<close>

text \<open>
  A file stored as metadata only has no shard hashes. As soon as the engine can read a
  first shard for it (a peer's shard for that file, stored in the same directory and loaded by
  the next start), \<open>VerifyFileIntegrity\<close> indexes the empty slice and panics.
\<close>

theorem VerifyFileIntegrity_panics:
  assumes "gm_get (fm_fileIndex fm) h = Some md" and "md_ShardHashes md = []" and "0 < md_TotalShards md"
    and "e_RetrieveChunk (shard_id h 1) (fm_engine fm, d) = Inr b"
  shows "fm_VerifyFileIntegrity h (fm, d) = Panic IndexOutOfRange"
proof -
  have "[0..<nat (md_TotalShards md)] = 0 # [1..<nat (md_TotalShards md)]"
    using assms(3) by (simp add: upt_rec)
  with assms show ?thesis
    by (simp add: fm_VerifyFileIntegrity_def fm_GetFileInfo_def go_index_def)
qed

theorem VerifyFileIntegrity_panics_witness:
  "\<exists>fm d. fm_VerifyFileIntegrity ''h'' (fm, d) = Panic IndexOutOfRange"
proof -
  let ?md = "new_metadata ''h'' ''f'' [1] 1 1 [] 0 0"
  let ?e = "(fresh_engine ''d'' 10)\<lparr>en_chunks := [(''h_shard_1'', ''d/h_shard_1.chunk'')]\<rparr>"
  let ?d = "quiet_disk\<lparr>dk_files := [(''d/h_shard_1.chunk'', Raw [7])]\<rparr>"
  let ?fm = "fresh_manager\<lparr>fm_engine := ?e, fm_fileIndex := [(''h'', ?md)]\<rparr>"
  have "shard_id ''h'' 1 = ''h_shard_1''" by code_simp
  then have "e_RetrieveChunk (shard_id ''h'' 1) (?e, ?d) = Inr [7]"
    by (simp add: e_RetrieveChunk_def os_ReadFile_def quiet_disk_def)
  then have "fm_VerifyFileIntegrity ''h'' (?fm, ?d) = Panic IndexOutOfRange"
    by (intro VerifyFileIntegrity_panics [of _ _ ?md _ "[7]"]) (simp_all add: new_metadata_def)
  then show ?thesis by blast
qed

end
