(* ===== verification/Node_Protocol_Correct.thy ===== *)
theory Node_Protocol_Correct
  imports Node_Protocol File_Manager_Correct
begin

text \<open>
  What a node promises to the nodes that hand it shards: which storage requests end the process
  of the node that receives them, that an accepted shard is served from then on, and what the
  metadata it makes up for a file it has only a shard of are good for.
\<close>

section \<open>Requests that crash the receiver\<close>

lemma not_Inr_unit: "(r :: 'e + unit) \<noteq> Inr () \<longleftrightarrow> (\<exists>x. r = Inl x)"
  by (cases r) simp_all

lemma set_shard_hash_panics: "panics (set_shard_hash i h hashes) \<longleftrightarrow> wrap64 (i - 1) < 0"
  by (auto simp: set_shard_hash_def go_update_def)

lemma go_make_panics [simp]: "panics (go_make n z) \<longleftrightarrow> n < 0"
  by (simp add: go_make_def)

lemma save_shard_metadata_panics:
  "panics (save_shard_metadata now1 now2 request nd) \<longleftrightarrow>
     wrap64 (sq_ShardIndex request - 1) < 0 \<or>
     (gm_get (fm_fileIndex (nd_fileManager nd)) (sq_FileHash request) = None \<and> sq_TotalShards request < 0)"
  by (cases "gm_get (fm_fileIndex (nd_fileManager nd)) (sq_FileHash request)")
    (auto simp: save_shard_metadata_def fm_GetFileInfo_def Let_def set_shard_hash_panics go_make_def)

lemma updateFileMetadata_panics:
  "panics (n_updateFileMetadata now1 now2 request nd) = panics (save_shard_metadata now1 now2 request nd)"
  by (auto simp: n_updateFileMetadata_def Let_def not_Inr_unit split: sum.splits)

definition request_chunk :: "StorageRequest \<Rightarrow> string" where
  "request_chunk req = sq_FileHash req @ ''_shard_'' @ dec (sq_ShardIndex req)"

lemma handleStoreShard_panics:
  "panics (n_handleStoreShard et now1 now2 req fileStore) \<longleftrightarrow>
     (\<exists>nd s. fileStore = Some nd \<and>
        e_StoreChunk (request_chunk req) (sq_ShardData req) (nd_store nd) = (Inr (), s) \<and>
        (wrap64 (sq_ShardIndex req - 1) < 0 \<or>
         (gm_get (fm_fileIndex (nd_fileManager nd)) (sq_FileHash req) = None \<and> sq_TotalShards req < 0)))"
proof (cases fileStore)
  case None
  then show ?thesis by (simp add: n_handleStoreShard_def)
next
  case (Some nd)
  obtain r s where r: "e_StoreChunk (request_chunk req) (sq_ShardData req) (nd_store nd) = (r, s)"
    by (cases "e_StoreChunk (request_chunk req) (sq_ShardData req) (nd_store nd)")
  have "nd_fileManager (set_store s nd) = nd_fileManager nd" by (simp add: set_store_def)
  with Some r show ?thesis
    by (cases r) (auto simp: n_handleStoreShard_def Let_def updateFileMetadata_panics
        save_shard_metadata_panics request_chunk_def)
qed


section \<open>Accepted shards are served\<close>

text \<open>
  The contract of a node that keeps shards for others. A request is admissible when the name of
  the file has no slash (the hex digits of a SHA-256 hash have none); the node accepts it or not,
  and a shard it serves stays as it is.
\<close>

locale shard_keeper =
  fixes accept :: "StorageRequest \<Rightarrow> 'n \<Rightarrow> (StorageResponse \<times> 'n) go"
    and serve :: "string \<Rightarrow> int \<Rightarrow> 'n \<Rightarrow> ShardResponse"
    and admissible :: "StorageRequest \<Rightarrow> bool"
    and ok :: "'n \<Rightarrow> bool"
  assumes accept_ok: "ok n \<Longrightarrow> admissible req \<Longrightarrow> accept req n = Ret (resp, n') \<Longrightarrow> ok n'"
    and accept_serves: "ok n \<Longrightarrow> admissible req \<Longrightarrow> accept req n = Ret (resp, n') \<Longrightarrow> sr_Success resp \<Longrightarrow>
      serve (sq_FileHash req) (sq_ShardIndex req) n' = \<lparr>hr_Data = sq_ShardData req, hr_Error = ''''\<rparr>"
    and accept_keeps: "ok n \<Longrightarrow> admissible req \<Longrightarrow> accept req n = Ret (resp, n') \<Longrightarrow>
      hr_Error (serve h i n) = '''' \<Longrightarrow> serve h i n' = serve h i n"
begin

fun accept_all :: "StorageRequest list \<Rightarrow> 'n \<Rightarrow> 'n go" where
  "accept_all [] n = Ret n"
| "accept_all (req # reqs) n = go_bind (accept req n) (\<lambda>(resp, n1). accept_all reqs n1)"

lemma accept_all_keeps:
  assumes "accept_all reqs n = Ret n'" and "ok n" and "\<forall>req \<in> set reqs. admissible req"
    and "hr_Error (serve h i n) = ''''"
  shows "ok n' \<and> serve h i n' = serve h i n"
  using assms
proof (induction reqs arbitrary: n)
  case Nil
  then show ?case by simp
next
  case (Cons req reqs)
  from Cons.prems(1) obtain resp n1 where a: "accept req n = Ret (resp, n1)" and rest: "accept_all reqs n1 = Ret n'"
    by (cases "accept req n") auto
  have adm: "admissible req" using Cons.prems(3) by simp
  have keep: "serve h i n1 = serve h i n"
    using accept_keeps [OF Cons.prems(2) adm a Cons.prems(4)] .
  with Cons.IH [OF rest accept_ok [OF Cons.prems(2) adm a]] Cons.prems show ?case by simp
qed

lemma accepted_stays:
  assumes "ok n" and "admissible req" and "accept req n = Ret (resp, n1)" and "sr_Success resp"
    and "\<forall>r \<in> set reqs. admissible r" and "accept_all reqs n1 = Ret n2"
  shows "serve (sq_FileHash req) (sq_ShardIndex req) n2 = \<lparr>hr_Data = sq_ShardData req, hr_Error = ''''\<rparr>"
proof -
  note served = accept_serves [OF assms(1-4)]
  with accept_all_keeps [OF assms(6) accept_ok [OF assms(1-3)] assms(5), of "sq_FileHash req" "sq_ShardIndex req"]
  show ?thesis by simp
qed

end

text \<open>A node with a file store as such a keeper.\<close>

definition nd_ok :: "DNode \<Rightarrow> bool" where
  "nd_ok nd \<longleftrightarrow> e_ok (nd_store nd) \<and>
     fm_metadataFile (nd_fileManager nd) = filepath_Join [en_storageDir (nd_storage nd), ''file_metadata.gob'']"

definition plain_request :: "StorageRequest \<Rightarrow> bool" where
  "plain_request req \<longleftrightarrow> sq_Operation req = ''store_shard'' \<and> slash \<notin> set (sq_FileHash req)"

definition node_accept ::
  "err_text \<Rightarrow> go_time \<Rightarrow> go_time \<Rightarrow> StorageRequest \<Rightarrow> DNode \<Rightarrow> (StorageResponse \<times> DNode) go" where
  "node_accept et now1 now2 req nd =
     go_bind (n_handleStorageProtocol et now1 now2 (Some req) (Some nd)) (\<lambda>(resp, fileStore).
       Ret (the resp, the fileStore))"

definition node_serve :: "err_text \<Rightarrow> string \<Rightarrow> int \<Rightarrow> DNode \<Rightarrow> ShardResponse" where
  "node_serve et h i nd = the (n_handleShardRequest et (Some (h, i)) (Some nd))"

lemma node_serve_ok:
  "hr_Error (node_serve et h i nd) = '''' \<longleftrightarrow> (\<exists>b. e_RetrieveChunk (h @ ''_shard_'' @ dec i) (nd_store nd) = Inr b)"
  by (auto simp: node_serve_def n_handleShardRequest_def dn_GetShard_def split: sum.splits)

lemma node_serve_data:
  "e_RetrieveChunk (h @ ''_shard_'' @ dec i) (nd_store nd) = Inr b \<Longrightarrow>
     node_serve et h i nd = \<lparr>hr_Data = b, hr_Error = ''''\<rparr>"
  by (simp add: node_serve_def n_handleShardRequest_def dn_GetShard_def)

lemma fm_UpdateFileMetadata_frame:
  assumes ok: "e_ok (e, d)" and f: "fm_metadataFile fm = filepath_Join [en_storageDir e, ''file_metadata.gob'']"
    and u: "fm_UpdateFileMetadata m (fm, d) = (r, (fm', d'))"
  shows "e_ok (e, d') \<and> e_RetrieveChunk k (e, d') = e_RetrieveChunk k (e, d) \<and> r = Inr () \<and>
    fm' = fm\<lparr>fm_fileIndex := gm_put (md_FileHash m) m (fm_fileIndex fm)\<rparr>"
proof -
  let ?fm = "fm\<lparr>fm_fileIndex := gm_put (md_FileHash m) m (fm_fileIndex fm)\<rparr>"
  from u have w: "write_gob (fm_metadataFile fm) (GobFiles (fm_fileIndex ?fm)) d = (r, d')" and "fm' = ?fm"
    by (auto simp: fm_UpdateFileMetadata_def fm_saveMetadata_def Let_def split: prod.splits)
  with save_frame [OF ok f _ w] show ?thesis by simp
qed

lemma updateFileMetadata_frame:
  assumes ok: "nd_ok nd" and r: "n_updateFileMetadata now1 now2 req nd = Ret (r, nd')"
  shows "nd_ok nd' \<and> (\<forall>k. e_RetrieveChunk k (nd_store nd') = e_RetrieveChunk k (nd_store nd))"
proof -
  from r obtain q fm2 d2 where s: "save_shard_metadata now1 now2 req nd = Ret (q, (fm2, d2))"
    and nd': "nd_storage nd' = nd_storage nd" "nd_fileManager nd' = fm2" "nd_disk nd' = d2"
    by (auto simp: n_updateFileMetadata_def Let_def go_bind_Ret_iff node_defs not_Inr_unit split: sum.splits)
  from s obtain m fm1 where u: "fm_UpdateFileMetadata m (fm1, nd_disk nd) = (q, (fm2, d2))"
    and fm1: "fm_metadataFile fm1 = fm_metadataFile (nd_fileManager nd)"
    by (auto simp: save_shard_metadata_def Let_def node_defs go_bind_Ret_iff split: sum.splits)
  have e: "e_ok (nd_storage nd, nd_disk nd)"
    and f: "fm_metadataFile fm1 = filepath_Join [en_storageDir (nd_storage nd), ''file_metadata.gob'']"
    using ok fm1 by (simp_all add: nd_ok_def node_defs)
  from fm_UpdateFileMetadata_frame [OF e f u] nd' fm1 f show ?thesis
    by (simp add: nd_ok_def node_defs)
qed

lemma node_accept_cases:
  assumes "node_accept et now1 now2 req nd = Ret (resp, nd')" and "plain_request req"
  obtains (refused) x s where "e_StoreChunk (request_chunk req) (sq_ShardData req) (nd_store nd) = (Inl x, s)"
      and "nd' = set_store s nd" and "\<not> sr_Success resp"
  | (stored) s q where "e_StoreChunk (request_chunk req) (sq_ShardData req) (nd_store nd) = (Inr (), s)"
      and "n_updateFileMetadata now1 now2 req (set_store s nd) = Ret (q, nd')" and "sr_Success resp"
proof -
  obtain r s where e: "e_StoreChunk (request_chunk req) (sq_ShardData req) (nd_store nd) = (r, s)"
    by (cases "e_StoreChunk (request_chunk req) (sq_ShardData req) (nd_store nd)")
  have op: "sq_Operation req = ''store_shard''" using assms(2) by (simp add: plain_request_def)
  show thesis
  proof (cases r)
    case (Inl x)
    with e op assms(1) have "nd' = set_store s nd \<and> \<not> sr_Success resp"
      by (auto simp: node_accept_def n_handleStorageProtocol_def n_handleStoreShard_def request_chunk_def)
    with e Inl show ?thesis by (intro refused) simp_all
  next
    case (Inr u)
    with e op assms(1) obtain q where "n_updateFileMetadata now1 now2 req (set_store s nd) = Ret (q, nd')"
      and "sr_Success resp"
      by (auto simp: node_accept_def n_handleStorageProtocol_def n_handleStoreShard_def
          request_chunk_def go_bind_Ret_iff)
    with e Inr show ?thesis by (intro stored) simp_all
  qed
qed

lemma request_chunk_valid: "plain_request req \<Longrightarrow> valid_chunkID (request_chunk req)"
  by (simp add: plain_request_def request_chunk_def valid_chunkID_def dec_no_slash)

lemma nd_ok_store:
  assumes "nd_ok nd" and "e_ok s" and "en_storageDir (fst s) = en_storageDir (nd_storage nd)"
  shows "nd_ok (set_store s nd)" and "nd_store (set_store s nd) = s"
  using assms by (simp_all add: nd_ok_def node_defs)

text \<open>What one accepted or refused request does to the chunks of the node.\<close>

lemma node_accept_chunks:
  assumes ok: "nd_ok nd" and req: "plain_request req" and a: "node_accept et now1 now2 req nd = Ret (resp, nd')"
  shows "nd_ok nd'"
    and "sr_Success resp \<Longrightarrow> e_RetrieveChunk (request_chunk req) (nd_store nd') = Inr (sq_ShardData req)"
    and "e_RetrieveChunk k (nd_store nd) = Inr b \<Longrightarrow> e_RetrieveChunk k (nd_store nd') = Inr b"
proof -
  have eok: "e_ok (nd_store nd)" using ok by (simp add: nd_ok_def)
  note v = request_chunk_valid [OF req]
  have "nd_ok nd' \<and>
    (sr_Success resp \<longrightarrow> e_RetrieveChunk (request_chunk req) (nd_store nd') = Inr (sq_ShardData req)) \<and>
    (e_RetrieveChunk k (nd_store nd) = Inr b \<longrightarrow> e_RetrieveChunk k (nd_store nd') = Inr b)"
    using a req
  proof (cases rule: node_accept_cases)
    case (refused x s)
    have "s = nd_store nd" using chunks.put_error [OF eok v refused(1)] .
    with refused(2,3) ok eok show ?thesis by (simp add: node_defs)
  next
    case (stored s q)
    note put = chunks.put_ok [OF eok v stored(1)] chunks.put_frame [OF eok v stored(1)]
    have "en_storageDir (fst s) = en_storageDir (nd_storage nd)"
      using e_dir_Store [OF stored(1)] by (simp add: node_defs)
    note set = nd_ok_store [OF ok _ this]
    have "nd_ok (set_store s nd)" and "nd_store (set_store s nd) = s" using put(1) set by simp_all
    with updateFileMetadata_frame [OF _ stored(2)] have "nd_ok nd'"
      and same: "\<And>k. e_RetrieveChunk k (nd_store nd') = e_RetrieveChunk k s" by simp_all
    moreover have "e_RetrieveChunk k (nd_store nd) = Inr b \<longrightarrow> e_RetrieveChunk k s = Inr b"
      using put chunks.get_has [OF eok, of k] by metis
    ultimately show ?thesis using put(1) by simp
  qed
  then show "nd_ok nd'"
    and "sr_Success resp \<Longrightarrow> e_RetrieveChunk (request_chunk req) (nd_store nd') = Inr (sq_ShardData req)"
    and "e_RetrieveChunk k (nd_store nd) = Inr b \<Longrightarrow> e_RetrieveChunk k (nd_store nd') = Inr b"
    by blast+
qed

interpretation keeper: shard_keeper "node_accept et now1 now2" "node_serve et" plain_request nd_ok
  for et now1 now2
proof unfold_locales
  fix nd nd' :: DNode and req resp
  assume h: "nd_ok nd" "plain_request req" "node_accept et now1 now2 req nd = Ret (resp, nd')"
  show "nd_ok nd'" using h by (rule node_accept_chunks)
  show "node_serve et (sq_FileHash req) (sq_ShardIndex req) nd' = \<lparr>hr_Data = sq_ShardData req, hr_Error = ''''\<rparr>"
    if "sr_Success resp"
    using node_accept_chunks(2) [OF h that] by (simp add: node_serve_data request_chunk_def)
  show "node_serve et s i nd' = node_serve et s i nd" if "hr_Error (node_serve et s i nd) = ''''" for s i
  proof -
    from that obtain b where b: "e_RetrieveChunk (s @ ''_shard_'' @ dec i) (nd_store nd) = Inr b"
      by (auto simp: node_serve_ok)
    from node_serve_data [OF b] node_serve_data [OF node_accept_chunks(3) [OF h b]] show ?thesis by simp
  qed
qed

text \<open>The protocol handler itself over a list of requests, of any peers.\<close>

fun handle_requests ::
  "err_text \<Rightarrow> go_time \<Rightarrow> go_time \<Rightarrow> StorageRequest list \<Rightarrow> DNode option \<Rightarrow> DNode option go" where
  "handle_requests et now1 now2 [] fileStore = Ret fileStore"
| "handle_requests et now1 now2 (req # reqs) fileStore =
     go_bind (n_handleStorageProtocol et now1 now2 (Some req) fileStore) (\<lambda>(resp, fileStore1).
       handle_requests et now1 now2 reqs fileStore1)"

lemma storage_protocol_keeps_store:
  "n_handleStorageProtocol et now1 now2 (Some req) (Some nd) = Ret (resp, fs) \<Longrightarrow> \<exists>r nd'. resp = Some r \<and> fs = Some nd'"
  by (auto simp: n_handleStorageProtocol_def n_handleStoreShard_def Let_def go_bind_Ret_iff not_Inr_unit
      split: if_splits sum.splits prod.splits)

lemma handle_requests_accept:
  "\<forall>r \<in> set reqs. plain_request r \<Longrightarrow> handle_requests et now1 now2 reqs (Some nd) = Ret (Some nd2) \<Longrightarrow>
     keeper.accept_all et now1 now2 reqs nd = Ret nd2"
proof (induction reqs arbitrary: nd)
  case Nil
  then show ?case by simp
next
  case (Cons req reqs)
  from Cons.prems(2) obtain resp fs where
    h: "n_handleStorageProtocol et now1 now2 (Some req) (Some nd) = Ret (resp, fs)"
    and rest: "handle_requests et now1 now2 reqs fs = Ret (Some nd2)"
    by (auto simp: go_bind_Ret_iff)
  with storage_protocol_keeps_store [OF h] obtain r nd' where "resp = Some r" "fs = Some nd'" by blast
  with h have "node_accept et now1 now2 req nd = Ret (r, nd')" by (simp add: node_accept_def)
  with \<open>fs = Some nd'\<close> rest Cons.IH [of nd'] Cons.prems(1) show ?case by simp
qed

text \<open>
  What a node has accepted it serves. When a node answers a storage request with success
  (a file hash without a slash, a disk without faults), then after any further sequence of such
  requests, from whatever peers and for whatever shards, it answers a request for that shard
  with exactly the data it was sent.
\<close>

theorem accepted_shard_is_served:
  assumes "nd_ok nd" and "plain_request req" and "\<forall>r \<in> set reqs. plain_request r"
    and "n_handleStorageProtocol et now1 now2 (Some req) (Some nd) = Ret (Some resp, Some nd1)"
    and "sr_Success resp"
    and "handle_requests et now1 now2 reqs (Some nd1) = Ret (Some nd2)"
  shows "n_handleShardRequest et (Some (sq_FileHash req, sq_ShardIndex req)) (Some nd2) =
    Some \<lparr>hr_Data = sq_ShardData req, hr_Error = ''''\<rparr>"
proof -
  have "keeper.accept_all et now1 now2 reqs nd1 = Ret nd2"
    using assms(3,6) by (rule handle_requests_accept)
  moreover have "node_accept et now1 now2 req nd = Ret (resp, nd1)"
    using assms(4) by (simp add: node_accept_def)
  ultimately have "node_serve et (sq_FileHash req) (sq_ShardIndex req) nd2 = \<lparr>hr_Data = sq_ShardData req, hr_Error = ''''\<rparr>"
    using keeper.accepted_stays assms(1,2,3,5) by blast
  then show ?thesis by (simp add: node_serve_def n_handleShardRequest_def)
qed

text \<open>Requests a node takes without trouble.\<close>

lemma storage_protocol_accepts:
  assumes ok: "nd_ok nd" and req: "plain_request req"
    and new: "\<not> e_has (nd_store nd) (request_chunk req)" and fits: "e_fits (nd_store nd) (sq_ShardData req)"
    and i: "1 \<le> sq_ShardIndex req" "sq_ShardIndex req < 2 ^ 63" and n: "0 \<le> sq_TotalShards req"
  shows "\<exists>resp nd' s q. n_handleStorageProtocol et now1 now2 (Some req) (Some nd) = Ret (Some resp, Some nd') \<and>
    sr_Success resp \<and> n_updateFileMetadata now1 now2 req (set_store s nd) = Ret (q, nd') \<and>
    nd_ok (set_store s nd)"
proof -
  note v = request_chunk_valid [OF req]
  have eok: "e_ok (nd_store nd)" using ok by (simp add: nd_ok_def)
  obtain s where s: "e_StoreChunk (request_chunk req) (sq_ShardData req) (nd_store nd) = (Inr (), s)"
    using StoreChunk_fits [OF eok v new fits] by blast
  have w: "wrap64 (sq_ShardIndex req - 1) = sq_ShardIndex req - 1" using i by (intro wrap64_id) simp_all
  have "\<not> panics (n_handleStorageProtocol et now1 now2 (Some req) (Some nd))"
    using i n by (simp add: n_handleStorageProtocol_def handleStoreShard_panics w)
  then obtain r fs where h: "n_handleStorageProtocol et now1 now2 (Some req) (Some nd) = Ret (r, fs)"
    by (auto simp: not_panics_iff)
  obtain resp nd' where e: "r = Some resp" "fs = Some nd'" using storage_protocol_keeps_store [OF h] by blast
  then have a: "node_accept et now1 now2 req nd = Ret (resp, nd')" using h by (simp add: node_accept_def)
  from a req have "sr_Success resp \<and> (\<exists>q. n_updateFileMetadata now1 now2 req (set_store s nd) = Ret (q, nd'))"
    by (cases rule: node_accept_cases) (use s in auto)
  moreover have "nd_ok (set_store s nd)"
    using chunks.put_ok [OF eok v s] e_dir_Store [OF s] nd_ok_store [OF ok] by (simp add: node_defs)
  ultimately show ?thesis using h e by blast
qed

lemma updateFileMetadata_self: "n_updateFileMetadata now1 now2 req nd = Ret (r, nd') \<Longrightarrow> nd_self nd' = nd_self nd"
  by (auto simp: n_updateFileMetadata_def Let_def go_bind_Ret_iff set_files_def not_Inr_unit split: sum.splits)

text \<open>The file index of a node that takes the first shard of a file.\<close>

lemma updateFileMetadata_new:
  assumes new: "gm_get (fm_fileIndex (nd_fileManager nd)) (sq_FileHash req) = None"
    and u: "n_updateFileMetadata now1 now2 req nd = Ret (q, nd')"
  shows "\<exists>hashes. set_shard_hash (sq_ShardIndex req) (CalculateShardHash (sq_ShardData req))
        (replicate (nat (sq_TotalShards req)) '''') = Ret hashes \<and>
      fm_fileIndex (nd_fileManager nd') = gm_put (sq_FileHash req)
        (estimated_metadata now1 now2 req (nd_self nd) hashes) (fm_fileIndex (nd_fileManager nd))"
proof -
  from u obtain r fm2 d2 where s: "save_shard_metadata now1 now2 req nd = Ret (r, (fm2, d2))"
    and nd': "nd_fileManager nd' = fm2"
    by (auto simp: n_updateFileMetadata_def Let_def go_bind_Ret_iff node_defs not_Inr_unit split: sum.splits)
  from s new obtain hashes where h: "set_shard_hash (sq_ShardIndex req) (CalculateShardHash (sq_ShardData req))
        (replicate (nat (sq_TotalShards req)) '''') = Ret hashes"
    and w: "fm_UpdateFileMetadata (estimated_metadata now1 now2 req (nd_self nd) hashes) (nd_files nd) = (r, (fm2, d2))"
    by (auto simp: save_shard_metadata_def fm_GetFileInfo_def Let_def go_bind_Ret_iff go_make_def
        split: sum.splits if_splits)
  have "fm_fileIndex fm2 = gm_put (sq_FileHash req)
      (estimated_metadata now1 now2 req (nd_self nd) hashes) (fm_fileIndex (nd_fileManager nd))"
    using w by (auto simp: fm_UpdateFileMetadata_def estimated_metadata_def nd_files_def fm_saveMetadata_def Let_def
        split: prod.splits)
  with h nd' show ?thesis by blast
qed

definition fresh_node :: DNode where
  "fresh_node =
     \<lparr>nd_self = ''me'', nd_connected = [], nd_view = NewNetworkView, nd_storage = fresh_engine ''d'' DefaultMaxStorageBytes,
      nd_fileManager = fresh_manager, nd_disk = quiet_disk, nd_pendingOps = [], nd_published = []\<rparr>"

definition plain_errors :: err_text where
  "plain_errors = \<lparr>et_file = (\<lambda>_. ''file''), et_chunk = (\<lambda>_. ''chunk'')\<rparr>"

definition first_shard :: StorageRequest where
  "first_shard =
     \<lparr>sq_Operation = ''store_shard'', sq_FileHash = ''abc'', sq_FileName = ''f'', sq_ShardIndex = 1,
      sq_ShardData = [1], sq_TotalShards = 3, sq_RequiredShards = 2, sq_Timestamp = 0\<rparr>"

lemma fresh_node_ok:
  "nd_ok fresh_node" "\<not> e_has (nd_store fresh_node) k"
  by (simp_all add: nd_ok_def fresh_node_def node_defs e_ok_fresh e_has_def)
    (simp_all add: fresh_engine_def fresh_manager_def)

lemma first_shard_accepted:
  "\<exists>resp nd' s q. n_handleStorageProtocol et 0 0 (Some first_shard) (Some fresh_node) = Ret (Some resp, Some nd') \<and>
    sr_Success resp \<and> n_updateFileMetadata 0 0 first_shard (set_store s fresh_node) = Ret (q, nd') \<and>
    nd_ok (set_store s fresh_node)"
proof -
  have "e_calculateUsedBytes (fresh_engine ''d'' DefaultMaxStorageBytes) quiet_disk = 0"
    by (simp add: e_calculateUsedBytes_def fresh_engine_def)
  then have "e_fits (fresh_engine ''d'' DefaultMaxStorageBytes, quiet_disk) [1]"
    by (simp add: e_fits_def) (simp add: fresh_engine_def DefaultMaxStorageBytes_def)
  then have f: "e_fits (nd_store fresh_node) (sq_ShardData first_shard)"
    by (simp add: fresh_node_def nd_store_def first_shard_def)
  have p: "plain_request first_shard" by (simp add: plain_request_def first_shard_def)
  have i: "1 \<le> sq_ShardIndex first_shard" "sq_ShardIndex first_shard < 2 ^ 63" "0 \<le> sq_TotalShards first_shard"
    by (simp_all add: first_shard_def)
  show ?thesis by (rule storage_protocol_accepts [OF fresh_node_ok(1) p fresh_node_ok(2) f i])
qed

theorem accepted_shard_is_served_witness:
  "\<exists>nd. n_handleShardRequest plain_errors (Some (''abc'', 1)) (Some nd) = Some \<lparr>hr_Data = [1], hr_Error = ''''\<rparr>"
proof -
  obtain resp nd' where "n_handleStorageProtocol plain_errors 0 0 (Some first_shard) (Some fresh_node) = Ret (Some resp, Some nd')"
    and "sr_Success resp"
    using first_shard_accepted by blast
  from accepted_shard_is_served [OF fresh_node_ok(1) _ _ this, of "[]" nd'] show ?thesis
    by (auto simp: plain_request_def first_shard_def)
qed

section \<open>Metadata of a file one has a shard of\<close>

text \<open>\<open>Join\<close> documents an error (short data) when the data shards hold fewer bytes than asked for.\<close>

definition join_short :: "reed_solomon \<Rightarrow> int \<Rightarrow> int \<Rightarrow> bool" where
  "join_short rs d p \<longleftrightarrow>
     (\<forall>t size. int (length (concat (take (nat d) t))) < size \<longrightarrow> (\<exists>err. rs_Join rs d p t size = Inl err))"

lemma join_short_xor: "join_short xor_codec 2 p"
  by (simp add: join_short_def xor_codec_def xor_join_def)

lemma reconstruct_join_in_place:
  assumes codec: "rs_codec rs k (n - k)" and sh: "sm_ShardData rs data n k = Inr shards"
    and g: "in_place given shards" "k \<le> present_shards given"
  shows "sm_ReconstructData rs given n k outSize =
    (case rs_Join rs k (n - k) (map sh_Data shards) outSize of
       Inl err \<Rightarrow> Ret (Inl (JoinFailed err)) | Inr buf \<Rightarrow> Ret (Inr buf))"
proof -
  note S = sm_ShardData_ok [OF sh]
  note len = ShardData_length [OF codec sh]
  have n: "nat n = length shards" using len(1) by simp
  have le: "length given \<le> length shards" using g(1) by (simp add: in_place_def)
  have p: "partial_shards (raw_shards given (nat n)) (map sh_Data shards) k"
    using g(2) raw_shards_in_place [OF g(1)] raw_shards_present [OF le]
    by (simp add: partial_shards_def n)
  have "given \<noteq> []" using g(2) S(2) by (auto simp: present_shards_def)
  with p g(2) S len raw_shards_present [OF le]
    rs_codecD(1) [OF codec] rs_codecD(3) [OF codec S(1,4) p]
  show ?thesis by (simp add: sm_ReconstructData_def Let_def go_make_def n)
qed

lemma reconstruct_join:
  assumes codec: "rs_codec rs k (n - k)" and sh: "sm_ShardData rs data n k = Inr shards"
  shows "sm_ReconstructData rs shards n k outSize =
    (case rs_Join rs k (n - k) (map sh_Data shards) outSize of
       Inl err \<Rightarrow> Ret (Inl (JoinFailed err)) | Inr buf \<Rightarrow> Ret (Inr buf))"
  using ShardData_length [OF assms] sm_ShardData_ok [OF sh]
  by (intro reconstruct_join_in_place [OF assms]) (simp_all add: in_place_def present_shards_def)

lemma length_concat_const: "\<forall>x \<in> set xs. length x = L \<Longrightarrow> length (concat xs) = L * length xs"
  by (induction xs) simp_all

lemma estimated_served:
  assumes ok: "nd_ok nd" and new: "gm_get (fm_fileIndex (nd_fileManager nd)) (sq_FileHash req) = None"
    and u: "n_updateFileMetadata now1 now2 req nd = Ret (q, nd')"
  shows "\<exists>md. n_handleFileMetadataRequest et (Some (sq_FileHash req)) (Some nd') = Some \<lparr>mr_Metadata = Some md, mr_Error = ''''\<rparr> \<and>
    md_TotalShards md = sq_TotalShards req \<and> md_RequiredShards md = sq_RequiredShards req \<and>
    md_OriginalSize md = wrap64 (int (length (sq_ShardData req)) * sq_TotalShards req)"
proof -
  from u obtain r fm2 d2 where s: "save_shard_metadata now1 now2 req nd = Ret (r, (fm2, d2))"
    and nd': "nd_fileManager nd' = fm2"
    by (auto simp: n_updateFileMetadata_def Let_def go_bind_Ret_iff node_defs not_Inr_unit split: sum.splits)
  from s new obtain hashes where "fm_UpdateFileMetadata (estimated_metadata now1 now2 req (nd_self nd) hashes) (nd_files nd) = (r, (fm2, d2))"
    by (auto simp: save_shard_metadata_def fm_GetFileInfo_def Let_def go_bind_Ret_iff split: sum.splits)
  then have "gm_get (fm_fileIndex fm2) (sq_FileHash req) = Some (estimated_metadata now1 now2 req (nd_self nd) hashes)"
    by (auto simp: fm_UpdateFileMetadata_def estimated_metadata_def nd_files_def Let_def split: prod.splits)
  then show ?thesis
    by (simp add: n_handleFileMetadataRequest_def dn_GetFileMetadata_def fm_GetFileInfo_def nd' estimated_metadata_def)
qed

text \<open>With a parity shard, the estimated size is more than the data shards hold.\<close>

lemma estimated_join_short:
  assumes "rs_codec rs k (n - k)" and "join_short rs k (n - k)" and "k < n" and sh: "sm_ShardData rs data n k = Inr shards"
    and even: "\<forall>s \<in> set shards. length (sh_Data s) = L" and small: "int L * n < 2 ^ 63"
  shows "\<exists>err. rs_Join rs k (n - k) (map sh_Data shards) (wrap64 (int L * n)) = Inl err"
proof -
  note S = sm_ShardData_ok [OF sh]
  note len = ShardData_length [OF assms(1) sh]
  have "shards \<noteq> []" using len(1) S(2,3) by auto
  then have L: "0 < L" using len(2) even by (cases shards) auto
  have "0 \<le> int L * n" using S(2,3) by simp
  then have "wrap64 (int L * n) = int L * n" using small by (intro wrap64_id) simp_all
  moreover have "length (concat (take (nat k) (map sh_Data shards))) = L * nat k"
    using even len(1) S(3) by (subst length_concat_const [where L = L]) (auto simp: take_map dest: in_set_takeD)
  moreover have "int L * k < int L * n" using L assms(3) by simp
  ultimately show ?thesis using assms(2) S(2) by (simp add: join_short_def)
qed

text \<open>
  A peer's metadata do not lead back to the file. A node that receives its first shard of a
  file enters the length of the shard times the number of all shards as the file's original
  size. With at least one parity shard that is more than the data shards hold: the metadata the
  node then answers a request with pass the validity check of the requester, and
  \<open>ReconstructData\<close> fails on them even when every shard of the file is there and in its place.
\<close>

theorem estimated_size_unrecoverable:
  assumes codec: "rs_codec rs k (n - k)" "join_short rs k (n - k)" and n: "k < n"
    and sh: "sm_ShardData rs data n k = Inr shards"
    and even: "\<forall>s \<in> set shards. length (sh_Data s) = L" and small: "int L * n < 2 ^ 63"
    and ok: "nd_ok nd" and new: "gm_get (fm_fileIndex (nd_fileManager nd)) (sq_FileHash req) = None"
    and req: "plain_request req" "length (sq_ShardData req) = L" "sq_TotalShards req = n" "sq_RequiredShards req = k"
    and accepted: "n_handleStorageProtocol et now1 now2 (Some req) (Some nd) = Ret (Some resp, Some nd')" "sr_Success resp"
  shows "\<exists>md err. n_handleFileMetadataRequest et (Some (sq_FileHash req)) (Some nd') = Some \<lparr>mr_Metadata = Some md, mr_Error = ''''\<rparr> \<and>
    valid_metadata md \<and>
    sm_ReconstructData rs shards (md_TotalShards md) (md_RequiredShards md) (md_OriginalSize md) = Ret (Inl (JoinFailed err))"
proof -
  note S = sm_ShardData_ok [OF sh]
  note len = ShardData_length [OF codec(1) sh]
  have "node_accept et now1 now2 req nd = Ret (resp, nd')" using accepted(1) by (simp add: node_accept_def)
  from this req(1) obtain s q where u: "n_updateFileMetadata now1 now2 req (set_store s nd) = Ret (q, nd')"
    and put: "e_StoreChunk (request_chunk req) (sq_ShardData req) (nd_store nd) = (Inr (), s)"
    by (cases rule: node_accept_cases) (use accepted(2) in simp_all)
  have eok: "e_ok (nd_store nd)" using ok by (simp add: nd_ok_def)
  have "nd_ok (set_store s nd)"
    using chunks.put_ok [OF eok request_chunk_valid [OF req(1)] put] e_dir_Store [OF put] nd_ok_store [OF ok]
    by (simp add: node_defs)
  from estimated_served [OF this _ u] new obtain md where
    md: "n_handleFileMetadataRequest et (Some (sq_FileHash req)) (Some nd') = Some \<lparr>mr_Metadata = Some md, mr_Error = ''''\<rparr>"
    "md_TotalShards md = n" "md_RequiredShards md = k" "md_OriginalSize md = wrap64 (int L * n)"
    using req(2-4) by (auto simp: set_store_def)
  have "\<exists>err. rs_Join rs k (n - k) (map sh_Data shards) (md_OriginalSize md) = Inl err"
    using estimated_join_short [OF codec n sh even small] md(4) by simp
  moreover have "valid_metadata md" using md S(2,3) by (simp add: valid_metadata_def)
  ultimately show ?thesis using md reconstruct_join [OF codec(1) sh] by auto
qed

theorem estimated_size_unrecoverable_witness:
  "\<exists>nd' md shards err. n_handleFileMetadataRequest plain_errors (Some ''abc'') (Some nd') = Some \<lparr>mr_Metadata = Some md, mr_Error = ''''\<rparr> \<and>
    valid_metadata md \<and> sm_ShardData xor_codec [1, 2] 3 2 = Inr shards \<and>
    sm_ReconstructData xor_codec shards (md_TotalShards md) (md_RequiredShards md) (md_OriginalSize md) = Ret (Inl (JoinFailed err))"
proof -
  obtain resp nd' where a: "n_handleStorageProtocol plain_errors 0 0 (Some first_shard) (Some fresh_node) = Ret (Some resp, Some nd')"
    "sr_Success resp"
    using first_shard_accepted by blast
  have "xor_split [1, 2] = Inr [[1], [2], []]" by code_simp
  then obtain shards where sh: "sm_ShardData xor_codec [1, 2] 3 2 = Inr shards"
    and l: "\<forall>s \<in> set shards. length (sh_Data s) = 1"
    by (simp add: sm_ShardData_def Let_def xor_codec_def xor_bytes_def)
  have p: "plain_request first_shard" "length (sq_ShardData first_shard) = 1" "sq_TotalShards first_shard = 3"
    "sq_RequiredShards first_shard = 2" "sq_FileHash first_shard = ''abc''"
    by (simp_all add: plain_request_def first_shard_def)
  have new: "gm_get (fm_fileIndex (nd_fileManager fresh_node)) (sq_FileHash first_shard) = None"
    by (simp add: fresh_node_def fresh_manager_def)
  have j: "join_short xor_codec 2 (3 - 2)" by (rule join_short_xor)
  have "(2 :: int) < 3" and "int 1 * 3 < 2 ^ 63" by simp_all
  from estimated_size_unrecoverable [OF xor_3_2 j this(1) sh l this(2) fresh_node_ok(1) new p(1-4) a]
  obtain md err where "n_handleFileMetadataRequest plain_errors (Some (sq_FileHash first_shard)) (Some nd') =
      Some \<lparr>mr_Metadata = Some md, mr_Error = ''''\<rparr>" "valid_metadata md"
    "sm_ReconstructData xor_codec shards (md_TotalShards md) (md_RequiredShards md) (md_OriginalSize md) =
      Ret (Inl (JoinFailed err))"
    by blast
  with sh p(5) show ?thesis by (intro exI [of _ nd'] exI [of _ md] exI [of _ shards] exI [of _ err]) simp
qed

end
