(* ===== verification/Network_Runs.thy ===== *)
theory Network_Runs
  imports Peer_Discovery Storage_Ops_Correct Node_Protocol_Correct
begin

text \<open>
  Every way the code changes a node's network view, as one step relation: gossip from any peer,
  connections, discovery passes, the periodic loops, the storage operations of the node and the
  shards other nodes hand it. Each step is taken as atomic: the view's mutex makes it so for the
  peers and the file index, while the code guards the reputation scores partly with another
  mutex. A storage operation may start from any node state that holds the current view.
  The views a node can reach are well-formed, whatever the other peers send.
\<close>

inductive view_step :: "(peer_id \<Rightarrow> string) \<Rightarrow> peer_id \<Rightarrow> NetworkView \<Rightarrow> NetworkView \<Rightarrow> bool"
  for pid :: "peer_id \<Rightarrow> string" and self :: peer_id where
  gossip: "gm_readMessage pid self now from data nv = Ret nv' \<Longrightarrow> view_step pid self nv nv'"
| connected: "view_step pid self nv (dn_onPeerConnected now p nv)"
| disconnected: "view_step pid self nv (dn_onPeerDisconnected p nv)"
| discover: "view_step pid self nv (snd (pd_discoverPeers self routingTable peerstore (pd, nv)))"
| maintain: "view_step pid self nv (dn_maintainNetworkState now1 now2 nv)"
| review: "view_step pid self nv (rs_performReputationUpdate now nv)"
| success: "view_step pid self nv (rs_RecordSuccessfulInteraction p nv)"
| failure: "view_step pid self nv (rs_RecordFailedInteraction p nv)"
| indexed: "view_step pid self nv (dn_UpdateFileIndex h p nv)"
| removed: "view_step pid self nv (dn_RemoveFileFromIndex h p nv)"
| announced: "nd_self nd = self \<Longrightarrow>
    view_step pid self (nd_view nd) (nd_view (so_announceFileToNetwork env clock h [self] nd))"
| stored: "nd_self nd = self \<Longrightarrow> so_StoreFileDistributed rs env clock name data n k nd = Ret (r, nd') \<Longrightarrow>
    view_step pid self (nd_view nd) (nd_view nd')"
| retrieved: "so_RetrieveFileDistributed rs env h nd = Ret (r, nd') \<Longrightarrow>
    view_step pid self (nd_view nd) (nd_view nd')"
| served: "nd_self nd = self \<Longrightarrow> n_handleStorageProtocol et now1 now2 req (Some nd) = Ret (resp, Some nd') \<Longrightarrow>
    view_step pid self (nd_view nd) (nd_view nd')"

inductive_cases view_stepE: "view_step pid self nv nv'"

text \<open>
  A node starts with the files of its file manager. (The constructor enters them after gossip has
  started; the runs here begin when no message arrived before.)
\<close>

inductive view_run :: "(peer_id \<Rightarrow> string) \<Rightarrow> peer_id \<Rightarrow> NetworkView \<Rightarrow> bool"
  for pid :: "peer_id \<Rightarrow> string" and self :: peer_id where
  start: "distinct (map md_FileHash (fm_ListFiles fm)) \<Longrightarrow> view_run pid self (initial_view self fm)"
| more: "view_run pid self nv \<Longrightarrow> view_step pid self nv nv' \<Longrightarrow> view_run pid self nv'"

lemma nv_inv_New: "nv_inv NewNetworkView"
  by (simp add: nv_inv_def nv_scored_def index_wf_def NewNetworkView_def)

lemma populate_file_eq:
  "gm_get (nv_fileIndex (populate_file self m nv)) h =
     (if h = md_FileHash m then Some (gm_get_or [] (nv_fileIndex nv) h @ [self]) else gm_get (nv_fileIndex nv) h)"
  by (auto simp: populate_file_def Let_def gm_get_or_def split: option.splits)

lemma populate_inv:
  assumes "nv_inv nv" and "distinct (map md_FileHash ms)"
    and "\<forall>m \<in> set ms. gm_get (nv_fileIndex nv) (md_FileHash m) = None"
  shows "nv_inv (fold (populate_file self) ms nv)"
  using assms
proof (induction ms arbitrary: nv)
  case Nil
  then show ?case by simp
next
  case (Cons m ms)
  have new: "gm_get (nv_fileIndex nv) (md_FileHash m) = None" using Cons.prems(3) by simp
  have "nv_inv (populate_file self m nv)"
    using Cons.prems(1) new
    by (simp add: nv_inv_def populate_file_def Let_def gm_get_or_def index_wf_def)
  moreover have "\<forall>m' \<in> set ms. gm_get (nv_fileIndex (populate_file self m nv)) (md_FileHash m') = None"
  proof
    fix m'
    assume "m' \<in> set ms"
    then have "md_FileHash m' \<in> md_FileHash ` set ms" and "gm_get (nv_fileIndex nv) (md_FileHash m') = None"
      using Cons.prems(3) by simp_all
    moreover have "md_FileHash m \<notin> md_FileHash ` set ms" using Cons.prems(2) by simp
    ultimately show "gm_get (nv_fileIndex (populate_file self m nv)) (md_FileHash m') = None"
      by (metis populate_file_eq)
  qed
  ultimately show ?case using Cons.IH [of "populate_file self m nv"] Cons.prems(2) by simp
qed

lemma initial_view_inv: "distinct (map md_FileHash (fm_ListFiles fm)) \<Longrightarrow> nv_inv (initial_view self fm)"
  unfolding initial_view_def
  by (rule populate_inv [OF nv_inv_New]) (simp_all add: NewNetworkView_def)

lemma discover_view: "nv_inv (snd s) \<Longrightarrow> nv_inv (snd (pd_discoverPeers self rt ps s))"
proof -
  have dial: "nv_inv (snd s) \<Longrightarrow> nv_inv (snd (pd_tryConnectToPeer a s))" for a s
    by (auto simp: pd_tryConnectToPeer_def Let_def pd_updateNetworkView_inv split: prod.splits)
  have "nv_inv (snd s) \<Longrightarrow> nv_inv (snd (fold pd_tryConnectToPeer as s))" for "as" s
    by (induction "as" arbitrary: s) (simp_all add: dial)
  then have "nv_inv (snd s) \<Longrightarrow> nv_inv (snd (pd_discoverFromDHT rt s))" for s
    by (simp add: pd_discoverFromDHT_def split: option.splits)
  moreover have "nv_inv (snd s) \<Longrightarrow> nv_inv (snd (fold (peerstore_attempt self) as s))" for "as" s
    by (induction "as" arbitrary: s) (simp_all add: peerstore_attempt_def dial)
  ultimately show "nv_inv (snd s) \<Longrightarrow> ?thesis"
    by (simp add: pd_discoverPeers_def pd_discoverFromPeerstore_def)
qed

lemma mergePeers_add_location:
  "so_mergePeers (h, ps) nv =
     add_location \<lparr>fl_FileHash = h, fl_ShardHashes = [], fl_PeerIDs = ps, fl_Timestamp = 0, fl_FileSize = 0,
                    fl_TotalShards = 0, fl_RequiredShards = 0\<rparr> nv"
  by (simp add: so_mergePeers_def add_location_def Let_def)

lemma mergePeers_inv: "nv_inv nv \<Longrightarrow> nv_inv (fold so_mergePeers es nv)"
  by (induction es arbitrary: nv) (auto simp: mergePeers_add_location add_location_inv)

lemma queryPeer_inv: "nv_inv (nd_view nd) \<Longrightarrow> nv_inv (nd_view (so_queryPeerForFiles env p nd))"
  by (simp add: so_queryPeerForFiles_def mergePeers_inv split: sum.splits)

lemma Sync_inv: "nv_inv (nd_view nd) \<Longrightarrow> nv_inv (nd_view (so_SyncNetworkView env nd))"
proof -
  have "nv_inv (nd_view nd) \<Longrightarrow> nv_inv (nd_view (fold (so_queryPeerForFiles env) ps nd))" for ps
    by (induction ps arbitrary: nd) (simp_all add: queryPeer_inv)
  then show "nv_inv (nd_view nd) \<Longrightarrow> ?thesis" by (simp add: so_SyncNetworkView_def)
qed

lemma retrieve_view:
  "so_RetrieveFileDistributed rs env h nd = Ret (r, nd') \<Longrightarrow> nd' = so_SyncNetworkView env nd"
  by (auto simp: so_RetrieveFileDistributed_def Let_def go_bind_Ret_iff split: if_splits option.splits sum.splits)
    (metis sum.exhaust)

lemma announce_inv:
  assumes "nv_inv (nd_view nd)" and "distinct ps"
  shows "nv_inv (nd_view (so_announceFileToNetwork env clock h ps nd))"
  using assms
  by (auto simp: so_announceFileToNetwork_def publish_retry_def Let_def nv_inv_def index_wf_def split: sum.splits)

lemma store_view:
  assumes "nv_inv (nd_view nd)" and r: "so_StoreFileDistributed rs env clock name data n k nd = Ret (r, nd')"
  shows "nv_inv (nd_view nd')"
proof -
  obtain sel where sel: "so_selectStoragePeers n nd = Ret sel"
    using r by (auto simp: so_StoreFileDistributed_def go_bind_Ret_iff)
  with selectStoragePeers_spec [OF assms(1), of n] have d: "distinct sel" "nd_self nd \<notin> set sel"
    by (auto split: if_splits)
  have ann: "distinct (so_getAnnouncementPeers sel (nd\<lparr>nd_pendingOps := ops\<rparr>))" for ops
    using d by (simp add: so_getAnnouncementPeers_def fold_append_new_distinct)
  have inv: "nv_inv (nd_view (nd\<lparr>nd_pendingOps := ops\<rparr>))" for ops using assms(1) by simp
  have meta: "nd_view (snd (so_storeFileMetadataLocally clock h name data n k sel nd2)) = nd_view nd2" for h nd2
    by (simp add: so_storeFileMetadataLocally_def set_files_def Let_def split: prod.splits)
  show ?thesis
    using r sel assms(1) announce_inv [OF inv ann]
    by (auto simp: so_StoreFileDistributed_def go_bind_Ret_iff Let_def meta split: if_splits sum.splits)
qed

lemma gm_put_twice: "gm_put k v (gm_put k w m) = gm_put k v m"
  by (induction k w m rule: gm_put.induct) auto

lemma index_own_shard_eq: "index_own_shard h self nv = dn_UpdateFileIndex h self nv"
  by (auto simp: gm_put_twice index_own_shard_def dn_UpdateFileIndex_def Let_def gm_get_or_def split: option.splits)

lemma gm_put_same: "gm_get m k = Some v \<Longrightarrow> gm_put k v m = m"
  by (induction m) (auto split: if_splits)

lemma UpdateFileIndex_merge: "dn_UpdateFileIndex h p nv = so_mergePeers (h, [p]) nv"
  by (auto simp: dn_UpdateFileIndex_def so_mergePeers_def Let_def gm_get_or_def append_new_def list_ex_iff
      gm_put_twice gm_put_same split: option.splits)

lemma mergePeers_mergePeers: "so_mergePeers (h, qs) (so_mergePeers (h, ps) nv) = so_mergePeers (h, ps @ qs) nv"
  by (simp add: so_mergePeers_def Let_def gm_get_or_def gm_put_twice)

lemma mergePeers_fold: "so_mergePeers (h, p # ps) nv = fold (dn_UpdateFileIndex h) (p # ps) nv"
proof (induction ps rule: rev_induct)
  case Nil
  show ?case by (simp add: UpdateFileIndex_merge)
next
  case (snoc q ps)
  then show ?case
    using mergePeers_mergePeers [of h "[q]" "p # ps" nv] by (simp add: UpdateFileIndex_merge)
qed


lemma serve_view:
  assumes "nv_inv (nd_view nd)" and "n_handleStorageProtocol et now1 now2 req (Some nd) = Ret (resp, Some nd')"
  shows "nv_inv (nd_view nd')"
proof -
  have up: "nv_inv (nd_view nd1) \<Longrightarrow> n_updateFileMetadata now1 now2 rq nd1 = Ret (q, nd2) \<Longrightarrow> nv_inv (nd_view nd2)"
    for rq nd1 q nd2
    by (auto simp: n_updateFileMetadata_def go_bind_Ret_iff Let_def set_files_def not_Inr_unit index_own_shard_eq
        UpdateFileIndex_inv split: sum.splits)
  have s: "nd_view (set_store s nd) = nd_view nd" for s by (simp add: set_store_def)
  show ?thesis
    using assms up [of "set_store _ nd"]
    by (auto simp: n_handleStorageProtocol_def n_handleStoreShard_def Let_def go_bind_Ret_iff s not_Inr_unit
        split: option.splits if_splits sum.splits prod.splits)
qed

lemma view_step_inv: "view_step pid self nv nv' \<Longrightarrow> nv_inv nv \<Longrightarrow> nv_inv nv'"
proof (induction rule: view_step.induct)
  case (gossip now "from" data nv nv')
  then show ?case using readMessage_inv by blast
next
  case (discover nv rt ps pd)
  then show ?case using discover_view [of "(pd, nv)"] by simp
next
  case (maintain nv now1 now2)
  then show ?case
    using cleanupStalePeers_inv [of nv now1]
    by (simp add: dn_maintainNetworkState_def dn_updateNetworkMetrics_def nv_inv_def)
next
  case (review nv now)
  then have "nv_fileIndex (fold (rs_reviewPeer now) ps v) = nv_fileIndex v" for ps v
    by (induction ps arbitrary: v) (auto simp: rs_reviewPeer_def Let_def split: prod.splits)
  with review show ?case
    using performReputationUpdate_scored [of nv now] by (simp add: nv_inv_def index_wf_def rs_performReputationUpdate_def)
next
  case (success nv p)
  have "nv_fileIndex (rs_RecordSuccessfulInteraction p nv) = nv_fileIndex nv"
    by (simp add: rs_RecordSuccessfulInteraction_def Let_def split: option.splits)
  with success show ?case by (simp add: nv_inv_def index_wf_def RecordSuccessful_scored)
next
  case (failure nv p)
  have "nv_fileIndex (rs_RecordFailedInteraction p nv) = nv_fileIndex nv"
    by (simp add: rs_RecordFailedInteraction_def Let_def split: option.splits)
  with failure show ?case by (simp add: nv_inv_def index_wf_def RecordFailed_scored)
next
  case (retrieved rs env h nd r nd')
  then show ?case using Sync_inv retrieve_view by metis
next
  case (announced nd env clock h)
  then show ?case using announce_inv by simp
next
  case (stored nd rs env clock name data n k r nd')
  then show ?case using store_view by blast
next
  case (served nd et now1 now2 req resp nd')
  then show ?case using serve_view by blast
qed (simp_all add: onPeerConnected_inv onPeerDisconnected_inv UpdateFileIndex_inv RemoveFileFromIndex_inv)

lemma view_run_inv: "view_run pid self nv \<Longrightarrow> nv_inv nv"
  by (induction rule: view_run.induct) (auto simp: initial_view_inv intro: view_step_inv)



end
