(* ===== verification/Shamir.thy ===== *)
theory Shamir
  imports Go_Base
begin

text \<open>
  The secret sharing of \<open>internal/shamir/shamir.go\<close>: each byte of the data is the constant term
  of a polynomial with random coefficients, evaluated over the integers (\<open>math/big\<close>) and cut to
  a byte. The random source is a parameter: \<open>rnd b i\<close> is the \<open>i\<close>-th coefficient drawn for byte
  \<open>b\<close>, or \<open>None\<close> when the source fails.
\<close>

datatype shamir_error = KGreaterThanN | DataIsEmpty | RandFailed | NoSharesProvided

text \<open>\<open>big.Int.Div\<close> is Euclidean division; \<open>big.Int.Uint64\<close> takes the low 64 bits of the magnitude.\<close>

definition big_Div :: "int \<Rightarrow> int \<Rightarrow> int go" where
  "big_Div a b =
     (if b = 0 then Panic DivisionByZero else Ret (if 0 < b then a div b else - (a div (- b))))"

definition big_Uint64 :: "int \<Rightarrow> int" where
  "big_Uint64 x = \<bar>x\<bar> mod 2 ^ 64"

definition to_byte :: "int \<Rightarrow> 8 word" where
  "to_byte x = word_of_int (big_Uint64 x mod 256)"

fun eval_from :: "nat \<Rightarrow> int list \<Rightarrow> int \<Rightarrow> int" where
  "eval_from i [] x = 0"
| "eval_from i (coeff # coeffs) x = coeff * x ^ i + eval_from (i + 1) coeffs x"

definition evaluatePolynomial :: "int list \<Rightarrow> int \<Rightarrow> int" where
  "evaluatePolynomial coefficients x = eval_from 0 coefficients x"

text \<open>The coefficients of all bytes: \<open>make\<close> and the constant term come before the draws.\<close>

fun polynomials :: "(nat \<Rightarrow> nat \<Rightarrow> int option) \<Rightarrow> int \<Rightarrow> nat \<Rightarrow> bytes \<Rightarrow> (shamir_error + int list list) go" where
  "polynomials rnd k byteIdx [] = Ret (Inr [])"
| "polynomials rnd k byteIdx (b # bs) =
     (if k < 0 then Panic MakeSliceOutOfRange
      else if k = 0 then Panic IndexOutOfRange
      else case those (map (rnd byteIdx) [1..<nat k]) of
             None \<Rightarrow> Ret (Inl RandFailed)
           | Some cs \<Rightarrow>
               go_bind (polynomials rnd k (byteIdx + 1) bs) (\<lambda>r.
                 Ret (case r of Inl err \<Rightarrow> Inl err | Inr ps \<Rightarrow> Inr ((uint b # cs) # ps))))"

definition split_share :: "int list list \<Rightarrow> nat \<Rightarrow> bytes" where
  "split_share ps i =
     word_of_int (int i + 1) # map (\<lambda>coefficients. to_byte (evaluatePolynomial coefficients (int i + 1))) ps"

definition Split :: "(nat \<Rightarrow> nat \<Rightarrow> int option) \<Rightarrow> bytes \<Rightarrow> int \<Rightarrow> int \<Rightarrow> (shamir_error + bytes list) go" where
  "Split rnd data n k =
     (if n < k then Ret (Inl KGreaterThanN)
      else if length data = 0 then Ret (Inl DataIsEmpty)
      else go_bind (go_make n ([] :: bytes)) (\<lambda>_.
           go_bind (polynomials rnd k 0 data) (\<lambda>r.
             Ret (case r of Inl err \<Rightarrow> Inl err | Inr ps \<Rightarrow> Inr (map (split_share ps) [0..<nat n])))))"

text \<open>One factor of a term: the products over the other points.\<close>

fun lagrange_products :: "int \<Rightarrow> int \<Rightarrow> (int \<times> int) list \<Rightarrow> nat \<Rightarrow> nat \<Rightarrow> int \<times> int \<Rightarrow> int \<times> int" where
  "lagrange_products x px [] i j (num, den) = (num, den)"
| "lagrange_products x px ((ox, oy) # others) i j (num, den) =
     lagrange_products x px others i (j + 1)
       (if i \<noteq> j then (num * (x - ox), den * (px - ox)) else (num, den))"

fun lagrange_sum :: "int \<Rightarrow> (int \<times> int) list \<Rightarrow> (int \<times> int) list \<Rightarrow> nat \<Rightarrow> int \<Rightarrow> int go" where
  "lagrange_sum x points [] i result = Ret result"
| "lagrange_sum x points ((px, py) # rest) i result =
     (let (numerator, denominator) = lagrange_products x px points i 0 (1, 1)
      in go_bind (big_Div (py * numerator) denominator) (\<lambda>term.
           lagrange_sum x points rest (i + 1) (result + term)))"

definition lagrangeInterpolation :: "int \<Rightarrow> (int \<times> int) list \<Rightarrow> int go" where
  "lagrangeInterpolation x points = lagrange_sum x points points 0 0"

fun points_at :: "nat \<Rightarrow> bytes list \<Rightarrow> (int \<times> int) list go" where
  "points_at byteIdx [] = Ret []"
| "points_at byteIdx (share # shares) =
     go_bind (go_index share 0) (\<lambda>x.
     go_bind (go_index share (int byteIdx + 1)) (\<lambda>y.
     go_bind (points_at byteIdx shares) (\<lambda>ps. Ret ((uint x, uint y) # ps))))"

fun combine_bytes :: "bytes list \<Rightarrow> nat list \<Rightarrow> bytes go" where
  "combine_bytes shares [] = Ret []"
| "combine_bytes shares (byteIdx # is) =
     go_bind (points_at byteIdx shares) (\<lambda>points.
     go_bind (lagrangeInterpolation 0 points) (\<lambda>secret.
     go_bind (combine_bytes shares is) (\<lambda>bs. Ret (to_byte secret # bs))))"

definition Combine :: "bytes list \<Rightarrow> (shamir_error + bytes) go" where
  "Combine shares =
     (if length shares = 0 then Ret (Inl NoSharesProvided)
      else go_bind (go_index shares 0) (\<lambda>s0.
           let dataLen = int (length s0) - 1
           in go_bind (go_make dataLen (0 :: 8 word)) (\<lambda>_.
              go_bind (combine_bytes shares [0..<nat dataLen]) (\<lambda>result. Ret (Inr result)))))"

section \<open>One and two shares\<close>

lemma to_byte_uint [simp]: "to_byte (uint (b :: 8 word)) = b"
proof -
  have "0 \<le> uint b" and "uint b < 256" using uint_lt2p [of b] by simp_all
  then have "big_Uint64 (uint b) mod 256 = uint b" by (simp add: big_Uint64_def)
  then show ?thesis by (simp add: to_byte_def)
qed

lemma uint_to_byte: "0 \<le> x \<Longrightarrow> uint (to_byte x) = x mod 256"
proof -
  assume "0 \<le> x"
  have "x mod 2 ^ 64 mod 256 = x mod (256 :: int)" by (rule mod_mod_cancel) simp
  with \<open>0 \<le> x\<close> show ?thesis
    by (simp add: to_byte_def big_Uint64_def uint_word_of_int)
qed

lemma points_two:
  "length a > Suc i \<Longrightarrow> length b > Suc i \<Longrightarrow>
     points_at i [a, b] = Ret [(uint (a ! 0), uint (a ! Suc i)), (uint (b ! 0), uint (b ! Suc i))]"
proof -
  have "nat (int i + 1) = Suc i" by simp
  then show "length a > Suc i \<Longrightarrow> length b > Suc i \<Longrightarrow> ?thesis" by (auto simp: go_index_def)
qed

lemma lagrange_two: "lagrangeInterpolation 0 [(1, y1), (2, y2)] = Ret (2 * y1 - y2)"
  by (simp add: lagrangeInterpolation_def big_Div_def)

lemma combine_two:
  assumes "hd a = 1" and "hd b = 2" and "length b = length a" and "set js \<subseteq> {..<length a - 1}"
  shows "combine_bytes [a, b] js = Ret (map (\<lambda>j. to_byte (2 * uint (a ! Suc j) - uint (b ! Suc j))) js)"
  using assms(4)
proof (induction js)
  case Nil
  then show ?case by simp
next
  case (Cons j js)
  then have j: "length a > Suc j" "length b > Suc j" using assms(3) by auto
  have "a \<noteq> []" and "b \<noteq> []" using j by auto
  then have "a ! 0 = 1" and "b ! 0 = 2" using assms(1,2) by (simp_all add: hd_conv_nth)
  then have "points_at j [a, b] = Ret [(1, uint (a ! Suc j)), (2, uint (b ! Suc j))]"
    by (simp only: points_two [OF j]) simp
  with Cons show ?case by (simp add: lagrange_two del: points_at.simps)
qed

text \<open>The byte that two shares with the values \<open>y1\<close> and \<open>y2\<close> at 1 and 2 give back.\<close>

lemma recovered_byte:
  fixes s :: "8 word" and a :: int
  assumes "0 \<le> a"
  defines "y1 \<equiv> uint (to_byte (uint s + a))" and "y2 \<equiv> uint (to_byte (uint s + 2 * a))"
  shows "to_byte (2 * y1 - y2) = s \<longleftrightarrow> y2 \<le> 2 * y1 \<or> s = 0 \<or> s = 128"
proof -
  have s: "0 \<le> uint s" "uint s < 256" using uint_lt2p [of s] by simp_all
  have y: "y1 = (uint s + a) mod 256" "y2 = (uint s + 2 * a) mod 256"
    using assms s by (simp_all add: y1_def y2_def uint_to_byte)
  have "(2 * y1) mod 256 = (2 * (uint s + a)) mod 256" unfolding y by (rule mod_mult_right_eq)
  moreover have "y2 mod 256 = (uint s + 2 * a) mod 256" unfolding y by (rule mod_mod_trivial)
  ultimately have "(2 * y1 - y2) mod 256 = (2 * (uint s + a) - (uint s + 2 * a)) mod 256"
    by (rule mod_diff_cong)
  also have "2 * (uint s + a) - (uint s + 2 * a) = uint s" by simp
  finally have m: "(2 * y1 - y2) mod 256 = uint s" using s by simp
  show ?thesis
  proof (cases "y2 \<le> 2 * y1")
    case True
    then have "uint (to_byte (2 * y1 - y2)) = uint s" using m by (simp add: uint_to_byte)
    with True show ?thesis by (simp add: word_uint_eq_iff)
  next
    case False
    have "to_byte (2 * y1 - y2) = to_byte (y2 - 2 * y1)"
      by (simp add: to_byte_def big_Uint64_def abs_minus_commute)
    then have u: "uint (to_byte (2 * y1 - y2)) = (y2 - 2 * y1) mod 256"
      using False by (simp add: uint_to_byte)
    have "(- (2 * y1 - y2)) mod 256 = (if (2 * y1 - y2) mod 256 = 0 then 0 else 256 - (2 * y1 - y2) mod 256)"
      by (rule zmod_zminus1_eq_if)
    then have "uint (to_byte (2 * y1 - y2)) = (if uint s = 0 then 0 else 256 - uint s)"
      unfolding u m by simp
    then have "to_byte (2 * y1 - y2) = s \<longleftrightarrow> (if uint s = 0 then 0 else 256 - uint s) = uint s"
      by (simp only: word_uint_eq_iff)
    also have "\<dots> \<longleftrightarrow> uint s = 0 \<or> uint s = 128" by auto
    finally show ?thesis using False by (simp add: word_uint_eq_iff)
  qed
qed

lemma polynomials_two:
  assumes "polynomials rnd 2 i data = Ret (Inr ps)"
  shows "length ps = length data \<and> (\<forall>j < length data. \<exists>a. rnd (i + j) 1 = Some a \<and> ps ! j = [uint (data ! j), a])"
  using assms
proof (induction data arbitrary: i ps)
  case Nil
  then show ?case by simp
next
  case (Cons b bs)
  have "[1..<nat 2] = [1]" by (simp add: upt_rec)
  with Cons.prems obtain a qs where a: "rnd i 1 = Some a" and q: "polynomials rnd 2 (i + 1) bs = Ret (Inr qs)"
    and ps: "ps = [uint b, a] # qs"
    by (auto simp: go_bind_Ret_iff split: option.splits sum.splits)
  from Cons.IH [OF q] a ps show ?case by (auto simp: nth_Cons' less_Suc_eq_0_disj)
qed



section \<open>Panics\<close>

text \<open>
  Unchecked arguments. \<open>Split\<close> of non-empty data panics for every threshold below 1
  (unless \<open>n\<close> is below it, which is an error), and \<open>Combine\<close> panics when it is given the same
  share twice.
\<close>

theorem shamir_panics:
  "(data \<noteq> [] \<and> k \<le> 0 \<and> k \<le> n \<longrightarrow> panics (Split rnd data n k)) \<and>
   (2 \<le> length s \<longrightarrow> Combine [s, s] = Panic DivisionByZero)"
proof (intro conjI impI)
  assume "data \<noteq> [] \<and> k \<le> 0 \<and> k \<le> n"
  then show "panics (Split rnd data n k)"
    by (cases data) (auto simp: Split_def go_make_def)
next
  assume s: "2 \<le> length s"
  then have "[0..<nat (int (length s) - 1)] = 0 # [1..<nat (int (length s) - 1)]"
    by (simp add: upt_rec)
  moreover have "s \<noteq> []" using s by auto
  ultimately show "Combine [s, s] = Panic DivisionByZero"
    using s by (simp add: Combine_def go_index_def go_make_def lagrangeInterpolation_def big_Div_def)
qed

theorem shamir_panics_witness:
  "panics (Split (\<lambda>_ _. None) [7] 3 0) \<and> Combine [[1, 5], [1, 5]] = Panic DivisionByZero"
  using shamir_panics [of "[7]" 0 3 "\<lambda>_ _. None" "[1, 5]"] by simp

end
