(* ===== verification/Validators.thy ===== *)
theory Validators
  imports Node_State Exchange_Sort
begin

text \<open>
  The validator manager (\<open>internal/network/validator.go\<close>): which peers may validate, their
  weights, the committee, and the statistics of its members. The random stakes are the function
  \<open>draw\<close> (the answer of \<open>rand.Int\<close> for a peer's first and second query), the random numbers of
  the weighted selection a list of draws, and \<open>sort.Slice\<close>, which leaves the order of equal
  weights open, the parameter \<open>sorter\<close>. \<open>pid_String\<close> is the text form of a peer ID.
\<close>

record Validator =
  va_PeerID :: peer_id
  va_StakeAmount :: int
  va_Reputation :: float64
  va_Weight :: float64
  va_IsActive :: bool
  va_LastProven :: go_time
  va_SuccessCount :: u64
  va_FailureCount :: u64
  va_ProofsVerified :: u64
  va_Availability :: float64
  va_ResponseTime :: int

record ValidatorCommittee =
  vc_Validators :: "Validator list"
  vc_StartTime :: go_time
  vc_EndTime :: go_time
  vc_CycleID :: u64

record ValidatorManager =
  vm_currentCycle :: "ValidatorCommittee option"
  vm_nextCycle :: "ValidatorCommittee option"
  vm_cycleDuration :: int
  vm_minStake :: int

definition NewValidatorManager :: ValidatorManager where
  "NewValidatorManager =
     \<lparr>vm_currentCycle = None, vm_nextCycle = None, vm_cycleDuration = 24 * hour, vm_minStake = 1000\<rparr>"

section \<open>Eligible peers\<close>

definition vm_getStakeAmount :: "int \<Rightarrow> ValidatorManager \<Rightarrow> int" where
  "vm_getStakeAmount randomStake vm = randomStake + vm_minStake vm"

definition vm_isEligibleForSelection ::
  "go_time \<Rightarrow> int \<Rightarrow> peer_id \<Rightarrow> PeerInfo \<Rightarrow> DNode \<Rightarrow> ValidatorManager \<Rightarrow> bool" where
  "vm_isEligibleForSelection now randomStake peerID peerInfo nd vm =
     (if hour < time_Sub now (pi_LastSeen peerInfo) then False
      else if f_lt (rs_GetPeerScore peerID (nd_view nd)) (f64 (3 / 10)) then False
      else if vm_getStakeAmount randomStake vm < vm_minStake vm then False
      else peerID \<in> set (nd_connected nd))"

definition new_validator :: "peer_id \<Rightarrow> int \<Rightarrow> float64 \<Rightarrow> Validator" where
  "new_validator peerID stakeAmount reputation =
     \<lparr>va_PeerID = peerID, va_StakeAmount = stakeAmount, va_Reputation = reputation, va_Weight = Fin 0,
      va_IsActive = True, va_LastProven = zero_time, va_SuccessCount = 0, va_FailureCount = 0,
      va_ProofsVerified = 0, va_Availability = Fin 1, va_ResponseTime = 100000000\<rparr>"

definition vm_getEligiblePeers ::
  "go_time \<Rightarrow> (peer_id \<Rightarrow> nat \<Rightarrow> int) \<Rightarrow> DNode \<Rightarrow> ValidatorManager \<Rightarrow> Validator list" where
  "vm_getEligiblePeers now draw nd vm =
     (let self = nd_self nd
      in new_validator self (vm_getStakeAmount (draw self 0) vm) (rs_GetPeerScore self (nd_view nd))
         # map (\<lambda>(peerID, peerInfo).
             new_validator peerID (vm_getStakeAmount (draw peerID 1) vm) (rs_GetPeerScore peerID (nd_view nd)))
           (filter (\<lambda>(peerID, peerInfo). vm_isEligibleForSelection now (draw peerID 0) peerID peerInfo nd vm)
             (nv_GetPeers (nd_view nd))))"

section \<open>Weights\<close>

text \<open>
  \<open>big.Float\<close>: \<open>SetInt\<close> and \<open>Quo\<close> on operands without a precision work with 64 bits (more
  only for integers of more than 64 bits); \<open>Float64\<close> rounds the quotient a second time.
\<close>

definition round_bits :: "int \<Rightarrow> rat \<Rightarrow> rat" where
  "round_bits bits x =
     (if x = 0 then 0
      else let e = ilog2 \<bar>x\<bar> - (bits - 1) in of_int (round_even (x / two_pow e)) * two_pow e)"

definition big_quo :: "int \<Rightarrow> int \<Rightarrow> rat" where
  "big_quo a b = round_bits (max 64 (log2 \<bar>a\<bar> + 1)) (of_int a / of_int b)"

definition validator_weight :: "Validator \<Rightarrow> float64" where
  "validator_weight v =
     (let stakeScore = f64 (big_quo (va_StakeAmount v) 10000)
      in f_add (f_add (f_mul stakeScore (f64 (4 / 10))) (f_mul (va_Reputation v) (f64 (3 / 10))))
               (f_mul (va_Availability v) (f64 (3 / 10))))"

definition vm_calculateWeights :: "Validator list \<Rightarrow> Validator list" where
  "vm_calculateWeights validators = map (\<lambda>v. v\<lparr>va_Weight := validator_weight v\<rparr>) validators"

section \<open>Selection\<close>

fun pick_weighted :: "float64 \<Rightarrow> float64 \<Rightarrow> peer_id set \<Rightarrow> Validator list \<Rightarrow> Validator option" where
  "pick_weighted randomFloat cumulativeWeight selectedMap [] = None"
| "pick_weighted randomFloat cumulativeWeight selectedMap (candidate # candidates) =
     (if va_PeerID candidate \<in> selectedMap then pick_weighted randomFloat cumulativeWeight selectedMap candidates
      else
        let cumulative = f_add cumulativeWeight (va_Weight candidate)
        in if f_le randomFloat cumulative then Some candidate
           else pick_weighted randomFloat cumulative selectedMap candidates)"

definition unit_random :: "int \<Rightarrow> float64" where
  "unit_random randomValue = f_div (f_of_int randomValue) (Fin (2 ^ 62))"

text \<open>
  The loop that fills the remaining places, one random number per pass; a pass may select
  nobody. \<open>None\<close>: still running when the given numbers are used up.
\<close>

fun weighted_loop ::
  "int list \<Rightarrow> Validator list \<Rightarrow> int \<Rightarrow> float64 \<Rightarrow> Validator list \<Rightarrow> Validator list option" where
  "weighted_loop draws candidates wanted totalWeight selected =
     (if int (length selected) < wanted \<and> 0 < length candidates then
        (case draws of
           [] \<Rightarrow> None
         | randomValue # draws1 \<Rightarrow>
             (case pick_weighted (f_mul (unit_random randomValue) totalWeight) (Fin 0)
                     (set (map va_PeerID selected)) candidates of
                None \<Rightarrow> weighted_loop draws1 candidates wanted totalWeight selected
              | Some candidate \<Rightarrow>
                  weighted_loop draws1 candidates wanted (f_sub totalWeight (va_Weight candidate))
                    (selected @ [candidate])))
      else Some selected)"

declare weighted_loop.simps [simp del]

definition vm_weightedRandomSelection :: "int list \<Rightarrow> Validator list \<Rightarrow> int \<Rightarrow> Validator list option" where
  "vm_weightedRandomSelection draws candidates wanted =
     (let totalWeight = fold (\<lambda>candidate total. f_add total (va_Weight candidate)) candidates (Fin 0)
      in weighted_loop draws candidates wanted totalWeight [])"

definition vm_selectValidators ::
  "(Validator list \<Rightarrow> Validator list) \<Rightarrow> int list \<Rightarrow> Validator list \<Rightarrow> int \<Rightarrow> Validator list option" where
  "vm_selectValidators sorter draws candidates wanted =
     (if int (length candidates) \<le> wanted then Some candidates
      else
        let sorted = sorter candidates;
            topCount = go_div (wanted * 2) 3;
            topValidators = take (nat topCount) sorted;
            remainingCandidates = drop (nat topCount) sorted;
            remainingSlots = wanted - topCount
        in if 0 < remainingSlots \<and> 0 < length remainingCandidates
           then map_option (\<lambda>selected. topValidators @ selected)
                  (vm_weightedRandomSelection draws remainingCandidates remainingSlots)
           else Some topValidators)"

definition committee_size :: "int \<Rightarrow> int" where
  "committee_size n = (if 21 < n then 21 else n)"

text \<open>The tag \<open>validator\<close>: a selected peer the view knows without its info panics.\<close>

definition add_validator_tag :: "Validator \<Rightarrow> NetworkView \<Rightarrow> NetworkView go" where
  "add_validator_tag validator nv =
     (case gm_get (nv_peers nv) (va_PeerID validator) of
        None \<Rightarrow> Ret nv
      | Some peerInfo \<Rightarrow>
          (case pi_Info peerInfo of
             None \<Rightarrow> Panic NilDereference
           | Some info \<Rightarrow>
               if list_ex (\<lambda>tag. tag = ''validator'') (fi_Tags info) then Ret nv
               else Ret (nv\<lparr>nv_peers := gm_put (va_PeerID validator)
                              (peerInfo\<lparr>pi_Info := Some (info\<lparr>fi_Tags := fi_Tags info @ [''validator'']\<rparr>)\<rparr>) (nv_peers nv)\<rparr>)))"

fun add_validator_tags :: "Validator list \<Rightarrow> NetworkView \<Rightarrow> NetworkView go" where
  "add_validator_tags [] nv = Ret nv"
| "add_validator_tags (validator # validators) nv =
     go_bind (add_validator_tag validator nv) (add_validator_tags validators)"

datatype selection_error = NoEligiblePeers

text \<open>
  \<open>None\<close>: the weighted selection has not returned. The goroutine started at the end is
  \<open>vm_activate\<close>, a minute later.
\<close>

definition vm_performValidationSelection ::
  "(Validator list \<Rightarrow> Validator list) \<Rightarrow> int list \<Rightarrow> (nat \<Rightarrow> go_time) \<Rightarrow> (peer_id \<Rightarrow> nat \<Rightarrow> int) \<Rightarrow>
   DNode \<Rightarrow> ValidatorManager \<Rightarrow> ((selection_error + ValidatorCommittee) \<times> ValidatorManager \<times> DNode) go option" where
  "vm_performValidationSelection sorter draws clock draw nd vm =
     (let eligiblePeers = vm_getEligiblePeers (clock 0) draw nd vm
      in if length eligiblePeers = 0 then Some (Ret (Inl NoEligiblePeers, vm, nd))
         else
           let weighted = vm_calculateWeights eligiblePeers
           in case vm_selectValidators sorter draws weighted (committee_size (int (length weighted))) of
                None \<Rightarrow> None
              | Some selectedValidators \<Rightarrow>
                  Some (go_bind (add_validator_tags selectedValidators (nd_view nd)) (\<lambda>nv.
                    let newCommittee = \<lparr>vc_Validators = selectedValidators, vc_StartTime = clock 1,
                          vc_EndTime = clock 2 + vm_cycleDuration vm, vc_CycleID = word_of_int (clock 3 div second)\<rparr>
                    in Ret (Inr newCommittee, vm\<lparr>vm_nextCycle := Some newCommittee\<rparr>, nd\<lparr>nd_view := nv\<rparr>))))"

section \<open>The committee at work\<close>

text \<open>
  \<open>broadcastCommitteeUpdate\<close>: the members are logged with the first eight characters of their
  peer IDs, but only when the message was published.
\<close>

definition validator_info :: "Validator \<Rightarrow> ValidatorInfo" where
  "validator_info v =
     \<lparr>vi_PeerID = va_PeerID v, vi_StakeAmount = dec (va_StakeAmount v), vi_Reputation = va_Reputation v,
      vi_Weight = va_Weight v, vi_IsActive = va_IsActive v, vi_ProofsVerified = va_ProofsVerified v,
      vi_Availability = va_Availability v, vi_AvgResponseTime = go_div (va_ResponseTime v) 1000000\<rparr>"

definition committee_update :: "peer_id \<Rightarrow> go_time \<Rightarrow> ValidatorCommittee \<Rightarrow> GossipMessage" where
  "committee_update self now committee =
     \<lparr>gs_Type = GossipTypeValidatorUpdate, gs_PeerID = self, gs_Timestamp = now,
      gs_Payload = ValidatorPayload
        \<lparr>vu_CycleID = vc_CycleID committee, vu_Validators = map validator_info (vc_Validators committee),
         vu_StartTime = vc_StartTime committee, vu_EndTime = vc_EndTime committee, vu_Signature = []\<rparr>\<rparr>"

fun log_members :: "(peer_id \<Rightarrow> string) \<Rightarrow> Validator list \<Rightarrow> unit go" where
  "log_members pid_String [] = Ret ()"
| "log_members pid_String (v # vs) = go_bind (go_prefix (pid_String (va_PeerID v)) 8) (\<lambda>_. log_members pid_String vs)"

definition vm_broadcastCommitteeUpdate ::
  "(peer_id \<Rightarrow> string) \<Rightarrow> bool \<Rightarrow> (GossipMessage \<Rightarrow> string + unit) \<Rightarrow> go_time \<Rightarrow> ValidatorCommittee option \<Rightarrow>
   DNode \<Rightarrow> DNode go" where
  "vm_broadcastCommitteeUpdate pid_String joined publish now committee nd =
     (case committee of
        None \<Rightarrow> Ret nd
      | Some c \<Rightarrow>
          if length (vc_Validators c) = 0 then Ret nd
          else
            let gossipMsg = committee_update (nd_self nd) now c
            in case gm_PublishMessage joined publish gossipMsg of
                 Inl err \<Rightarrow> Ret nd
               | Inr _ \<Rightarrow>
                   go_bind (log_members pid_String (vc_Validators c)) (\<lambda>_.
                   Ret (nd\<lparr>nd_published := nd_published nd @ [gossipMsg]\<rparr>)))"

text \<open>The goroutine of a selection: it activates whatever committee is waiting by then.\<close>

definition vm_activate :: "ValidatorManager \<Rightarrow> ValidatorManager" where
  "vm_activate vm = vm\<lparr>vm_currentCycle := vm_nextCycle vm, vm_nextCycle := None\<rparr>"

definition vm_GetCurrentCommittee :: "ValidatorManager \<Rightarrow> ValidatorCommittee option" where
  "vm_GetCurrentCommittee vm = vm_currentCycle vm"

definition vm_IsValidator :: "peer_id \<Rightarrow> ValidatorManager \<Rightarrow> bool" where
  "vm_IsValidator nodeID vm =
     (case vm_currentCycle vm of
        None \<Rightarrow> False
      | Some c \<Rightarrow> list_ex (\<lambda>validator. va_PeerID validator = nodeID) (vc_Validators c))"

definition update_stats :: "go_time \<Rightarrow> bool \<Rightarrow> int \<Rightarrow> Validator \<Rightarrow> Validator" where
  "update_stats now proofVerified responseTime v =
     (let v1 = (if proofVerified
                then v\<lparr>va_SuccessCount := va_SuccessCount v + 1, va_ProofsVerified := va_ProofsVerified v + 1\<rparr>
                else v\<lparr>va_FailureCount := va_FailureCount v + 1\<rparr>);
          v2 = v1\<lparr>va_ResponseTime :=
                 (if va_ResponseTime v1 = 0 then responseTime
                  else go_div (wrap64 (wrap64 (va_ResponseTime v1 * 9) + responseTime)) 10)\<rparr>;
          totalRequests = va_SuccessCount v2 + va_FailureCount v2;
          v3 = (if 0 < totalRequests
                then v2\<lparr>va_Availability := f_div (f_of_u64 (va_SuccessCount v2)) (f_of_u64 totalRequests)\<rparr> else v2)
      in v3\<lparr>va_LastProven := now\<rparr>)"

fun update_first :: "(Validator \<Rightarrow> Validator) \<Rightarrow> peer_id \<Rightarrow> Validator list \<Rightarrow> Validator list" where
  "update_first f p [] = []"
| "update_first f p (v # vs) = (if va_PeerID v = p then f v # vs else v # update_first f p vs)"

definition vm_UpdateValidatorStats ::
  "go_time \<Rightarrow> peer_id \<Rightarrow> bool \<Rightarrow> int \<Rightarrow> ValidatorManager \<Rightarrow> ValidatorManager" where
  "vm_UpdateValidatorStats now validatorID proofVerified responseTime vm =
     (case vm_currentCycle vm of
        None \<Rightarrow> vm
      | Some c \<Rightarrow> vm\<lparr>vm_currentCycle := Some (c\<lparr>vc_Validators :=
          update_first (update_stats now proofVerified responseTime) validatorID (vc_Validators c)\<rparr>)\<rparr>)"

end
