(* ===== verification/Validators_Correct.thy ===== *)
theory Validators_Correct
  imports Validators
begin

text \<open>
  The committee a selection makes, the selections that end the process, and the availability
  the statistics of a validator report.
\<close>

section \<open>Weights are numbers\<close>

fun f_nonneg :: "float64 \<Rightarrow> bool" where
  "f_nonneg (Fin r) = (0 \<le> r)"
| "f_nonneg PInf = True"
| "f_nonneg x = False"

lemma f_nonneg_not_NaN: "f_nonneg x \<Longrightarrow> x \<noteq> NaN"
  by (cases x) simp_all

lemma f_nonneg_f64: "0 \<le> x \<Longrightarrow> f_nonneg (f64 x)"
  using fl_nonneg [of x] by (auto simp: f64_def Let_def)

lemma f_nonneg_add: "f_nonneg x \<Longrightarrow> f_nonneg y \<Longrightarrow> f_nonneg (f_add x y)"
  by (cases x; cases y) (auto simp: f_nonneg_f64)

lemma f_nonneg_mul: "f_nonneg x \<Longrightarrow> 0 < r \<Longrightarrow> f_nonneg (f_mul x (Fin r))"
  by (cases x) (auto simp: f_nonneg_f64 inf_of_sign_def)

lemma round_even_nonneg: "0 \<le> x \<Longrightarrow> 0 \<le> round_even x"
  using round_even_mono [of "of_int 0" x] unfolding round_even_int by simp

lemma round_bits_nonneg: "0 \<le> x \<Longrightarrow> 0 \<le> round_bits b x"
  by (auto simp: round_bits_def Let_def intro!: mult_nonneg_nonneg round_even_nonneg)

lemma f64_pos: "f_lt (Fin 0) (f64 x) \<Longrightarrow> 0 \<le> x \<Longrightarrow> x \<le> 1 \<Longrightarrow> \<exists>r > 0. f64 x = Fin r"
  by (simp add: f64_unit)

lemma weight_constants: "\<exists>r > 0. f64 (4 / 10) = Fin r" "\<exists>r > 0. f64 (3 / 10) = Fin r"
proof -
  have a: "f_lt (Fin 0) (f64 (4 / 10))" and b: "f_lt (Fin 0) (f64 (3 / 10))" by code_simp+
  show "\<exists>r > 0. f64 (4 / 10) = Fin r" by (rule f64_pos [OF a]) simp_all
  show "\<exists>r > 0. f64 (3 / 10) = Fin r" by (rule f64_pos [OF b]) simp_all
qed

lemma validator_weight_nonneg:
  assumes "0 \<le> va_StakeAmount v" and "f_nonneg (va_Reputation v)" and "f_nonneg (va_Availability v)"
  shows "f_nonneg (validator_weight v)"
proof -
  obtain a b where ab: "0 < a" "f64 (4 / 10) = Fin a" "0 < b" "f64 (3 / 10) = Fin b"
    using weight_constants by blast
  have "f_nonneg (f64 (big_quo (va_StakeAmount v) 10000))"
    using assms(1) by (intro f_nonneg_f64) (simp add: big_quo_def round_bits_nonneg)
  with ab assms show ?thesis
    unfolding validator_weight_def Let_def ab
    by (intro f_nonneg_add f_nonneg_mul) simp_all
qed

section \<open>Who is eligible\<close>

lemma nv_GetPeers_eq: "gm_wf (nv_peers nv) \<Longrightarrow> nv_GetPeers nv = nv_peers nv"
proof -
  have put: "k \<notin> fst ` set acc \<Longrightarrow> gm_put k v acc = acc @ [(k, v)]" for k v and acc :: "(peer_id, PeerInfo) gomap"
    by (induction acc) auto
  have "distinct (map fst (acc @ m)) \<Longrightarrow> fold (\<lambda>(k, v). gm_put k v) m acc = acc @ m"
    for m acc :: "(peer_id, PeerInfo) gomap"
  proof (induction m arbitrary: acc)
    case Nil
    then show ?case by simp
  next
    case (Cons p m)
    obtain k v where p: "p = (k, v)" by (cases p)
    have "k \<notin> fst ` set acc" using Cons.prems p by auto
    with Cons.IH [of "acc @ [(k, v)]"] Cons.prems p put show ?case by simp
  qed
  from this [of "[]" "nv_peers nv"] show "gm_wf (nv_peers nv) \<Longrightarrow> ?thesis"
    by (simp add: nv_GetPeers_def gm_wf_def gm_keys_def)
qed

definition eligible_peer :: "go_time \<Rightarrow> (peer_id \<Rightarrow> nat \<Rightarrow> int) \<Rightarrow> DNode \<Rightarrow> ValidatorManager \<Rightarrow> peer_id \<Rightarrow> bool" where
  "eligible_peer now draw nd vm p \<longleftrightarrow>
     (\<exists>i. gm_get (nv_peers (nd_view nd)) p = Some i \<and> vm_isEligibleForSelection now (draw p 0) p i nd vm)"

lemma new_validator_id [simp]: "va_PeerID (new_validator p s r) = p"
  by (simp add: new_validator_def)

lemma eligible_ids:
  assumes "gm_wf (nv_peers (nd_view nd))"
  shows "map va_PeerID (vm_getEligiblePeers now draw nd vm) =
    nd_self nd # map fst (filter (\<lambda>(p, i). vm_isEligibleForSelection now (draw p 0) p i nd vm) (nv_peers (nd_view nd)))"
  by (simp add: vm_getEligiblePeers_def Let_def nv_GetPeers_eq [OF assms] comp_def case_prod_beta)

lemma eligible_set:
  assumes "gm_wf (nv_peers (nd_view nd))"
  shows "va_PeerID ` set (vm_getEligiblePeers now draw nd vm) =
    insert (nd_self nd) {p. eligible_peer now draw nd vm p}"
proof -
  have "va_PeerID ` set (vm_getEligiblePeers now draw nd vm) = set (map va_PeerID (vm_getEligiblePeers now draw nd vm))"
    by simp
  also have "\<dots> = insert (nd_self nd) {p. eligible_peer now draw nd vm p}"
    unfolding eligible_ids [OF assms] using gm_wf_get [OF assms] by (force simp: eligible_peer_def)
  finally show ?thesis .
qed

lemma eligible_connected: "eligible_peer now draw nd vm p \<Longrightarrow> p \<in> set (nd_connected nd)"
  by (auto simp: eligible_peer_def vm_isEligibleForSelection_def split: if_splits)

lemma eligible_distinct:
  assumes "gm_wf (nv_peers (nd_view nd))" and "nd_self nd \<notin> set (nd_connected nd)"
  shows "distinct (map va_PeerID (vm_getEligiblePeers now draw nd vm))"
proof -
  let ?e = "filter (\<lambda>(p, i). vm_isEligibleForSelection now (draw p 0) p i nd vm) (nv_peers (nd_view nd))"
  have "distinct (map fst ?e)"
    using assms(1) by (auto simp: gm_wf_def gm_keys_def distinct_map_filter)
  moreover have "nd_self nd \<notin> fst ` set ?e"
    using assms(2) by (auto simp: vm_isEligibleForSelection_def split: if_splits)
  ultimately show ?thesis by (simp add: eligible_ids [OF assms(1)])
qed

lemma eligible_numbers:
  assumes "nv_scored (nd_view nd)" and "\<forall>p n. 0 \<le> draw p n" and "0 \<le> vm_minStake vm"
    and "v \<in> set (vm_getEligiblePeers now draw nd vm)"
  shows "vm_minStake vm \<le> va_StakeAmount v \<and> in_unit (va_Reputation v) \<and> va_Availability v = Fin 1"
proof -
  have u: "in_unit (rs_GetPeerScore p (nd_view nd))" for p
    using assms(1) in_unit_f64 [of "5 / 10"] unfolding rs_GetPeerScore_def nv_scored_def
    by (auto dest: gm_allD split: option.splits)
  with assms show ?thesis
    by (auto simp: vm_getEligiblePeers_def Let_def new_validator_def vm_getStakeAmount_def)
qed

section \<open>Selection\<close>

text \<open>What \<open>sort.Slice\<close> documents, for the comparison by descending weight.\<close>

definition sorts_by_weight :: "(Validator list \<Rightarrow> Validator list) \<Rightarrow> bool" where
  "sorts_by_weight sorter \<longleftrightarrow>
     (\<forall>xs. (\<forall>v \<in> set xs. va_Weight v \<noteq> NaN) \<longrightarrow>
        mset (sorter xs) = mset xs \<and> sorted_wrt (\<lambda>v w. \<not> f_lt (va_Weight v) (va_Weight w)) (sorter xs))"

lemma pick_weighted_member:
  "pick_weighted r c sel vs = Some v \<Longrightarrow> v \<in> set vs \<and> va_PeerID v \<notin> sel"
  by (induction vs arbitrary: c) (auto simp: Let_def split: if_splits)

lemma weighted_loop_spec:
  assumes "weighted_loop draws vs n tw sel = Some res" and "set sel \<subseteq> set vs"
    and "distinct (map va_PeerID sel)" and "int (length sel) \<le> n" and "vs \<noteq> []"
  shows "set res \<subseteq> set vs \<and> distinct (map va_PeerID res) \<and> int (length res) = n"
  using assms
proof (induction draws arbitrary: tw sel)
  case Nil
  then show ?case by (auto simp: weighted_loop.simps split: if_splits)
next
  case (Cons d draws)
  show ?case
  proof (cases "int (length sel) < n")
    case False
    with Cons.prems show ?thesis by (auto simp: weighted_loop.simps)
  next
    case True
    let ?pick = "pick_weighted (f_mul (unit_random d) tw) (Fin 0) (set (map va_PeerID sel)) vs"
    show ?thesis
    proof (cases ?pick)
      case None
      with Cons.prems True show ?thesis
        by (intro Cons.IH [of tw sel]) (simp_all add: weighted_loop.simps [of "d # draws"])
    next
      case (Some v)
      with pick_weighted_member [OF Some] Cons.prems True show ?thesis
        by (intro Cons.IH [of "f_sub tw (va_Weight v)" "sel @ [v]"])
          (simp_all add: weighted_loop.simps [of "d # draws"])
    qed
  qed
qed

lemma selectValidators_spec:
  assumes sorter: "sorts_by_weight sorter" and w: "\<forall>v \<in> set vs. va_Weight v \<noteq> NaN"
    and d: "distinct (map va_PeerID vs)" and n: "0 \<le> n"
    and r: "vm_selectValidators sorter draws vs n = Some res"
  shows "set res \<subseteq> set vs \<and> distinct (map va_PeerID res) \<and> int (length res) = min n (int (length vs)) \<and>
    (\<forall>v \<in> set (take (nat (n * 2 div 3)) res). \<forall>u \<in> set vs - set res. \<not> f_lt (va_Weight v) (va_Weight u))"
proof (cases "int (length vs) \<le> n")
  case True
  with r d show ?thesis by (simp add: vm_selectValidators_def)
next
  case False
  define t where "t = nat (n * 2 div 3)"
  have "0 \<le> n * 2 div 3" and "n * 2 div 3 \<le> n" using n by linarith+
  then have t: "go_div (n * 2) 3 = int t" and tn: "int t \<le> n" using n by (simp_all add: go_div_nonneg t_def)
  have m: "mset (sorter vs) = mset vs"
    and s: "sorted_wrt (\<lambda>v w. \<not> f_lt (va_Weight v) (va_Weight w)) (sorter vs)"
    using sorter w by (simp_all add: sorts_by_weight_def)
  have len: "length (sorter vs) = length vs" using m by (metis size_mset)
  have sv: "set (sorter vs) = set vs" using m by (metis set_mset_mset)
  have ds: "distinct (map va_PeerID (take t (sorter vs) @ drop t (sorter vs)))"
    unfolding append_take_drop_id using d m by (metis mset_eq_imp_distinct_iff mset_map)
  have rest: "drop t (sorter vs) \<noteq> []" using tn False len by simp
  obtain sel where res: "res = take t (sorter vs) @ sel" and sel: "set sel \<subseteq> set (drop t (sorter vs))"
    "distinct (map va_PeerID sel)" "int (length sel) = n - int t"
  proof (cases "0 < n - int t")
    case True
    with r False rest t obtain sel where sel: "res = take t (sorter vs) @ sel"
      "vm_weightedRandomSelection draws (drop t (sorter vs)) (n - int t) = Some sel"
      by (auto simp: vm_selectValidators_def Let_def)
    from weighted_loop_spec [OF sel(2) [unfolded vm_weightedRandomSelection_def Let_def]] True rest sel(1) that
    show thesis by simp
  next
    case False
    with r \<open>\<not> int (length vs) \<le> n\<close> t tn that [of "[]"] show thesis by (simp add: vm_selectValidators_def Let_def)
  qed
  have lt: "length (take t (sorter vs)) = t" using tn False len by simp
  have "set res \<subseteq> set vs"
    using res sel(1) sv by (auto dest: in_set_takeD in_set_dropD)
  moreover have "distinct (map va_PeerID res)"
  proof -
    have dt: "distinct (map va_PeerID (take t (sorter vs)))"
      and disj: "va_PeerID ` set (take t (sorter vs)) \<inter> va_PeerID ` set (drop t (sorter vs)) = {}"
      using ds unfolding map_append distinct_append by simp_all
    have "va_PeerID ` set sel \<subseteq> va_PeerID ` set (drop t (sorter vs))" using sel(1) by (rule image_mono)
    with disj have "va_PeerID ` set (take t (sorter vs)) \<inter> va_PeerID ` set sel = {}" by blast
    then show ?thesis
      unfolding res map_append distinct_append set_map using dt sel(2) by blast
  qed
  moreover have "int (length res) = min n (int (length vs))"
    using res sel(3) lt False by simp
  moreover have "\<forall>v \<in> set (take t res). \<forall>u \<in> set vs - set res. \<not> f_lt (va_Weight v) (va_Weight u)"
  proof (intro ballI)
    fix v u
    assume "v \<in> set (take t res)" and u: "u \<in> set vs - set res"
    then have v: "v \<in> set (take t (sorter vs))" using res lt by simp
    have "u \<in> set (take t (sorter vs)) \<union> set (drop t (sorter vs))"
      using u sv by (metis DiffD1 append_take_drop_id set_append)
    then have "u \<in> set (drop t (sorter vs))" using u res by auto
    moreover have "sorted_wrt (\<lambda>v w. \<not> f_lt (va_Weight v) (va_Weight w)) (take t (sorter vs) @ drop t (sorter vs))"
      using s by simp
    ultimately show "\<not> f_lt (va_Weight v) (va_Weight u)" using v unfolding sorted_wrt_append by blast
  qed
  ultimately show ?thesis by (simp add: t_def)
qed

lemma selectValidators_few: "int (length vs) \<le> n \<Longrightarrow> vm_selectValidators sorter draws vs n = Some vs"
  by (simp add: vm_selectValidators_def)

lemma calculateWeights_ids [simp]: "map va_PeerID (vm_calculateWeights vs) = map va_PeerID vs"
  by (simp add: vm_calculateWeights_def comp_def)

lemma length_calculateWeights [simp]: "length (vm_calculateWeights vs) = length vs"
  by (simp add: vm_calculateWeights_def)

lemma eligible_weights:
  assumes "nv_scored (nd_view nd)" and "\<forall>p n. 0 \<le> draw p n" and "0 \<le> vm_minStake vm"
    and "v \<in> set (vm_calculateWeights (vm_getEligiblePeers now draw nd vm))"
  shows "va_Weight v \<noteq> NaN \<and> vm_minStake vm \<le> va_StakeAmount v"
proof -
  obtain u where u: "u \<in> set (vm_getEligiblePeers now draw nd vm)" "v = u\<lparr>va_Weight := validator_weight u\<rparr>"
    using assms(4) by (auto simp: vm_calculateWeights_def)
  from eligible_numbers [OF assms(1-3) u(1)] have n: "vm_minStake vm \<le> va_StakeAmount u"
    "in_unit (va_Reputation u)" "va_Availability u = Fin 1" by simp_all
  have "f_nonneg (va_Reputation u)" using n(2) by (auto elim: in_unitE)
  with validator_weight_nonneg [of u] n assms(3) have "f_nonneg (validator_weight u)" by simp
  with u n(1) show ?thesis by (simp add: f_nonneg_not_NaN)
qed

text \<open>
  C28: The committee. A selection that succeeds leaves as next committee a list of different
  peers: all eligible ones when there are at most 21, otherwise exactly 21; each is the node
  itself or a connected peer of the view that was seen within the last hour with a reputation of
  at least 0.3, and has at least the minimum stake. No eligible peer that is left out outweighs
  one of the first two thirds of the committee. The current committee stays.
\<close>

theorem committee_sound:
  assumes inv: "nv_scored (nd_view nd)" and self: "nd_self nd \<notin> set (nd_connected nd)"
    and draw: "\<forall>p n. 0 \<le> draw p n" and stake: "0 \<le> vm_minStake vm" and sorter: "sorts_by_weight sorter"
    and r: "vm_performValidationSelection sorter draws clock draw nd vm = Some (Ret (Inr c, vm', nd'))"
  shows "vm_nextCycle vm' = Some c \<and> vm_currentCycle vm' = vm_currentCycle vm \<and>
    distinct (map va_PeerID (vc_Validators c)) \<and>
    length (vc_Validators c) = min 21 (length (vm_getEligiblePeers (clock 0) draw nd vm)) \<and>
    (\<forall>v \<in> set (vc_Validators c). vm_minStake vm \<le> va_StakeAmount v \<and>
       (va_PeerID v = nd_self nd \<or> eligible_peer (clock 0) draw nd vm (va_PeerID v))) \<and>
    (\<forall>v \<in> set (take 14 (vc_Validators c)).
       \<forall>u \<in> set (vm_calculateWeights (vm_getEligiblePeers (clock 0) draw nd vm)) - set (vc_Validators c).
         \<not> f_lt (va_Weight v) (va_Weight u))"
proof -
  let ?E = "vm_getEligiblePeers (clock 0) draw nd vm"
  let ?W = "vm_calculateWeights ?E"
  let ?n = "committee_size (int (length ?W))"
  have wf: "gm_wf (nv_peers (nd_view nd))" using inv by (simp add: nv_scored_def)
  have n: "0 \<le> ?n" "?n = int (min 21 (length ?E))" by (simp_all add: committee_size_def)
  from r obtain res where res: "vm_selectValidators sorter draws ?W ?n = Some res"
    and c: "vc_Validators c = res" "vm' = vm\<lparr>vm_nextCycle := Some c\<rparr>"
    by (auto simp: vm_performValidationSelection_def Let_def go_bind_Ret_iff split: if_splits option.splits)
  have w: "\<forall>v \<in> set ?W. va_Weight v \<noteq> NaN" using eligible_weights [OF inv draw stake] by blast
  have d: "distinct (map va_PeerID ?W)" using eligible_distinct [OF wf self] by simp
  note S = selectValidators_spec [OF sorter w d n(1) res]
  have ids: "va_PeerID ` set ?W = insert (nd_self nd) {p. eligible_peer (clock 0) draw nd vm p}"
    using eligible_set [OF wf] calculateWeights_ids by (metis list.set_map)
  have "\<forall>v \<in> set res. vm_minStake vm \<le> va_StakeAmount v \<and>
       (va_PeerID v = nd_self nd \<or> eligible_peer (clock 0) draw nd vm (va_PeerID v))"
    using S ids eligible_weights [OF inv draw stake] by blast
  moreover have "\<forall>v \<in> set (take 14 res). \<forall>u \<in> set ?W - set res. \<not> f_lt (va_Weight v) (va_Weight u)"
  proof (cases "21 < length ?E")
    case True
    then have "nat (?n * 2 div 3) = 14" by (simp add: committee_size_def)
    with S show ?thesis by simp
  next
    case False
    then have "res = ?W" using res selectValidators_few [of ?W ?n] by (simp add: committee_size_def)
    then show ?thesis by simp
  qed
  ultimately show ?thesis using S c n(2) by simp
qed

section \<open>Peers known without their info\<close>

text \<open>A peer the view holds without its info.\<close>

definition blank_peer :: "NetworkView \<Rightarrow> peer_id \<Rightarrow> bool" where
  "blank_peer nv p \<longleftrightarrow> (case gm_get (nv_peers nv) p of None \<Rightarrow> False | Some i \<Rightarrow> pi_Info i = None)"

lemma add_validator_tag_blank: "add_validator_tag v nv = Ret nv' \<Longrightarrow> blank_peer nv' p = blank_peer nv p"
  by (auto simp: add_validator_tag_def blank_peer_def split: option.splits if_splits)

lemma add_validator_tag_panics: "panics (add_validator_tag v nv) = blank_peer nv (va_PeerID v)"
  by (auto simp: add_validator_tag_def blank_peer_def split: option.splits if_splits)

lemma add_validator_tags_panics:
  "panics (add_validator_tags vs nv) \<longleftrightarrow> (\<exists>v \<in> set vs. blank_peer nv (va_PeerID v))"
proof (induction vs arbitrary: nv)
  case Nil
  then show ?case by simp
next
  case (Cons v vs)
  have p: "panics (add_validator_tag v nv) = blank_peer nv (va_PeerID v)" by (rule add_validator_tag_panics)
  show ?case
  proof (cases "add_validator_tag v nv")
    case (Ret nv1)
    with p have "\<not> blank_peer nv (va_PeerID v)" by simp
    with Ret Cons.IH [of nv1] show ?thesis by (simp add: add_validator_tag_blank [OF Ret])
  next
    case (Panic x)
    with p show ?thesis by simp
  qed
qed

lemma selection_few:
  assumes "gm_wf (nv_peers (nd_view nd))" and "length (vm_getEligiblePeers (clock 0) draw nd vm) \<le> 21"
  shows "\<exists>r. vm_performValidationSelection sorter draws clock draw nd vm = Some r \<and>
    (panics r \<longleftrightarrow> (\<exists>p. blank_peer (nd_view nd) p \<and> (p = nd_self nd \<or> eligible_peer (clock 0) draw nd vm p))) \<and>
    (panics r \<or> (\<exists>c vm' nd'. r = Ret (Inr c, vm', nd')))"
proof -
  let ?E = "vm_getEligiblePeers (clock 0) draw nd vm"
  let ?W = "vm_calculateWeights ?E"
  have "?E \<noteq> []" by (simp add: vm_getEligiblePeers_def Let_def)
  moreover have "vm_selectValidators sorter draws ?W (committee_size (int (length ?W))) = Some ?W"
    using assms(2) by (intro selectValidators_few) (simp add: committee_size_def)
  ultimately obtain C vm1 where f: "vm_performValidationSelection sorter draws clock draw nd vm =
      Some (go_bind (add_validator_tags ?W (nd_view nd)) (\<lambda>nv. Ret (Inr C, vm1, nd\<lparr>nd_view := nv\<rparr>)))"
    unfolding vm_performValidationSelection_def Let_def by auto
  have "va_PeerID ` set ?W = insert (nd_self nd) {p. eligible_peer (clock 0) draw nd vm p}"
    using eligible_set [OF assms(1)] calculateWeights_ids by (metis list.set_map)
  then have "(\<exists>v \<in> set ?W. blank_peer (nd_view nd) (va_PeerID v)) \<longleftrightarrow>
    (\<exists>p. blank_peer (nd_view nd) p \<and> (p = nd_self nd \<or> eligible_peer (clock 0) draw nd vm p))"
    unfolding bex_simps(7) [symmetric] by blast
  with f show ?thesis
    by (cases "add_validator_tags ?W (nd_view nd)") (auto simp: add_validator_tags_panics [symmetric])
qed

text \<open>
  A selection that ends the process. With at most 21 eligible peers the selection always
  returns, and it panics exactly when the view holds the node itself or some eligible peer
  without its info, as it does for every peer that has connected but not yet gossiped about
  itself.
\<close>

theorem selection_panics_iff:
  assumes "gm_wf (nv_peers (nd_view nd))" and "length (vm_getEligiblePeers (clock 0) draw nd vm) \<le> 21"
  shows "\<exists>r. vm_performValidationSelection sorter draws clock draw nd vm = Some r \<and>
    (panics r \<longleftrightarrow> (\<exists>p. blank_peer (nd_view nd) p \<and> (p = nd_self nd \<or> eligible_peer (clock 0) draw nd vm p)))"
  using selection_few [of nd clock draw vm sorter draws, OF assms] by blast

section \<open>An example\<close>

text \<open>A node that is connected to one peer, whose info it may or may not have.\<close>

definition farmer_info :: FarmerInfo where
  "farmer_info =
     \<lparr>fi_PeerID = ''p'', fi_NodeName = '''', fi_Version = '''', fi_Addresses = [], fi_StorageCapacity = 10,
      fi_UsedStorage = 0, fi_Reliability = Fin 1, fi_Latency = 0, fi_Uptime = Fin 0, fi_Location = '''',
      fi_IsActive = True, fi_IsPrimary = False, fi_Tags = [], fi_LastSeen = 0, fi_StartTime = 0, fi_LastSync = 0\<rparr>"

definition pair_node :: "FarmerInfo option \<Rightarrow> DNode" where
  "pair_node info =
     \<lparr>nd_self = ''me'', nd_connected = [''p''], nd_view = NewNetworkView\<lparr>nv_peers := [(''p'', new_peer 0 info)]\<rparr>,
      nd_storage = \<lparr>en_chunks = [], en_MaxStorageBytes = 10, en_storageDir = ''d'', en_metadataFile = ''d/metadata.gob''\<rparr>,
      nd_fileManager = \<lparr>fm_engine = \<lparr>en_chunks = [], en_MaxStorageBytes = 10, en_storageDir = ''d'', en_metadataFile = ''d/metadata.gob''\<rparr>,
        fm_shardManager = NewShardManager, fm_fileIndex = [], fm_metadataFile = ''d/file_metadata.gob'', fm_storageDir = ''d''\<rparr>,
      nd_disk = \<lparr>dk_files = [], dk_fails = (\<lambda>_. False), dk_short = (\<lambda>_. 0)\<rparr>,
      nd_pendingOps = [], nd_published = []\<rparr>"

lemma pair_node_facts:
  "nv_scored (nd_view (pair_node info))" "nd_self (pair_node info) \<notin> set (nd_connected (pair_node info))"
  "vm_isEligibleForSelection 0 0 ''p'' (new_peer 0 info) (pair_node info) NewValidatorManager"
  "blank_peer (nd_view (pair_node info)) p \<longleftrightarrow> p = ''p'' \<and> info = None"
proof -
  have "\<not> f_lt (f64 (5 / 10)) (f64 (3 / 10))" by code_simp
  then show "vm_isEligibleForSelection 0 0 ''p'' (new_peer 0 info) (pair_node info) NewValidatorManager"
    by (simp add: vm_isEligibleForSelection_def pair_node_def new_peer_def time_Sub_def durations rs_GetPeerScore_def
        NewNetworkView_def vm_getStakeAmount_def)
qed (simp_all add: pair_node_def nv_scored_def gm_all_def gm_wf_def NewNetworkView_def new_peer_def blank_peer_def)

lemma pair_node_eligible:
  "length (vm_getEligiblePeers 0 (\<lambda>p n. 0) (pair_node info) NewValidatorManager) = 2"
  "eligible_peer 0 (\<lambda>p n. 0) (pair_node info) NewValidatorManager ''p''"
proof -
  have wf: "gm_wf (nv_peers (nd_view (pair_node info)))" using pair_node_facts(1) by (simp add: nv_scored_def)
  have "nv_peers (nd_view (pair_node info)) = [(''p'', new_peer 0 info)]" by (simp add: pair_node_def)
  note facts = this pair_node_facts(3) nv_GetPeers_eq [OF wf]
  show "length (vm_getEligiblePeers 0 (\<lambda>p n. 0) (pair_node info) NewValidatorManager) = 2"
    using facts by (simp add: vm_getEligiblePeers_def Let_def)
  show "eligible_peer 0 (\<lambda>p n. 0) (pair_node info) NewValidatorManager ''p''"
    using facts by (simp add: eligible_peer_def)
qed

interpretation weights: weak_order "\<lambda>v w :: Validator. f_lt (va_Weight v) (va_Weight w)" "\<lambda>v. va_Weight v \<noteq> NaN"
proof unfold_locales
  fix x y z :: Validator
  show "va_Weight x \<noteq> NaN \<Longrightarrow> \<not> f_lt (va_Weight x) (va_Weight x)" by (cases "va_Weight x") auto
  show "va_Weight x \<noteq> NaN \<Longrightarrow> va_Weight y \<noteq> NaN \<Longrightarrow> f_lt (va_Weight x) (va_Weight y) \<Longrightarrow> \<not> f_lt (va_Weight y) (va_Weight x)"
    by (cases "va_Weight x"; cases "va_Weight y") auto
  show "va_Weight x \<noteq> NaN \<Longrightarrow> va_Weight y \<noteq> NaN \<Longrightarrow> va_Weight z \<noteq> NaN \<Longrightarrow> \<not> f_lt (va_Weight x) (va_Weight y) \<Longrightarrow>
      \<not> f_lt (va_Weight y) (va_Weight z) \<Longrightarrow> \<not> f_lt (va_Weight x) (va_Weight z)"
    by (cases "va_Weight x"; cases "va_Weight y"; cases "va_Weight z") auto
qed

text \<open>A function as \<open>sort.Slice\<close> is documented.\<close>

definition weight_sort :: "Validator list \<Rightarrow> Validator list" where
  "weight_sort = exchange_sort (\<lambda>v w. f_lt (va_Weight v) (va_Weight w))"

lemma weight_sort_sorts: "sorts_by_weight weight_sort"
  by (simp add: sorts_by_weight_def weight_sort_def weights.exchange_sort_sorted)

theorem selection_panics_iff_witness:
  "\<exists>r. vm_performValidationSelection weight_sort [] (\<lambda>_. 0) (\<lambda>p n. 0) (pair_node None) NewValidatorManager = Some r \<and> panics r"
proof -
  have "gm_wf (nv_peers (nd_view (pair_node None)))" using pair_node_facts(1) by (simp add: nv_scored_def)
  from selection_panics_iff [of "pair_node None" "\<lambda>_. 0" "\<lambda>p n. 0" NewValidatorManager weight_sort "[]", OF this]
    pair_node_eligible pair_node_facts(4) show ?thesis by auto
qed

theorem committee_sound_witness:
  "\<exists>c vm' nd'. vm_performValidationSelection weight_sort [] (\<lambda>_. 0) (\<lambda>p n. 0) (pair_node (Some farmer_info)) NewValidatorManager =
      Some (Ret (Inr c, vm', nd')) \<and> vm_nextCycle vm' = Some c \<and> length (vc_Validators c) = 2"
proof -
  let ?nd = "pair_node (Some farmer_info)"
  have wf: "gm_wf (nv_peers (nd_view ?nd))" using pair_node_facts(1) by (simp add: nv_scored_def)
  have few: "length (vm_getEligiblePeers 0 (\<lambda>p n. 0) ?nd NewValidatorManager) \<le> 21" by (simp add: pair_node_eligible)
  from selection_few [of ?nd "\<lambda>_. 0" "\<lambda>p n. 0" NewValidatorManager weight_sort "[]", OF wf few]
  obtain c vm' nd' where r: "vm_performValidationSelection weight_sort [] (\<lambda>_. 0) (\<lambda>p n. 0) ?nd NewValidatorManager =
      Some (Ret (Inr c, vm', nd'))"
    by (auto simp: pair_node_facts(4))
  have "0 \<le> vm_minStake NewValidatorManager" by (simp add: NewValidatorManager_def)
  from committee_sound [OF pair_node_facts(1,2) _ this weight_sort_sorts r] r pair_node_eligible(1)
  show ?thesis by auto
qed

section \<open>Statistics\<close>

lemma f64_of_nat: "n < 2 ^ 53 \<Longrightarrow> f64 (of_nat n) = Fin (of_nat n)"
proof -
  assume n: "n < 2 ^ 53"
  then have "\<bar>int n\<bar> < 2 ^ 53" by (metis abs_of_nat of_nat_less_iff of_nat_numeral of_nat_power)
  moreover have "two_pow 0 = 1" by (simp add: two_pow_def)
  ultimately have e: "fl (of_nat n) = of_nat n" using fl_exact [of 0 "int n"] by simp
  have "(of_nat n :: rat) < 2 ^ 53" using n by (metis of_nat_less_iff of_nat_numeral of_nat_power)
  also have "\<dots> < two_pow 1024" by (simp add: two_pow_def)
  finally show ?thesis using f64_Fin [of "of_nat n"] e by simp
qed

lemma f_of_u64_small: "unat w < 2 ^ 53 \<Longrightarrow> f_of_u64 w = Fin (of_nat (unat w))"
  using f64_of_nat [of "unat w"] by (simp add: f_of_u64_def)

lemma update_stats_id [simp]: "va_PeerID (update_stats now ok rt v) = va_PeerID v"
  by (simp add: update_stats_def Let_def)

lemma update_first_ids: "(\<And>v. va_PeerID (f v) = va_PeerID v) \<Longrightarrow> map va_PeerID (update_first f p vs) = map va_PeerID vs"
  by (induction vs) simp_all

lemma update_first_member:
  "v \<in> set vs \<Longrightarrow> distinct (map va_PeerID vs) \<Longrightarrow>
     (if va_PeerID v = p then f v else v) \<in> set (update_first f p vs)"
  by (induction vs) (auto simp: image_iff)

definition counted :: "nat \<Rightarrow> nat \<Rightarrow> Validator \<Rightarrow> bool" where
  "counted good requests v \<longleftrightarrow>
     unat (va_SuccessCount v) = good \<and> unat (va_SuccessCount v) + unat (va_FailureCount v) = requests \<and>
     (0 < requests \<longrightarrow> va_Availability v = f64 (of_nat good / of_nat requests))"

lemma update_stats_counted:
  assumes "counted g n v" and "Suc n < 2 ^ 53"
  shows "counted (if ok then Suc g else g) (Suc n) (update_stats now ok rt v)"
proof -
  let ?v = "update_stats now ok rt v"
  have g: "unat (va_SuccessCount v) = g" and n: "unat (va_SuccessCount v) + unat (va_FailureCount v) = n"
    using assms(1) by (simp_all add: counted_def)
  have s: "unat (va_SuccessCount ?v) = (if ok then Suc g else g)"
    and f: "unat (va_FailureCount ?v) = (if ok then n - g else Suc (n - g))"
    using g n assms(2) by (auto simp: update_stats_def Let_def unat_word_ariths)
  then have sum: "unat (va_SuccessCount ?v) + unat (va_FailureCount ?v) = Suc n" using g n by auto
  then have t: "unat (va_SuccessCount ?v + va_FailureCount ?v) = Suc n"
    using assms(2) by (simp add: unat_word_ariths)
  then have "0 < va_SuccessCount ?v + va_FailureCount ?v" by (metis unat_0 word_neq_0_conv nat.distinct(1))
  moreover have "va_Availability ?v =
      (if 0 < va_SuccessCount ?v + va_FailureCount ?v
       then f_div (f_of_u64 (va_SuccessCount ?v)) (f_of_u64 (va_SuccessCount ?v + va_FailureCount ?v)) else va_Availability v)"
    by (simp add: update_stats_def Let_def)
  moreover have "unat (va_SuccessCount ?v) < 2 ^ 53" using sum assms(2) by simp
  ultimately have "va_Availability ?v = f64 (of_nat (if ok then Suc g else g) / of_nat (Suc n))"
    using s t assms(2) by (simp add: f_of_u64_small del: of_nat_Suc)
  with s sum show ?thesis by (simp add: counted_def)
qed

type_synonym report = "go_time \<times> peer_id \<times> bool \<times> int"

definition report_stats :: "report list \<Rightarrow> ValidatorManager \<Rightarrow> ValidatorManager" where
  "report_stats us vm = fold (\<lambda>(now, p, ok, rt). vm_UpdateValidatorStats now p ok rt) us vm"

definition reports_of :: "peer_id \<Rightarrow> report list \<Rightarrow> report list" where
  "reports_of p us = filter (\<lambda>(now, q, ok, rt). q = p) us"

definition verified :: "report list \<Rightarrow> report list" where
  "verified us = filter (\<lambda>(now, q, ok, rt). ok) us"

lemma reports_of_snoc:
  "reports_of p (us @ [(now, q, ok, rt)]) = reports_of p us @ (if q = p then [(now, q, ok, rt)] else [])"
  by (simp add: reports_of_def)

lemma verified_snoc: "verified (us @ [(now, q, ok, rt)]) = verified us @ (if ok then [(now, q, ok, rt)] else [])"
  by (simp add: verified_def)

lemma report_stats_counted:
  assumes "vm_currentCycle vm = Some c" and "distinct (map va_PeerID (vc_Validators c))" and "v \<in> set (vc_Validators c)"
    and "counted 0 0 v" and "length us < 2 ^ 53"
  shows "\<exists>c' v'. vm_currentCycle (report_stats us vm) = Some c' \<and> distinct (map va_PeerID (vc_Validators c')) \<and>
    v' \<in> set (vc_Validators c') \<and> va_PeerID v' = va_PeerID v \<and>
    counted (length (verified (reports_of (va_PeerID v) us))) (length (reports_of (va_PeerID v) us)) v'"
  using assms(5)
proof (induction us rule: rev_induct)
  case Nil
  show ?case using assms(1-4) by (auto simp: report_stats_def reports_of_def verified_def)
next
  case (snoc u us)
  obtain now p ok rt where u: "u = (now, p, ok, rt)" by (cases u)
  let ?f = "update_stats now ok rt"
  from snoc obtain c' v' where IH: "vm_currentCycle (report_stats us vm) = Some c'"
    "distinct (map va_PeerID (vc_Validators c'))" "v' \<in> set (vc_Validators c')" "va_PeerID v' = va_PeerID v"
    "counted (length (verified (reports_of (va_PeerID v) us))) (length (reports_of (va_PeerID v) us)) v'"
    by auto
  let ?c = "c'\<lparr>vc_Validators := update_first ?f p (vc_Validators c')\<rparr>"
  let ?v = "if va_PeerID v' = p then ?f v' else v'"
  have "vm_currentCycle (report_stats (us @ [u]) vm) = Some ?c"
    using IH(1) by (simp add: report_stats_def u vm_UpdateValidatorStats_def)
  moreover have "map va_PeerID (vc_Validators ?c) = map va_PeerID (vc_Validators c')" by (simp add: update_first_ids)
  moreover have "?v \<in> set (vc_Validators ?c)" using update_first_member [OF IH(3,2), of p ?f] by simp
  moreover have "length (reports_of (va_PeerID v) us) \<le> length us" by (simp add: reports_of_def)
  then have "Suc (length (reports_of (va_PeerID v) us)) < 2 ^ 53" using snoc.prems by simp
  then have "counted (length (verified (reports_of (va_PeerID v) (us @ [u])))) (length (reports_of (va_PeerID v) (us @ [u]))) ?v"
    using IH(4,5) update_stats_counted [OF IH(5), of ok now rt]
    by (cases ok) (auto simp: reports_of_snoc verified_snoc u)
  ultimately show ?case using IH(2,4) by (intro exI [of _ ?c] exI [of _ ?v]) simp
qed

text \<open>
  C38: Availability. After any reports about the members of the committee (fewer than \<open>2 ^ 53\<close>),
  a member that started with empty counters has counted exactly the reports about it, and its
  availability is the share of the verified ones among them, rounded once, between 0 and 1;
  reports about other peers leave it alone.
\<close>

theorem availability_exact:
  assumes "vm_currentCycle vm = Some c" and "distinct (map va_PeerID (vc_Validators c))" and "v \<in> set (vc_Validators c)"
    and "va_SuccessCount v = 0" and "va_FailureCount v = 0" and "length us < 2 ^ 53"
  defines "mine \<equiv> reports_of (va_PeerID v) us"
  shows "\<exists>c' v'. vm_currentCycle (report_stats us vm) = Some c' \<and> v' \<in> set (vc_Validators c') \<and>
    va_PeerID v' = va_PeerID v \<and> unat (va_SuccessCount v') = length (verified mine) \<and>
    unat (va_SuccessCount v') + unat (va_FailureCount v') = length mine \<and>
    (mine \<noteq> [] \<longrightarrow> va_Availability v' = f64 (of_nat (length (verified mine)) / of_nat (length mine)) \<and>
       in_unit (va_Availability v'))"
proof -
  have "counted 0 0 v" using assms(4,5) by (simp add: counted_def)
  from report_stats_counted [OF assms(1-3) this assms(6)] obtain c' v' where
    c: "vm_currentCycle (report_stats us vm) = Some c'" "v' \<in> set (vc_Validators c')" "va_PeerID v' = va_PeerID v"
    and k: "counted (length (verified mine)) (length mine) v'"
    unfolding mine_def by blast
  have "length (verified mine) \<le> length mine" by (simp add: verified_def)
  then have "in_unit (f64 (of_nat (length (verified mine)) / of_nat (length mine)))"
    by (intro in_unit_f64) (auto simp: divide_le_eq)
  with c k show ?thesis by (auto simp: counted_def)
qed

theorem availability_exact_witness:
  "\<exists>c' v'. vm_currentCycle (report_stats [(1, ''p'', True, 5), (2, ''q'', False, 5), (3, ''p'', False, 5)]
       (NewValidatorManager\<lparr>vm_currentCycle := Some \<lparr>vc_Validators = [new_validator ''p'' 1000 (Fin 1)],
          vc_StartTime = 0, vc_EndTime = 1, vc_CycleID = 1\<rparr>\<rparr>)) = Some c' \<and>
     v' \<in> set (vc_Validators c') \<and> va_Availability v' = f64 (1 / 2)"
  using availability_exact [of "NewValidatorManager\<lparr>vm_currentCycle := Some \<lparr>vc_Validators = [new_validator ''p'' 1000 (Fin 1)],
          vc_StartTime = 0, vc_EndTime = 1, vc_CycleID = 1\<rparr>\<rparr>"
      "\<lparr>vc_Validators = [new_validator ''p'' 1000 (Fin 1)], vc_StartTime = 0, vc_EndTime = 1, vc_CycleID = 1\<rparr>"
      "new_validator ''p'' 1000 (Fin 1)" "[(1, ''p'', True, 5), (2, ''q'', False, 5), (3, ''p'', False, 5)]"]
  by (auto simp: new_validator_def reports_of_def verified_def)

end
