(* ===== verification/Selection_Termination.thy ===== *)
theory Selection_Termination
  imports Validators_Correct
begin

text \<open>
  The weighted selection repeats until the committee is full, and a pass may select nobody. Here:
  a pass whose random number is zero selects somebody, whatever happened before, as long as the
  weights are numbers a selection can add up; so the loop ends.
\<close>

definition fair_weight :: "float64 \<Rightarrow> bool" where
  "fair_weight x \<longleftrightarrow> (\<exists>w. x = Fin w \<and> 0 \<le> w \<and> w \<le> two_pow 40)"

text \<open>The total weight after \<open>n\<close> selections, which need not be positive any more.\<close>

definition bounded_total :: "nat \<Rightarrow> float64 \<Rightarrow> bool" where
  "bounded_total n x \<longleftrightarrow> (\<exists>w. x = Fin w \<and> \<bar>w\<bar> \<le> two_pow (100 + int n))"

lemma fair_weightE: "fair_weight x \<Longrightarrow> (\<And>w. x = Fin w \<Longrightarrow> 0 \<le> w \<Longrightarrow> w \<le> two_pow 40 \<Longrightarrow> P) \<Longrightarrow> P"
  unfolding fair_weight_def by blast

lemma bounded_sub:
  assumes "bounded_total n x" and "fair_weight y" and "n < 900"
  shows "bounded_total (Suc n) (f_sub x y)"
proof -
  obtain a where a: "x = Fin a" "\<bar>a\<bar> \<le> two_pow (100 + int n)" using assms(1) by (auto simp: bounded_total_def)
  obtain w where w: "y = Fin w" "0 \<le> w" "w \<le> two_pow 40" using assms(2) by (rule fair_weightE)
  have "two_pow 40 \<le> two_pow (100 + int n)" by (rule two_pow_mono) simp
  with a w have "\<bar>a + - w\<bar> \<le> 2 * two_pow (100 + int n)" by linarith
  also have "\<dots> = two_pow (100 + int n + 1)" by (simp only: two_pow_Suc)
  also have "100 + int n + 1 = 100 + int (Suc n)" by simp
  finally have "\<bar>a + - w\<bar> \<le> two_pow (100 + int (Suc n))" .
  from f64_bounded [OF this] assms(3) a(1) w(1) show ?thesis by (simp add: bounded_total_def f_sub_def)
qed

text \<open>The initial total is a sum of at most \<open>2 ^ 50\<close> weights.\<close>

lemma total_bounded:
  assumes "\<forall>v \<in> set vs. fair_weight (va_Weight v)" and "length vs + i \<le> 2 ^ 50"
    and "0 \<le> a" and "a \<le> of_nat i * two_pow 40"
  shows "\<exists>w. fold (\<lambda>candidate total. f_add total (va_Weight candidate)) vs (Fin a) = Fin w \<and>
    0 \<le> w \<and> w \<le> of_nat (length vs + i) * two_pow 40"
  using assms
proof (induction vs arbitrary: a i)
  case Nil
  then show ?case by simp
next
  case (Cons v vs)
  obtain w where w: "va_Weight v = Fin w" "0 \<le> w" "w \<le> two_pow 40" using Cons.prems(1) by (auto elim: fair_weightE)
  let ?c = "of_int (int (Suc i)) * two_pow 40"
  have "a + w \<le> of_nat i * two_pow 40 + two_pow 40" using Cons.prems(4) w(3) by simp
  then have le: "a + w \<le> ?c" by (simp add: distrib_right add.commute)
  have "int (Suc i) < 2 ^ 53" using Cons.prems(2) by simp
  then have exact: "fl ?c = ?c" by (intro fl_exact) simp_all
  have pos: "0 \<le> a + w" using Cons.prems(3) w(2) by simp
  have s: "0 \<le> fl (a + w)" "fl (a + w) \<le> ?c"
    using fl_nonneg [OF pos] fl_mono_nonneg [OF pos le] exact by simp_all
  have "(of_int (int (Suc i)) :: rat) \<le> of_int (2 ^ 50)" using Cons.prems(2) by (simp only: of_int_le_iff) simp
  then have "?c \<le> of_int (2 ^ 50) * two_pow 40" by (intro mult_right_mono) simp_all
  also have "\<dots> = two_pow 90" using two_pow_add_nat [of 40 50] by simp
  finally have "\<bar>a + w\<bar> \<le> two_pow 90" using le pos by simp
  from f64_bounded [OF this] have f: "f_add (Fin a) (va_Weight v) = Fin (fl (a + w))" using w(1) by simp
  have "fl (a + w) \<le> of_nat (Suc i) * two_pow 40" using s(2) by simp
  with Cons.IH [of "Suc i" "fl (a + w)"] Cons.prems(1,2) s(1) f show ?case by simp
qed

lemma pick_at_zero:
  assumes "\<forall>v \<in> set vs. fair_weight (va_Weight v)" and "f_nonneg c" and "\<exists>v \<in> set vs. va_PeerID v \<notin> sel"
  shows "\<exists>v. pick_weighted (Fin 0) c sel vs = Some v"
  using assms
proof (induction vs arbitrary: c)
  case Nil
  then show ?case by simp
next
  case (Cons v vs)
  show ?case
  proof (cases "va_PeerID v \<in> sel")
    case True
    with Cons show ?thesis by simp
  next
    case False
    have "f_nonneg (va_Weight v)" using Cons.prems(1) by (auto elim: fair_weightE)
    with Cons.prems(2) have "f_nonneg (f_add c (va_Weight v))" by (rule f_nonneg_add)
    then have "f_le (Fin 0) (f_add c (va_Weight v))" by (cases "f_add c (va_Weight v)") (auto simp: f_le_def)
    with False show ?thesis by simp
  qed
qed

lemma unselected_left:
  assumes "distinct (map va_PeerID vs)" and "length sel < length vs"
  shows "\<exists>v \<in> set vs. va_PeerID v \<notin> set (map va_PeerID sel)"
proof (rule ccontr)
  assume "\<not> ?thesis"
  then have "set (map va_PeerID vs) \<subseteq> set (map va_PeerID sel)" by auto
  then have "card (set (map va_PeerID vs)) \<le> card (set (map va_PeerID sel))" by (intro card_mono) simp_all
  also have "\<dots> \<le> length sel" using card_length [of "map va_PeerID sel"] by simp
  finally show False using assms distinct_card [OF assms(1)] by simp
qed

lemma loop_terminates:
  assumes "\<forall>v \<in> set vs. fair_weight (va_Weight v)" and "distinct (map va_PeerID vs)"
    and "n \<le> int (length vs)" and "n \<le> 900" and "bounded_total (length sel) tw"
    and "n \<le> int (length sel) + int (length (filter (\<lambda>d. d = 0) draws))"
  shows "\<exists>res. weighted_loop draws vs n tw sel = Some res"
  using assms(5,6)
proof (induction draws arbitrary: tw sel)
  case Nil
  then show ?case by (simp add: weighted_loop.simps)
next
  case (Cons d draws)
  show ?case
  proof (cases "int (length sel) < n \<and> 0 < length vs")
    case False
    then show ?thesis by (auto simp: weighted_loop.simps)
  next
    case True
    let ?pick = "pick_weighted (f_mul (unit_random d) tw) (Fin 0) (set (map va_PeerID sel)) vs"
    show ?thesis
    proof (cases ?pick)
      case None
      have "d \<noteq> 0"
      proof
        assume "d = 0"
        obtain w where "tw = Fin w" using Cons.prems(1) by (auto simp: bounded_total_def)
        then have "f_mul (unit_random d) tw = Fin 0"
          using \<open>d = 0\<close> by (simp add: unit_random_def f_of_int_def)
        moreover have "\<exists>v. pick_weighted (Fin 0) (Fin 0) (set (map va_PeerID sel)) vs = Some v"
          using assms(3) True by (intro pick_at_zero [OF assms(1)] unselected_left [OF assms(2)]) simp_all
        ultimately show False using None by simp
      qed
      with Cons.IH [OF Cons.prems(1)] Cons.prems(2) None True show ?thesis
        by (simp add: weighted_loop.simps [of "d # draws"])
    next
      case (Some v)
      have "fair_weight (va_Weight v)" using pick_weighted_member [OF Some] assms(1) by blast
      moreover have "length sel < 900" using True assms(4) by simp
      ultimately have b: "bounded_total (length (sel @ [v])) (f_sub tw (va_Weight v))"
        using bounded_sub [OF Cons.prems(1)] by simp
      have "n \<le> int (length (sel @ [v])) + int (length (filter (\<lambda>d. d = 0) draws))"
        using Cons.prems(2) by (simp split: if_splits)
      from Cons.IH [OF b this] Some True show ?thesis by (simp add: weighted_loop.simps [of "d # draws"])
    qed
  qed
qed



end
