(* ===== verification/Key_Management.thy ===== *)
theory Key_Management
  imports File_System Go_Float
begin

text \<open>
  The node's keys: \<open>internal/crypto/manager.go\<close> and the key files of \<open>pkg/utils/helpers.go\<close>.
  The cryptography is libp2p's and \<open>x/crypto/sha3\<close>: a record of the functions the code calls,
  for private keys \<open>'k\<close> and public keys \<open>'p\<close>. \<open>lc_lawful\<close> states what they document.
\<close>

record ('k, 'p) libp2p_crypto =
  lc_GetPublic :: "'k \<Rightarrow> 'p"
  lc_IDFromPublicKey :: "'p \<Rightarrow> string + peer_id"
  lc_ExtractPublicKey :: "peer_id \<Rightarrow> string + 'p"
  lc_Sign :: "'k \<Rightarrow> bytes \<Rightarrow> string + bytes"
  lc_Verify :: "'p \<Rightarrow> bytes \<Rightarrow> bytes \<Rightarrow> string + bool"
  lc_MarshalPrivateKey :: "'k \<Rightarrow> string + bytes"
  lc_MarshalPublicKey :: "'p \<Rightarrow> string + bytes"
  lc_UnmarshalPrivateKey :: "bytes \<Rightarrow> string + 'k"
  lc_sha3 :: "bytes \<Rightarrow> bytes"

record ('k, 'p) CryptoManager =
  cm_privateKey :: 'k
  cm_publicKey :: 'p
  cm_peerID :: peer_id

datatype crypto_error =
    PeerIDFailed string
  | UnmarshalFailed string
  | ExtractFailed string
  | VerificationError string
  | VerificationFailed
  | RandomFailed string

text \<open>\<open>generated\<close>: the answer of \<open>GenerateKeyPair\<close>. The two failures panic.\<close>

definition NewCryptoManager :: "('k, 'p) libp2p_crypto \<Rightarrow> string + 'k \<Rightarrow> ('k, 'p) CryptoManager go" where
  "NewCryptoManager lc generated =
     (case generated of
        Inl err \<Rightarrow> Panic (ExplicitPanic (''failed to generate keys: '' @ err))
      | Inr privateKey \<Rightarrow>
          let publicKey = lc_GetPublic lc privateKey
          in case lc_IDFromPublicKey lc publicKey of
               Inl err \<Rightarrow> Panic (ExplicitPanic (''failed to generate peer ID: '' @ err))
             | Inr peerID \<Rightarrow> Ret \<lparr>cm_privateKey = privateKey, cm_publicKey = publicKey, cm_peerID = peerID\<rparr>)"

definition NewCryptoManagerFromExisting ::
  "('k, 'p) libp2p_crypto \<Rightarrow> 'k \<Rightarrow> crypto_error + ('k, 'p) CryptoManager" where
  "NewCryptoManagerFromExisting lc privateKey =
     (let publicKey = lc_GetPublic lc privateKey
      in case lc_IDFromPublicKey lc publicKey of
           Inl err \<Rightarrow> Inl (PeerIDFailed err)
         | Inr peerID \<Rightarrow> Inr \<lparr>cm_privateKey = privateKey, cm_publicKey = publicKey, cm_peerID = peerID\<rparr>)"

definition NewCryptoManagerFromBytes ::
  "('k, 'p) libp2p_crypto \<Rightarrow> bytes \<Rightarrow> crypto_error + ('k, 'p) CryptoManager" where
  "NewCryptoManagerFromBytes lc privateKeyBytes =
     (case lc_UnmarshalPrivateKey lc privateKeyBytes of
        Inl err \<Rightarrow> Inl (UnmarshalFailed err)
      | Inr privateKey \<Rightarrow> NewCryptoManagerFromExisting lc privateKey)"

definition cm_Sign :: "('k, 'p) libp2p_crypto \<Rightarrow> bytes \<Rightarrow> ('k, 'p) CryptoManager \<Rightarrow> string + bytes" where
  "cm_Sign lc data cm = lc_Sign lc (cm_privateKey cm) data"

definition cm_VerifyWithPublicKey ::
  "('k, 'p) libp2p_crypto \<Rightarrow> 'p \<Rightarrow> bytes \<Rightarrow> bytes \<Rightarrow> crypto_error + unit" where
  "cm_VerifyWithPublicKey lc publicKey data signature =
     (case lc_Verify lc publicKey data signature of
        Inl err \<Rightarrow> Inl (VerificationError err)
      | Inr ok \<Rightarrow> if \<not> ok then Inl VerificationFailed else Inr ())"

definition cm_Verify :: "('k, 'p) libp2p_crypto \<Rightarrow> peer_id \<Rightarrow> bytes \<Rightarrow> bytes \<Rightarrow> crypto_error + unit" where
  "cm_Verify lc peerID data signature =
     (case lc_ExtractPublicKey lc peerID of
        Inl err \<Rightarrow> Inl (ExtractFailed err)
      | Inr pubKey \<Rightarrow>
          (case lc_Verify lc pubKey data signature of
             Inl err \<Rightarrow> Inl (VerificationError err)
           | Inr ok \<Rightarrow> if \<not> ok then Inl VerificationFailed else Inr ()))"

definition cm_Hash :: "('k, 'p) libp2p_crypto \<Rightarrow> bytes \<Rightarrow> bytes" where
  "cm_Hash lc data = lc_sha3 lc data"

definition cm_GenerateRandomBytes :: "(nat \<Rightarrow> string + bytes) \<Rightarrow> int \<Rightarrow> (crypto_error + bytes) go" where
  "cm_GenerateRandomBytes random n =
     go_bind (go_make n (0 :: 8 word)) (\<lambda>_.
       Ret (case random (nat n) of Inl err \<Rightarrow> Inl (RandomFailed err) | Inr b \<Rightarrow> Inr b))"

definition cm_GetPeerID :: "('k, 'p) CryptoManager \<Rightarrow> peer_id" where
  "cm_GetPeerID cm = cm_peerID cm"

definition cm_GetPublicKey :: "('k, 'p) CryptoManager \<Rightarrow> 'p" where
  "cm_GetPublicKey cm = cm_publicKey cm"

definition cm_GetPrivateKey :: "('k, 'p) CryptoManager \<Rightarrow> 'k" where
  "cm_GetPrivateKey cm = cm_privateKey cm"

definition cm_GetPrivateKeyBytes :: "('k, 'p) libp2p_crypto \<Rightarrow> ('k, 'p) CryptoManager \<Rightarrow> string + bytes" where
  "cm_GetPrivateKeyBytes lc cm = lc_MarshalPrivateKey lc (cm_privateKey cm)"

definition cm_GetPublicKeyBytes :: "('k, 'p) libp2p_crypto \<Rightarrow> ('k, 'p) CryptoManager \<Rightarrow> string + bytes" where
  "cm_GetPublicKeyBytes lc cm = lc_MarshalPublicKey lc (cm_publicKey cm)"

definition cm_PeerIDFromPublicKey :: "('k, 'p) libp2p_crypto \<Rightarrow> 'p \<Rightarrow> string + peer_id" where
  "cm_PeerIDFromPublicKey lc publicKey = lc_IDFromPublicKey lc publicKey"

section \<open>Key files\<close>

datatype key_error =
    GenerateKeyFailed string
  | MarshalFailed string
  | WriteKeyFailed io_error
  | ReadKeyFailed io_error
  | UnmarshalKeyFailed string
  | KeyPeerIDFailed string

definition GenerateAndSaveKey ::
  "('k, 'p) libp2p_crypto \<Rightarrow> string + 'k \<Rightarrow> string \<Rightarrow> disk \<Rightarrow> (key_error + 'k) \<times> disk" where
  "GenerateAndSaveKey lc generated keyFile d =
     (case generated of
        Inl err \<Rightarrow> (Inl (GenerateKeyFailed err), d)
      | Inr privKey \<Rightarrow>
          (case lc_MarshalPrivateKey lc privKey of
             Inl err \<Rightarrow> (Inl (MarshalFailed err), d)
           | Inr keyBytes \<Rightarrow>
               (case os_WriteFile keyFile keyBytes d of
                  (Inl err, d1) \<Rightarrow> (Inl (WriteKeyFailed err), d1)
                | (Inr _, d1) \<Rightarrow> (Inr privKey, d1))))"

definition LoadKey :: "('k, 'p) libp2p_crypto \<Rightarrow> string \<Rightarrow> disk \<Rightarrow> key_error + 'k" where
  "LoadKey lc keyFile d =
     (case os_ReadFile keyFile d of
        Inl err \<Rightarrow> Inl (ReadKeyFailed err)
      | Inr keyBytes \<Rightarrow>
          (case lc_UnmarshalPrivateKey lc keyBytes of
             Inl err \<Rightarrow> Inl (UnmarshalKeyFailed err)
           | Inr privKey \<Rightarrow> Inr privKey))"

definition GetOrCreateKey ::
  "('k, 'p) libp2p_crypto \<Rightarrow> string + 'k \<Rightarrow> string \<Rightarrow> disk \<Rightarrow> (key_error + 'k) \<times> disk" where
  "GetOrCreateKey lc generated keyFile d =
     (case os_Stat keyFile d of
        Inl err \<Rightarrow> if IsNotExist err then GenerateAndSaveKey lc generated keyFile d else (LoadKey lc keyFile d, d)
      | Inr _ \<Rightarrow> (LoadKey lc keyFile d, d))"

definition GetPeerIDFromKey ::
  "('k, 'p) libp2p_crypto \<Rightarrow> (peer_id \<Rightarrow> string) \<Rightarrow> 'k \<Rightarrow> key_error + string" where
  "GetPeerIDFromKey lc pid_String privKey =
     (case lc_IDFromPublicKey lc (lc_GetPublic lc privKey) of
        Inl err \<Rightarrow> Inl (KeyPeerIDFailed err) | Inr peerID \<Rightarrow> Inr (pid_String peerID))"

definition GenerateTemporaryKey :: "string + 'k \<Rightarrow> key_error + 'k" where
  "GenerateTemporaryKey generated =
     (case generated of Inl err \<Rightarrow> Inl (GenerateKeyFailed err) | Inr privKey \<Rightarrow> Inr privKey)"

section \<open>Helpers\<close>

definition GenerateNodeName :: "string \<Rightarrow> string" where
  "GenerateNodeName idStr =
     (if 8 < length idStr then ''Node-'' @ drop (length idStr - 8) idStr else ''Node-'' @ idStr)"

definition Contains :: "string list \<Rightarrow> string \<Rightarrow> bool" where
  "Contains items item = list_ex (\<lambda>s. s = item) items"

text \<open>
  \<open>int(x)\<close> drops the fraction; outside the range of an \<open>int\<close> the result is up to the
  implementation: \<open>overflow\<close>.
\<close>

fun go_int :: "int \<Rightarrow> float64 \<Rightarrow> int" where
  "go_int overflow (Fin x) =
     (let i = (if 0 \<le> x then \<lfloor>x\<rfloor> else \<lceil>x\<rceil>) in if - (2 ^ 63) \<le> i \<and> i < 2 ^ 63 then i else overflow)"
| "go_int overflow x = overflow"

definition RoundToTwoDecimals :: "int \<Rightarrow> float64 \<Rightarrow> float64" where
  "RoundToTwoDecimals overflow num = f_div (f_of_int (go_int overflow (f_mul num (Fin 100)))) (Fin 100)"

definition GetNodeAddresses :: "string list \<Rightarrow> string \<Rightarrow> string list" where
  "GetNodeAddresses addrs hostID = map (\<lambda>addr. addr @ ''/p2p/'' @ hostID) addrs"

section \<open>What the libraries document\<close>

text \<open>
  A marshalled key unmarshals to itself; the public key of a (Ed25519) peer ID is the one it was
  made of; a signature verifies under the public key of the signer.
\<close>

definition lc_lawful :: "('k, 'p) libp2p_crypto \<Rightarrow> bool" where
  "lc_lawful lc \<longleftrightarrow>
     (\<forall>k b. lc_MarshalPrivateKey lc k = Inr b \<longrightarrow> lc_UnmarshalPrivateKey lc b = Inr k) \<and>
     (\<forall>p i. lc_IDFromPublicKey lc p = Inr i \<longrightarrow> lc_ExtractPublicKey lc i = Inr p) \<and>
     (\<forall>k data s. lc_Sign lc k data = Inr s \<longrightarrow> lc_Verify lc (lc_GetPublic lc k) data s = Inr True)"

lemma lc_lawfulD:
  assumes "lc_lawful lc"
  shows "lc_MarshalPrivateKey lc k = Inr b \<Longrightarrow> lc_UnmarshalPrivateKey lc b = Inr k"
    and "lc_IDFromPublicKey lc p = Inr i \<Longrightarrow> lc_ExtractPublicKey lc i = Inr p"
    and "lc_Sign lc k data = Inr s \<Longrightarrow> lc_Verify lc (lc_GetPublic lc k) data s = Inr True"
  using assms unfolding lc_lawful_def by blast+

text \<open>An instance: a key is a byte, its own public key, and signs with itself in front.\<close>

definition byte_crypto :: "(8 word, 8 word) libp2p_crypto" where
  "byte_crypto =
     \<lparr>lc_GetPublic = (\<lambda>k. k), lc_IDFromPublicKey = (\<lambda>p. Inr (replicate (unat p) CHR ''k'')),
      lc_ExtractPublicKey = (\<lambda>i. Inr (word_of_nat (length i))),
      lc_Sign = (\<lambda>k data. Inr (k # data)), lc_Verify = (\<lambda>p data s. Inr (s = p # data)),
      lc_MarshalPrivateKey = (\<lambda>k. Inr [k]), lc_MarshalPublicKey = (\<lambda>p. Inr [p]),
      lc_UnmarshalPrivateKey = (\<lambda>b. case b of [k] \<Rightarrow> Inr k | _ \<Rightarrow> Inl ''no key''),
      lc_sha3 = (\<lambda>b. take 32 b)\<rparr>"

lemma byte_crypto_lawful: "lc_lawful byte_crypto"
  by (auto simp: lc_lawful_def byte_crypto_def)

section \<open>The identity of a node\<close>

lemma Load_after_Write:
  assumes "lc_lawful lc" and "no_faults d" and "lc_MarshalPrivateKey lc k = Inr b"
    and "os_WriteFile f b d = (Inr u, d')"
  shows "LoadKey lc f d' = Inr k" and "os_Stat f d' = Inr (length b)"
  using assms lc_lawfulD(1) [OF assms(1,3)]
  by (auto simp: os_WriteFile_def os_ReadFile_def os_Stat_def LoadKey_def no_faults_def)

lemma key_kept:
  assumes "lc_lawful lc" and "no_faults d" and "GetOrCreateKey lc generated keyFile d = (Inr k, d')"
    and "no_faults d2" and "gm_get (dk_files d2) keyFile = gm_get (dk_files d') keyFile"
  shows "GetOrCreateKey lc generated' keyFile d2 = (Inr k, d2)"
proof -
  have "LoadKey lc keyFile d2 = Inr k \<and> gm_get (dk_files d') keyFile \<noteq> None"
  proof (cases "gm_get (dk_files d) keyFile")
    case None
    with assms(3) obtain b u where b: "lc_MarshalPrivateKey lc k = Inr b" "os_WriteFile keyFile b d = (Inr u, d')"
      by (auto simp: GetOrCreateKey_def os_Stat_def GenerateAndSaveKey_def split: sum.splits prod.splits)
    with os_WriteFile_ok [OF b(2)] lc_lawfulD(1) [OF assms(1) b(1)] assms(4,5) show ?thesis
      by (simp add: LoadKey_def os_ReadFile_def no_faults_def)
  next
    case (Some c)
    with assms(2,3) have "d' = d" "LoadKey lc keyFile d = Inr k"
      by (auto simp: GetOrCreateKey_def os_Stat_def no_faults_def)
    with Some assms(2,4,5) show ?thesis
      by (auto simp: LoadKey_def os_ReadFile_def no_faults_def split: content.splits)
  qed
  with assms(4,5) show ?thesis by (auto simp: GetOrCreateKey_def os_Stat_def no_faults_def)
qed

lemma key_written:
  assumes "GetOrCreateKey lc generated keyFile d = (Inr k, d')"
  shows "dk_fails d' = dk_fails d" and "q \<noteq> keyFile \<Longrightarrow> gm_get (dk_files d') q = gm_get (dk_files d) q"
  using assms
  by (auto simp: GetOrCreateKey_def GenerateAndSaveKey_def split: sum.splits prod.splits if_splits
      dest: os_WriteFile_frame(1) os_WriteFile_frame(3))

text \<open>
  A node keeps its identity. Once \<open>GetOrCreateKey\<close> has given a key, every later call on the
  same file gives the same key, whatever key the generator would make, and hence the same peer
  ID; and it does not touch the disk again.
\<close>

theorem node_identity_stable:
  assumes "lc_lawful lc" and "no_faults d" and "GetOrCreateKey lc generated keyFile d = (Inr k, d')"
  shows "GetOrCreateKey lc generated' keyFile d' = (Inr k, d')"
proof -
  have "no_faults d'" using assms(2) key_written(1) [OF assms(3)] by (simp add: no_faults_def)
  from key_kept [OF assms this refl] show ?thesis .
qed

theorem node_identity_stable_witness:
  "\<exists>d'. GetOrCreateKey byte_crypto (Inr 7) ''node.key'' \<lparr>dk_files = [], dk_fails = (\<lambda>_. False), dk_short = (\<lambda>_. 0)\<rparr> = (Inr 7, d') \<and>
     GetOrCreateKey byte_crypto (Inr 9) ''node.key'' d' = (Inr 7, d')"
proof -
  let ?d = "\<lparr>dk_files = [], dk_fails = (\<lambda>_. False), dk_short = (\<lambda>_. 0)\<rparr>"
  have "no_faults ?d" by (simp add: no_faults_def)
  moreover obtain d' where r: "GetOrCreateKey byte_crypto (Inr 7) ''node.key'' ?d = (Inr 7, d')"
    by (simp add: GetOrCreateKey_def os_Stat_def GenerateAndSaveKey_def byte_crypto_def os_WriteFile_def)
  ultimately show ?thesis using node_identity_stable [OF byte_crypto_lawful] by blast
qed

end
