(* ===== verification/Gateway.thy ===== *)
theory Gateway
  imports Storage_Ops Key_Management
begin

text \<open>
  The gateway node (\<open>internal/gateway/gateway_node.go\<close>): a decentralized node with request
  counting, behind which the HTTP API stands. Maps of statistics are records. \<open>pid_String\<close> is the
  text form of a peer ID, \<open>routingTable\<close> the size of the DHT's table where there is a DHT.
\<close>

section \<open>Durations as text\<close>

text \<open>\<open>time.Duration.String\<close> of the standard library.\<close>

fun trim_zeros :: "string \<Rightarrow> string" where
  "trim_zeros s = rev (dropWhile (\<lambda>c. c = CHR ''0'') (rev s))"

definition pad_zeros :: "nat \<Rightarrow> string \<Rightarrow> string" where
  "pad_zeros n s = replicate (n - length s) (CHR ''0'') @ s"

definition with_fraction :: "nat \<Rightarrow> nat \<Rightarrow> string" where
  "with_fraction u prec =
     (let r = u mod 10 ^ prec
      in dec_nat (u div 10 ^ prec) @ (if r = 0 then '''' else ''.'' @ trim_zeros (pad_zeros prec (dec_nat r))))"

definition micro :: string where
  "micro = [char_of (0xC2 :: nat), char_of (0xB5 :: nat)]"

definition duration_String :: "int \<Rightarrow> string" where
  "duration_String d =
     (let u = nat \<bar>d\<bar>; neg = (if d < 0 then ''-'' else '''')
      in if u = 0 then ''0s''
         else if u < 1000 then neg @ dec_nat u @ ''ns''
         else if u < 1000000 then neg @ with_fraction u 3 @ micro @ ''s''
         else if u < 1000000000 then neg @ with_fraction u 6 @ ''ms''
         else
           let whole = u div 1000000000; secs = with_fraction (u - (whole - whole mod 60) * 1000000000) 9 @ ''s'';
               mins = whole div 60; hours = mins div 60
           in neg @ (if mins = 0 then secs
                     else if hours = 0 then dec_nat mins @ ''m'' @ secs
                     else dec_nat hours @ ''h'' @ dec_nat (mins mod 60) @ ''m'' @ secs))"

section \<open>The gateway\<close>

record GatewayNode =
  gw_node :: DNode
  gw_startTime :: go_time
  gw_gatewayInfo :: GatewayInfo

text \<open>What the code around the gateway's calls answers.\<close>

record gateway_env =
  ge_codec :: reed_solomon
  ge_rpc :: rpc
  ge_clock :: "nat \<Rightarrow> go_time"
  ge_pid_String :: "peer_id \<Rightarrow> string"
  ge_routingTable :: "int option"

definition new_gateway_info :: "(peer_id \<Rightarrow> string) \<Rightarrow> go_time \<Rightarrow> go_time \<Rightarrow> int \<Rightarrow> int \<Rightarrow> DNode \<Rightarrow> GatewayInfo" where
  "new_gateway_info pid_String t1 t2 apiPort nodePort nd =
     \<lparr>gi_PeerID = nd_self nd, gi_NodeName = GenerateNodeName (pid_String (nd_self nd)) @ ''-gateway'',
      gi_APIPort = apiPort, gi_NodePort = nodePort, gi_Version = ''1.0.0'', gi_IsActive = True, gi_StartTime = t1,
      gi_LastSeen = t2, gi_ConnectedPeers = 0, gi_TotalRequests = 0, gi_Uptime = ''''\<rparr>"

definition NewGatewayNode :: "gateway_env \<Rightarrow> int \<Rightarrow> int \<Rightarrow> DNode \<Rightarrow> GatewayNode" where
  "NewGatewayNode ge apiPort nodePort nd =
     \<lparr>gw_node = nd, gw_startTime = ge_clock ge 2,
      gw_gatewayInfo = new_gateway_info (ge_pid_String ge) (ge_clock ge 0) (ge_clock ge 1) apiPort nodePort nd\<rparr>"

definition gw_GetNetworkStats :: "gateway_env \<Rightarrow> GatewayNode \<Rightarrow> NetworkStats" where
  "gw_GetNetworkStats ge gn =
     dn_GetNetworkStats (ge_pid_String ge (nd_self (gw_node gn))) (ge_routingTable ge) (nd_view (gw_node gn))"

definition gw_updateGatewayStats :: "gateway_env \<Rightarrow> GatewayNode \<Rightarrow> GatewayNode" where
  "gw_updateGatewayStats ge gn =
     (let networkStats = gw_GetNetworkStats ge gn
      in gn\<lparr>gw_gatewayInfo := (gw_gatewayInfo gn)\<lparr>gi_LastSeen := ge_clock ge 0,
             gi_ConnectedPeers := ns_total_peers networkStats,
             gi_Uptime := duration_String (time_Sub (ge_clock ge 1) (gw_startTime gn))\<rparr>\<rparr>)"

definition gw_GetGatewayInfo :: "GatewayNode \<Rightarrow> GatewayInfo" where
  "gw_GetGatewayInfo gn = gw_gatewayInfo gn"

record GatewayStorageStats =
  gt_files :: FileStats
  gt_storage :: EngineStats
  gt_total_requests :: int
  gt_uptime :: string

definition gw_GetStorageStats :: "GatewayNode \<Rightarrow> GatewayStorageStats" where
  "gw_GetStorageStats gn =
     \<lparr>gt_files = fm_GetFileStats (nd_files (gw_node gn)),
      gt_storage = e_GetStats (nd_storage (gw_node gn)) (nd_disk (gw_node gn)),
      gt_total_requests = gi_TotalRequests (gw_gatewayInfo gn), gt_uptime = gi_Uptime (gw_gatewayInfo gn)\<rparr>"

section \<open>Files\<close>

definition count_request :: "GatewayNode \<Rightarrow> GatewayNode" where
  "count_request gn =
     gn\<lparr>gw_gatewayInfo := (gw_gatewayInfo gn)\<lparr>gi_TotalRequests := wrap64 (gi_TotalRequests (gw_gatewayInfo gn) + 1)\<rparr>\<rparr>"

text \<open>The error of the distributed store goes to the log; the empty hash that came with it is returned without an error.\<close>

definition gw_StoreFile ::
  "gateway_env \<Rightarrow> string \<Rightarrow> bytes \<Rightarrow> int \<Rightarrow> int \<Rightarrow> GatewayNode \<Rightarrow> ((distributed_error + string) \<times> GatewayNode) go" where
  "gw_StoreFile ge filename data totalShards requiredShards gn0 =
     (let gn = count_request gn0
      in go_bind (so_StoreFileDistributed (ge_codec ge) (ge_rpc ge) (ge_clock ge) filename data totalShards
                    requiredShards (gw_node gn)) (\<lambda>(r, nd).
         let fileHash = (case r of Inl err \<Rightarrow> '''' | Inr h \<Rightarrow> h)
         in Ret (Inr fileHash, gn\<lparr>gw_node := nd\<rparr>)))"

definition gw_RetrieveFile ::
  "gateway_env \<Rightarrow> string \<Rightarrow> GatewayNode \<Rightarrow> ((distributed_error + bytes) \<times> GatewayNode) go" where
  "gw_RetrieveFile ge fileHash gn0 =
     (let gn = count_request gn0
      in go_bind (so_RetrieveFileDistributed (ge_codec ge) (ge_rpc ge) fileHash (gw_node gn)) (\<lambda>(r, nd).
         Ret (r, gn\<lparr>gw_node := nd\<rparr>)))"

definition gw_DeleteFile ::
  "gateway_env \<Rightarrow> string \<Rightarrow> GatewayNode \<Rightarrow> (distributed_error + unit) \<times> GatewayNode" where
  "gw_DeleteFile ge fileHash gn0 =
     (let gn = count_request gn0;
          (r, nd) = so_DeleteFileDistributed (ge_rpc ge) (ge_clock ge) fileHash (gw_node gn)
      in (r, gn\<lparr>gw_node := nd\<rparr>))"

definition gw_GetFileList :: "GatewayNode \<Rightarrow> FileMetadata list" where
  "gw_GetFileList gn = fm_ListFiles (nd_fileManager (gw_node gn))"

definition gw_GetFileInfo :: "string \<Rightarrow> GatewayNode \<Rightarrow> file_error + FileMetadata" where
  "gw_GetFileInfo fileHash gn = fm_GetFileInfo fileHash (nd_fileManager (gw_node gn))"

definition gw_getUsedStorage :: "GatewayNode \<Rightarrow> u64" where
  "gw_getUsedStorage gn = word_of_int (fs_total_file_size (fm_GetFileStats (nd_files (gw_node gn))))"

section \<open>Nodes\<close>

definition self_node_info :: "gateway_env \<Rightarrow> GatewayNode \<Rightarrow> NodeInfo" where
  "self_node_info ge gn =
     \<lparr>ni_ID = ge_pid_String ge (nd_self (gw_node gn)), ni_NodeType = ''gateway'', ni_IsActive = True,
      ni_StorageCapacity = 10 * 1024 * 1024 * 1024, ni_UsedStorage = gw_getUsedStorage gn, ni_Reliability = Fin 1,
      ni_LastSeen = ge_clock ge 0, ni_Addresses = [], ni_Tags = [''gateway'', ''api'']\<rparr>"

definition peer_node_info :: "gateway_env \<Rightarrow> peer_id \<times> PeerInfo \<Rightarrow> NodeInfo" where
  "peer_node_info ge p =
     (let (peerID, peerInfo) = p;
          nodeInfo = \<lparr>ni_ID = ge_pid_String ge peerID, ni_NodeType = ''farmer'', ni_IsActive = True,
            ni_StorageCapacity = 0, ni_UsedStorage = 0, ni_Reliability = pi_Reliability peerInfo,
            ni_LastSeen = pi_LastSeen peerInfo, ni_Addresses = [], ni_Tags = []\<rparr>
      in case pi_Info peerInfo of
           Some info \<Rightarrow>
             nodeInfo\<lparr>ni_IsActive := fi_IsActive info, ni_StorageCapacity := fi_StorageCapacity info,
               ni_UsedStorage := fi_UsedStorage info, ni_Reliability := fi_Reliability info,
               ni_Addresses := fi_Addresses info, ni_Tags := fi_Tags info\<rparr>
         | None \<Rightarrow>
             nodeInfo\<lparr>ni_StorageCapacity := 0, ni_UsedStorage := 0, ni_Reliability := f64 (1 / 2),
               ni_Tags := [''unknown'']\<rparr>)"

definition gw_GetNodeList :: "gateway_env \<Rightarrow> GatewayNode \<Rightarrow> NodeInfo list" where
  "gw_GetNodeList ge gn =
     self_node_info ge gn # map (peer_node_info ge) (nv_GetPeers (nd_view (gw_node gn)))"

record SystemStatus =
  sy_status :: string
  sy_timestamp :: go_time
  sy_peers :: int
  sy_dht_nodes :: "int option"
  sy_files :: int
  sy_total_size :: int
  sy_uptime :: string
  sy_gateway :: GatewayInfo

definition gw_GetSystemStatus :: "gateway_env \<Rightarrow> GatewayNode \<Rightarrow> SystemStatus" where
  "gw_GetSystemStatus ge gn =
     (let networkStats = gw_GetNetworkStats ge gn; fileStats = fm_GetFileStats (nd_files (gw_node gn))
      in \<lparr>sy_status = ''operational'', sy_timestamp = ge_clock ge 0, sy_peers = ns_total_peers networkStats,
          sy_dht_nodes = ns_dht_peers networkStats, sy_files = fs_total_files fileStats,
          sy_total_size = fs_total_file_size fileStats, sy_uptime = gi_Uptime (gw_gatewayInfo gn),
          sy_gateway = gw_gatewayInfo gn\<rparr>)"

end
