(* ===== verification/Api_Server.thy ===== *)
theory Api_Server
  imports Gateway
begin

text \<open>
  The HTTP API of a gateway (\<open>internal/api/server.go\<close>) and what it uses of \<open>net/http\<close>,
  \<open>strings\<close> and \<open>strconv\<close>. The gateway stands behind the Go interface \<open>GatewayInterface\<close>, here a
  record of its methods over a state \<open>'g\<close>. A response body is the value that is encoded as JSON,
  the bytes of a download, or \<open>NoBody\<close>; \<open>encoding/json\<close> refuses numbers that are not finite. A
  panic in a handler ends the request; it is the value \<open>Panic\<close>.
\<close>

record 'g GatewayInterface =
  gf_GetGatewayInfo :: "'g \<Rightarrow> GatewayInfo"
  gf_GetNetworkStats :: "'g \<Rightarrow> NetworkStats"
  gf_GetStorageStats :: "'g \<Rightarrow> GatewayStorageStats"
  gf_GetSystemStatus :: "'g \<Rightarrow> SystemStatus"
  gf_GetNodeList :: "'g \<Rightarrow> NodeInfo list"
  gf_GetFileList :: "'g \<Rightarrow> FileMetadata list"
  gf_GetFileInfo :: "string \<Rightarrow> 'g \<Rightarrow> file_error + FileMetadata"
  gf_StoreFile :: "string \<Rightarrow> bytes \<Rightarrow> int \<Rightarrow> int \<Rightarrow> 'g \<Rightarrow> ((distributed_error + string) \<times> 'g) go"
  gf_RetrieveFile :: "string \<Rightarrow> 'g \<Rightarrow> ((distributed_error + bytes) \<times> 'g) go"
  gf_DeleteFile :: "string \<Rightarrow> 'g \<Rightarrow> (distributed_error + unit) \<times> 'g"

text \<open>The gateway node implements the interface.\<close>

definition gateway_methods :: "gateway_env \<Rightarrow> GatewayNode GatewayInterface" where
  "gateway_methods ge =
     \<lparr>gf_GetGatewayInfo = gw_GetGatewayInfo, gf_GetNetworkStats = gw_GetNetworkStats ge,
      gf_GetStorageStats = gw_GetStorageStats, gf_GetSystemStatus = gw_GetSystemStatus ge,
      gf_GetNodeList = gw_GetNodeList ge, gf_GetFileList = gw_GetFileList, gf_GetFileInfo = gw_GetFileInfo,
      gf_StoreFile = gw_StoreFile ge, gf_RetrieveFile = gw_RetrieveFile ge, gf_DeleteFile = gw_DeleteFile ge\<rparr>"

section \<open>Requests and responses\<close>

text \<open>The parsed multipart form: the file with its name and the outcome of reading it, and two fields.\<close>

record upload_form =
  uf_file :: "(string \<times> (string + bytes)) option"
  uf_total_shards :: string
  uf_required_shards :: string

record http_request =
  rq_Method :: string
  rq_Path :: string
  rq_form :: "upload_form option"

record HealthResponse =
  hl_Status :: string
  hl_Timestamp :: go_time
  hl_Version :: string
  hl_Uptime :: string

record ErrorResponse =
  er_Error :: string
  er_Message :: string
  er_Code :: int

record UploadResponse =
  up_Hash :: string
  up_Status :: string
  up_FileSize :: int
  up_Shards :: int
  up_Message :: string

record nodes_stats =
  nt_total_nodes :: int
  nt_active_nodes :: int
  nt_total_storage :: u64
  nt_used_storage :: u64
  nt_available_storage :: u64
  nt_utilization_rate :: float64
  nt_network_stats :: NetworkStats
  nt_timestamp :: go_time

text \<open>RFC 3339 shows whole seconds.\<close>

record file_view =
  fv_hash :: string
  fv_name :: string
  fv_size :: int
  fv_total_shards :: int
  fv_required_shards :: int
  fv_created_at :: int
  fv_updated_at :: int
  fv_stored_peers :: "string list"
  fv_mime_type :: string

datatype api_body = NoBody
  | HealthBody HealthResponse
  | InfoBody GatewayInfo
  | NodesBody "NodeInfo list" int int int "int option"
  | NodesStatsBody nodes_stats
  | FilesBody "file_view list" int int
  | UploadBody UploadResponse
  | FileBody file_view
  | DataBody bytes
  | DeletedBody string
  | NetworkBody NetworkStats GatewayStorageStats GatewayInfo go_time
  | NetworkHealthBody string int int "int option" go_time
  | StorageBody GatewayStorageStats
  | SystemBody SystemStatus
  | ErrorBody ErrorResponse
  | PageBody string

record http_response =
  rp_Code :: int
  rp_Header :: "(string, string) gomap"
  rp_Body :: api_body

text \<open>Which bodies \<open>encoding/json\<close> takes: those without an infinity or a NaN.\<close>

definition stats_finite :: "GatewayStorageStats \<Rightarrow> bool" where
  "stats_finite st \<longleftrightarrow> is_fin (fs_average_file_size (gt_files st)) \<and>
     is_fin (es_usage_percentage (fs_engine (gt_files st))) \<and> is_fin (es_usage_percentage (gt_storage st))"

fun json_ok :: "api_body \<Rightarrow> bool" where
  "json_ok (NodesBody nodes n peers files dht) = list_all (\<lambda>node. is_fin (ni_Reliability node)) nodes"
| "json_ok (NodesStatsBody stats) =
     (is_fin (nt_utilization_rate stats) \<and> is_fin (ns_avg_reputation (nt_network_stats stats)))"
| "json_ok (NetworkBody network storage gateway now) = (is_fin (ns_avg_reputation network) \<and> stats_finite storage)"
| "json_ok (StorageBody storage) = stats_finite storage"
| "json_ok body = True"

text \<open>The header and the code are written first; a body that cannot be encoded is left out.\<close>

definition respondWithJSON :: "int \<Rightarrow> api_body \<Rightarrow> http_response" where
  "respondWithJSON statusCode data =
     \<lparr>rp_Code = statusCode, rp_Header = [(''Content-Type'', ''application/json'')],
      rp_Body = (if json_ok data then data else NoBody)\<rparr>"

definition respondWithError :: "int \<Rightarrow> string \<Rightarrow> string \<Rightarrow> http_response" where
  "respondWithError statusCode errorType message =
     respondWithJSON statusCode (ErrorBody \<lparr>er_Error = errorType, er_Message = message, er_Code = statusCode\<rparr>)"

section \<open>Reading the shard numbers\<close>

text \<open>
  The value of \<open>strconv.Atoi\<close>, whose error the code drops: 0 for a text that is no number, and
  the nearest \<open>int\<close> for one that is too large. The loop of \<open>ParseUint\<close> stops at the first digit
  that does not fit.
\<close>

fun parse_uint :: "int \<Rightarrow> string \<Rightarrow> int option" where
  "parse_uint n [] = Some n"
| "parse_uint n (c # cs) =
     (case char_digit c of
        None \<Rightarrow> None
      | Some d \<Rightarrow> if 2 ^ 64 \<le> n * 10 + int d then Some (2 ^ 64 - 1) else parse_uint (n * 10 + int d) cs)"

definition Atoi_value :: "string \<Rightarrow> int" where
  "Atoi_value s =
     (let (neg, digits) = (case s of
            c # cs \<Rightarrow> if c = CHR ''-'' then (True, cs) else if c = CHR ''+'' then (False, cs) else (False, s)
          | [] \<Rightarrow> (False, []))
      in if digits = [] then 0
         else case parse_uint 0 digits of
           None \<Rightarrow> 0
         | Some n \<Rightarrow> if neg then max (- (2 ^ 63)) (- n) else min (2 ^ 63 - 1) n)"

section \<open>Handlers\<close>

type_synonym 'g handler = "http_request \<Rightarrow> 'g \<Rightarrow> (http_response \<times> 'g) go"

definition method_not_allowed :: "string \<Rightarrow> http_response" where
  "method_not_allowed message = respondWithError 405 ''Method not allowed'' message"

definition get_guard :: "(http_request \<Rightarrow> 'g \<Rightarrow> http_response) \<Rightarrow> 'g handler" where
  "get_guard body r g =
     (if rq_Method r \<noteq> ''GET'' \<and> rq_Method r \<noteq> ''OPTIONS''
      then Ret (method_not_allowed ''Only GET and OPTIONS methods are allowed'', g)
      else Ret (body r g, g))"

definition healthHandler :: "'g GatewayInterface \<Rightarrow> go_time \<Rightarrow> 'g handler" where
  "healthHandler gf now = get_guard (\<lambda>r g.
     let gatewayInfo = gf_GetGatewayInfo gf g
     in respondWithJSON 200 (HealthBody
          \<lparr>hl_Status = ''healthy'', hl_Timestamp = now, hl_Version = gi_Version gatewayInfo,
           hl_Uptime = gi_Uptime gatewayInfo\<rparr>))"

definition infoHandler :: "'g GatewayInterface \<Rightarrow> 'g handler" where
  "infoHandler gf = get_guard (\<lambda>r g. respondWithJSON 200 (InfoBody (gf_GetGatewayInfo gf g)))"

definition nodesHandler :: "'g GatewayInterface \<Rightarrow> 'g handler" where
  "nodesHandler gf = get_guard (\<lambda>r g.
     let nodes = gf_GetNodeList gf g; networkStats = gf_GetNetworkStats gf g
     in respondWithJSON 200 (NodesBody nodes (int (length nodes)) (ns_total_peers networkStats)
          (ns_known_files networkStats) (ns_dht_peers networkStats)))"

fun sum_nodes :: "NodeInfo list \<Rightarrow> u64 \<times> u64 \<times> int \<Rightarrow> u64 \<times> u64 \<times> int" where
  "sum_nodes [] acc = acc"
| "sum_nodes (node # nodes) (totalStorage, totalUsedStorage, activeNodes) =
     (if ni_IsActive node
      then sum_nodes nodes (totalStorage + ni_StorageCapacity node, totalUsedStorage + ni_UsedStorage node, activeNodes + 1)
      else sum_nodes nodes (totalStorage, totalUsedStorage, activeNodes))"

definition nodesStatsHandler :: "'g GatewayInterface \<Rightarrow> go_time \<Rightarrow> 'g handler" where
  "nodesStatsHandler gf now = get_guard (\<lambda>r g.
     let nodes = gf_GetNodeList gf g; networkStats = gf_GetNetworkStats gf g;
         (totalStorage, totalUsedStorage, activeNodes) = sum_nodes nodes (0, 0, 0)
     in respondWithJSON 200 (NodesStatsBody
          \<lparr>nt_total_nodes = int (length nodes), nt_active_nodes = activeNodes, nt_total_storage = totalStorage,
           nt_used_storage = totalUsedStorage, nt_available_storage = totalStorage - totalUsedStorage,
           nt_utilization_rate = f_mul (f_div (f_of_u64 totalUsedStorage) (f_of_u64 totalStorage)) (Fin 100),
           nt_network_stats = networkStats, nt_timestamp = now\<rparr>))"

definition file_info :: "(peer_id \<Rightarrow> string) \<Rightarrow> FileMetadata \<Rightarrow> file_view" where
  "file_info pid_String md =
     \<lparr>fv_hash = md_FileHash md, fv_name = md_FileName md, fv_size = md_FileSize md,
      fv_total_shards = md_TotalShards md, fv_required_shards = md_RequiredShards md,
      fv_created_at = md_CreatedAt md div second, fv_updated_at = md_UpdatedAt md div second,
      fv_stored_peers = map pid_String (md_StoredPeers md), fv_mime_type = md_MimeType md\<rparr>"

definition calculateTotalSize :: "FileMetadata list \<Rightarrow> int" where
  "calculateTotalSize files = fold (\<lambda>md total. wrap64 (total + md_FileSize md)) files 0"

definition filesHandler :: "'g GatewayInterface \<Rightarrow> (peer_id \<Rightarrow> string) \<Rightarrow> 'g handler" where
  "filesHandler gf pid_String = get_guard (\<lambda>r g.
     let files = gf_GetFileList gf g; fileInfos = map (file_info pid_String) files
     in respondWithJSON 200 (FilesBody fileInfos (int (length fileInfos)) (calculateTotalSize files)))"

definition default_shards :: "int \<Rightarrow> int \<Rightarrow> int" where
  "default_shards n d = (if n = 0 then d else n)"

definition upload_message :: "int \<Rightarrow> int \<Rightarrow> string" where
  "upload_message totalShards requiredShards =
     ''File successfully stored with '' @ dec totalShards @ '' shards ('' @ dec requiredShards @
     '' required for reconstruction)''"

definition uploadHandler :: "'g GatewayInterface \<Rightarrow> 'g handler" where
  "uploadHandler gf r g =
     (if rq_Method r \<noteq> ''POST'' \<and> rq_Method r \<noteq> ''OPTIONS''
      then Ret (method_not_allowed ''Only POST and OPTIONS methods are allowed'', g)
      else case rq_form r of
        None \<Rightarrow> Ret (respondWithError 400 ''Invalid form data'' ''Failed to parse multipart form'', g)
      | Some form \<Rightarrow>
          (case uf_file form of
             None \<Rightarrow> Ret (respondWithError 400 ''No file provided'' ''Please provide a file to upload'', g)
           | Some (filename, Inl err) \<Rightarrow> Ret (respondWithError 500 ''Read failed'' ''Failed to read uploaded file'', g)
           | Some (filename, Inr data) \<Rightarrow>
               let totalShards = default_shards (Atoi_value (uf_total_shards form)) 3;
                   requiredShards = default_shards (Atoi_value (uf_required_shards form)) 2
               in if totalShards < requiredShards
                  then Ret (respondWithError 400 ''Invalid parameters'' ''Required shards cannot exceed total shards'', g)
                  else
                    go_bind (gf_StoreFile gf filename data totalShards requiredShards g) (\<lambda>(res, g1).
                    case res of
                      Inl err \<Rightarrow> Ret (respondWithError 500 ''Storage failed'' ''Failed to store file in the network'', g1)
                    | Inr fileHash \<Rightarrow>
                        Ret (respondWithJSON 201 (UploadBody
                          \<lparr>up_Hash = fileHash, up_Status = ''uploaded'', up_FileSize = int (length data),
                           up_Shards = totalShards, up_Message = upload_message totalShards requiredShards\<rparr>), g1))))"

definition getFileHandler :: "'g GatewayInterface \<Rightarrow> (peer_id \<Rightarrow> string) \<Rightarrow> string \<Rightarrow> 'g \<Rightarrow> (http_response \<times> 'g) go" where
  "getFileHandler gf pid_String fileHash g =
     (case gf_GetFileInfo gf fileHash g of
        Inl err \<Rightarrow> Ret (respondWithError 404 ''File not found'' ''The requested file was not found'', g)
      | Inr md \<Rightarrow> Ret (respondWithJSON 200 (FileBody (file_info pid_String md)), g))"

definition downloadFileHandler :: "'g GatewayInterface \<Rightarrow> string \<Rightarrow> 'g \<Rightarrow> (http_response \<times> 'g) go" where
  "downloadFileHandler gf fileHash g =
     go_bind (gf_RetrieveFile gf fileHash g) (\<lambda>(res, g1).
     case res of
       Inl err \<Rightarrow> Ret (respondWithError 500 ''Download failed'' ''Failed to retrieve file from the network'', g1)
     | Inr data \<Rightarrow>
         let filename = (case gf_GetFileInfo gf fileHash g1 of
               Inl err \<Rightarrow> fileHash @ ''.bin'' | Inr md \<Rightarrow> md_FileName md)
         in Ret (\<lparr>rp_Code = 200,
              rp_Header = [(''Content-Disposition'', ''attachment; filename=\"'' @ filename @ ''\"''),
                (''Content-Type'', ''application/octet-stream''), (''Content-Length'', dec (int (length data))),
                (''X-File-Hash'', fileHash)],
              rp_Body = DataBody data\<rparr>, g1))"

definition deleteFileHandler :: "'g GatewayInterface \<Rightarrow> string \<Rightarrow> 'g \<Rightarrow> (http_response \<times> 'g) go" where
  "deleteFileHandler gf fileHash g =
     (let (res, g1) = gf_DeleteFile gf fileHash g
      in case res of
           Inl err \<Rightarrow> Ret (respondWithError 500 ''Deletion failed'' ''Failed to delete file from the network'', g1)
         | Inr _ \<Rightarrow> Ret (respondWithJSON 200 (DeletedBody fileHash), g1))"

definition TrimPrefix :: "string \<Rightarrow> string \<Rightarrow> string" where
  "TrimPrefix s prefix = (if take (length prefix) s = prefix then drop (length prefix) s else s)"

definition fileHandler :: "'g GatewayInterface \<Rightarrow> (peer_id \<Rightarrow> string) \<Rightarrow> 'g handler" where
  "fileHandler gf pid_String r g =
     (let path = TrimPrefix (rq_Path r) ''/files/''; parts = split_on slash path
      in if length parts = 0 then Ret (respondWithError 400 ''Invalid path'' ''File hash is required'', g)
         else
           let fileHash = parts ! 0
           in if rq_Method r = ''GET'' then
                (if 1 < length parts \<and> parts ! 1 = ''download'' then downloadFileHandler gf fileHash g
                 else getFileHandler gf pid_String fileHash g)
              else if rq_Method r = ''DELETE'' then deleteFileHandler gf fileHash g
              else if rq_Method r = ''OPTIONS'' then Ret (\<lparr>rp_Code = 200, rp_Header = [], rp_Body = NoBody\<rparr>, g)
              else Ret (method_not_allowed ''Only GET, DELETE, and OPTIONS methods are allowed'', g))"

definition networkStatsHandler :: "'g GatewayInterface \<Rightarrow> go_time \<Rightarrow> 'g handler" where
  "networkStatsHandler gf now = get_guard (\<lambda>r g.
     respondWithJSON 200 (NetworkBody (gf_GetNetworkStats gf g) (gf_GetStorageStats gf g) (gf_GetGatewayInfo gf g) now))"

definition networkHealthHandler :: "'g GatewayInterface \<Rightarrow> go_time \<Rightarrow> 'g handler" where
  "networkHealthHandler gf now = get_guard (\<lambda>r g.
     let networkStats = gf_GetNetworkStats gf g;
         totalPeers = ns_total_peers networkStats;
         healthStatus = (if totalPeers = 0 then ''disconnected'' else if totalPeers < 3 then ''degraded'' else ''healthy'')
     in respondWithJSON 200 (NetworkHealthBody healthStatus totalPeers (ns_known_files networkStats)
          (ns_dht_peers networkStats) now))"

definition storageStatsHandler :: "'g GatewayInterface \<Rightarrow> 'g handler" where
  "storageStatsHandler gf = get_guard (\<lambda>r g. respondWithJSON 200 (StorageBody (gf_GetStorageStats gf g)))"

definition systemStatusHandler :: "'g GatewayInterface \<Rightarrow> 'g handler" where
  "systemStatusHandler gf = get_guard (\<lambda>r g. respondWithJSON 200 (SystemBody (gf_GetSystemStatus gf g)))"

section \<open>Routes\<close>

text \<open>\<open>registerRoutes\<close>: a path without a trailing slash matches exactly, \<open>/files/\<close> every path below it.\<close>

definition route :: "'g GatewayInterface \<Rightarrow> (peer_id \<Rightarrow> string) \<Rightarrow> go_time \<Rightarrow> string \<Rightarrow> 'g handler option" where
  "route gf pid_String now path =
     (if path = ''/health'' then Some (healthHandler gf now)
      else if path = ''/info'' then Some (infoHandler gf)
      else if path = ''/nodes'' then Some (nodesHandler gf)
      else if path = ''/nodes/stats'' then Some (nodesStatsHandler gf now)
      else if path = ''/files'' then Some (filesHandler gf pid_String)
      else if path = ''/files/upload'' then Some (uploadHandler gf)
      else if path = ''/network/stats'' then Some (networkStatsHandler gf now)
      else if path = ''/network/health'' then Some (networkHealthHandler gf now)
      else if path = ''/storage/stats'' then Some (storageStatsHandler gf)
      else if path = ''/system/status'' then Some (systemStatusHandler gf)
      else if take 7 path = ''/files/'' then Some (fileHandler gf pid_String)
      else None)"

text \<open>\<open>ServeMux\<close>: a path that is not clean is redirected to the clean one.\<close>

definition clean_url :: "string \<Rightarrow> string" where
  "clean_url p =
     (let q = (if p = '''' then ''/'' else if path_rooted p then p else slash # p); np = filepath_Clean q
      in if last q = slash \<and> np \<noteq> ''/'' then np @ ''/'' else np)"

definition mux :: "'g GatewayInterface \<Rightarrow> (peer_id \<Rightarrow> string) \<Rightarrow> go_time \<Rightarrow> 'g handler" where
  "mux gf pid_String now r g =
     (if rq_Method r \<noteq> ''CONNECT'' \<and> clean_url (rq_Path r) \<noteq> rq_Path r
      then Ret (\<lparr>rp_Code = 301, rp_Header = [(''Location'', clean_url (rq_Path r))], rp_Body = NoBody\<rparr>, g)
      else case route gf pid_String now (rq_Path r) of
        None \<Rightarrow> Ret (\<lparr>rp_Code = 404, rp_Header = [], rp_Body = PageBody ''404 page not found''\<rparr>, g)
      | Some h \<Rightarrow> h r g)"

definition cors_headers :: "(string, string) gomap" where
  "cors_headers =
     [(''Access-Control-Allow-Origin'', ''*''),
      (''Access-Control-Allow-Methods'', ''GET, POST, PUT, DELETE, OPTIONS''),
      (''Access-Control-Allow-Headers'', ''Content-Type, Authorization, X-Requested-With''),
      (''Access-Control-Max-Age'', ''86400'')]"

definition corsMiddleware :: "'g handler \<Rightarrow> 'g handler" where
  "corsMiddleware handle r g =
     (if rq_Method r = ''OPTIONS'' then Ret (\<lparr>rp_Code = 200, rp_Header = cors_headers, rp_Body = NoBody\<rparr>, g)
      else go_bind (handle r g) (\<lambda>(response, g1).
        Ret (response\<lparr>rp_Header := cors_headers @ rp_Header response\<rparr>, g1)))"

definition api_serve :: "'g GatewayInterface \<Rightarrow> (peer_id \<Rightarrow> string) \<Rightarrow> go_time \<Rightarrow> 'g handler" where
  "api_serve gf pid_String now = corsMiddleware (mux gf pid_String now)"

end
