(* ===== verification/Api_Server_Correct.thy ===== *)
theory Api_Server_Correct
  imports Api_Server Storage_Ops_Correct
begin

text \<open>
  What the API relies on of a gateway is the locale \<open>file_gateway\<close>: which files it lists, and
  what its calls do to them. The lemmas of the locale are about any gateway with these laws; the
  interpretation shows them for the gateway node.
\<close>

section \<open>Requests\<close>

text \<open>The file a request below \<open>/files/\<close> names.\<close>

definition requested_file :: "http_request \<Rightarrow> string" where
  "requested_file r = split_on slash (TrimPrefix (rq_Path r) ''/files/'') ! 0"

definition deletes :: "string \<Rightarrow> http_request \<Rightarrow> bool" where
  "deletes h r \<longleftrightarrow> rq_Method r = ''DELETE'' \<and> requested_file r = h"

text \<open>A served sequence of requests; one that panics is not answered and not in it.\<close>

inductive api_run ::
  "'g GatewayInterface \<Rightarrow> (peer_id \<Rightarrow> string) \<Rightarrow> 'g \<Rightarrow> http_request list \<Rightarrow> 'g \<Rightarrow> bool"
  for gf :: "'g GatewayInterface" and pid :: "peer_id \<Rightarrow> string" and g :: 'g where
  start: "api_run gf pid g [] g"
| answer: "api_run gf pid g rs g1 \<Longrightarrow> api_serve gf pid now r g1 = Ret (response, g2) \<Longrightarrow> api_run gf pid g (rs @ [r]) g2"

lemma get_guard_state: "get_guard body r g = Ret (response, g') \<Longrightarrow> g' = g"
  by (auto simp: get_guard_def split: if_splits)

lemmas get_handlers = healthHandler_def infoHandler_def nodesHandler_def nodesStatsHandler_def filesHandler_def
  networkStatsHandler_def networkHealthHandler_def storageStatsHandler_def systemStatusHandler_def

lemma serve_cases:
  assumes "api_serve gf pid now r g = Ret (response, g')"
  obtains (same) "g' = g"
  | (upload) response1 where "rq_Path r = ''/files/upload''" "uploadHandler gf r g = Ret (response1, g')"
  | (below) response1 where "take 7 (rq_Path r) = ''/files/''" "fileHandler gf pid r g = Ret (response1, g')"
proof -
  from assms consider (opt) "g' = g" | (mux) response1 where "mux gf pid now r g = Ret (response1, g')"
    by (auto simp: api_serve_def corsMiddleware_def go_bind_Ret_iff split: if_splits)
  then show thesis
  proof cases
    case opt
    then show thesis by (rule same)
  next
    case mux
    then show thesis
      using same upload below
      by (auto simp: mux_def route_def get_handlers split: if_splits dest: get_guard_state)
  qed
qed

lemma download_state:
  assumes "downloadFileHandler gf h g = Ret (response, g')"
  obtains b where "gf_RetrieveFile gf h g = Ret (b, g')"
proof -
  from assms obtain b g1 where r: "gf_RetrieveFile gf h g = Ret (b, g1)"
    by (auto simp: downloadFileHandler_def go_bind_Ret_iff)
  with assms have "g1 = g'" by (cases b) (simp_all add: downloadFileHandler_def Let_def)
  with r that show thesis by simp
qed

lemma delete_state:
  assumes "deleteFileHandler gf h g = Ret (response, g')"
  obtains u where "gf_DeleteFile gf h g = (u, g')" and "rp_Code response = 200 \<longrightarrow> u = Inr ()"
proof -
  obtain u g1 where r: "gf_DeleteFile gf h g = (u, g1)" by (metis surj_pair)
  with assms that show thesis
    by (cases u) (auto simp: deleteFileHandler_def respondWithError_def respondWithJSON_def)
qed

lemma get_file_state: "getFileHandler gf pid h g = Ret (response, g') \<Longrightarrow> g' = g"
  by (cases "gf_GetFileInfo gf h g") (simp_all add: getFileHandler_def)

lemma upload_state:
  assumes "uploadHandler gf r g = Ret (response, g')"
  obtains (same) "g' = g" | (stored) f data n k res where "gf_StoreFile gf f data n k g = Ret (res, g')"
proof (cases "rq_form r")
  case None
  with assms same show thesis by (auto simp: uploadHandler_def split: if_splits)
next
  case (Some form)
  show thesis
  proof (cases "uf_file form")
    case None
    with assms Some same show thesis by (auto simp: uploadHandler_def split: if_splits)
  next
    fix p
    assume p: "uf_file form = Some p"
    obtain f content where c: "p = (f, content)" by (cases p)
    show thesis
    proof (cases content)
      case (Inl err)
      with assms Some p c same show thesis by (auto simp: uploadHandler_def split: if_splits)
    next
      case (Inr data)
      let ?n = "default_shards (Atoi_value (uf_total_shards form)) 3"
      let ?k = "default_shards (Atoi_value (uf_required_shards form)) 2"
      from assms Some p c Inr consider "g' = g"
        | res g1 where "gf_StoreFile gf f data ?n ?k g = Ret (res, g1)"
            "(case res of
               Inl err \<Rightarrow> Ret (respondWithError 500 ''Storage failed'' ''Failed to store file in the network'', g1)
             | Inr fileHash \<Rightarrow>
                 Ret (respondWithJSON 201 (UploadBody
                   \<lparr>up_Hash = fileHash, up_Status = ''uploaded'', up_FileSize = int (length data),
                    up_Shards = ?n, up_Message = upload_message ?n ?k\<rparr>), g1)) = Ret (response, g')"
        by (auto simp: uploadHandler_def Let_def go_bind_Ret_iff split: if_splits)
      then show thesis
      proof cases
        case 1
        then show thesis by (rule same)
      next
        case (2 res g1)
        then have "g1 = g'" by (cases res) simp_all
        with 2(1) show thesis using stored by blast
      qed
    qed
  qed
qed

section \<open>Gateways with a set of files\<close>

locale file_gateway =
  fixes gf :: "'g GatewayInterface"
    and ok :: "'g \<Rightarrow> bool"
    and listed :: "'g \<Rightarrow> string set"
  assumes info: "ok g \<Longrightarrow>
      (case gf_GetFileInfo gf h g of Inl err \<Rightarrow> h \<notin> listed g | Inr md \<Rightarrow> h \<in> listed g \<and> md_FileHash md = h)"
    and files: "ok g \<Longrightarrow> set (map md_FileHash (gf_GetFileList gf g)) = listed g \<and>
      distinct (map md_FileHash (gf_GetFileList gf g))"
    and store: "ok g \<Longrightarrow> gf_StoreFile gf f data n k g = Ret (r, g') \<Longrightarrow> ok g' \<and> listed g \<subseteq> listed g'"
    and retrieve: "ok g \<Longrightarrow> gf_RetrieveFile gf h g = Ret (b, g') \<Longrightarrow> ok g' \<and> listed g' = listed g"
    and delete: "ok g \<Longrightarrow> gf_DeleteFile gf h g = (u, g') \<Longrightarrow>
      ok g' \<and> listed g' \<subseteq> listed g \<and> listed g - {h} \<subseteq> listed g' \<and> (u = Inr () \<longrightarrow> h \<notin> listed g')"
begin

lemma upload_keeps:
  assumes "ok g" and "uploadHandler gf r g = Ret (response, g')"
  shows "ok g' \<and> listed g \<subseteq> listed g'"
  using assms(2)
proof (cases rule: upload_state)
  case same
  with assms(1) show ?thesis by simp
next
  case stored
  with store [OF assms(1)] show ?thesis by blast
qed

lemma file_state:
  assumes "ok g" and "fileHandler gf pid r g = Ret (response, g')"
  shows "ok g' \<and> (\<forall>h \<in> listed g - listed g'. deletes h r)"
proof -
  have down: "ok g' \<and> listed g' = listed g" if "downloadFileHandler gf h g = Ret (response, g')" for h
    using that retrieve [OF assms(1)] by (elim download_state) blast
  have del: "ok g' \<and> listed g - {h} \<subseteq> listed g'" if "deleteFileHandler gf h g = Ret (response, g')" for h
    using that delete [OF assms(1)] by (elim delete_state) blast
  show ?thesis
    using assms down del
    by (auto simp: fileHandler_def Let_def deletes_def requested_file_def split: if_splits dest: get_file_state)
qed

text \<open>One request keeps the gateway well-formed, and only a DELETE takes a file off the list: its own.\<close>

lemma serve_state:
  assumes "ok g" and "api_serve gf pid now r g = Ret (response, g')"
  shows "ok g' \<and> (\<forall>h \<in> listed g - listed g'. deletes h r)"
  using assms(2)
proof (cases rule: serve_cases)
  case same
  with assms(1) show ?thesis by simp
next
  case upload
  with upload_keeps [OF assms(1)] show ?thesis by blast
next
  case below
  with file_state [OF assms(1)] show ?thesis by blast
qed

lemma run_ok: "api_run gf pid g rs g' \<Longrightarrow> ok g \<Longrightarrow> ok g'"
  by (induction rule: api_run.induct) (auto dest: serve_state)

lemma run_listed:
  assumes "api_run gf pid g rs g'" and "ok g" and "h \<in> listed g" and "\<forall>r \<in> set rs. \<not> deletes h r"
  shows "h \<in> listed g'"
  using assms
proof (induction rule: api_run.induct)
  case start
  then show ?case by simp
next
  case (answer rs g1 now r response g2)
  then have "h \<in> listed g1" and "\<not> deletes h r" and "ok g1" by (auto dest: run_ok)
  with serve_state [OF _ answer(2)] show ?case by blast
qed

lemma get_file:
  assumes "ok g" and "h \<in> listed g"
  obtains md where "gf_GetFileInfo gf h g = Inr md" and "md_FileHash md = h"
  using info [OF assms(1), of h] assms(2) by (auto split: sum.splits)

lemma get_no_file:
  assumes "ok g" and "h \<notin> listed g"
  obtains err where "gf_GetFileInfo gf h g = Inl err"
  using info [OF assms(1), of h] assms(2) by (auto split: sum.splits)

lemma delete_gone:
  assumes "ok g" and "deleteFileHandler gf h g = Ret (response, g')" and "rp_Code response = 200"
  shows "ok g' \<and> h \<notin> listed g'"
  using assms(2,3) delete [OF assms(1)] by (elim delete_state) blast

end

section \<open>The gateway node\<close>

definition gw_index :: "GatewayNode \<Rightarrow> (string, FileMetadata) gomap" where
  "gw_index gn = fm_fileIndex (nd_fileManager (gw_node gn))"

definition gw_ok :: "GatewayNode \<Rightarrow> bool" where
  "gw_ok gn \<longleftrightarrow> gm_wf (gw_index gn) \<and> (\<forall>h md. gm_get (gw_index gn) h = Some md \<longrightarrow> md_FileHash md = h)"

definition gw_listed :: "GatewayNode \<Rightarrow> string set" where
  "gw_listed gn = set (gm_keys (gw_index gn))"

lemma store_metadata_index:
  "fm_fileIndex (nd_fileManager (snd (so_storeFileMetadataLocally clock h f data n k ps nd))) =
     gm_put h (new_metadata h f data n k ps (clock 5) (clock 6)) (fm_fileIndex (nd_fileManager nd))"
  by (simp add: so_storeFileMetadataLocally_def fm_UpdateFileMetadata_def node_defs new_metadata_def Let_def
      split: prod.splits)

lemma store_index:
  assumes "so_StoreFileDistributed rs env clock f data n k nd = Ret (r, nd')"
  shows "fm_fileIndex (nd_fileManager nd') = fm_fileIndex (nd_fileManager nd) \<or>
    (\<exists>md. fm_fileIndex (nd_fileManager nd') = gm_put (md_FileHash md) md (fm_fileIndex (nd_fileManager nd)))"
proof -
  from assms consider "nd' = nd"
    | ps nd2 h where "nd' = snd (so_storeFileMetadataLocally clock h f data n k ps nd2)" "nd_fileManager nd2 = nd_fileManager nd"
    by (auto simp: so_StoreFileDistributed_def go_bind_Ret_iff Let_def split: if_splits sum.splits)
  then show ?thesis
  proof cases
    case 1
    then show ?thesis by simp
  next
    case (2 ps nd2 h)
    have "md_FileHash (new_metadata h f data n k ps (clock 5) (clock 6)) = h" by (simp add: new_metadata_def)
    with 2 show ?thesis
      by (intro disjI2 exI [of _ "new_metadata h f data n k ps (clock 5) (clock 6)"]) (simp add: store_metadata_index)
  qed
qed

lemma retrieve_files:
  "so_RetrieveFileDistributed rs env h nd = Ret (r, nd') \<Longrightarrow> nd_fileManager nd' = nd_fileManager nd"
  using Sync_disk by (auto dest: Retrieve_state)

lemma delete_index:
  assumes "so_DeleteFileDistributed env clock h nd = (r, nd')"
  shows "fm_fileIndex (nd_fileManager nd') = gm_del h (fm_fileIndex (nd_fileManager nd))"
  using assms
  by (auto simp: so_DeleteFileDistributed_def so_announceFileDeletion_def fm_DeleteFile_def node_defs Let_def
      gm_get_None_iff split: sum.splits prod.splits option.splits if_splits)

lemma gw_ok_listing:
  assumes "gw_ok gn"
  shows "map md_FileHash (gw_GetFileList gn) = gm_keys (gw_index gn)"
proof -
  have "map (md_FileHash \<circ> snd) (gw_index gn) = map fst (gw_index gn)"
    using assms gm_wf_get unfolding gw_ok_def by (intro map_cong) (auto simp: gm_wf_get)
  then show ?thesis by (simp add: gw_GetFileList_def fm_ListFiles_def gw_index_def gm_keys_def)
qed

lemma gw_ok_put: "gw_ok gn \<Longrightarrow> gw_index gn' = gm_put (md_FileHash md) md (gw_index gn) \<Longrightarrow> gw_ok gn'"
  by (auto simp: gw_ok_def split: if_splits)

lemma gw_ok_del: "gw_ok gn \<Longrightarrow> gw_index gn' = gm_del h (gw_index gn) \<Longrightarrow> gw_ok gn'"
  by (auto simp: gw_ok_def split: if_splits)

lemma gw_store_index:
  assumes "gw_StoreFile ge f data n k gn = Ret (r, gn')"
  shows "gw_index gn' = gw_index gn \<or> (\<exists>md. gw_index gn' = gm_put (md_FileHash md) md (gw_index gn))"
proof -
  from assms obtain r1 nd where "so_StoreFileDistributed (ge_codec ge) (ge_rpc ge) (ge_clock ge) f data n k (gw_node gn) = Ret (r1, nd)"
    and "gw_node gn' = nd"
    by (auto simp: gw_StoreFile_def Let_def go_bind_Ret_iff count_request_def)
  with store_index show ?thesis unfolding gw_index_def by blast
qed

lemma gw_retrieve_index:
  assumes "gw_RetrieveFile ge h gn = Ret (b, gn')"
  shows "gw_index gn' = gw_index gn"
proof -
  from assms obtain r nd where "so_RetrieveFileDistributed (ge_codec ge) (ge_rpc ge) h (gw_node gn) = Ret (r, nd)"
    and "gw_node gn' = nd"
    by (auto simp: gw_RetrieveFile_def Let_def go_bind_Ret_iff count_request_def)
  with retrieve_files show ?thesis unfolding gw_index_def by metis
qed

lemma gw_delete_index:
  assumes "gw_DeleteFile ge h gn = (u, gn')"
  shows "gw_index gn' = gm_del h (gw_index gn)"
proof -
  from assms obtain r nd where "so_DeleteFileDistributed (ge_rpc ge) (ge_clock ge) h (gw_node gn) = (r, nd)"
    and "gw_node gn' = nd"
    by (auto simp: gw_DeleteFile_def Let_def count_request_def split: prod.splits)
  with delete_index show ?thesis unfolding gw_index_def by metis
qed

interpretation gateway: file_gateway "gateway_methods ge" gw_ok gw_listed for ge
proof unfold_locales
  fix g h
  assume ok: "gw_ok g"
  show "case gf_GetFileInfo (gateway_methods ge) h g of Inl err \<Rightarrow> h \<notin> gw_listed g
      | Inr md \<Rightarrow> h \<in> gw_listed g \<and> md_FileHash md = h"
    using ok by (auto simp: gateway_methods_def gw_GetFileInfo_def fm_GetFileInfo_def gw_listed_def gw_ok_def gw_index_def
        gm_get_None_iff gm_get_in_keys split: option.splits)
next
  fix g
  assume ok: "gw_ok g"
  then show "set (map md_FileHash (gf_GetFileList (gateway_methods ge) g)) = gw_listed g \<and>
      distinct (map md_FileHash (gf_GetFileList (gateway_methods ge) g))"
    using gw_ok_listing [OF ok] by (simp add: gateway_methods_def gw_listed_def gw_ok_def gm_wf_def)
next
  fix g f data n k r g'
  assume ok: "gw_ok g" and st: "gf_StoreFile (gateway_methods ge) f data n k g = Ret (r, g')"
  from st have "gw_index g' = gw_index g \<or> (\<exists>md. gw_index g' = gm_put (md_FileHash md) md (gw_index g))"
    by (intro gw_store_index) (simp add: gateway_methods_def)
  then show "gw_ok g' \<and> gw_listed g \<subseteq> gw_listed g'"
  proof (elim disjE exE)
    assume "gw_index g' = gw_index g"
    then show ?thesis using ok by (simp add: gw_listed_def gw_ok_def)
  next
    fix md
    assume i: "gw_index g' = gm_put (md_FileHash md) md (gw_index g)"
    with gw_ok_put [OF ok i] show ?thesis by (simp add: gw_listed_def subset_insertI)
  qed
next
  fix g h b g'
  assume ok: "gw_ok g" and rt: "gf_RetrieveFile (gateway_methods ge) h g = Ret (b, g')"
  from rt have "gw_index g' = gw_index g"
    by (intro gw_retrieve_index) (simp add: gateway_methods_def)
  with ok show "gw_ok g' \<and> gw_listed g' = gw_listed g" by (simp add: gw_ok_def gw_listed_def)
next
  fix g h u g'
  assume ok: "gw_ok g" and dl: "gf_DeleteFile (gateway_methods ge) h g = (u, g')"
  from dl have "gw_index g' = gm_del h (gw_index g)"
    by (intro gw_delete_index) (simp add: gateway_methods_def)
  with gw_ok_del [OF ok this] show "gw_ok g' \<and> gw_listed g' \<subseteq> gw_listed g \<and> gw_listed g - {h} \<subseteq> gw_listed g' \<and>
      (u = Inr () \<longrightarrow> h \<notin> gw_listed g')"
    by (simp add: gw_listed_def)
qed

section \<open>Properties of the API\<close>

lemma clean_file_url: "file_name h \<Longrightarrow> clean_url (''/files/'' @ h) = ''/files/'' @ h"
proof -
  assume h: "file_name h"
  have f: "filepath_Clean (''/files'' @ slash # h) = ''/files'' @ slash # h"
    using path_comps_append_file [of "''/files''" h] h
    by (simp add: filepath_Clean_def path_rooted_def Let_def) (simp add: path_comps_def clean_step_def path_rooted_def)
  moreover have "last (''/files/'' @ h) \<noteq> slash"
    using last_file_name [OF h] h by (simp add: file_name_def)
  ultimately show ?thesis by (simp add: clean_url_def path_rooted_def Let_def)
qed

lemma file_request:
  assumes "file_name h" and "h \<noteq> ''upload''" and "m \<noteq> ''OPTIONS''"
  shows "api_serve gf pid now \<lparr>rq_Method = m, rq_Path = ''/files/'' @ h, rq_form = None\<rparr> g =
    go_bind (if m = ''GET'' then getFileHandler gf pid h g
       else if m = ''DELETE'' then deleteFileHandler gf h g
       else Ret (method_not_allowed ''Only GET, DELETE, and OPTIONS methods are allowed'', g))
      (\<lambda>(response, g1). Ret (response\<lparr>rp_Header := cors_headers @ rp_Header response\<rparr>, g1))"
  using assms clean_file_url [OF assms(1)]
  by (simp add: api_serve_def corsMiddleware_def mux_def route_def fileHandler_def TrimPrefix_def file_name_def Let_def)

lemmas get_request = file_request [of _ "''GET''", simplified]
lemmas delete_request = file_request [of _ "''DELETE''", simplified]

text \<open>
  A file that a DELETE request removed is gone: when the answer is 200, the next GET request
  for it is answered with 404, and the list of files does not name it.
\<close>

theorem deleted_file_not_found:
  assumes "gw_ok gn" and "file_name h" and "h \<noteq> ''upload''"
    and "api_serve (gateway_methods ge) pid now \<lparr>rq_Method = ''DELETE'', rq_Path = ''/files/'' @ h, rq_form = None\<rparr> gn =
      Ret (response, gn1)" and "rp_Code response = 200"
  shows "(\<exists>response1. api_serve (gateway_methods ge) pid now1 \<lparr>rq_Method = ''GET'', rq_Path = ''/files/'' @ h, rq_form = None\<rparr> gn1 =
      Ret (response1, gn1) \<and> rp_Code response1 = 404) \<and> h \<notin> set (map md_FileHash (gw_GetFileList gn1))"
proof -
  from assms(4) [unfolded append_Cons append_Nil delete_request [OF assms(2,3)]] assms(5) obtain response0 where "deleteFileHandler (gateway_methods ge) h gn = Ret (response0, gn1)"
    "rp_Code response0 = 200"
    by (auto simp: go_bind_Ret_iff)
  from gateway.delete_gone [OF assms(1) this] have g: "gw_ok gn1" "h \<notin> gw_listed gn1" by auto
  from gateway.get_no_file [OF this] obtain err where "gf_GetFileInfo (gateway_methods ge) h gn1 = Inl err" by blast
  then have "\<exists>response1. api_serve (gateway_methods ge) pid now1 \<lparr>rq_Method = ''GET'', rq_Path = ''/files/'' @ h, rq_form = None\<rparr> gn1 =
      Ret (response1, gn1) \<and> rp_Code response1 = 404"
    unfolding append_Cons append_Nil get_request [OF assms(2,3)]
    by (simp add: getFileHandler_def respondWithError_def respondWithJSON_def)
  with g gw_ok_listing [OF g(1)] show ?thesis by (simp add: gw_listed_def)
qed

text \<open>
  C23: Files stay until they are deleted. After any sequence of served requests without a DELETE
  of the file, a file the gateway listed is still answered with 200 and its own hash, and the
  list of files names it exactly once.
\<close>

theorem files_stay_listed:
  assumes "gw_ok gn" and "h \<in> set (map md_FileHash (gw_GetFileList gn))" and "file_name h" and "h \<noteq> ''upload''"
    and "api_run (gateway_methods ge) pid gn rs gn1" and "\<forall>r \<in> set rs. \<not> deletes h r"
  shows "(\<exists>response view. api_serve (gateway_methods ge) pid now \<lparr>rq_Method = ''GET'', rq_Path = ''/files/'' @ h, rq_form = None\<rparr> gn1 =
      Ret (response, gn1) \<and> rp_Code response = 200 \<and> rp_Body response = FileBody view \<and> fv_hash view = h) \<and>
    distinct (map md_FileHash (gw_GetFileList gn1)) \<and> h \<in> set (map md_FileHash (gw_GetFileList gn1))"
proof -
  have ok: "gw_ok gn1" by (rule gateway.run_ok [OF assms(5,1)])
  have "h \<in> gw_listed gn" using assms(2) gw_ok_listing [OF assms(1)] by (simp add: gw_listed_def)
  from gateway.run_listed [OF assms(5,1) this assms(6)] have l: "h \<in> gw_listed gn1" .
  from gateway.get_file [OF ok l] obtain md where "gf_GetFileInfo (gateway_methods ge) h gn1 = Inr md" "md_FileHash md = h" .
  then have "\<exists>response view. api_serve (gateway_methods ge) pid now \<lparr>rq_Method = ''GET'', rq_Path = ''/files/'' @ h, rq_form = None\<rparr> gn1 =
      Ret (response, gn1) \<and> rp_Code response = 200 \<and> rp_Body response = FileBody view \<and> fv_hash view = h"
    unfolding append_Cons append_Nil get_request [OF assms(3,4)]
    by (simp add: getFileHandler_def respondWithJSON_def file_info_def)
  with l ok gw_ok_listing [OF ok] show ?thesis by (simp add: gw_listed_def gw_ok_def gm_wf_def)
qed

section \<open>Requests that panic\<close>

lemma select_panics_iff: "panics (so_selectStoragePeers n nd) \<longleftrightarrow> n < 0"
  by (auto simp: so_selectStoragePeers_def rs_GetBestPeers_def Let_def)

lemma store_panics_iff: "panics (so_StoreFileDistributed rs env clock f data n k nd) \<longleftrightarrow> n < 0"
proof (cases "n < 0")
  case True
  then have "panics (so_selectStoragePeers n nd)" by (simp add: select_panics_iff)
  with True show ?thesis by (simp add: so_StoreFileDistributed_def)
next
  case False
  then obtain peers where "so_selectStoragePeers n nd = Ret peers"
    using select_panics_iff not_panics_iff by blast
  with False show ?thesis
    by (simp add: so_StoreFileDistributed_def go_make_def Let_def split: sum.splits)
qed

lemma network_metadata_valid:
  "so_getFileMetadataFromNetwork env h nd peers = Some md \<Longrightarrow> valid_metadata md"
  by (induction peers) (auto split: sum.splits option.splits if_splits)

lemma reconstruct_safe: "0 \<le> n \<Longrightarrow> \<not> panics (sm_ReconstructData rs shards n k sz)"
  by (simp add: sm_ReconstructData_def go_make_def Let_def split: sum.splits)

lemma retrieve_safe: "\<not> panics (so_RetrieveFileDistributed rs env h nd)"
proof -
  have r: "\<not> panics (sm_ReconstructData rs shards (md_TotalShards md) k sz)"
    if "so_getFileMetadataFromNetwork env h nd1 peers = Some md" for md nd1 peers shards k sz
    using network_metadata_valid [OF that] by (intro reconstruct_safe) (simp add: valid_metadata_def)
  show ?thesis
    unfolding so_RetrieveFileDistributed_def Let_def
    by (auto split: option.splits sum.splits simp: r)
qed

lemma gw_store_panics_iff: "panics (gw_StoreFile ge f data n k gn) \<longleftrightarrow> n < 0"
  by (auto simp: gw_StoreFile_def Let_def store_panics_iff)

lemma get_guard_safe [simp]: "\<not> panics (get_guard body r g)"
  by (simp add: get_guard_def)

definition upload_panics :: "http_request \<Rightarrow> bool" where
  "upload_panics r \<longleftrightarrow> rq_Method r = ''POST'' \<and> rq_Path r = ''/files/upload'' \<and>
     (\<exists>form f data. rq_form r = Some form \<and> uf_file form = Some (f, Inr data) \<and>
        default_shards (Atoi_value (uf_total_shards form)) 3 < 0 \<and>
        default_shards (Atoi_value (uf_required_shards form)) 2 \<le> default_shards (Atoi_value (uf_total_shards form)) 3)"

lemma uploadHandler_panics_iff:
  assumes "rq_Path r = ''/files/upload''" and "rq_Method r \<noteq> ''OPTIONS''"
  shows "panics (uploadHandler (gateway_methods ge) r gn) \<longleftrightarrow> upload_panics r"
proof -
  have s: "gf_StoreFile (gateway_methods ge) = gw_StoreFile ge" by (simp add: gateway_methods_def)
  show ?thesis
    using assms
    by (auto simp: uploadHandler_def upload_panics_def s gw_store_panics_iff Let_def
        split: option.splits sum.splits prod.splits) (metis sum.exhaust)
qed

lemma fileHandler_safe: "\<not> panics (fileHandler (gateway_methods ge) pid r gn)"
proof -
  have "\<not> panics (gf_RetrieveFile (gateway_methods ge) h gn)" for h
    by (auto simp: gateway_methods_def gw_RetrieveFile_def Let_def retrieve_safe)
  then have d: "\<not> panics (downloadFileHandler (gateway_methods ge) h gn)" for h
    by (auto simp: downloadFileHandler_def Let_def split: sum.splits)
  have g: "\<not> panics (getFileHandler (gateway_methods ge) pid h gn)" for h
    by (simp add: getFileHandler_def split: sum.splits)
  have "\<not> panics (deleteFileHandler (gateway_methods ge) h gn)" for h
    by (simp add: deleteFileHandler_def Let_def split: prod.splits sum.splits)
  with d g show ?thesis by (simp add: fileHandler_def Let_def)
qed


section \<open>Answers that hide a failure\<close>

lemma default_unit: "default_shards 3 d = 3" "default_shards 2 d = 2"
  by (simp_all add: default_shards_def)

text \<open>
  An upload that failed is reported as stored. Whenever the distributed store refuses the
  file - too few peers, the encoder, too few shards delivered - the client gets 201 Created, the
  status \<open>uploaded\<close>, the message of success and an empty hash.
\<close>

theorem failed_upload_reports_success:
  assumes "so_StoreFileDistributed (ge_codec ge) (ge_rpc ge) (ge_clock ge) f data n k (gw_node gn) = Ret (Inl err, nd)"
    and "rq_Method r = ''POST''" and "rq_Path r = ''/files/upload''"
    and "rq_form r = Some form" and "uf_file form = Some (f, Inr data)"
    and "default_shards (Atoi_value (uf_total_shards form)) 3 = n"
    and "default_shards (Atoi_value (uf_required_shards form)) 2 = k" and "k \<le> n"
  shows "\<exists>response gn' body. api_serve (gateway_methods ge) pid now r gn = Ret (response, gn') \<and>
    rp_Code response = 201 \<and> rp_Body response = UploadBody body \<and> up_Hash body = '''' \<and>
    up_Status body = ''uploaded'' \<and> up_Message body = upload_message n k \<and> gw_node gn' = nd"
proof -
  have up: "clean_url ''/files/upload'' = ''/files/upload''" by code_simp
  have "gf_StoreFile (gateway_methods ge) f data n k gn =
      Ret (Inr '''', (count_request gn)\<lparr>gw_node := nd\<rparr>)"
    using assms(1) by (simp add: gateway_methods_def gw_StoreFile_def count_request_def)
  with assms(2-8) up show ?thesis
    by (simp add: api_serve_def corsMiddleware_def mux_def route_def uploadHandler_def respondWithJSON_def Let_def)
qed

section \<open>Statistics without a body\<close>

lemma f_of_u64_cases:
  obtains a where "f_of_u64 w = Fin a" "a = 0 \<and> w = 0 \<or> 1 \<le> a" "a \<le> two_pow 64"
proof -

  have "uint w < 2 ^ 64" using uint_lt2p [of w] by simp
  then have "(of_int (uint w) :: rat) \<le> of_int (2 ^ 64)" by (simp only: of_int_le_iff)
  moreover have "(0 :: rat) \<le> of_int (uint w)" by (simp only: of_int_0_le_iff uint_ge_0)
  moreover have "(of_int (2 ^ 64) :: rat) = two_pow 64" by (simp add: two_pow_def)
  ultimately have "\<bar>of_int (uint w) :: rat\<bar> \<le> two_pow 64" by (simp only: abs_of_nonneg)
  from f64_bounded [OF this] have f: "f_of_u64 w = Fin (fl (of_int (uint w)))" "fl (of_int (uint w)) \<le> two_pow 64"
    by (auto simp: f_of_u64_def)
  show thesis
  proof (cases "w = 0")
    case True
    with f that show thesis by simp
  next
    case False
    then have "1 \<le> uint w" by (simp add: uint_0_iff order.strict_iff_order int_one_le_iff_zero_less)
    then have "(1 :: rat) \<le> of_int (uint w)" by (simp only: of_int_1_le_iff)
    then have "1 \<le> fl (of_int (uint w))" using fl_mono_nonneg [of 1] by simp
    with f that show thesis by blast
  qed
qed

lemma utilization_finite_iff:
  "is_fin (f_mul (f_div (f_of_u64 used) (f_of_u64 tot)) (Fin 100)) \<longleftrightarrow> tot \<noteq> 0"
proof -
  obtain a where a: "f_of_u64 used = Fin a" "0 \<le> a" "a \<le> two_pow 64" by (rule f_of_u64_cases [of used]) auto
  obtain b where b: "f_of_u64 tot = Fin b" "b = 0 \<and> tot = 0 \<or> 1 \<le> b" by (rule f_of_u64_cases [of tot]) auto
  show ?thesis
  proof (cases "tot = 0")
    case True
    then have "b = 0" using b by (auto simp: f_of_u64_def)
    then have "f_div (Fin a) (Fin b) = PInf \<or> f_div (Fin a) (Fin b) = NaN"
      using a(2) by (auto simp: inf_of_sign_def sgn_if)
    then have "\<not> is_fin (f_mul (f_div (Fin a) (Fin b)) (Fin 100))" by (auto simp: inf_of_sign_def)
    with True a b show ?thesis by simp
  next
    case False
    then have b1: "1 \<le> b" using b(2) by auto
    have "a / b \<le> a / 1" using a(2) b1 by (intro divide_left_mono) simp_all
    then have "\<bar>a / b\<bar> \<le> two_pow 64" using a b1 by simp
    from f64_bounded [OF this] have q: "f64 (a / b) = Fin (fl (a / b))" "\<bar>fl (a / b)\<bar> \<le> two_pow 64" by auto
    have "\<bar>fl (a / b) * 100\<bar> = \<bar>fl (a / b)\<bar> * 100" by (simp add: abs_mult)
    also have "\<dots> \<le> two_pow 64 * 2 ^ 7" using q(2) by (intro mult_mono) simp_all
    also have "\<dots> = two_pow 71" using two_pow_add_nat [of 64 7] by simp
    finally have "f64 (fl (a / b) * 100) = Fin (fl (fl (a / b) * 100))" using f64_bounded [of _ 71] by simp
    with q a b b1 False show ?thesis by simp
  qed
qed

definition active_capacity :: "gateway_env \<Rightarrow> GatewayNode \<Rightarrow> u64" where
  "active_capacity ge gn = fst (sum_nodes (gw_GetNodeList ge gn) (0, 0, 0))"

text \<open>
  The node statistics can be silenced. The answer to \<open>/nodes/stats\<close> is always 200, but it has
  no body exactly when the capacities of the active nodes, which peers report about themselves,
  add up to 0 in 64 bits: the utilization is then no number and the encoder gives up.
\<close>

theorem nodes_stats_silenced_iff:
  assumes "is_fin (ns_avg_reputation (gw_GetNetworkStats ge gn))"
  shows "\<exists>response. api_serve (gateway_methods ge) pid now \<lparr>rq_Method = ''GET'', rq_Path = ''/nodes/stats'', rq_form = None\<rparr> gn =
      Ret (response, gn) \<and> rp_Code response = 200 \<and> (rp_Body response = NoBody \<longleftrightarrow> active_capacity ge gn = 0)"
proof -
  have up: "clean_url ''/nodes/stats'' = ''/nodes/stats''" by code_simp
  obtain tot used active where s: "sum_nodes (gw_GetNodeList ge gn) (0, 0, 0) = (tot, used, active)"
    by (metis surj_pair)
  have t: "active_capacity ge gn = tot" by (simp add: active_capacity_def s)
  have m: "gf_GetNodeList (gateway_methods ge) gn = gw_GetNodeList ge gn"
    "gf_GetNetworkStats (gateway_methods ge) gn = gw_GetNetworkStats ge gn" by (simp_all add: gateway_methods_def)
  show ?thesis
    using assms up
    by (simp add: api_serve_def corsMiddleware_def mux_def route_def nodesStatsHandler_def get_guard_def m s t
        respondWithJSON_def utilization_finite_iff Let_def)
qed

section \<open>Examples\<close>

text \<open>A gateway with one file \<open>abc\<close> of which it holds the metadata, and no other node.\<close>

definition example_env :: gateway_env where
  "example_env = \<lparr>ge_codec = xor_codec, ge_rpc = accepting_rpc, ge_clock = (\<lambda>_. 0), ge_pid_String = (\<lambda>i. i),
     ge_routingTable = None\<rparr>"

definition gateway_with :: "(string, FileMetadata) gomap \<Rightarrow> (peer_id, PeerInfo) gomap \<Rightarrow> GatewayNode" where
  "gateway_with files peers = NewGatewayNode example_env 8080 4001
     (example_node\<lparr>nd_fileManager := (nd_fileManager example_node)\<lparr>fm_fileIndex := files\<rparr>,
        nd_view := NewNetworkView\<lparr>nv_peers := peers\<rparr>\<rparr>)"

definition abc_file :: FileMetadata where
  "abc_file = new_metadata ''abc'' ''f'' [] 0 0 [] 0 0"

lemma gateway_with_index: "gw_index (gateway_with files peers) = files"
  by (simp add: gw_index_def gateway_with_def NewGatewayNode_def)

lemma gateway_with_view:
  "nv_peers (nd_view (gw_node (gateway_with files peers))) = peers"
  "nv_reputation (nd_view (gw_node (gateway_with files peers))) = []"
  by (simp_all add: gateway_with_def NewGatewayNode_def NewNetworkView_def)

lemma gateway_abc: "gw_ok (gateway_with [(''abc'', abc_file)] [])" "file_name ''abc''" "''abc'' \<noteq> ''upload''"
  by (simp_all add: gw_ok_def gateway_with_index gm_wf_def abc_file_def new_metadata_def file_name_def)

theorem deleted_file_not_found_witness:
  "\<exists>response gn1 response1.
     api_serve (gateway_methods example_env) (\<lambda>i. i) 0 \<lparr>rq_Method = ''DELETE'', rq_Path = ''/files/'' @ ''abc'', rq_form = None\<rparr>
       (gateway_with [(''abc'', abc_file)] []) = Ret (response, gn1) \<and> rp_Code response = 200 \<and>
     api_serve (gateway_methods example_env) (\<lambda>i. i) 0 \<lparr>rq_Method = ''GET'', rq_Path = ''/files/'' @ ''abc'', rq_form = None\<rparr> gn1 =
       Ret (response1, gn1) \<and> rp_Code response1 = 404"
proof -
  let ?gn = "gateway_with [(''abc'', abc_file)] []"
  have "\<exists>g1. deleteFileHandler (gateway_methods example_env) ''abc'' ?gn = Ret (respondWithJSON 200 (DeletedBody ''abc''), g1)"
    by (simp add: deleteFileHandler_def gateway_methods_def gw_DeleteFile_def so_DeleteFileDistributed_def fm_DeleteFile_def
        gateway_with_def NewGatewayNode_def count_request_def nd_files_def example_node_def abc_file_def new_metadata_def
        delete_shards_def fm_saveMetadata_def write_gob_def)
  then obtain r g1 where d: "api_serve (gateway_methods example_env) (\<lambda>i. i) 0
      \<lparr>rq_Method = ''DELETE'', rq_Path = ''/files/'' @ ''abc'', rq_form = None\<rparr> ?gn = Ret (r, g1)" "rp_Code r = 200"
    unfolding delete_request [OF gateway_abc(2,3), unfolded append_Cons append_Nil] append_Cons append_Nil
    by (auto simp: respondWithJSON_def)
  from deleted_file_not_found [OF gateway_abc this, of 0] d show ?thesis by blast
qed

theorem files_stay_listed_witness:
  "\<exists>response view. api_serve (gateway_methods example_env) (\<lambda>i. i) 0
      \<lparr>rq_Method = ''GET'', rq_Path = ''/files/'' @ ''abc'', rq_form = None\<rparr> (gateway_with [(''abc'', abc_file)] []) =
      Ret (response, gateway_with [(''abc'', abc_file)] []) \<and> rp_Code response = 200 \<and>
      rp_Body response = FileBody view \<and> fv_hash view = ''abc''"
proof -
  let ?gn = "gateway_with [(''abc'', abc_file)] []"
  let ?r = "\<lparr>rq_Method = ''DELETE'', rq_Path = ''/info'', rq_form = None\<rparr>"
  have "clean_url ''/info'' = ''/info''" by code_simp
  then obtain response where "api_serve (gateway_methods example_env) (\<lambda>i. i) 0 ?r ?gn = Ret (response, ?gn)"
    by (simp add: api_serve_def corsMiddleware_def mux_def route_def infoHandler_def get_guard_def)
  then have run: "api_run (gateway_methods example_env) (\<lambda>i. i) ?gn ([] @ [?r]) ?gn"
    by (rule api_run.answer [OF api_run.start])
  have l: "''abc'' \<in> set (map md_FileHash (gw_GetFileList ?gn))"
    unfolding gw_ok_listing [OF gateway_abc(1)] by (simp add: gateway_with_index)
  have "requested_file ?r \<noteq> ''abc''" by code_simp
  then have "\<forall>r \<in> set ([] @ [?r]). \<not> deletes ''abc'' r" by (simp add: deletes_def)
  from files_stay_listed [OF gateway_abc(1) l gateway_abc(2,3) run this] show ?thesis by blast
qed

theorem failed_upload_reports_success_witness:
  "\<exists>response gn' body. api_serve (gateway_methods example_env) (\<lambda>i. i) 0
      \<lparr>rq_Method = ''POST'', rq_Path = ''/files/upload'',
        rq_form = Some \<lparr>uf_file = Some (''f'', Inr [1, 2]), uf_total_shards = ''3'', uf_required_shards = ''x''\<rparr>\<rparr>
      (gateway_with [] []) = Ret (response, gn') \<and> rp_Code response = 201 \<and> rp_Body response = UploadBody body \<and> up_Hash body = ''''"
proof -
  let ?nd = "gw_node (gateway_with [] [])"
  have "so_selectStoragePeers 3 ?nd = Ret []"
    by (simp add: so_selectStoragePeers_def rs_GetBestPeers_def gateway_with_view)
  then have st: "so_StoreFileDistributed (ge_codec example_env) (ge_rpc example_env) (ge_clock example_env) ''f'' [1, 2] 3 2 ?nd =
      Ret (Inl (NotEnoughPeers 3 0), ?nd)" by (simp add: so_StoreFileDistributed_def)
  have n: "default_shards (Atoi_value ''3'') 3 = 3" "default_shards (Atoi_value ''x'') 2 = 2" by code_simp+
  show ?thesis
    using failed_upload_reports_success [OF st, of "\<lparr>rq_Method = ''POST'', rq_Path = ''/files/upload'',
        rq_form = Some \<lparr>uf_file = Some (''f'', Inr [1, 2]), uf_total_shards = ''3'', uf_required_shards = ''x''\<rparr>\<rparr>"
        "\<lparr>uf_file = Some (''f'', Inr [1, 2]), uf_total_shards = ''3'', uf_required_shards = ''x''\<rparr>" "\<lambda>i. i" 0] n
    by auto
qed

text \<open>One peer that reports a capacity of 2 to the 64 minus 10 GB.\<close>

definition boaster :: FarmerInfo where
  "boaster = gateway_info\<lparr>fi_StorageCapacity := - (10 * 1024 * 1024 * 1024)\<rparr>"

theorem nodes_stats_silenced_iff_witness:
  "\<exists>response. api_serve (gateway_methods example_env) (\<lambda>i. i) 0 \<lparr>rq_Method = ''GET'', rq_Path = ''/nodes/stats'', rq_form = None\<rparr>
      (gateway_with [] [(''p'', new_peer 0 (Some boaster))]) =
      Ret (response, gateway_with [] [(''p'', new_peer 0 (Some boaster))]) \<and> rp_Code response = 200 \<and> rp_Body response = NoBody"
proof -
  let ?gn = "gateway_with [] [(''p'', new_peer 0 (Some boaster))]"
  have "is_fin (ns_avg_reputation (gw_GetNetworkStats example_env ?gn))"
    by (simp add: gw_GetNetworkStats_def dn_GetNetworkStats_def gateway_with_view)
  moreover have "active_capacity example_env ?gn = 0"
    by (simp add: active_capacity_def gw_GetNodeList_def nv_GetPeers_def gateway_with_view self_node_info_def
        peer_node_info_def)
      (simp add: boaster_def gateway_info_def new_peer_def)
  ultimately show ?thesis using nodes_stats_silenced_iff by blast
qed

end
