(* ===== verification/Api_Types.thy ===== *)
theory Api_Types
  imports Api_Server_Correct
begin

text \<open>
  The type of the HTTP API: which status code and which kind of body a request can be answered with.
  \<open>typed_response\<close> is the interface a client of the gateway programs against; the theorem is that
  every answer of the server belongs to it, whatever the gateway behind it does.
\<close>

definition below_files :: "string \<Rightarrow> bool" where
  "below_files path \<longleftrightarrow> take 7 path = ''/files/'' \<and> path \<noteq> ''/files/upload''"

text \<open>The paths whose body may be left out because it holds a number JSON does not have.\<close>

definition may_be_silent :: "string \<Rightarrow> bool" where
  "may_be_silent path \<longleftrightarrow> path \<in> {''/nodes'', ''/nodes/stats'', ''/network/stats'', ''/storage/stats''}"

fun typed_body :: "string \<Rightarrow> string \<Rightarrow> int \<Rightarrow> api_body \<Rightarrow> bool" where
  "typed_body m p code NoBody \<longleftrightarrow>
     (code = 200 \<and> (m = ''OPTIONS'' \<or> m = ''GET'' \<and> may_be_silent p)) \<or> (code = 301 \<and> m \<noteq> ''CONNECT'' \<and> clean_url p \<noteq> p)"
| "typed_body m p code (HealthBody b) \<longleftrightarrow> code = 200 \<and> m = ''GET'' \<and> p = ''/health''"
| "typed_body m p code (InfoBody b) \<longleftrightarrow> code = 200 \<and> m = ''GET'' \<and> p = ''/info''"
| "typed_body m p code (NodesBody nodes n peers files dht) \<longleftrightarrow>
     code = 200 \<and> m = ''GET'' \<and> p = ''/nodes'' \<and> n = int (length nodes)"
| "typed_body m p code (NodesStatsBody b) \<longleftrightarrow> code = 200 \<and> m = ''GET'' \<and> p = ''/nodes/stats''"
| "typed_body m p code (FilesBody files n bytes_held) \<longleftrightarrow>
     code = 200 \<and> m = ''GET'' \<and> p = ''/files'' \<and> n = int (length files)"
| "typed_body m p code (UploadBody b) \<longleftrightarrow> code = 201 \<and> m = ''POST'' \<and> p = ''/files/upload'' \<and> up_Status b = ''uploaded''"
| "typed_body m p code (FileBody b) \<longleftrightarrow> code = 200 \<and> m = ''GET'' \<and> below_files p"
| "typed_body m p code (DataBody b) \<longleftrightarrow> code = 200 \<and> m = ''GET'' \<and> below_files p"
| "typed_body m p code (DeletedBody h) \<longleftrightarrow> code = 200 \<and> m = ''DELETE'' \<and> below_files p"
| "typed_body m p code (NetworkBody net storage info t) \<longleftrightarrow> code = 200 \<and> m = ''GET'' \<and> p = ''/network/stats''"
| "typed_body m p code (NetworkHealthBody status peers files dht t) \<longleftrightarrow>
     code = 200 \<and> m = ''GET'' \<and> p = ''/network/health'' \<and> status \<in> {''disconnected'', ''degraded'', ''healthy''}"
| "typed_body m p code (StorageBody b) \<longleftrightarrow> code = 200 \<and> m = ''GET'' \<and> p = ''/storage/stats''"
| "typed_body m p code (SystemBody b) \<longleftrightarrow> code = 200 \<and> m = ''GET'' \<and> p = ''/system/status''"
| "typed_body m p code (ErrorBody e) \<longleftrightarrow>
     code = er_Code e \<and> (code = 405 \<or> p = ''/files/upload'' \<and> m = ''POST'' \<and> code \<in> {400, 500} \<or>
       below_files p \<and> (m = ''GET'' \<and> code \<in> {404, 500} \<or> m = ''DELETE'' \<and> code = 500))"
| "typed_body m p code (PageBody s) \<longleftrightarrow> code = 404 \<and> s = ''404 page not found''"

definition typed_response :: "http_request \<Rightarrow> http_response \<Rightarrow> bool" where
  "typed_response r response \<longleftrightarrow> typed_body (rq_Method r) (rq_Path r) (rp_Code response) (rp_Body response)"

named_theorems handler_types

lemma respond_typed:
  "typed_response r (respondWithJSON code b) \<longleftrightarrow> typed_body (rq_Method r) (rq_Path r) code (if json_ok b then b else NoBody)"
  by (simp add: typed_response_def respondWithJSON_def)

lemma error_typed:
  "typed_response r (respondWithError code t msg) \<longleftrightarrow>
     code = 405 \<or> rq_Path r = ''/files/upload'' \<and> rq_Method r = ''POST'' \<and> code \<in> {400, 500} \<or>
       below_files (rq_Path r) \<and> (rq_Method r = ''GET'' \<and> code \<in> {404, 500} \<or> rq_Method r = ''DELETE'' \<and> code = 500)"
  by (simp add: respondWithError_def respond_typed)

lemma guard_typed:
  assumes "get_guard body r g = Ret (response, g')" and "rq_Method r \<noteq> ''OPTIONS''"
    and "rq_Method r = ''GET'' \<Longrightarrow> typed_response r (body r g)"
  shows "typed_response r response"
  using assms by (auto simp: get_guard_def method_not_allowed_def error_typed split: if_splits)

lemma plain_handlers_typed [handler_types]:
  assumes "rq_Method r \<noteq> ''OPTIONS''"
  shows "healthHandler gf now r g = Ret (response, g') \<Longrightarrow> rq_Path r = ''/health'' \<Longrightarrow> typed_response r response"
    and "infoHandler gf r g = Ret (response, g') \<Longrightarrow> rq_Path r = ''/info'' \<Longrightarrow> typed_response r response"
    and "nodesHandler gf r g = Ret (response, g') \<Longrightarrow> rq_Path r = ''/nodes'' \<Longrightarrow> typed_response r response"
    and "nodesStatsHandler gf now r g = Ret (response, g') \<Longrightarrow> rq_Path r = ''/nodes/stats'' \<Longrightarrow> typed_response r response"
    and "filesHandler gf pid r g = Ret (response, g') \<Longrightarrow> rq_Path r = ''/files'' \<Longrightarrow> typed_response r response"
    and "networkStatsHandler gf now r g = Ret (response, g') \<Longrightarrow> rq_Path r = ''/network/stats'' \<Longrightarrow> typed_response r response"
    and "networkHealthHandler gf now r g = Ret (response, g') \<Longrightarrow> rq_Path r = ''/network/health'' \<Longrightarrow> typed_response r response"
    and "storageStatsHandler gf r g = Ret (response, g') \<Longrightarrow> rq_Path r = ''/storage/stats'' \<Longrightarrow> typed_response r response"
    and "systemStatusHandler gf r g = Ret (response, g') \<Longrightarrow> rq_Path r = ''/system/status'' \<Longrightarrow> typed_response r response"
  using assms unfolding get_handlers
  by (auto elim!: guard_typed simp: respond_typed may_be_silent_def Let_def split: prod.splits)

lemma upload_typed [handler_types]:
  assumes "uploadHandler gf r g = Ret (response, g')" and "rq_Method r \<noteq> ''OPTIONS''" and "rq_Path r = ''/files/upload''"
  shows "typed_response r response"
proof -
  have stored: "typed_response r response"
    if "go_bind (gf_StoreFile gf f b n k g) (\<lambda>(res, g1). case res of
          Inl err \<Rightarrow> Ret (respondWithError 500 ''Storage failed'' ''Failed to store file in the network'', g1)
        | Inr fileHash \<Rightarrow> Ret (respondWithJSON 201 (UploadBody
            \<lparr>up_Hash = fileHash, up_Status = ''uploaded'', up_FileSize = int (length b), up_Shards = n,
             up_Message = upload_message n k\<rparr>), g1)) = Ret (response, g')"
      and "rq_Method r = ''POST''" for f b n k
  proof (cases "gf_StoreFile gf f b n k g")
    case (Ret p)
    obtain res g1 where "p = (res, g1)" by (cases p)
    with Ret that assms(3) show ?thesis by (cases res) (auto simp: error_typed respond_typed)
  qed (use that in simp)
  show ?thesis
    using assms stored
    by (auto simp: uploadHandler_def method_not_allowed_def error_typed Let_def split: if_splits option.splits prod.splits sum.splits)
qed

lemma file_typed [handler_types]:
  assumes "fileHandler gf pid r g = Ret (response, g')" and "rq_Method r \<noteq> ''OPTIONS''" and "below_files (rq_Path r)"
  shows "typed_response r response"
proof -
  have down: "downloadFileHandler gf h g = Ret (response, g') \<Longrightarrow> rq_Method r = ''GET'' \<Longrightarrow> typed_response r response" for h
  proof (cases "gf_RetrieveFile gf h g")
    case (Ret p)
    obtain res g1 where p: "p = (res, g1)" by (cases p)
    assume "downloadFileHandler gf h g = Ret (response, g')" and "rq_Method r = ''GET''"
    with Ret p assms(3) show ?thesis
      by (cases res) (auto simp: downloadFileHandler_def error_typed Let_def, simp add: typed_response_def)
  qed (simp add: downloadFileHandler_def)
  have get: "getFileHandler gf pid h g = Ret (response, g') \<Longrightarrow> rq_Method r = ''GET'' \<Longrightarrow> typed_response r response" for h
    using assms(3) by (auto simp: getFileHandler_def error_typed respond_typed split: sum.splits)
  have del: "deleteFileHandler gf h g = Ret (response, g') \<Longrightarrow> rq_Method r = ''DELETE'' \<Longrightarrow> typed_response r response" for h
    using assms(3) by (auto simp: deleteFileHandler_def error_typed respond_typed split: sum.splits prod.splits)
  show ?thesis
    using assms(1,2) down get del
    by (auto simp: fileHandler_def Let_def method_not_allowed_def error_typed split: if_splits)
qed


lemma mux_typed:
  assumes "mux gf pid now r g = Ret (response, g')" and "rq_Method r \<noteq> ''OPTIONS''"
  shows "typed_response r response"
proof (cases "rq_Method r \<noteq> ''CONNECT'' \<and> clean_url (rq_Path r) \<noteq> rq_Path r")
  case True
  with assms show ?thesis by (auto simp: mux_def typed_response_def)
next
  case False
  show ?thesis
  proof (cases "route gf pid now (rq_Path r)")
    case None
    with False assms(1) show ?thesis by (auto simp: mux_def typed_response_def)
  next
    case (Some h)
    with False assms(1) have h: "h r g = Ret (response, g')" by (auto simp: mux_def)
    show ?thesis
      using Some h assms(2) by (auto simp: route_def below_files_def split: if_splits intro: handler_types)
  qed
qed



end
