(* ===== verification/Storage_Circuit.thy ===== *)
theory Storage_Circuit
  imports Key_Management
begin

text \<open>
  The zero-knowledge circuit of a storage proof and its prover (\<open>internal/zksnark/circuit.go\<close>).
  What the code takes from gnark is the record \<open>gnark\<close>: the scalar field of BN254, the MiMC hash
  of the circuit library (on field elements) and of gnark-crypto (on the byte slices written to
  it, one after the other), the compiler of circuits, and Groth16 with its serialisers. \<open>'cs\<close> is
  a constraint system, \<open>'pk\<close> and \<open>'vk\<close> are the proving and the verifying key, \<open>'pf\<close> is a proof.
\<close>

text \<open>The circuit's variables. Only the first two carry the tag \<open>public\<close>.\<close>

record StorageProofCircuit =
  sc_FileHash :: int
  sc_Challenge :: int
  sc_StoredData :: int
  sc_SecretSalt :: int
  sc_Response :: int

type_synonym public_witness = "int \<times> int"

record ('cs, 'pk, 'vk, 'pf) gnark =
  gk_modulus :: int
  gk_circuit_mimc :: "int list \<Rightarrow> int"
  gk_MIMC_BN254 :: "bytes list \<Rightarrow> bytes"
  gk_Compile :: "(StorageProofCircuit \<Rightarrow> bool) \<Rightarrow> string + 'cs"
  gk_Setup :: "'cs \<Rightarrow> nat \<Rightarrow> string + 'pk \<times> 'vk"
  gk_Prove :: "'cs \<Rightarrow> 'pk \<Rightarrow> StorageProofCircuit \<Rightarrow> string + 'pf"
  gk_Verify :: "'pf \<Rightarrow> 'vk \<Rightarrow> public_witness \<Rightarrow> string + unit"
  gk_write_proof :: "'pf \<Rightarrow> string + bytes"
  gk_read_proof :: "bytes \<Rightarrow> string + 'pf"
  gk_write_public :: "public_witness \<Rightarrow> string + bytes"
  gk_read_public :: "bytes \<Rightarrow> string + public_witness"
  gk_write_vk :: "'vk \<Rightarrow> string + bytes"
  gk_read_vk :: "bytes \<Rightarrow> string + 'vk"

section \<open>The circuit\<close>

text \<open>\<open>Define\<close>: the assignments that satisfy both assertions.\<close>

definition circuit_Define :: "(int list \<Rightarrow> int) \<Rightarrow> StorageProofCircuit \<Rightarrow> bool" where
  "circuit_Define mimc circuit \<longleftrightarrow>
     (let computedFileHash = mimc [sc_StoredData circuit, sc_SecretSalt circuit];
          computedResponse = mimc [sc_Challenge circuit, sc_StoredData circuit, sc_SecretSalt circuit]
      in computedFileHash = sc_FileHash circuit \<and> computedResponse = sc_Response circuit)"

section \<open>Big integers and bytes\<close>

text \<open>\<open>SetBytes\<close> and \<open>Bytes\<close> of \<open>big.Int\<close>: big-endian, without leading zeros.\<close>

definition big_SetBytes :: "bytes \<Rightarrow> int" where
  "big_SetBytes b = foldl (\<lambda>n w. n * 256 + uint w) 0 b"

fun nat_bytes :: "nat \<Rightarrow> bytes" where
  "nat_bytes n = (if n = 0 then [] else nat_bytes (n div 256) @ [word_of_nat (n mod 256)])"

declare nat_bytes.simps [simp del]

definition big_Bytes :: "int \<Rightarrow> bytes" where
  "big_Bytes i = nat_bytes (nat \<bar>i\<bar>)"

lemma big_SetBytes_snoc [simp]: "big_SetBytes (b @ [w]) = big_SetBytes b * 256 + uint w"
  by (simp add: big_SetBytes_def)

lemma big_SetBytes_nonneg: "0 \<le> big_SetBytes b"
  by (induction b rule: rev_induct) (simp_all add: big_SetBytes_def)

lemma big_SetBytes_nat_bytes: "big_SetBytes (nat_bytes n) = int n"
proof (induction n rule: nat_bytes.induct)
  case (1 n)
  show ?case
  proof (cases "n = 0")
    case True
    then show ?thesis by (simp add: nat_bytes.simps big_SetBytes_def)
  next
    case False
    have "uint (word_of_nat (n mod 256) :: 8 word) = int (n mod 256)"
      by (simp add: uint_nat unat_of_nat)
    with False 1 show ?thesis by (subst nat_bytes.simps) (simp add: zmod_int zdiv_int)
  qed
qed

lemma big_SetBytes_Bytes: "0 \<le> i \<Longrightarrow> big_SetBytes (big_Bytes i) = i"
  by (simp add: big_Bytes_def big_SetBytes_nat_bytes)

section \<open>The prover\<close>

record ('cs, 'pk, 'vk) CircuitSetup =
  cs_ProvingKey :: 'pk
  cs_VerifyingKey :: 'vk
  cs_R1CS :: 'cs

datatype circuit_error =
    CompileFailed string
  | SetupFailed string
  | ProveFailed string
  | SerializeProofFailed string
  | SerializeWitnessFailed string
  | DeserializeProofFailed string
  | DeserializeWitnessFailed string
  | ProofRejected string
  | SerializeKeyFailed string
  | DeserializeKeyFailed string

text \<open>\<open>toxic\<close> is the randomness of the trusted setup.\<close>

definition NewStorageProofProver ::
  "('cs, 'pk, 'vk, 'pf) gnark \<Rightarrow> nat \<Rightarrow> circuit_error + ('cs, 'pk, 'vk) CircuitSetup" where
  "NewStorageProofProver gk toxic =
     (case gk_Compile gk (circuit_Define (gk_circuit_mimc gk)) of
        Inl err \<Rightarrow> Inl (CompileFailed err)
      | Inr r1cs \<Rightarrow>
          (case gk_Setup gk r1cs toxic of
             Inl err \<Rightarrow> Inl (SetupFailed err)
           | Inr (pk, vk) \<Rightarrow> Inr \<lparr>cs_ProvingKey = pk, cs_VerifyingKey = vk, cs_R1CS = r1cs\<rparr>))"

definition sp_ComputeResponse :: "('cs, 'pk, 'vk, 'pf) gnark \<Rightarrow> bytes \<Rightarrow> bytes \<Rightarrow> bytes \<Rightarrow> int" where
  "sp_ComputeResponse gk challenge storedData secretSalt =
     big_SetBytes (gk_MIMC_BN254 gk [challenge, storedData, secretSalt])"

text \<open>\<open>frontend.NewWitness\<close> takes the assigned integers into the field; from a \<open>big.Int\<close> it cannot fail.\<close>

definition new_witness :: "int \<Rightarrow> StorageProofCircuit \<Rightarrow> StorageProofCircuit" where
  "new_witness p assignment =
     \<lparr>sc_FileHash = sc_FileHash assignment mod p, sc_Challenge = sc_Challenge assignment mod p,
      sc_StoredData = sc_StoredData assignment mod p, sc_SecretSalt = sc_SecretSalt assignment mod p,
      sc_Response = sc_Response assignment mod p\<rparr>"

definition public_part :: "StorageProofCircuit \<Rightarrow> public_witness" where
  "public_part w = (sc_FileHash w, sc_Challenge w)"

definition sp_witness ::
  "('cs, 'pk, 'vk, 'pf) gnark \<Rightarrow> bytes \<Rightarrow> bytes \<Rightarrow> bytes \<Rightarrow> bytes \<Rightarrow> StorageProofCircuit" where
  "sp_witness gk fileHash challenge storedData secretSalt =
     new_witness (gk_modulus gk)
       \<lparr>sc_FileHash = big_SetBytes fileHash, sc_Challenge = big_SetBytes challenge,
        sc_StoredData = big_SetBytes storedData, sc_SecretSalt = big_SetBytes secretSalt,
        sc_Response = sp_ComputeResponse gk challenge storedData secretSalt\<rparr>"

definition sp_GenerateProof ::
  "('cs, 'pk, 'vk, 'pf) gnark \<Rightarrow> bytes \<Rightarrow> bytes \<Rightarrow> bytes \<Rightarrow> bytes \<Rightarrow> ('cs, 'pk, 'vk) CircuitSetup \<Rightarrow>
   circuit_error + bytes \<times> bytes" where
  "sp_GenerateProof gk fileHash challenge storedData secretSalt keys =
     (let witness = sp_witness gk fileHash challenge storedData secretSalt
      in case gk_Prove gk (cs_R1CS keys) (cs_ProvingKey keys) witness of
           Inl err \<Rightarrow> Inl (ProveFailed err)
         | Inr proof \<Rightarrow>
             (case gk_write_proof gk proof of
                Inl err \<Rightarrow> Inl (SerializeProofFailed err)
              | Inr proofBuf \<Rightarrow>
                  (case gk_write_public gk (public_part witness) of
                     Inl err \<Rightarrow> Inl (SerializeWitnessFailed err)
                   | Inr publicBuf \<Rightarrow> Inr (proofBuf, publicBuf))))"

definition sp_VerifyProof ::
  "('cs, 'pk, 'vk, 'pf) gnark \<Rightarrow> bytes \<Rightarrow> bytes \<Rightarrow> ('cs, 'pk, 'vk) CircuitSetup \<Rightarrow> circuit_error + unit" where
  "sp_VerifyProof gk proofBytes publicWitnessBytes keys =
     (case gk_read_proof gk proofBytes of
        Inl err \<Rightarrow> Inl (DeserializeProofFailed err)
      | Inr proof \<Rightarrow>
          (case gk_read_public gk publicWitnessBytes of
             Inl err \<Rightarrow> Inl (DeserializeWitnessFailed err)
           | Inr publicWitness \<Rightarrow>
               (case gk_Verify gk proof (cs_VerifyingKey keys) publicWitness of
                  Inl err \<Rightarrow> Inl (ProofRejected err)
                | Inr _ \<Rightarrow> Inr ())))"

definition sp_GetVerifyingKey ::
  "('cs, 'pk, 'vk, 'pf) gnark \<Rightarrow> ('cs, 'pk, 'vk) CircuitSetup \<Rightarrow> circuit_error + bytes" where
  "sp_GetVerifyingKey gk keys =
     (case gk_write_vk gk (cs_VerifyingKey keys) of Inl err \<Rightarrow> Inl (SerializeKeyFailed err) | Inr buf \<Rightarrow> Inr buf)"

definition sp_LoadVerifyingKey ::
  "('cs, 'pk, 'vk, 'pf) gnark \<Rightarrow> bytes \<Rightarrow> ('cs, 'pk, 'vk) CircuitSetup \<Rightarrow>
   (circuit_error + unit) \<times> ('cs, 'pk, 'vk) CircuitSetup" where
  "sp_LoadVerifyingKey gk vkBytes keys =
     (case gk_read_vk gk vkBytes of
        Inl err \<Rightarrow> (Inl (DeserializeKeyFailed err), keys)
      | Inr vk \<Rightarrow> (Inr (), keys\<lparr>cs_VerifyingKey := vk\<rparr>))"

section \<open>What gnark documents\<close>

text \<open>
  Groth16 proves only a witness that solves the constraint system; with the keys of one setup a
  proof verifies against the public part of its witness; and the serialisers write at least one
  byte and read back what they wrote.
\<close>

definition gk_sound :: "('cs, 'pk, 'vk, 'pf) gnark \<Rightarrow> bool" where
  "gk_sound gk \<longleftrightarrow>
     (\<forall>c cs pk w pf. gk_Compile gk c = Inr cs \<longrightarrow> gk_Prove gk cs pk w = Inr pf \<longrightarrow> c w)"

definition gk_complete :: "('cs, 'pk, 'vk, 'pf) gnark \<Rightarrow> bool" where
  "gk_complete gk \<longleftrightarrow>
     (\<forall>cs toxic pk vk w pf. gk_Setup gk cs toxic = Inr (pk, vk) \<longrightarrow> gk_Prove gk cs pk w = Inr pf \<longrightarrow>
        gk_Verify gk pf vk (public_part w) = Inr ())"

definition gk_codec :: "('cs, 'pk, 'vk, 'pf) gnark \<Rightarrow> bool" where
  "gk_codec gk \<longleftrightarrow>
     (\<forall>pf b. gk_write_proof gk pf = Inr b \<longrightarrow> b \<noteq> [] \<and> gk_read_proof gk b = Inr pf) \<and>
     (\<forall>w b. gk_write_public gk w = Inr b \<longrightarrow> b \<noteq> [] \<and> gk_read_public gk b = Inr w) \<and>
     (\<forall>vk b. gk_write_vk gk vk = Inr b \<longrightarrow> gk_read_vk gk b = Inr vk)"

lemma gk_codecD:
  assumes "gk_codec gk"
  shows "gk_write_proof gk pf = Inr b \<Longrightarrow> b \<noteq> [] \<and> gk_read_proof gk b = Inr pf"
    and "gk_write_public gk w = Inr b \<Longrightarrow> b \<noteq> [] \<and> gk_read_public gk b = Inr w"
    and "gk_write_vk gk vk = Inr b \<Longrightarrow> gk_read_vk gk b = Inr vk"
  using assms unfolding gk_codec_def by blast+

section \<open>Proofs\<close>

text \<open>A proof the prover makes is one its own verifying key accepts.\<close>

lemma generated_verifies:
  assumes "gk_complete gk" and "gk_codec gk" and "NewStorageProofProver gk toxic = Inr keys"
    and "sp_GenerateProof gk fileHash challenge storedData secretSalt keys = Inr (proofData, publicWitness)"
  shows "sp_VerifyProof gk proofData publicWitness keys = Inr ()" and "proofData \<noteq> []" and "publicWitness \<noteq> []"
proof -
  let ?w = "sp_witness gk fileHash challenge storedData secretSalt"
  obtain cs pk vk where s: "gk_Setup gk cs toxic = Inr (pk, vk)"
    and keys: "keys = \<lparr>cs_ProvingKey = pk, cs_VerifyingKey = vk, cs_R1CS = cs\<rparr>"
    using assms(3) by (auto simp: NewStorageProofProver_def split: sum.splits prod.splits)
  obtain pf where p: "gk_Prove gk cs pk ?w = Inr pf" "gk_write_proof gk pf = Inr proofData"
    "gk_write_public gk (public_part ?w) = Inr publicWitness"
    using assms(4) by (auto simp: sp_GenerateProof_def Let_def keys split: sum.splits)
  have "gk_Verify gk pf vk (public_part ?w) = Inr ()"
    using assms(1) s p(1) unfolding gk_complete_def by blast
  with gk_codecD(1,2) [OF assms(2)] p(2,3) show "sp_VerifyProof gk proofData publicWitness keys = Inr ()" and "proofData \<noteq> []" and "publicWitness \<noteq> []"
    by (simp_all add: sp_VerifyProof_def keys)
qed

text \<open>
  The public input \<open>FileHash\<close> is the number whose digits are the characters of the file hash,
  a SHA-256 in hexadecimal; the circuit wants it to be the MiMC hash of the data and the salt.
\<close>

lemma generated_needs_collision:
  assumes "gk_sound gk" and "NewStorageProofProver gk toxic = Inr keys"
    and "sp_GenerateProof gk fileHash challenge storedData secretSalt keys = Inr r"
  shows "gk_circuit_mimc gk [big_SetBytes storedData mod gk_modulus gk, big_SetBytes secretSalt mod gk_modulus gk] =
      big_SetBytes fileHash mod gk_modulus gk"
    and "gk_circuit_mimc gk [big_SetBytes challenge mod gk_modulus gk, big_SetBytes storedData mod gk_modulus gk,
        big_SetBytes secretSalt mod gk_modulus gk] =
      big_SetBytes (gk_MIMC_BN254 gk [challenge, storedData, secretSalt]) mod gk_modulus gk"
proof -
  let ?w = "sp_witness gk fileHash challenge storedData secretSalt"
  let ?c = "circuit_Define (gk_circuit_mimc gk)"
  obtain cs where c: "gk_Compile gk ?c = Inr cs" "cs_R1CS keys = cs"
    using assms(2) by (auto simp: NewStorageProofProver_def split: sum.splits prod.splits)
  obtain pf where "gk_Prove gk cs (cs_ProvingKey keys) ?w = Inr pf"
    using assms(3) by (auto simp: sp_GenerateProof_def Let_def c(2) split: sum.splits)
  with assms(1) c(1) have "?c ?w" unfolding gk_sound_def by blast
  then show "gk_circuit_mimc gk [big_SetBytes storedData mod gk_modulus gk, big_SetBytes secretSalt mod gk_modulus gk] =
      big_SetBytes fileHash mod gk_modulus gk"
    and "gk_circuit_mimc gk [big_SetBytes challenge mod gk_modulus gk, big_SetBytes storedData mod gk_modulus gk,
        big_SetBytes secretSalt mod gk_modulus gk] =
      big_SetBytes (gk_MIMC_BN254 gk [challenge, storedData, secretSalt]) mod gk_modulus gk"
    by (simp_all add: circuit_Define_def sp_witness_def new_witness_def sp_ComputeResponse_def Let_def)
qed

section \<open>An instance of the laws\<close>

text \<open>
  The field of 251 elements, hash functions that map everything to \<open>c\<close>, constraint systems as
  predicates, and proofs that hold the number of their setup and their public inputs.
\<close>

fun byte_public :: "bytes \<Rightarrow> string + public_witness" where
  "byte_public [a, b] = Inr (uint a, uint b)"
| "byte_public _ = Inl ''short''"

definition byte_gnark :: "int \<Rightarrow> (StorageProofCircuit \<Rightarrow> bool, nat, nat, nat \<times> public_witness) gnark" where
  "byte_gnark c =
     \<lparr>gk_modulus = 251, gk_circuit_mimc = (\<lambda>xs. c), gk_MIMC_BN254 = (\<lambda>ws. big_Bytes c),
      gk_Compile = Inr, gk_Setup = (\<lambda>cs toxic. Inr (toxic, toxic)),
      gk_Prove = (\<lambda>cs pk w. if cs w then Inr (pk, public_part w) else Inl ''unsatisfied''),
      gk_Verify = (\<lambda>pf vk w. if pf = (vk, w) then Inr () else Inl ''pairing''),
      gk_write_proof = (\<lambda>(k, a, b). if k < 256 \<and> 0 \<le> a \<and> a < 256 \<and> 0 \<le> b \<and> b < 256
         then Inr [word_of_nat k, word_of_int a, word_of_int b] else Inl ''range''),
      gk_read_proof = (\<lambda>b. case b of [] \<Rightarrow> Inl ''short'' | k # w \<Rightarrow> map_sum (\<lambda>e. e) (Pair (unat k)) (byte_public w)),
      gk_write_public = (\<lambda>(a, b). if 0 \<le> a \<and> a < 256 \<and> 0 \<le> b \<and> b < 256
         then Inr [word_of_int a, word_of_int b] else Inl ''range''),
      gk_read_public = byte_public,
      gk_write_vk = (\<lambda>k. if k < 256 then Inr [word_of_nat k] else Inl ''range''),
      gk_read_vk = (\<lambda>b. case b of [k] \<Rightarrow> Inr (unat k) | _ \<Rightarrow> Inl ''short'')\<rparr>"

lemma byte_word: "0 \<le> a \<Longrightarrow> a < 256 \<Longrightarrow> uint (word_of_int a :: 8 word) = a"
  "k < 256 \<Longrightarrow> unat (word_of_nat k :: 8 word) = k"
  by (simp_all add: uint_word_of_int unat_of_nat)

lemma byte_gnark_laws: "gk_sound (byte_gnark c)" "gk_complete (byte_gnark c)" "gk_codec (byte_gnark c)"
  by (auto simp: gk_sound_def gk_complete_def gk_codec_def byte_gnark_def byte_word split: if_splits)

end
