(* ===== verification/Proof_Verification.thy ===== *)
theory Proof_Verification
  imports Storage_Circuit Validators
begin

text \<open>
  The proof verifier (\<open>internal/network/proof_verification.go\<close>): making a storage proof for a
  file of the node, submitting it to the committee, and checking the proofs of others. A proof
  verifier has a crypto manager and a prover of its own, both made fresh. The answer of another
  node to a proof request is the function \<open>rpc_proof\<close>: \<open>Inl\<close> when the stream cannot be opened,
  written or read or the answer does not decode. \<open>json.Marshal\<close> of the messages cannot fail.
\<close>

record ZkStorageProof =
  zp_FileHash :: string
  zp_ProofData :: bytes
  zp_PublicWitness :: bytes
  zp_Timestamp :: go_time
  zp_ProverID :: peer_id
  zp_Challenge :: bytes
  zp_Response :: bytes
  zp_Signature :: bytes

datatype proof_error =
    ProverInitFailed circuit_error
  | VerifierNotInitialized
  | FileNotLocal file_error
  | ReadDataFailed file_error
  | ChallengeFailed string
  | ZkProofFailed circuit_error
  | SigningFailed string
  | NoCommittee
  | NotSubmitted
  | ProofStreamFailed string
  | ResponseSignatureInvalid crypto_error

record VerificationResult =
  vr_Proof :: "ZkStorageProof option"
  vr_IsValid :: bool
  vr_VerifiedBy :: peer_id
  vr_Timestamp :: go_time
  vr_Error :: string

record ProofRequest =
  pq_Proof :: "ZkStorageProof option"
  pq_RequestID :: string
  pq_RequesterID :: peer_id
  pq_Timestamp :: go_time

record ProofResponse =
  pr_RequestID :: string
  pr_ProofHash :: string
  pr_IsValid :: bool
  pr_VerifiedBy :: peer_id
  pr_Timestamp :: go_time
  pr_Error :: string
  pr_Signature :: bytes

record ('k, 'p, 'cs, 'pk, 'vk) ProofVerifier =
  pv_cryptoMgr :: "('k, 'p) CryptoManager"
  pv_zkProver :: "('cs, 'pk, 'vk) CircuitSetup"
  pv_initialized :: bool

text \<open>The libraries the verifier calls, with the text forms of a peer ID and of an error.\<close>

record ('k, 'p, 'cs, 'pk, 'vk, 'pf) proof_libs =
  pl_crypto :: "('k, 'p) libp2p_crypto"
  pl_gnark :: "('cs, 'pk, 'vk, 'pf) gnark"
  pl_pid_String :: "peer_id \<Rightarrow> string"
  pl_Error :: "crypto_error \<Rightarrow> string"

text \<open>\<open>[]byte(s)\<close> of a string.\<close>

definition go_bytes :: "string \<Rightarrow> bytes" where
  "go_bytes s = map (\<lambda>c. word_of_nat (of_char c)) s"

definition NewProofVerifier ::
  "('k, 'p, 'cs, 'pk, 'vk, 'pf) proof_libs \<Rightarrow> nat \<Rightarrow> string + 'k \<Rightarrow>
   (proof_error + ('k, 'p, 'cs, 'pk, 'vk) ProofVerifier) go" where
  "NewProofVerifier pl toxic generated =
     (case NewStorageProofProver (pl_gnark pl) toxic of
        Inl err \<Rightarrow> Ret (Inl (ProverInitFailed err))
      | Inr zkProver \<Rightarrow>
          go_bind (NewCryptoManager (pl_crypto pl) generated) (\<lambda>cryptoMgr.
          Ret (Inr \<lparr>pv_cryptoMgr = cryptoMgr, pv_zkProver = zkProver, pv_initialized = True\<rparr>)))"

section \<open>Making a proof\<close>

definition pv_generateSecretSalt ::
  "('k, 'p, 'cs, 'pk, 'vk, 'pf) proof_libs \<Rightarrow> string \<Rightarrow> DNode \<Rightarrow> bytes" where
  "pv_generateSecretSalt pl fileHash nd =
     (let nodeID = pl_pid_String pl (nd_self nd);
          saltInput = go_bytes fileHash @ go_bytes nodeID
      in cm_Hash (pl_crypto pl) saltInput)"

text \<open>\<open>random\<close>: the answer of \<open>rand.Read\<close> for the challenge.\<close>

definition pv_GenerateStorageProof ::
  "reed_solomon \<Rightarrow> ('k, 'p, 'cs, 'pk, 'vk, 'pf) proof_libs \<Rightarrow> string + bytes \<Rightarrow> go_time \<Rightarrow> string \<Rightarrow>
   ('k, 'p, 'cs, 'pk, 'vk) ProofVerifier \<Rightarrow> DNode \<Rightarrow> (proof_error + ZkStorageProof) go" where
  "pv_GenerateStorageProof rs pl random now fileHash pv nd =
     (if \<not> pv_initialized pv then Ret (Inl VerifierNotInitialized)
      else case dn_GetFileMetadata fileHash (nd_fileManager nd) of
        Inl err \<Rightarrow> Ret (Inl (FileNotLocal err))
      | Inr _ \<Rightarrow>
          go_bind (fm_RetrieveFile rs fileHash (nd_files nd)) (\<lambda>r.
          case r of
            Inl err \<Rightarrow> Ret (Inl (ReadDataFailed err))
          | Inr fileData \<Rightarrow>
              (case random of
                 Inl err \<Rightarrow> Ret (Inl (ChallengeFailed err))
               | Inr challenge \<Rightarrow>
                   let secretSalt = pv_generateSecretSalt pl fileHash nd
                   in case sp_GenerateProof (pl_gnark pl) (go_bytes fileHash) challenge fileData secretSalt (pv_zkProver pv) of
                        Inl err \<Rightarrow> Ret (Inl (ZkProofFailed err))
                      | Inr (proofData, publicWitness) \<Rightarrow>
                          let response = sp_ComputeResponse (pl_gnark pl) challenge fileData secretSalt
                          in case cm_Sign (pl_crypto pl) proofData (pv_cryptoMgr pv) of
                               Inl err \<Rightarrow> Ret (Inl (SigningFailed err))
                             | Inr signature \<Rightarrow>
                                 Ret (Inr \<lparr>zp_FileHash = fileHash, zp_ProofData = proofData,
                                   zp_PublicWitness = publicWitness, zp_Timestamp = now,
                                   zp_ProverID = nd_self nd, zp_Challenge = challenge,
                                   zp_Response = big_Bytes response, zp_Signature = signature\<rparr>))))"

section \<open>Checking a proof\<close>

definition pv_verifyZKProof ::
  "('k, 'p, 'cs, 'pk, 'vk, 'pf) proof_libs \<Rightarrow> go_time \<Rightarrow> ZkStorageProof \<Rightarrow> ('k, 'p, 'cs, 'pk, 'vk) ProofVerifier \<Rightarrow> bool" where
  "pv_verifyZKProof pl now proof pv =
     (if zp_FileHash proof = '''' \<or> length (zp_ProofData proof) = 0 \<or> length (zp_PublicWitness proof) = 0 then False
      else if 24 * hour < time_Sub now (zp_Timestamp proof) then False
      else case sp_VerifyProof (pl_gnark pl) (zp_ProofData proof) (zp_PublicWitness proof) (pv_zkProver pv) of
        Inl err \<Rightarrow> False
      | Inr _ \<Rightarrow> True)"

definition failed_result :: "ZkStorageProof option \<Rightarrow> go_time \<Rightarrow> string \<Rightarrow> DNode \<Rightarrow> VerificationResult" where
  "failed_result proof now err nd =
     \<lparr>vr_Proof = proof, vr_IsValid = False, vr_VerifiedBy = nd_self nd, vr_Timestamp = now, vr_Error = err\<rparr>"

text \<open>The error result of \<open>VerifyStorageProof\<close> is always \<open>nil\<close>; a \<open>nil\<close> proof is dereferenced.\<close>

definition pv_VerifyStorageProof ::
  "('k, 'p, 'cs, 'pk, 'vk, 'pf) proof_libs \<Rightarrow> (nat \<Rightarrow> go_time) \<Rightarrow> ZkStorageProof option \<Rightarrow>
   ('k, 'p, 'cs, 'pk, 'vk) ProofVerifier \<Rightarrow> DNode \<Rightarrow> (VerificationResult \<times> DNode) go" where
  "pv_VerifyStorageProof pl clock proof pv nd =
     (if \<not> pv_initialized pv then Ret (failed_result proof (clock 0) ''proof verifier not initialized'' nd, nd)
      else case proof of
        None \<Rightarrow> Panic NilDereference
      | Some p \<Rightarrow>
          (case cm_Verify (pl_crypto pl) (zp_ProverID p) (zp_ProofData p) (zp_Signature p) of
             Inl err \<Rightarrow> Ret (failed_result proof (clock 0) (''signature verification failed: '' @ pl_Error pl err) nd, nd)
           | Inr _ \<Rightarrow>
               let isValid = pv_verifyZKProof pl (clock 0) p pv;
                   result = \<lparr>vr_Proof = proof, vr_IsValid = isValid, vr_VerifiedBy = nd_self nd,
                     vr_Timestamp = clock 1, vr_Error = (if \<not> isValid then ''zk-SNARK proof verification failed'' else [])\<rparr>;
                   nv = (if isValid then rs_RecordSuccessfulInteraction (zp_ProverID p) (nd_view nd)
                         else rs_RecordFailedInteraction (zp_ProverID p) (nd_view nd))
               in Ret (result, nd\<lparr>nd_view := nv\<rparr>)))"

fun pv_BatchVerifyProofs ::
  "('k, 'p, 'cs, 'pk, 'vk, 'pf) proof_libs \<Rightarrow> (nat \<Rightarrow> go_time) \<Rightarrow> ZkStorageProof option list \<Rightarrow>
   ('k, 'p, 'cs, 'pk, 'vk) ProofVerifier \<Rightarrow> DNode \<Rightarrow> (VerificationResult list \<times> DNode) go" where
  "pv_BatchVerifyProofs pl clock [] pv nd = Ret ([], nd)"
| "pv_BatchVerifyProofs pl clock (proof # proofs) pv nd =
     go_bind (pv_VerifyStorageProof pl clock proof pv nd) (\<lambda>(result, nd1).
     go_bind (pv_BatchVerifyProofs pl (\<lambda>i. clock (i + 2)) proofs pv nd1) (\<lambda>(results, nd2).
     Ret (result # results, nd2)))"

definition pv_IsInitialized :: "('k, 'p, 'cs, 'pk, 'vk) ProofVerifier \<Rightarrow> bool" where
  "pv_IsInitialized pv = pv_initialized pv"

definition pv_GetZKProver :: "('k, 'p, 'cs, 'pk, 'vk) ProofVerifier \<Rightarrow> ('cs, 'pk, 'vk) CircuitSetup" where
  "pv_GetZKProver pv = pv_zkProver pv"

section \<open>Serving a proof request\<close>

text \<open>
  \<open>request\<close> is \<open>None\<close> when it cannot be read or decoded. The first result is the response, if
  one is sent. The log line before the check reads \<open>proofRequest.Proof.FileHash\<close>.
\<close>

definition pv_handleProofRequest ::
  "('k, 'p, 'cs, 'pk, 'vk, 'pf) proof_libs \<Rightarrow> (nat \<Rightarrow> go_time) \<Rightarrow> ProofRequest option \<Rightarrow>
   ('k, 'p, 'cs, 'pk, 'vk) ProofVerifier \<Rightarrow> DNode \<Rightarrow> (ProofResponse option \<times> DNode) go" where
  "pv_handleProofRequest pl clock request pv nd =
     (case request of
        None \<Rightarrow> Ret (None, nd)
      | Some proofRequest \<Rightarrow>
          (case pq_Proof proofRequest of
             None \<Rightarrow> Panic NilDereference
           | Some proof \<Rightarrow>
               go_bind (pv_VerifyStorageProof pl clock (Some proof) pv nd) (\<lambda>(verificationResult, nd1).
               let response = \<lparr>pr_RequestID = pq_RequestID proofRequest, pr_ProofHash = zp_FileHash proof,
                     pr_IsValid = vr_IsValid verificationResult, pr_VerifiedBy = nd_self nd1,
                     pr_Timestamp = clock 2, pr_Error = vr_Error verificationResult, pr_Signature = []\<rparr>
               in case cm_Sign (pl_crypto pl) (go_bytes (pr_RequestID response @ pr_ProofHash response)) (pv_cryptoMgr pv) of
                    Inl err \<Rightarrow> Ret (None, nd1)
                  | Inr signature \<Rightarrow> Ret (Some (response\<lparr>pr_Signature := signature\<rparr>), nd1))))"

section \<open>Submitting a proof\<close>

definition proof_request :: "(nat \<Rightarrow> go_time) \<Rightarrow> ZkStorageProof \<Rightarrow> DNode \<Rightarrow> ProofRequest" where
  "proof_request clock proof nd =
     \<lparr>pq_Proof = Some proof, pq_RequestID = zp_FileHash proof @ ''-'' @ dec (wrap64 (clock 0)),
      pq_RequesterID = nd_self nd, pq_Timestamp = clock 1\<rparr>"

definition pv_sendProofToValidator ::
  "('k, 'p, 'cs, 'pk, 'vk, 'pf) proof_libs \<Rightarrow> (peer_id \<Rightarrow> ProofRequest \<Rightarrow> string + ProofResponse) \<Rightarrow>
   (nat \<Rightarrow> go_time) \<Rightarrow> peer_id \<Rightarrow> ZkStorageProof \<Rightarrow> DNode \<Rightarrow> proof_error + unit" where
  "pv_sendProofToValidator pl rpc_proof clock validatorID proof nd =
     (case rpc_proof validatorID (proof_request clock proof nd) of
        Inl err \<Rightarrow> Inl (ProofStreamFailed err)
      | Inr response \<Rightarrow>
          (case cm_Verify (pl_crypto pl) validatorID (go_bytes (pr_RequestID response @ pr_ProofHash response))
                  (pr_Signature response) of
             Inl err \<Rightarrow> Inl (ResponseSignatureInvalid err)
           | Inr _ \<Rightarrow> Inr ()))"

fun submit_loop :: "(peer_id \<Rightarrow> proof_error + unit) \<Rightarrow> peer_id \<Rightarrow> int \<Rightarrow> Validator list \<Rightarrow> int" where
  "submit_loop send self submissionCount [] = submissionCount"
| "submit_loop send self submissionCount (validator # validators) =
     (if va_PeerID validator \<noteq> self \<and> va_IsActive validator then
        let submissions = (case send (va_PeerID validator) of Inr _ \<Rightarrow> submissionCount + 1 | Inl err \<Rightarrow> submissionCount)
        in if 3 \<le> submissions then submissions else submit_loop send self submissions validators
      else submit_loop send self submissionCount validators)"

definition pv_SubmitProof ::
  "('k, 'p, 'cs, 'pk, 'vk, 'pf) proof_libs \<Rightarrow> (peer_id \<Rightarrow> ProofRequest \<Rightarrow> string + ProofResponse) \<Rightarrow>
   (peer_id \<Rightarrow> nat \<Rightarrow> go_time) \<Rightarrow> ZkStorageProof \<Rightarrow> ValidatorManager \<Rightarrow> DNode \<Rightarrow> proof_error + unit" where
  "pv_SubmitProof pl rpc_proof clock proof vm nd =
     (case vm_GetCurrentCommittee vm of
        None \<Rightarrow> Inl NoCommittee
      | Some committee \<Rightarrow>
          if submit_loop (\<lambda>v. pv_sendProofToValidator pl rpc_proof (clock v) v proof nd) (nd_self nd) 0
               (vc_Validators committee) = 0
          then Inl NotSubmitted else Inr ())"

end
