(* ===== verification/Pos_Manager.thy ===== *)
theory Pos_Manager
  imports Proof_Verification File_Manager
begin

text \<open>
  The proof-of-stake manager (\<open>internal/network/pos.go\<close>): it joins the validator manager and
  the proof verifier of a node. The loops that call \<open>generateProofsForLocalFiles\<close> and
  \<open>checkValidatorStatus\<close> at their ticks are in \<open>Background\<close>. A map of status values is a record; a
  key that is only present in some states is an \<open>option\<close>.
\<close>

record ('k, 'p, 'cs, 'pk, 'vk) PoSManager =
  pos_validatorMgr :: ValidatorManager
  pos_validatorVerifier :: "('k, 'p, 'cs, 'pk, 'vk) ProofVerifier"
  pos_proofVerifier :: "('k, 'p, 'cs, 'pk, 'vk) ProofVerifier option"
  pos_isRunning :: bool

text \<open>
  The validator manager makes a proof verifier of its own, and ends the process when it cannot.
\<close>

definition NewValidatorManager_verifier ::
  "('k, 'p, 'cs, 'pk, 'vk, 'pf) proof_libs \<Rightarrow> nat \<Rightarrow> string + 'k \<Rightarrow>
   (ValidatorManager \<times> ('k, 'p, 'cs, 'pk, 'vk) ProofVerifier) go" where
  "NewValidatorManager_verifier pl toxic generated =
     go_bind (NewProofVerifier pl toxic generated) (\<lambda>r.
     case r of
       Inl err \<Rightarrow> Panic (LogFatal ''Failed to initialize proof verifier'')
     | Inr proofVerifier \<Rightarrow> Ret (NewValidatorManager, proofVerifier))"

definition vm_GetProofVerifier ::
  "('k, 'p, 'cs, 'pk, 'vk) PoSManager \<Rightarrow> ('k, 'p, 'cs, 'pk, 'vk) ProofVerifier" where
  "vm_GetProofVerifier pos = pos_validatorVerifier pos"

text \<open>
  The two verifiers come from two set-ups (\<open>toxic\<close>) and two keys (\<open>generated\<close>). A second verifier
  that cannot be made is logged and left out.
\<close>

definition NewPoSManager ::
  "('k, 'p, 'cs, 'pk, 'vk, 'pf) proof_libs \<Rightarrow> (nat \<Rightarrow> nat) \<Rightarrow> (nat \<Rightarrow> string + 'k) \<Rightarrow>
   ('k, 'p, 'cs, 'pk, 'vk) PoSManager go" where
  "NewPoSManager pl toxic generated =
     go_bind (NewValidatorManager_verifier pl (toxic 0) (generated 0)) (\<lambda>(validatorMgr, verifier).
     go_bind (NewProofVerifier pl (toxic 1) (generated 1)) (\<lambda>r.
     Ret \<lparr>pos_validatorMgr = validatorMgr, pos_validatorVerifier = verifier,
          pos_proofVerifier = (case r of Inl err \<Rightarrow> None | Inr proofVerifier \<Rightarrow> Some proofVerifier),
          pos_isRunning = False\<rparr>))"

definition pos_Start :: "('k, 'p, 'cs, 'pk, 'vk) PoSManager \<Rightarrow> ('k, 'p, 'cs, 'pk, 'vk) PoSManager" where
  "pos_Start pos = (if pos_isRunning pos then pos else pos\<lparr>pos_isRunning := True\<rparr>)"

definition pos_Stop :: "('k, 'p, 'cs, 'pk, 'vk) PoSManager \<Rightarrow> ('k, 'p, 'cs, 'pk, 'vk) PoSManager" where
  "pos_Stop pos = (if \<not> pos_isRunning pos then pos else pos\<lparr>pos_isRunning := False\<rparr>)"

section \<open>Proofs of the local files\<close>

text \<open>What the outside answers while the proof of a file is made and submitted.\<close>

record proof_env =
  px_random :: "string + bytes"
  px_now :: go_time
  px_clock :: "peer_id \<Rightarrow> nat \<Rightarrow> go_time"
  px_answer :: "peer_id \<Rightarrow> ProofRequest \<Rightarrow> string + ProofResponse"

fun prove_files ::
  "reed_solomon \<Rightarrow> ('k, 'p, 'cs, 'pk, 'vk, 'pf) proof_libs \<Rightarrow> (nat \<Rightarrow> proof_env) \<Rightarrow>
   ('k, 'p, 'cs, 'pk, 'vk) ProofVerifier \<Rightarrow> ValidatorManager \<Rightarrow> DNode \<Rightarrow> FileMetadata list \<Rightarrow> int \<Rightarrow> int go" where
  "prove_files rs pl env pv vm nd [] proofCount = Ret proofCount"
| "prove_files rs pl env pv vm nd (metadata # localFiles) proofCount =
     go_bind (pv_GenerateStorageProof rs pl (px_random (env 0)) (px_now (env 0)) (md_FileHash metadata) pv nd) (\<lambda>r.
     case r of
       Inl err \<Rightarrow> prove_files rs pl (\<lambda>i. env (i + 1)) pv vm nd localFiles proofCount
     | Inr proof \<Rightarrow>
         (case pv_SubmitProof pl (px_answer (env 0)) (px_clock (env 0)) proof vm nd of
            Inl err \<Rightarrow> prove_files rs pl (\<lambda>i. env (i + 1)) pv vm nd localFiles proofCount
          | Inr _ \<Rightarrow> prove_files rs pl (\<lambda>i. env (i + 1)) pv vm nd localFiles (proofCount + 1)))"

text \<open>The result is the count that is logged.\<close>

definition pos_generateProofsForLocalFiles ::
  "reed_solomon \<Rightarrow> ('k, 'p, 'cs, 'pk, 'vk, 'pf) proof_libs \<Rightarrow> (nat \<Rightarrow> proof_env) \<Rightarrow>
   ('k, 'p, 'cs, 'pk, 'vk) PoSManager \<Rightarrow> DNode \<Rightarrow> int go" where
  "pos_generateProofsForLocalFiles rs pl env pos nd =
     (case pos_proofVerifier pos of
        None \<Rightarrow> Ret 0
      | Some pv \<Rightarrow>
          if \<not> pv_IsInitialized pv then Ret 0
          else prove_files rs pl env pv (pos_validatorMgr pos) nd (fm_ListFiles (nd_fileManager nd)) 0)"

datatype pos_error = NoProofVerifier | GenerateFailed proof_error | SubmitFailed proof_error

definition pos_VerifyRemoteProof ::
  "('k, 'p, 'cs, 'pk, 'vk, 'pf) proof_libs \<Rightarrow> (nat \<Rightarrow> go_time) \<Rightarrow> ZkStorageProof option \<Rightarrow>
   ('k, 'p, 'cs, 'pk, 'vk) PoSManager \<Rightarrow> DNode \<Rightarrow> ((pos_error + VerificationResult) \<times> DNode) go" where
  "pos_VerifyRemoteProof pl clock proof pos nd =
     (case pos_proofVerifier pos of
        None \<Rightarrow> Ret (Inl NoProofVerifier, nd)
      | Some pv \<Rightarrow> go_bind (pv_VerifyStorageProof pl clock proof pv nd) (\<lambda>(result, nd1). Ret (Inr result, nd1)))"

definition pos_SubmitStorageProof ::
  "reed_solomon \<Rightarrow> ('k, 'p, 'cs, 'pk, 'vk, 'pf) proof_libs \<Rightarrow> proof_env \<Rightarrow> string \<Rightarrow>
   ('k, 'p, 'cs, 'pk, 'vk) PoSManager \<Rightarrow> DNode \<Rightarrow> (pos_error + unit) go" where
  "pos_SubmitStorageProof rs pl env fileHash pos nd =
     (case pos_proofVerifier pos of
        None \<Rightarrow> Ret (Inl NoProofVerifier)
      | Some pv \<Rightarrow>
          go_bind (pv_GenerateStorageProof rs pl (px_random env) (px_now env) fileHash pv nd) (\<lambda>r.
          case r of
            Inl err \<Rightarrow> Ret (Inl (GenerateFailed err))
          | Inr proof \<Rightarrow>
              (case pv_SubmitProof pl (px_answer env) (px_clock env) proof (pos_validatorMgr pos) nd of
                 Inl err \<Rightarrow> Ret (Inl (SubmitFailed err))
               | Inr _ \<Rightarrow> Ret (Inr ()))))"

text \<open>\<open>ForceCommitteeUpdate\<close> logs and does nothing.\<close>

definition pos_ForceCommitteeUpdate ::
  "('k, 'p, 'cs, 'pk, 'vk) PoSManager \<Rightarrow> (pos_error + unit) \<times> ('k, 'p, 'cs, 'pk, 'vk) PoSManager" where
  "pos_ForceCommitteeUpdate pos = (Inr (), pos)"

section \<open>Status\<close>

definition pos_checkValidatorStatus :: "('k, 'p, 'cs, 'pk, 'vk) PoSManager \<Rightarrow> DNode \<Rightarrow> bool" where
  "pos_checkValidatorStatus pos nd = vm_IsValidator (nd_self nd) (pos_validatorMgr pos)"

record ValidatorRank =
  rk_rank :: int
  rk_stake :: string
  rk_reputation :: float64
  rk_weight :: float64

record ValidatorStatus =
  vs_is_running :: bool
  vs_is_validator :: bool
  vs_committee_size :: int
  vs_cycle_id :: u64
  vs_cycle_start :: go_time
  vs_cycle_end :: go_time
  vs_rank :: "ValidatorRank option"
  vs_proof_verifier_initialized :: bool

fun find_rank :: "int \<Rightarrow> peer_id \<Rightarrow> Validator list \<Rightarrow> ValidatorRank option" where
  "find_rank i nodeID [] = None"
| "find_rank i nodeID (validator # validators) =
     (if va_PeerID validator = nodeID then
        Some \<lparr>rk_rank = i + 1, rk_stake = dec (va_StakeAmount validator), rk_reputation = va_Reputation validator,
              rk_weight = va_Weight validator\<rparr>
      else find_rank (i + 1) nodeID validators)"

definition pos_GetValidatorStatus :: "('k, 'p, 'cs, 'pk, 'vk) PoSManager \<Rightarrow> DNode \<Rightarrow> ValidatorStatus" where
  "pos_GetValidatorStatus pos nd =
     (let vm = pos_validatorMgr pos;
          status = (case vm_GetCurrentCommittee vm of
             Some committee \<Rightarrow>
               \<lparr>vs_is_running = pos_isRunning pos, vs_is_validator = vm_IsValidator (nd_self nd) vm,
                vs_committee_size = int (length (vc_Validators committee)), vs_cycle_id = vc_CycleID committee,
                vs_cycle_start = vc_StartTime committee, vs_cycle_end = vc_EndTime committee,
                vs_rank = find_rank 0 (nd_self nd) (vc_Validators committee), vs_proof_verifier_initialized = False\<rparr>
           | None \<Rightarrow>
               \<lparr>vs_is_running = pos_isRunning pos, vs_is_validator = vm_IsValidator (nd_self nd) vm,
                vs_committee_size = 0, vs_cycle_id = 0, vs_cycle_start = zero_time, vs_cycle_end = zero_time,
                vs_rank = None, vs_proof_verifier_initialized = False\<rparr>)
      in case pos_proofVerifier pos of
           Some pv \<Rightarrow> status\<lparr>vs_proof_verifier_initialized := pv_IsInitialized pv\<rparr>
         | None \<Rightarrow> status\<lparr>vs_proof_verifier_initialized := False\<rparr>)"

record ConsensusStats =
  ct_total_peers :: int
  ct_known_files :: int
  ct_avg_reputation :: float64
  ct_active_validators :: "int option"
  ct_active_validator_count :: "int option"
  ct_avg_validator_stake :: "int option"
  ct_avg_validator_reputation :: "float64 option"

text \<open>The loop over the committee; \<open>Int64\<close> of a stake keeps its low 64 bits.\<close>

fun committee_sums :: "Validator list \<Rightarrow> int \<times> float64 \<times> int \<Rightarrow> int \<times> float64 \<times> int" where
  "committee_sums [] acc = acc"
| "committee_sums (validator # validators) (totalStake, totalReputation, activeCount) =
     (if va_IsActive validator then
        committee_sums validators
          (wrap64 (totalStake + wrap64 (va_StakeAmount validator)), f_add totalReputation (va_Reputation validator),
           activeCount + 1)
      else committee_sums validators (totalStake, totalReputation, activeCount))"

definition pos_GetNetworkStats ::
  "string \<Rightarrow> int option \<Rightarrow> ('k, 'p, 'cs, 'pk, 'vk) PoSManager \<Rightarrow> DNode \<Rightarrow> ConsensusStats" where
  "pos_GetNetworkStats node_id routingTable pos nd =
     (let networkStats = dn_GetNetworkStats node_id routingTable (nd_view nd);
          stats = \<lparr>ct_total_peers = ns_total_peers networkStats, ct_known_files = ns_known_files networkStats,
            ct_avg_reputation = ns_avg_reputation networkStats, ct_active_validators = None,
            ct_active_validator_count = None, ct_avg_validator_stake = None, ct_avg_validator_reputation = None\<rparr>
      in case vm_GetCurrentCommittee (pos_validatorMgr pos) of
           None \<Rightarrow> stats
         | Some committee \<Rightarrow>
             let (totalStake, totalReputation, activeCount) = committee_sums (vc_Validators committee) (0, Fin 0, 0);
                 stats1 = stats\<lparr>ct_active_validators := Some (int (length (vc_Validators committee))),
                   ct_active_validator_count := Some activeCount\<rparr>
             in if 0 < activeCount then
                  stats1\<lparr>ct_avg_validator_stake := Some (go_div totalStake activeCount),
                         ct_avg_validator_reputation := Some (f_div totalReputation (f_of_int activeCount))\<rparr>
                else stats1)"

section \<open>Facts\<close>

lemma find_rank_None_iff: "find_rank i nodeID vs = None \<longleftrightarrow> nodeID \<notin> va_PeerID ` set vs"
  by (induction vs arbitrary: i) auto

lemma find_rank_first:
  "find_rank i nodeID (us @ v # vs) =
     Some \<lparr>rk_rank = i + int (length us) + 1, rk_stake = dec (va_StakeAmount v), rk_reputation = va_Reputation v,
           rk_weight = va_Weight v\<rparr>"
  if "va_PeerID v = nodeID" and "nodeID \<notin> va_PeerID ` set us"
  using that by (induction us arbitrary: i) auto

lemma IsValidator_iff:
  "vm_IsValidator p vm \<longleftrightarrow> (\<exists>c. vm_currentCycle vm = Some c \<and> p \<in> va_PeerID ` set (vc_Validators c))"
  by (auto simp: vm_IsValidator_def list_ex_iff split: option.splits)

lemma find_rank_Some:
  "find_rank i nodeID vs = Some r \<Longrightarrow>
     i < rk_rank r \<and> rk_rank r \<le> i + int (length vs) \<and> va_PeerID (vs ! nat (rk_rank r - i - 1)) = nodeID \<and>
     rk_weight r = va_Weight (vs ! nat (rk_rank r - i - 1)) \<and> rk_stake r = dec (va_StakeAmount (vs ! nat (rk_rank r - i - 1)))"
proof (induction vs arbitrary: i)
  case Nil
  then show ?case by simp
next
  case (Cons v vs)
  show ?case
  proof (cases "va_PeerID v = nodeID")
    case True
    with Cons.prems show ?thesis by auto
  next
    case False
    with Cons.prems Cons.IH [of "i + 1"] have
      r: "i + 1 < rk_rank r" "rk_rank r \<le> i + 1 + int (length vs)" "va_PeerID (vs ! nat (rk_rank r - (i + 1) - 1)) = nodeID"
        "rk_weight r = va_Weight (vs ! nat (rk_rank r - (i + 1) - 1))"
        "rk_stake r = dec (va_StakeAmount (vs ! nat (rk_rank r - (i + 1) - 1)))" by simp_all
    then have "nat (rk_rank r - i - 1) = Suc (nat (rk_rank r - (i + 1) - 1))" by linarith
    with r show ?thesis by simp
  qed
qed

text \<open>
  The status of a validator is consistent: a rank is reported exactly when the node is a
  member of the current committee; it lies between 1 and the reported committee size, and the
  stake and the weight shown are those of the member at that place, which is this node.
\<close>

theorem validator_status_consistent:
  "case vs_rank (pos_GetValidatorStatus pos nd) of
     None \<Rightarrow> \<not> vs_is_validator (pos_GetValidatorStatus pos nd)
   | Some r \<Rightarrow> vs_is_validator (pos_GetValidatorStatus pos nd) \<and>
       1 \<le> rk_rank r \<and> rk_rank r \<le> vs_committee_size (pos_GetValidatorStatus pos nd) \<and>
       (\<exists>committee v. vm_currentCycle (pos_validatorMgr pos) = Some committee \<and>
          v = vc_Validators committee ! nat (rk_rank r - 1) \<and> va_PeerID v = nd_self nd \<and>
          rk_weight r = va_Weight v \<and> rk_stake r = dec (va_StakeAmount v))"
proof (cases "vm_currentCycle (pos_validatorMgr pos)")
  case None
  then show ?thesis
    by (simp add: pos_GetValidatorStatus_def vm_GetCurrentCommittee_def vm_IsValidator_def Let_def split: option.splits)
next
  case (Some c)
  let ?st = "pos_GetValidatorStatus pos nd"
  have f: "vs_rank ?st = find_rank 0 (nd_self nd) (vc_Validators c)"
    "vs_is_validator ?st \<longleftrightarrow> nd_self nd \<in> va_PeerID ` set (vc_Validators c)"
    "vs_committee_size ?st = int (length (vc_Validators c))"
    using IsValidator_iff [of "nd_self nd" "pos_validatorMgr pos"] Some
    by (simp_all add: pos_GetValidatorStatus_def vm_GetCurrentCommittee_def Let_def split: option.splits)
  show ?thesis
  proof (cases "find_rank 0 (nd_self nd) (vc_Validators c)")
    case None
    with f show ?thesis by (simp add: find_rank_None_iff)
  next
    fix r
    assume r: "find_rank 0 (nd_self nd) (vc_Validators c) = Some r"
    then have "nd_self nd \<in> va_PeerID ` set (vc_Validators c)"
      using find_rank_None_iff [of 0 "nd_self nd" "vc_Validators c"] by (metis option.distinct(1))
    with find_rank_Some [OF r] f r Some show ?thesis by simp
  qed
qed

end
