(* ===== verification/Node_Setup.thy ===== *)
theory Node_Setup
  imports Pos_Manager Node_Protocol Peer_Discovery
begin

text \<open>
  How a node comes to life and ends: \<open>NewNode\<close> and \<open>Close\<close> of \<open>internal/network/node.go\<close>,
  \<open>NewDecentralizedNode\<close>, \<open>bootstrap\<close> and \<open>Close\<close> of \<open>decentralized_node.go\<close>, and \<open>Start\<close> of the
  gossip manager. What libp2p answers during one start is the record \<open>libp2p_host\<close>: a host for a
  private key (its ID and its addresses), whether the DHT and the pubsub come up (0 in \<open>NewNode\<close>, 1
  in \<open>NewDecentralizedNode\<close>), how addresses parse, and which peers can be dialled. The stream
  handlers of a host are a map from protocol names, since a later \<open>SetStreamHandler\<close> for the same
  name replaces the earlier one.
\<close>

record 'k NodeConfig =
  nc_Host :: string
  nc_Port :: int
  nc_ProtocolID :: string
  nc_Rendezvous :: string
  nc_NodeType :: string
  nc_BootstrapPeers :: "string list"
  nc_PrivKey :: "'k option"
  nc_KeyFile :: string

record 'k libp2p_host =
  lh_New :: "string \<Rightarrow> 'k \<Rightarrow> string + peer_id \<times> string list"
  lh_dht :: "nat \<Rightarrow> string + unit"
  lh_pubsub :: "nat \<Rightarrow> string + unit"
  lh_Bootstrap :: "nat \<Rightarrow> string + unit"
  lh_NewMultiaddr :: "string \<Rightarrow> string + string"
  lh_AddrInfo :: "string \<Rightarrow> string + peer_id"
  lh_Connect :: "nat \<Rightarrow> peer_id \<Rightarrow> string + unit"
  lh_Join :: "string + unit"
  lh_Subscribe :: "string + unit"

datatype stream_handler = BitSwapStream | StorageStream | DiscoveryStream | ProofOfStorageStream
  | FileMetadataRequest | ShardRequest | ProofVerificationStream | FileListRequest | StorageProtocol
  | ProofRequestHandler

record ('k, 'm) Node =
  bn_ID :: peer_id
  bn_Addrs :: "string list"
  bn_Config :: "'k NodeConfig"
  bn_handler :: "'m MasterNode option"
  bn_streams :: "(string, stream_handler) gomap"
  bn_connected :: "peer_id list"

datatype setup_error =
    TempKeyFailed string
  | HostFailed string
  | DhtFailed string
  | PubsubFailed string
  | DhtBootstrapFailed string
  | BaseNodeFailed setup_error
  | NodeDirFailed io_error
  | FileDirFailed io_error
  | EngineFailed engine_error
  | JoinTopicFailed string
  | SubscribeFailed string
  | ShutdownFailed "string list"

section \<open>The base node\<close>

definition listen_addr :: "'k NodeConfig \<Rightarrow> string" where
  "listen_addr config = ''/ip4/'' @ nc_Host config @ ''/tcp/'' @ dec (nc_Port config)"

definition stream_table :: "string \<Rightarrow> (string \<times> stream_handler) list" where
  "stream_table protocolID =
     [(protocolID @ ''/bitswap'', BitSwapStream),
      (protocolID @ ''/storage'', StorageStream),
      (protocolID @ ''/discovery'', DiscoveryStream),
      (protocolID @ ''/proofofstorage'', ProofOfStorageStream),
      (''/shadspace/file-metadata/1.0.0'', FileMetadataRequest),
      (''/shadspace/file-shard/1.0.0'', ShardRequest),
      (''/shardspace/proof/1.0.0'', ProofVerificationStream),
      (''/shadspace/file-list/1.0.0'', FileListRequest),
      (''/shadspace/storage/1.0.0'', StorageProtocol)]"

definition SetStreamHandler :: "string \<Rightarrow> stream_handler \<Rightarrow> ('k, 'm) Node \<Rightarrow> ('k, 'm) Node" where
  "SetStreamHandler pid h n = n\<lparr>bn_streams := gm_put pid h (bn_streams n)\<rparr>"

text \<open>
  \<open>bootstrap\<close> of the base node: an address that does not parse, names no peer or cannot be dialled
  is logged and passed over.
\<close>

fun n_connect_peers :: "'k libp2p_host \<Rightarrow> string list \<Rightarrow> peer_id list \<Rightarrow> peer_id list" where
  "n_connect_peers lh [] conns = conns"
| "n_connect_peers lh (peerAddr # peers) conns =
     (case lh_NewMultiaddr lh peerAddr of
        Inl err \<Rightarrow> n_connect_peers lh peers conns
      | Inr ma \<Rightarrow>
          (case lh_AddrInfo lh ma of
             Inl err \<Rightarrow> n_connect_peers lh peers conns
           | Inr addrInfo \<Rightarrow>
               (case lh_Connect lh 0 addrInfo of
                  Inl err \<Rightarrow> n_connect_peers lh peers conns
                | Inr _ \<Rightarrow> n_connect_peers lh peers (append_new addrInfo conns))))"

definition n_bootstrap :: "'k libp2p_host \<Rightarrow> ('k, 'm) Node \<Rightarrow> (setup_error + unit) \<times> ('k, 'm) Node" where
  "n_bootstrap lh n =
     (case lh_Bootstrap lh 0 of
        Inl err \<Rightarrow> (Inl (DhtBootstrapFailed err), n)
      | Inr _ \<Rightarrow>
          (Inr (), n\<lparr>bn_connected := n_connect_peers lh (nc_BootstrapPeers (bn_Config n)) (bn_connected n)\<rparr>))"

text \<open>\<open>generated\<close>: the answer of the key generator, used when the configuration has no key.\<close>

definition NewNode ::
  "'k libp2p_host \<Rightarrow> string + 'k \<Rightarrow> 'k NodeConfig \<Rightarrow> setup_error + ('k, 'm) Node" where
  "NewNode lh generated config =
     (case (case nc_PrivKey config of Some k \<Rightarrow> Inr k | None \<Rightarrow> generated) of
        Inl err \<Rightarrow> Inl (TempKeyFailed err)
      | Inr priv \<Rightarrow>
          (case lh_New lh (listen_addr config) priv of
             Inl err \<Rightarrow> Inl (HostFailed err)
           | Inr (hostID, addrs) \<Rightarrow>
               (case lh_dht lh 0 of
                  Inl err \<Rightarrow> Inl (DhtFailed err)
                | Inr _ \<Rightarrow>
                    (case lh_pubsub lh 0 of
                       Inl err \<Rightarrow> Inl (PubsubFailed err)
                     | Inr _ \<Rightarrow>
                         let node = \<lparr>bn_ID = hostID, bn_Addrs = addrs, bn_Config = config, bn_handler = None,
                                     bn_streams = [], bn_connected = []\<rparr>;
                             node1 = fold (\<lambda>(pid, h). SetStreamHandler pid h) (stream_table (nc_ProtocolID config)) node
                         in Inr (snd (n_bootstrap lh node1))))))"

text \<open>\<open>Close\<close>: both errors are collected.\<close>

definition n_Close :: "string + unit \<Rightarrow> string + unit \<Rightarrow> setup_error + unit" where
  "n_Close dht host =
     (let errs = (case dht of Inl err \<Rightarrow> [err] | Inr _ \<Rightarrow> []) @ (case host of Inl err \<Rightarrow> [err] | Inr _ \<Rightarrow> [])
      in if 0 < length errs then Inl (ShutdownFailed errs) else Inr ())"

section \<open>The decentralized node\<close>

text \<open>Here an address that does not parse ends the loop.\<close>

fun dn_connect_peers ::
  "'k libp2p_host \<Rightarrow> string list \<Rightarrow> peer_id list \<Rightarrow> (setup_error + unit) \<times> peer_id list" where
  "dn_connect_peers lh [] conns = (Inr (), conns)"
| "dn_connect_peers lh (peerAddr # peers) conns =
     (case lh_NewMultiaddr lh peerAddr of
        Inl err \<Rightarrow> (Inl (DhtBootstrapFailed err), conns)
      | Inr ma \<Rightarrow>
          (case lh_AddrInfo lh ma of
             Inl err \<Rightarrow> dn_connect_peers lh peers conns
           | Inr addrInfo \<Rightarrow>
               (case lh_Connect lh 1 addrInfo of
                  Inl err \<Rightarrow> dn_connect_peers lh peers conns
                | Inr _ \<Rightarrow> dn_connect_peers lh peers (append_new addrInfo conns))))"

definition dn_bootstrap :: "'k libp2p_host \<Rightarrow> ('k, 'm) Node \<Rightarrow> (setup_error + unit) \<times> ('k, 'm) Node" where
  "dn_bootstrap lh n =
     (case lh_Bootstrap lh 1 of
        Inl err \<Rightarrow> (Inl (DhtBootstrapFailed err), n)
      | Inr _ \<Rightarrow>
          (let (r, conns) = dn_connect_peers lh (nc_BootstrapPeers (bn_Config n)) (bn_connected n)
           in (r, n\<lparr>bn_connected := conns\<rparr>)))"

text \<open>The gossip manager holds a topic and a subscription once they are joined.\<close>

record GossipManager =
  gm_topic :: bool
  gm_sub :: bool

definition NewGossipManager :: GossipManager where
  "NewGossipManager = \<lparr>gm_topic = False, gm_sub = False\<rparr>"

definition gm_Start :: "'k libp2p_host \<Rightarrow> GossipManager \<Rightarrow> (setup_error + unit) \<times> GossipManager" where
  "gm_Start lh gm =
     (case lh_Join lh of
        Inl err \<Rightarrow> (Inl (JoinTopicFailed err), gm)
      | Inr _ \<Rightarrow>
          let gm1 = gm\<lparr>gm_topic := True\<rparr>
          in case lh_Subscribe lh of
               Inl err \<Rightarrow> (Inl (SubscribeFailed err), gm1)
             | Inr _ \<Rightarrow> (Inr (), gm1\<lparr>gm_sub := True\<rparr>))"

definition new_farmer_info :: "go_time \<Rightarrow> go_time \<Rightarrow> (peer_id \<Rightarrow> string) \<Rightarrow> ('k, 'm) Node \<Rightarrow> FarmerInfo" where
  "new_farmer_info t1 t2 pid_String n =
     \<lparr>fi_PeerID = bn_ID n, fi_NodeName = GenerateNodeName (pid_String (bn_ID n)), fi_Version = ''0.0.1'',
      fi_Addresses = GetNodeAddresses (bn_Addrs n) (pid_String (bn_ID n)),
      fi_StorageCapacity = 10 * 1024 * 1024 * 1024, fi_UsedStorage = 0, fi_Reliability = Fin 1, fi_Latency = 0,
      fi_Uptime = Fin 0, fi_Location = ''unknown'', fi_IsActive = True, fi_IsPrimary = False,
      fi_Tags = [''farmer'', ''decentralized''], fi_LastSeen = t2, fi_StartTime = t1, fi_LastSync = zero_time\<rparr>"

definition node_dir :: "(peer_id \<Rightarrow> string) \<Rightarrow> peer_id \<Rightarrow> string" where
  "node_dir pid_String hostID = filepath_Join [''./data'', ''nodes'', pid_String hostID]"

text \<open>A node that is up: the base node, the state the components share, and the components.\<close>

record ('k, 'm, 'p, 'cs, 'pk, 'vk) StartedNode =
  sn_node :: "('k, 'm) Node"
  sn_state :: DNode
  sn_shardManager :: ShardManager
  sn_farmerInfo :: FarmerInfo
  sn_gossip :: GossipManager
  sn_discovery :: PeerDiscovery
  sn_posManager :: "('k, 'p, 'cs, 'pk, 'vk) PoSManager"

text \<open>What the start reads from outside the program and the disk: keys, set-ups, libraries and the clock.\<close>

record ('k, 'p, 'cs, 'pk, 'vk, 'pf) start_env =
  st_host :: "'k libp2p_host"
  st_generated :: "string + 'k"
  st_libs :: "('k, 'p, 'cs, 'pk, 'vk, 'pf) proof_libs"
  st_toxic :: "nat \<Rightarrow> nat"
  st_keys :: "nat \<Rightarrow> string + 'k"
  st_clock :: "nat \<Rightarrow> go_time"

section \<open>Bringing a node up\<close>

text \<open>
  The protocol under which the proof verifiers register, each over what was there before.
\<close>

definition proof_protocol :: string where
  "proof_protocol = ''/shardspace/proof/1.0.0''"

definition register_verifiers ::
  "('k, 'p, 'cs, 'pk, 'vk) PoSManager \<Rightarrow> ('k, 'm) Node \<Rightarrow> ('k, 'm) Node" where
  "register_verifiers pos n =
     (let n1 = SetStreamHandler proof_protocol ProofRequestHandler n
      in case pos_proofVerifier pos of
           None \<Rightarrow> n1
         | Some pv \<Rightarrow> SetStreamHandler proof_protocol ProofRequestHandler n1)"

text \<open>
  The end of the constructor, where nothing fails any more: failures of the bootstrap, of gossip and
  of the consensus are logged. The connection handlers are registered after the bootstrap, so the
  connections made by then have not entered the view, which holds the local files only.
\<close>

definition bring_up ::
  "('k, 'p, 'cs, 'pk, 'vk, 'pf) start_env \<Rightarrow> ('k, 'p, 'cs, 'pk, 'vk) PoSManager \<Rightarrow> Engine \<Rightarrow> FileManager \<Rightarrow>
   ('k, 'm) Node \<Rightarrow> disk \<Rightarrow> ('k, 'm, 'p, 'cs, 'pk, 'vk) StartedNode" where
  "bring_up st pos engine fileManager baseNode d =
     (let farmerInfo = new_farmer_info (st_clock st 0) (st_clock st 1) (pl_pid_String (st_libs st)) baseNode;
          node = snd (dn_bootstrap (st_host st) (register_verifiers pos baseNode));
          gossip = snd (gm_Start (st_host st) NewGossipManager)
      in \<lparr>sn_node = node,
          sn_state = \<lparr>nd_self = bn_ID node, nd_connected = bn_connected node,
                      nd_view = initial_view (bn_ID node) fileManager, nd_storage = engine,
                      nd_fileManager = fileManager, nd_disk = d, nd_pendingOps = [], nd_published = []\<rparr>,
          sn_shardManager = NewShardManager, sn_farmerInfo = farmerInfo, sn_gossip = gossip,
          sn_discovery = NewPeerDiscovery, sn_posManager = pos_Start pos\<rparr>)"

definition NewDecentralizedNode ::
  "('k, 'p, 'cs, 'pk, 'vk, 'pf) start_env \<Rightarrow> 'k NodeConfig \<Rightarrow> disk \<Rightarrow>
   (setup_error + ('k, 'm, 'p, 'cs, 'pk, 'vk) StartedNode) go" where
  "NewDecentralizedNode st config d =
     (case NewNode (st_host st) (st_generated st) config of
        Inl err \<Rightarrow> Ret (Inl (BaseNodeFailed err))
      | Inr baseNode \<Rightarrow>
          let nodeStorageDir = node_dir (pl_pid_String (st_libs st)) (bn_ID baseNode);
              fileStorageDir = nodeStorageDir
          in case os_MkdirAll nodeStorageDir d of
               Inl err \<Rightarrow> Ret (Inl (NodeDirFailed err))
             | Inr _ \<Rightarrow>
                 (case os_MkdirAll fileStorageDir d of
                    Inl err \<Rightarrow> Ret (Inl (FileDirFailed err))
                  | Inr _ \<Rightarrow>
                      (case lh_dht (st_host st) 1 of
                         Inl err \<Rightarrow> Ret (Inl (DhtFailed err))
                       | Inr _ \<Rightarrow>
                           (case lh_pubsub (st_host st) 1 of
                              Inl err \<Rightarrow> Ret (Inl (PubsubFailed err))
                            | Inr _ \<Rightarrow>
                                (case NewEngine nodeStorageDir d of
                                   Inl err \<Rightarrow> Ret (Inl (EngineFailed err))
                                 | Inr storageEngine \<Rightarrow>
                                     (case NewFileManager fileStorageDir d of
                                        Inl err \<Rightarrow> Panic (LogFatal ''file manager'')
                                      | Inr fileManager \<Rightarrow>
                                          go_bind (NewPoSManager (st_libs st) (st_toxic st) (st_keys st)) (\<lambda>pos.
                                          Ret (Inr (bring_up st pos storageEngine fileManager baseNode d)))))))))"

text \<open>The goroutine that announces the files the node found on its disk.\<close>

definition dn_announceLocalFiles :: "rpc \<Rightarrow> (nat \<Rightarrow> go_time) \<Rightarrow> DNode \<Rightarrow> DNode" where
  "dn_announceLocalFiles env clock nd =
     fold (\<lambda>meta nd1. so_announceFileToNetwork env clock (md_FileHash meta) [nd_self nd] nd1)
       (fm_ListFiles (nd_fileManager nd)) nd"

text \<open>
  \<open>Close\<close>: the arguments are what the two DHTs and the host answer when they are closed. The errors
  are logged, the result is always \<open>nil\<close>.
\<close>

definition dn_Close ::
  "string + unit \<Rightarrow> string + unit \<Rightarrow> string + unit \<Rightarrow> setup_error list \<times> (setup_error + unit)" where
  "dn_Close dht baseDht host =
     ((case dht of Inl err \<Rightarrow> [DhtFailed err] | Inr _ \<Rightarrow> []) @
      (case n_Close baseDht host of Inl err \<Rightarrow> [err] | Inr _ \<Rightarrow> []), Inr ())"

end
