(* ===== verification/Proof_Verification_Correct.thy ===== *)
theory Proof_Verification_Correct
  imports Proof_Verification File_Manager_Correct
begin

text \<open>
  What an accepted proof says and does not say, which proofs can be made at all, when a
  submission succeeds, and which requests end the process.
\<close>

section \<open>What a verdict depends on\<close>

text \<open>The verdict as a value: \<open>None\<close> when the check panics.\<close>

definition verdict ::
  "('k, 'p, 'cs, 'pk, 'vk, 'pf) proof_libs \<Rightarrow> (nat \<Rightarrow> go_time) \<Rightarrow> ZkStorageProof \<Rightarrow>
   ('k, 'p, 'cs, 'pk, 'vk) ProofVerifier \<Rightarrow> DNode \<Rightarrow> bool option" where
  "verdict pl clock proof pv nd =
     (case pv_VerifyStorageProof pl clock (Some proof) pv nd of
        Panic e \<Rightarrow> None | Ret (result, nd1) \<Rightarrow> Some (vr_IsValid result))"

lemma verify_cases:
  obtains (unready) "\<not> pv_initialized pv" "pv_VerifyStorageProof pl clock (Some p) pv nd =
      Ret (failed_result (Some p) (clock 0) ''proof verifier not initialized'' nd, nd)"
  | (unsigned) e where "pv_initialized pv" "cm_Verify (pl_crypto pl) (zp_ProverID p) (zp_ProofData p) (zp_Signature p) = Inl e"
      "pv_VerifyStorageProof pl clock (Some p) pv nd =
      Ret (failed_result (Some p) (clock 0) (''signature verification failed: '' @ pl_Error pl e) nd, nd)"
  | (checked) result nv where "pv_initialized pv"
      "cm_Verify (pl_crypto pl) (zp_ProverID p) (zp_ProofData p) (zp_Signature p) = Inr ()"
      "pv_VerifyStorageProof pl clock (Some p) pv nd = Ret (result, nd\<lparr>nd_view := nv\<rparr>)"
      "vr_IsValid result = pv_verifyZKProof pl (clock 0) p pv"
proof (cases "pv_initialized pv")
  case False
  then show thesis by (intro unready) (simp_all add: pv_VerifyStorageProof_def)
next
  case True
  show thesis
  proof (cases "cm_Verify (pl_crypto pl) (zp_ProverID p) (zp_ProofData p) (zp_Signature p)")
    case (Inl e)
    with True show thesis by (intro unsigned) (simp_all add: pv_VerifyStorageProof_def)
  next
    case (Inr u)
    let ?nv = "if pv_verifyZKProof pl (clock 0) p pv then rs_RecordSuccessfulInteraction (zp_ProverID p) (nd_view nd)
      else rs_RecordFailedInteraction (zp_ProverID p) (nd_view nd)"
    from True Inr show thesis
      by (intro checked [of "\<lparr>vr_Proof = Some p, vr_IsValid = pv_verifyZKProof pl (clock 0) p pv,
          vr_VerifiedBy = nd_self nd, vr_Timestamp = clock 1,
          vr_Error = (if \<not> pv_verifyZKProof pl (clock 0) p pv then ''zk-SNARK proof verification failed'' else [])\<rparr>" ?nv])
        (simp_all add: pv_VerifyStorageProof_def Let_def)
  qed
qed

lemma verdict_eq:
  "verdict pl clock p pv nd =
     Some (pv_initialized pv \<and>
       cm_Verify (pl_crypto pl) (zp_ProverID p) (zp_ProofData p) (zp_Signature p) = Inr () \<and>
       pv_verifyZKProof pl (clock 0) p pv)"
  by (cases rule: verify_cases [of pv pl clock p nd]) (simp_all add: verdict_def failed_result_def)

lemma verifyZKProof_iff:
  "pv_verifyZKProof pl now p pv \<longleftrightarrow>
     zp_FileHash p \<noteq> '''' \<and> zp_ProofData p \<noteq> [] \<and> zp_PublicWitness p \<noteq> [] \<and>
     time_Sub now (zp_Timestamp p) \<le> 24 * hour \<and>
     sp_VerifyProof (pl_gnark pl) (zp_ProofData p) (zp_PublicWitness p) (pv_zkProver pv) = Inr ()"
  by (auto simp: pv_verifyZKProof_def split: sum.splits)

text \<open>
  C27: An accepted proof is not bound to the file, the time or the challenge. Once a verifier has
  accepted a proof it accepts the same bytes again at any later time under any file hash that is
  not empty, with any challenge, response and fresh time stamp: the signature covers only the
  proof bytes, and the public inputs are never compared with the file hash and the challenge.
\<close>

theorem accepted_proof_is_transferable:
  assumes "verdict pl clock p pv nd = Some True" and "fileHash \<noteq> ''''"
    and "time_Sub (clock' 0) ts \<le> 24 * hour"
  shows "verdict pl clock' (p\<lparr>zp_FileHash := fileHash, zp_Timestamp := ts, zp_Challenge := challenge,
      zp_Response := response\<rparr>) pv nd' = Some True"
  using assms unfolding verdict_eq verifyZKProof_iff by simp

section \<open>Which proofs can be made\<close>

lemma GenerateStorageProof_cases:
  assumes "pv_GenerateStorageProof rs pl random now fileHash pv nd = Ret (Inr proof)"
  obtains fileData challenge where "fm_RetrieveFile rs fileHash (nd_files nd) = Ret (Inr fileData)"
    and "random = Inr challenge" and "pv_initialized pv"
    and "sp_GenerateProof (pl_gnark pl) (go_bytes fileHash) challenge fileData (pv_generateSecretSalt pl fileHash nd)
        (pv_zkProver pv) = Inr (zp_ProofData proof, zp_PublicWitness proof)"
    and "cm_Sign (pl_crypto pl) (zp_ProofData proof) (pv_cryptoMgr pv) = Inr (zp_Signature proof)"
    and "zp_FileHash proof = fileHash" and "zp_ProverID proof = nd_self nd" and "zp_Timestamp proof = now"
proof -
  from assms have i: "pv_initialized pv"
    by (auto simp: pv_GenerateStorageProof_def split: if_split_asm)
  from assms obtain r where r: "fm_RetrieveFile rs fileHash (nd_files nd) = Ret r"
    by (cases "fm_RetrieveFile rs fileHash (nd_files nd)")
      (auto simp: pv_GenerateStorageProof_def split: if_split_asm sum.split_asm)
  from assms i obtain fileData where d: "r = Inr fileData"
    by (cases r) (auto simp: pv_GenerateStorageProof_def r split: sum.split_asm)
  from assms i obtain challenge where c: "random = Inr challenge"
    by (cases random) (auto simp: pv_GenerateStorageProof_def r d split: sum.split_asm)
  note f = r [unfolded d] c i
  show thesis
    using assms that [OF f]
    by (auto simp: pv_GenerateStorageProof_def f Let_def split: if_split_asm sum.split_asm prod.split_asm)
qed

lemma NewProofVerifier_parts:
  assumes "NewProofVerifier pl toxic (Inr k) = Ret (Inr pv)"
  shows "NewStorageProofProver (pl_gnark pl) toxic = Inr (pv_zkProver pv)" and "pv_initialized pv"
    and "cm_privateKey (pv_cryptoMgr pv) = k"
    and "lc_IDFromPublicKey (pl_crypto pl) (lc_GetPublic (pl_crypto pl) k) = Inr (cm_peerID (pv_cryptoMgr pv))"
  using assms
  by (auto simp: NewProofVerifier_def NewCryptoManager_def Let_def go_bind_Ret_iff split: sum.splits)

lemma prover_of_new_verifier:
  assumes "NewProofVerifier pl toxic generated = Ret (Inr pv)"
  shows "NewStorageProofProver (pl_gnark pl) toxic = Inr (pv_zkProver pv)"
  using assms by (auto simp: NewProofVerifier_def go_bind_Ret_iff split: sum.splits)

text \<open>
  C24: Which storage proofs exist. When \<open>GenerateStorageProof\<close> succeeds, the MiMC hash of the
  file's bytes and the salt is, in the field, the number spelled by the characters of the file
  hash: a file hash is the SHA-256 of the data in hexadecimal, so a proof needs a coincidence of
  two unrelated hash functions. The hypothesis is that Groth16 only proves satisfied circuits.
\<close>

theorem GenerateStorageProof_needs_coincidence:
  assumes "gk_sound (pl_gnark pl)" and "NewProofVerifier pl toxic generated = Ret (Inr pv)"
    and "pv_GenerateStorageProof rs pl random now fileHash pv nd = Ret (Inr proof)"
  shows "\<exists>fileData. fm_RetrieveFile rs fileHash (nd_files nd) = Ret (Inr fileData) \<and>
    gk_circuit_mimc (pl_gnark pl) [big_SetBytes fileData mod gk_modulus (pl_gnark pl),
        big_SetBytes (pv_generateSecretSalt pl fileHash nd) mod gk_modulus (pl_gnark pl)] =
      big_SetBytes (go_bytes fileHash) mod gk_modulus (pl_gnark pl)"
proof -
  obtain fileData challenge where f: "fm_RetrieveFile rs fileHash (nd_files nd) = Ret (Inr fileData)"
    and g: "sp_GenerateProof (pl_gnark pl) (go_bytes fileHash) challenge fileData (pv_generateSecretSalt pl fileHash nd)
        (pv_zkProver pv) = Inr (zp_ProofData proof, zp_PublicWitness proof)"
    using assms(3) by (elim GenerateStorageProof_cases)
  from generated_needs_collision(1) [OF assms(1) prover_of_new_verifier [OF assms(2)] g] f
  show ?thesis by blast
qed

section \<open>The key that signs\<close>

text \<open>The signature of one key does not verify under another.\<close>

definition lc_unforged :: "('k, 'p) libp2p_crypto \<Rightarrow> bool" where
  "lc_unforged lc \<longleftrightarrow>
     (\<forall>k p data s. lc_Sign lc k data = Inr s \<longrightarrow> p \<noteq> lc_GetPublic lc k \<longrightarrow> lc_Verify lc p data s \<noteq> Inr True)"

lemma cm_Verify_ok_iff:
  "cm_Verify lc i data s = Inr () \<longleftrightarrow> (\<exists>p. lc_ExtractPublicKey lc i = Inr p \<and> lc_Verify lc p data s = Inr True)"
  by (auto simp: cm_Verify_def split: sum.splits)

text \<open>
  C25: A proof verifier signs with the key it generated, but its proofs name the host. Unless the
  generated key happens to be the host's own key, every verifier of every node rejects every
  proof the node makes, before the zero-knowledge check, and without touching the reputation.
\<close>

theorem own_proof_rejected:
  assumes "lc_unforged (pl_crypto pl)"
    and host: "lc_ExtractPublicKey (pl_crypto pl) (nd_self nd) = Inr hostKey"
    and fresh: "hostKey \<noteq> lc_GetPublic (pl_crypto pl) k"
    and pv: "NewProofVerifier pl toxic (Inr k) = Ret (Inr pv)"
    and made: "pv_GenerateStorageProof rs pl random now fileHash pv nd = Ret (Inr proof)"
  shows "\<exists>result. pv_VerifyStorageProof pl clock (Some proof) pv' nd' = Ret (result, nd') \<and> \<not> vr_IsValid result"
proof -
  have s: "lc_Sign (pl_crypto pl) k (zp_ProofData proof) = Inr (zp_Signature proof)" "zp_ProverID proof = nd_self nd"
    using made NewProofVerifier_parts(3) [OF pv] by (auto simp: cm_Sign_def elim: GenerateStorageProof_cases)
  then have "lc_Verify (pl_crypto pl) hostKey (zp_ProofData proof) (zp_Signature proof) \<noteq> Inr True"
    using assms(1) fresh unfolding lc_unforged_def by blast
  then have "cm_Verify (pl_crypto pl) (zp_ProverID proof) (zp_ProofData proof) (zp_Signature proof) \<noteq> Inr ()"
    using host s(2) by (simp add: cm_Verify_ok_iff)
  then show ?thesis
    by (cases rule: verify_cases [of pv' pl clock "proof" nd']) (simp_all add: failed_result_def)
qed

text \<open>
  C26: With the host's key the round trip works: the verifier that made a proof accepts it, in any
  later state of the node, for a day.
\<close>

theorem own_proof_accepted:
  assumes "lc_lawful (pl_crypto pl)" and "gk_complete (pl_gnark pl)" and "gk_codec (pl_gnark pl)"
    and pv: "NewProofVerifier pl toxic (Inr k) = Ret (Inr pv)" and self: "cm_peerID (pv_cryptoMgr pv) = nd_self nd"
    and made: "pv_GenerateStorageProof rs pl random now fileHash pv nd = Ret (Inr proof)"
    and "fileHash \<noteq> ''''" and "time_Sub (clock 0) now \<le> 24 * hour"
  shows "verdict pl clock proof pv nd' = Some True"
proof -
  note p = NewProofVerifier_parts [OF pv]
  obtain fileData challenge where g:
    "sp_GenerateProof (pl_gnark pl) (go_bytes fileHash) challenge fileData (pv_generateSecretSalt pl fileHash nd)
        (pv_zkProver pv) = Inr (zp_ProofData proof, zp_PublicWitness proof)"
    and s: "lc_Sign (pl_crypto pl) k (zp_ProofData proof) = Inr (zp_Signature proof)"
    and f: "zp_FileHash proof = fileHash" "zp_ProverID proof = nd_self nd" "zp_Timestamp proof = now"
    using made p(3) by (auto simp: cm_Sign_def elim: GenerateStorageProof_cases)
  have "cm_Verify (pl_crypto pl) (nd_self nd) (zp_ProofData proof) (zp_Signature proof) = Inr ()"
    using lc_lawfulD(2,3) [OF assms(1)] p(4) self s by (simp add: cm_Verify_ok_iff)
  with generated_verifies [OF assms(2,3) p(1) g] p(2) f assms(7,8) show ?thesis
    by (simp add: verdict_eq verifyZKProof_iff)
qed

section \<open>Requests\<close>

text \<open>
  The proof requests that end the process. The handler of proof requests panics exactly on a
  well-formed request without a proof (JSON \<open>null\<close>), from any peer and in any state of the
  verifier: the log line before the check dereferences it.
\<close>

theorem handleProofRequest_panics_iff:
  "panics (pv_handleProofRequest pl clock request pv nd) \<longleftrightarrow>
     (\<exists>proofRequest. request = Some proofRequest \<and> pq_Proof proofRequest = None)"
proof (cases request)
  case None
  then show ?thesis by (simp add: pv_handleProofRequest_def)
next
  case (Some q)
  show ?thesis
  proof (cases "pq_Proof q")
    case None
    with Some show ?thesis by (simp add: pv_handleProofRequest_def)
  next
    fix p
    assume p: "pq_Proof q = Some p"
    show ?thesis
      by (cases rule: verify_cases [of pv pl clock p nd])
        (auto simp: pv_handleProofRequest_def Some p Let_def split: sum.splits)
  qed
qed

section \<open>Submissions\<close>

definition willing :: "(peer_id \<Rightarrow> proof_error + unit) \<Rightarrow> peer_id \<Rightarrow> Validator \<Rightarrow> bool" where
  "willing send self v \<longleftrightarrow> va_PeerID v \<noteq> self \<and> va_IsActive v \<and> send (va_PeerID v) = Inr ()"

lemma submit_loop_count:
  "0 \<le> n \<Longrightarrow> n < 3 \<Longrightarrow>
   submit_loop send self n vs = min 3 (n + int (length (filter (willing send self) vs)))"
proof (induction vs arbitrary: n)
  case Nil
  then show ?case by simp
next
  case (Cons v vs)
  show ?case
  proof (cases "willing send self v")
    case False
    then show ?thesis using Cons by (auto simp: willing_def Let_def split: sum.splits unit.splits)
  next
    case True
    then show ?thesis using Cons.prems Cons.IH [of "n + 1"] by (auto simp: willing_def Let_def)
  qed
qed

lemma SubmitProof_iff:
  "pv_SubmitProof pl rpc_proof clock proof vm nd = Inr () \<longleftrightarrow>
     (\<exists>committee v response publicKey. vm_currentCycle vm = Some committee \<and> v \<in> set (vc_Validators committee) \<and>
        va_PeerID v \<noteq> nd_self nd \<and> va_IsActive v \<and>
        rpc_proof (va_PeerID v) (proof_request (clock (va_PeerID v)) proof nd) = Inr response \<and>
        lc_ExtractPublicKey (pl_crypto pl) (va_PeerID v) = Inr publicKey \<and>
        lc_Verify (pl_crypto pl) publicKey (go_bytes (pr_RequestID response @ pr_ProofHash response))
          (pr_Signature response) = Inr True)"
proof -
  let ?send = "\<lambda>v. pv_sendProofToValidator pl rpc_proof (clock v) v proof nd"
  have send: "?send v = Inr () \<longleftrightarrow> (\<exists>response publicKey. rpc_proof v (proof_request (clock v) proof nd) = Inr response \<and>
      lc_ExtractPublicKey (pl_crypto pl) v = Inr publicKey \<and>
      lc_Verify (pl_crypto pl) publicKey (go_bytes (pr_RequestID response @ pr_ProofHash response))
        (pr_Signature response) = Inr True)" for v
    by (auto simp: pv_sendProofToValidator_def cm_Verify_ok_iff [symmetric] split: sum.splits)
  have "submit_loop ?send (nd_self nd) 0 vs = 0 \<longleftrightarrow> (\<forall>v \<in> set vs. \<not> willing ?send (nd_self nd) v)" for vs
  proof -
    have "min 3 (int n) = 0 \<longleftrightarrow> n = 0" for n by auto
    then show ?thesis by (simp add: submit_loop_count filter_empty_conv)
  qed
  then have "pv_SubmitProof pl rpc_proof clock proof vm nd = Inr () \<longleftrightarrow>
      (\<exists>c v. vm_currentCycle vm = Some c \<and> v \<in> set (vc_Validators c) \<and> willing ?send (nd_self nd) v)"
    by (auto simp: pv_SubmitProof_def vm_GetCurrentCommittee_def split: option.splits)
  then show ?thesis unfolding willing_def send by blast
qed

text \<open>
  When a submission succeeds. \<open>SubmitProof\<close> returns without an error exactly when there is a
  committee with an active member other than the node that answers the request with a signature
  of its own, whatever its verdict on the proof.
\<close>

theorem SubmitProof_succeeds_iff:
  "pv_SubmitProof pl rpc_proof clock proof vm nd = Inr () \<longleftrightarrow>
     (\<exists>committee v response publicKey. vm_currentCycle vm = Some committee \<and> v \<in> set (vc_Validators committee) \<and>
        va_PeerID v \<noteq> nd_self nd \<and> va_IsActive v \<and>
        rpc_proof (va_PeerID v) (proof_request (clock (va_PeerID v)) proof nd) = Inr response \<and>
        lc_ExtractPublicKey (pl_crypto pl) (va_PeerID v) = Inr publicKey \<and>
        lc_Verify (pl_crypto pl) publicKey (go_bytes (pr_RequestID response @ pr_ProofHash response))
          (pr_Signature response) = Inr True)"
  by (rule SubmitProof_iff)

text \<open>The network as seen by a submitter: every validator serves requests with its own verifier.\<close>

definition served_by ::
  "('k, 'p, 'cs, 'pk, 'vk, 'pf) proof_libs \<Rightarrow> (peer_id \<Rightarrow> nat \<Rightarrow> go_time) \<Rightarrow>
   (peer_id \<Rightarrow> ('k, 'p, 'cs, 'pk, 'vk) ProofVerifier) \<Rightarrow> (peer_id \<Rightarrow> DNode) \<Rightarrow> peer_id \<Rightarrow> ProofRequest \<Rightarrow> string + ProofResponse" where
  "served_by pl clocks verifiers nodes v proofRequest =
     (case pv_handleProofRequest pl (clocks v) (Some proofRequest) (verifiers v) (nodes v) of
        Ret (Some response, nd) \<Rightarrow> Inr response
      | _ \<Rightarrow> Inl ''closed'')"

lemma served_signed:
  assumes "pq_Proof q = Some p" and "\<And>data. \<exists>s. lc_Sign (pl_crypto pl) (cm_privateKey (pv_cryptoMgr (verifiers v))) data = Inr s"
  obtains response where "served_by pl clocks verifiers nodes v q = Inr response"
    and "lc_Sign (pl_crypto pl) (cm_privateKey (pv_cryptoMgr (verifiers v)))
       (go_bytes (pr_RequestID response @ pr_ProofHash response)) = Inr (pr_Signature response)"
proof -
  obtain r nd1 where v: "pv_VerifyStorageProof pl (clocks v) (Some p) (verifiers v) (nodes v) = Ret (r, nd1)"
    by (cases rule: verify_cases [of "verifiers v" pl "clocks v" p "nodes v"]) auto
  obtain s where "lc_Sign (pl_crypto pl) (cm_privateKey (pv_cryptoMgr (verifiers v)))
      (go_bytes (pq_RequestID q @ zp_FileHash p)) = Inr s" using assms(2) by blast
  with assms(1) v that [of "\<lparr>pr_RequestID = pq_RequestID q, pr_ProofHash = zp_FileHash p, pr_IsValid = vr_IsValid r,
      pr_VerifiedBy = nd_self nd1, pr_Timestamp = clocks v 2, pr_Error = vr_Error r, pr_Signature = s\<rparr>"]
  show thesis by (simp add: served_by_def pv_handleProofRequest_def Let_def cm_Sign_def)
qed


section \<open>Examples\<close>

text \<open>
  A node \<open>h\<close> with the file \<open>[1, 2]\<close> and a verifier of the setup 3 that signs with the key \<open>k\<close>;
  all hashes are the number of the file hash.
\<close>

definition example_hash :: int where
  "example_hash = big_SetBytes (go_bytes (CalculateFileHash [1, 2])) mod 251"

definition example_libs :: "(8 word, 8 word, StorageProofCircuit \<Rightarrow> bool, nat, nat, nat \<times> public_witness) proof_libs" where
  "example_libs = \<lparr>pl_crypto = byte_crypto, pl_gnark = byte_gnark example_hash, pl_pid_String = (\<lambda>i. i),
     pl_Error = (\<lambda>e. ''crypto'')\<rparr>"

definition example_verifier :: "8 word \<Rightarrow> (8 word, 8 word, StorageProofCircuit \<Rightarrow> bool, nat, nat) ProofVerifier" where
  "example_verifier k =
     \<lparr>pv_cryptoMgr = \<lparr>cm_privateKey = k, cm_publicKey = k, cm_peerID = replicate (unat k) CHR ''k''\<rparr>,
      pv_zkProver = \<lparr>cs_ProvingKey = 3, cs_VerifyingKey = 3, cs_R1CS = circuit_Define (\<lambda>xs. example_hash)\<rparr>,
      pv_initialized = True\<rparr>"

definition proof_node :: "files \<Rightarrow> DNode" where
  "proof_node s =
     \<lparr>nd_self = ''kkkkkkk'', nd_connected = [], nd_view = NewNetworkView, nd_storage = fresh_engine ''d'' 10,
      nd_fileManager = fst s, nd_disk = snd s, nd_pendingOps = [], nd_published = []\<rparr>"

lemma example_verifier_new: "NewProofVerifier example_libs 3 (Inr k) = Ret (Inr (example_verifier k))"
  by (simp add: NewProofVerifier_def NewStorageProofProver_def NewCryptoManager_def example_libs_def byte_gnark_def
      byte_crypto_def example_verifier_def)

lemma example_hash_range: "0 \<le> example_hash" "example_hash < 251"
  by (simp_all add: example_hash_def)

lemma example_made:
  assumes "gm_get (fm_fileIndex (fst s)) (CalculateFileHash [1, 2]) = Some md"
    and "fm_RetrieveFile xor_codec (CalculateFileHash [1, 2]) s = Ret (Inr [1, 2])"
  shows "\<exists>proof. pv_GenerateStorageProof xor_codec example_libs (Inr [5]) 0 (CalculateFileHash [1, 2])
      (example_verifier k) (proof_node s) = Ret (Inr proof)"
proof -
  let ?h = "CalculateFileHash [1, 2]"
  let ?w = "sp_witness (byte_gnark example_hash) (go_bytes ?h) [5] [1, 2] (pv_generateSecretSalt example_libs ?h (proof_node s))"
  have r: "sc_Response ?w = example_hash" "sc_FileHash ?w = example_hash" "sc_Challenge ?w = 5"
    using example_hash_range
    by (simp_all add: sp_witness_def new_witness_def byte_gnark_def sp_ComputeResponse_def big_SetBytes_Bytes)
      (simp_all add: example_hash_def big_SetBytes_def)
  then have "circuit_Define (\<lambda>xs. example_hash) ?w" by (simp add: circuit_Define_def)
  then have "\<exists>p. sp_GenerateProof (byte_gnark example_hash) (go_bytes ?h) [5] [1, 2]
      (pv_generateSecretSalt example_libs ?h (proof_node s)) (pv_zkProver (example_verifier k)) = Inr p"
    using r example_hash_range
    by (simp add: sp_GenerateProof_def Let_def example_verifier_def) (simp add: byte_gnark_def public_part_def)
  then obtain pd pw where g: "sp_GenerateProof (byte_gnark example_hash) (go_bytes ?h) [5] [1, 2]
      (pv_generateSecretSalt example_libs ?h (proof_node s)) (pv_zkProver (example_verifier k)) = Inr (pd, pw)" by auto
  have s: "cm_Sign byte_crypto pd (pv_cryptoMgr (example_verifier k)) = Inr (k # pd)"
    by (simp add: cm_Sign_def byte_crypto_def example_verifier_def)
  have "pl_gnark example_libs = byte_gnark example_hash" "pl_crypto example_libs = byte_crypto"
    "pv_initialized (example_verifier k)" by (simp_all add: example_libs_def example_verifier_def)
  moreover have "nd_fileManager (proof_node s) = fst s" "nd_files (proof_node s) = s"
    by (simp_all add: proof_node_def nd_files_def)
  ultimately show ?thesis using assms g s
    by (simp add: pv_GenerateStorageProof_def dn_GetFileMetadata_def fm_GetFileInfo_def Let_def)
qed

lemma byte_crypto_unforged: "lc_unforged byte_crypto"
  by (auto simp: lc_unforged_def byte_crypto_def)

lemma example_libs_laws:
  "lc_lawful (pl_crypto example_libs)" "lc_unforged (pl_crypto example_libs)" "gk_sound (pl_gnark example_libs)"
  "gk_complete (pl_gnark example_libs)" "gk_codec (pl_gnark example_libs)"
  by (simp_all add: example_libs_def byte_crypto_lawful byte_crypto_unforged byte_gnark_laws)

lemma proof_node_self: "nd_self (proof_node s) = ''kkkkkkk''"
  by (simp add: proof_node_def)

theorem accepted_proof_is_transferable_witness:
  "verdict example_libs (\<lambda>_. 9) \<lparr>zp_FileHash = ''another'', zp_ProofData = [3, 4, 5], zp_PublicWitness = [4, 5],
      zp_Timestamp = 8, zp_ProverID = ''kkkkkkk'', zp_Challenge = [], zp_Response = [1], zp_Signature = [7, 3, 4, 5]\<rparr>
    (example_verifier 7) (proof_node (fresh_manager, quiet_disk)) = Some True"
proof -
  let ?p = "\<lparr>zp_FileHash = ''file'', zp_ProofData = [3, 4, 5], zp_PublicWitness = [4, 5],
      zp_Timestamp = 0, zp_ProverID = ''kkkkkkk'', zp_Challenge = [5], zp_Response = [2], zp_Signature = [7, 3, 4, 5]\<rparr>"
  let ?n = "proof_node (fresh_manager, quiet_disk)"
  have "verdict example_libs (\<lambda>_. 0) ?p (example_verifier 7) ?n = Some True"
    by (simp add: verdict_eq verifyZKProof_iff example_verifier_def example_libs_def cm_Verify_ok_iff byte_crypto_def
        sp_VerifyProof_def byte_gnark_def time_Sub_def durations)
  from accepted_proof_is_transferable [OF this, of "''another''" "\<lambda>_. 9" 8 "[1]" "[]" ?n]
  show ?thesis by (simp add: time_Sub_def durations)
qed

theorem GenerateStorageProof_needs_coincidence_witness:
  "\<exists>s fileData. fm_RetrieveFile xor_codec (CalculateFileHash [1, 2]) (nd_files (proof_node s)) = Ret (Inr fileData) \<and>
     example_hash = big_SetBytes (go_bytes (CalculateFileHash [1, 2])) mod 251"
proof -
  obtain s md where s: "gm_get (fm_fileIndex (fst s)) (CalculateFileHash [1, 2]) = Some md"
    "fm_RetrieveFile xor_codec (CalculateFileHash [1, 2]) s = Ret (Inr [1, 2])" using retrieve_example by blast
  from example_made [OF s] obtain p where "pv_GenerateStorageProof xor_codec example_libs (Inr [5]) 0
      (CalculateFileHash [1, 2]) (example_verifier 7) (proof_node s) = Ret (Inr p)" by blast
  from GenerateStorageProof_needs_coincidence [OF example_libs_laws(3) example_verifier_new this]
  obtain f where "fm_RetrieveFile xor_codec (CalculateFileHash [1, 2]) (nd_files (proof_node s)) = Ret (Inr f)"
    and "example_hash = big_SetBytes (go_bytes (CalculateFileHash [1, 2])) mod 251"
    by (auto simp: example_libs_def byte_gnark_def)
  then show ?thesis by blast
qed

theorem own_proof_rejected_witness:
  "\<exists>s proof result. pv_GenerateStorageProof xor_codec example_libs (Inr [5]) 0 (CalculateFileHash [1, 2])
       (example_verifier 9) (proof_node s) = Ret (Inr proof) \<and>
     pv_VerifyStorageProof example_libs (\<lambda>_. 0) (Some proof) (example_verifier 9) (proof_node s) =
       Ret (result, proof_node s) \<and> \<not> vr_IsValid result"
proof -
  obtain s md where s: "gm_get (fm_fileIndex (fst s)) (CalculateFileHash [1, 2]) = Some md"
    "fm_RetrieveFile xor_codec (CalculateFileHash [1, 2]) s = Ret (Inr [1, 2])" using retrieve_example by blast
  from example_made [OF s] obtain p where p: "pv_GenerateStorageProof xor_codec example_libs (Inr [5]) 0
      (CalculateFileHash [1, 2]) (example_verifier 9) (proof_node s) = Ret (Inr p)" by blast
  have "lc_ExtractPublicKey (pl_crypto example_libs) (nd_self (proof_node s)) = Inr 7"
    and "(7 :: 8 word) \<noteq> lc_GetPublic (pl_crypto example_libs) 9"
    by (simp_all add: example_libs_def byte_crypto_def proof_node_self)
  from own_proof_rejected [OF example_libs_laws(2) this example_verifier_new p] p show ?thesis by blast
qed

theorem own_proof_accepted_witness:
  "\<exists>s proof. pv_GenerateStorageProof xor_codec example_libs (Inr [5]) 0 (CalculateFileHash [1, 2])
       (example_verifier 7) (proof_node s) = Ret (Inr proof) \<and>
     verdict example_libs (\<lambda>_. hour) proof (example_verifier 7) (proof_node s) = Some True"
proof -
  obtain s md where s: "gm_get (fm_fileIndex (fst s)) (CalculateFileHash [1, 2]) = Some md"
    "fm_RetrieveFile xor_codec (CalculateFileHash [1, 2]) s = Ret (Inr [1, 2])" using retrieve_example by blast
  from example_made [OF s] obtain p where p: "pv_GenerateStorageProof xor_codec example_libs (Inr [5]) 0
      (CalculateFileHash [1, 2]) (example_verifier 7) (proof_node s) = Ret (Inr p)" by blast
  have "replicate 7 CHR ''k'' = ''kkkkkkk''" by (simp add: numeral_eq_Suc)
  then have "cm_peerID (pv_cryptoMgr (example_verifier 7)) = nd_self (proof_node s)"
    by (simp add: example_verifier_def proof_node_self)
  from own_proof_accepted [OF example_libs_laws(1,4,5) example_verifier_new this p, of "\<lambda>_. hour" "proof_node s"]
  have "verdict example_libs (\<lambda>_. hour) p (example_verifier 7) (proof_node s) = Some True"
    by (simp add: CalculateFileHash_def time_Sub_def durations)
  with p show ?thesis by blast
qed


end
