(* ===== verification/Node_Restart.thy ===== *)
theory Node_Restart
  imports Node_Setup Node_Protocol_Correct Network_Runs Proof_Verification_Correct
begin

text \<open>
  What a start of a node guarantees: which handler answers which protocol, that a node that is
  stopped and started again has its identity, its shards and its files, what a deletion between two
  starts destroys, and what a node that has just come up knows of the peers it is connected to.
\<close>

section \<open>Starts that succeed\<close>

text \<open>libp2p gives a host, the DHTs and the pubsubs come up, and so do the proof verifiers.\<close>

definition comes_up ::
  "('k, 'p, 'cs, 'pk, 'vk, 'pf) start_env \<Rightarrow> 'k NodeConfig \<Rightarrow> ('k, 'm) Node \<Rightarrow>
   ('k, 'p, 'cs, 'pk, 'vk) PoSManager \<Rightarrow> bool" where
  "comes_up st config baseNode pos \<longleftrightarrow>
     NewNode (st_host st) (st_generated st) config = Inr baseNode \<and> lh_dht (st_host st) 1 = Inr () \<and>
     lh_pubsub (st_host st) 1 = Inr () \<and> NewPoSManager (st_libs st) (st_toxic st) (st_keys st) = Ret pos"

lemma start_succeeds:
  assumes "comes_up st config baseNode pos" and "no_faults d"
    and "NewEngine (node_dir (pl_pid_String (st_libs st)) (bn_ID baseNode)) d = Inr e"
    and "NewFileManager (node_dir (pl_pid_String (st_libs st)) (bn_ID baseNode)) d = Inr fm"
  shows "NewDecentralizedNode st config d = Ret (Inr (bring_up st pos e fm baseNode d))"
  using assms by (simp add: comes_up_def NewDecentralizedNode_def os_MkdirAll_def no_faults_def)

lemma start_cases:
  assumes "NewDecentralizedNode st config d = Ret (Inr sn)"
  obtains baseNode pos e fm where "NewNode (st_host st) (st_generated st) config = Inr baseNode"
    and "NewEngine (node_dir (pl_pid_String (st_libs st)) (bn_ID baseNode)) d = Inr e"
    and "NewFileManager (node_dir (pl_pid_String (st_libs st)) (bn_ID baseNode)) d = Inr fm"
    and "sn = bring_up st pos e fm baseNode d" and "comes_up st config baseNode pos"
  using assms
  by (auto simp: NewDecentralizedNode_def comes_up_def go_bind_Ret_iff Let_def split: sum.splits)

lemma bootstrap_frame [simp]:
  "bn_ID (snd (dn_bootstrap lh n)) = bn_ID n"
  "bn_streams (snd (dn_bootstrap lh n)) = bn_streams n"
  "bn_Config (snd (dn_bootstrap lh n)) = bn_Config n"
  "bn_ID (snd (n_bootstrap lh n)) = bn_ID n"
  "bn_streams (snd (n_bootstrap lh n)) = bn_streams n"
  "bn_Config (snd (n_bootstrap lh n)) = bn_Config n"
  by (simp_all add: dn_bootstrap_def n_bootstrap_def split: sum.splits prod.splits)

lemma SetStreamHandler_frame [simp]:
  "bn_ID (SetStreamHandler p h n) = bn_ID n"
  "bn_connected (SetStreamHandler p h n) = bn_connected n"
  "bn_Config (SetStreamHandler p h n) = bn_Config n"
  "bn_streams (SetStreamHandler p h n) = gm_put p h (bn_streams n)"
  by (simp_all add: SetStreamHandler_def)

lemma register_verifiers_frame [simp]:
  "bn_ID (register_verifiers pos n) = bn_ID n"
  "bn_connected (register_verifiers pos n) = bn_connected n"
  "bn_Config (register_verifiers pos n) = bn_Config n"
  "gm_get (bn_streams (register_verifiers pos n)) p =
     (if p = proof_protocol then Some ProofRequestHandler else gm_get (bn_streams n) p)"
  by (simp_all add: register_verifiers_def Let_def split: option.splits)

lemma bring_up_state [simp]:
  "nd_self (sn_state (bring_up st pos e fm n d)) = bn_ID n"
  "nd_view (sn_state (bring_up st pos e fm n d)) = initial_view (bn_ID n) fm"
  "nd_storage (sn_state (bring_up st pos e fm n d)) = e"
  "nd_fileManager (sn_state (bring_up st pos e fm n d)) = fm"
  "nd_disk (sn_state (bring_up st pos e fm n d)) = d"
  "bn_ID (sn_node (bring_up st pos e fm n d)) = bn_ID n"
  by (simp_all add: bring_up_def Let_def)

section \<open>Routing\<close>

lemma stream_table_fold:
  "gm_get (bn_streams (fold (\<lambda>(pid, h). SetStreamHandler pid h) t n)) p =
     (case map_of (rev t) p of Some h \<Rightarrow> Some h | None \<Rightarrow> gm_get (bn_streams n) p)"
  by (induction t arbitrary: n) (auto simp: map_add_def split: option.splits prod.splits)

lemma NewNode_parts:
  assumes "NewNode lh generated config = Inr n"
  shows "\<exists>k addrs. (nc_PrivKey config = Some k \<or> nc_PrivKey config = None \<and> generated = Inr k) \<and>
      lh_New lh (listen_addr config) k = Inr (bn_ID n, addrs)"
    and "gm_get (bn_streams n) p = map_of (rev (stream_table (nc_ProtocolID config))) p"
    and "bn_Config n = config" and "bn_handler n = None"
proof -
  have b: "bn_ID (fold (\<lambda>(pid, h). SetStreamHandler pid h) t m) = bn_ID m"
    "bn_Config (fold (\<lambda>(pid, h). SetStreamHandler pid h) t m) = bn_Config m"
    "bn_handler (fold (\<lambda>(pid, h). SetStreamHandler pid h) t m) = bn_handler m" for t and m :: "('a, 'b) Node"
    by (induction t arbitrary: m) (auto simp: SetStreamHandler_def)
  have h: "bn_handler (snd (n_bootstrap lh m)) = bn_handler m" for m :: "('a, 'b) Node"
    by (simp add: n_bootstrap_def split: sum.splits)
  show "\<exists>k addrs. (nc_PrivKey config = Some k \<or> nc_PrivKey config = None \<and> generated = Inr k) \<and>
      lh_New lh (listen_addr config) k = Inr (bn_ID n, addrs)"
    using assms by (auto simp: NewNode_def Let_def b split: sum.splits option.splits)
  show "gm_get (bn_streams n) p = map_of (rev (stream_table (nc_ProtocolID config))) p"
    using assms by (auto simp: NewNode_def Let_def stream_table_fold split: sum.splits option.splits)
  show "bn_Config n = config" and "bn_handler n = None"
    using assms by (auto simp: NewNode_def Let_def b h split: sum.splits option.splits)
qed

lemma table_suffix: "pid @ xs = ys \<Longrightarrow> xs \<noteq> [] \<Longrightarrow> last xs = last ys"
  by (metis last_appendR)

lemma stream_table_get:
  "map_of (rev (stream_table pid)) (pid @ ''/bitswap'') = Some BitSwapStream"
  "map_of (rev (stream_table pid)) (pid @ ''/storage'') = Some StorageStream"
  "map_of (rev (stream_table pid)) (pid @ ''/discovery'') = Some DiscoveryStream"
  "map_of (rev (stream_table pid)) (pid @ ''/proofofstorage'') = Some ProofOfStorageStream"
  by (auto simp: stream_table_def dest!: table_suffix)

section \<open>What lies on the disk\<close>

text \<open>
  The index of the engine and that of the file manager are on disk as they are in memory; a
  directory that holds no index yet belongs to empty ones.
\<close>

definition saved_as :: "string \<Rightarrow> content \<Rightarrow> bool \<Rightarrow> disk \<Rightarrow> bool" where
  "saved_as f c fresh d \<longleftrightarrow>
     (case gm_get (dk_files d) f of None \<Rightarrow> fresh | Some c' \<Rightarrow> c' = c)"

fun engine_saved :: "store \<Rightarrow> bool" where
  "engine_saved (e, d) \<longleftrightarrow> e_ok (e, d) \<and> en_MaxStorageBytes e = DefaultMaxStorageBytes \<and>
     saved_as (en_metadataFile e) (GobChunks (en_chunks e)) (en_chunks e = []) d"

fun files_saved :: "files \<Rightarrow> bool" where
  "files_saved (fm, d) \<longleftrightarrow> fm_shardManager fm = NewShardManager \<and>
     fm_metadataFile fm = filepath_Join [fm_storageDir fm, ''file_metadata.gob''] \<and>
     saved_as (fm_metadataFile fm) (GobFiles (fm_fileIndex fm)) (fm_fileIndex fm = []) d"

declare engine_saved.simps [simp del] files_saved.simps [simp del]

lemma files_saved_engine [simp]: "files_saved (fm\<lparr>fm_engine := e\<rparr>, d) = files_saved (fm, d)"
  by (simp only: files_saved.simps) simp

lemma files_saved_frame:
  "gm_get (dk_files d') (fm_metadataFile fm) = gm_get (dk_files d) (fm_metadataFile fm) \<Longrightarrow>
     files_saved (fm, d') = files_saved (fm, d)"
  unfolding files_saved.simps saved_as_def by simp

text \<open>A directory a node can be started on again and again.\<close>

definition disk_kept :: "string \<Rightarrow> disk \<Rightarrow> bool" where
  "disk_kept dir d \<longleftrightarrow>
     (\<exists>e fm. engine_saved (e, d) \<and> files_saved (fm, d) \<and> en_storageDir e = dir \<and> fm_storageDir fm = dir)"

definition node_saved :: "DNode \<Rightarrow> bool" where
  "node_saved nd \<longleftrightarrow> engine_saved (nd_store nd) \<and> files_saved (nd_files nd) \<and>
     fm_storageDir (nd_fileManager nd) = en_storageDir (nd_storage nd)"

lemma reopen_engine:
  assumes "engine_saved (e, d)"
  shows "NewEngine (en_storageDir e) d = Inr e"
proof -
  have ok: "e_ok (e, d)" and max: "en_MaxStorageBytes e = DefaultMaxStorageBytes"
    using assms by (simp_all add: engine_saved.simps)
  have inv: "e_inv (e, d)" and nf: "no_faults d" using e_ok_D [OF ok] by auto
  show ?thesis
  proof (cases "gm_get (dk_files d) (en_metadataFile e)")
    case None
    then have "en_chunks e = []" using assms by (simp add: engine_saved.simps saved_as_def)
    with None max e_inv_meta [OF inv] nf show ?thesis
      by (simp add: NewEngine_def os_MkdirAll_def no_faults_def e_loadMetadata_def read_gob_def)
  next
    case (Some c)
    then have "gm_get (dk_files d) (en_metadataFile e) = Some (GobChunks (en_chunks e))"
      using assms by (simp add: engine_saved.simps saved_as_def)
    from load_after_save [OF inv nf this] max show ?thesis by simp
  qed
qed

lemma reopen_files:
  assumes "files_saved (fm, d)" and "engine_saved (e, d)" and "fm_storageDir fm = en_storageDir e"
  shows "NewFileManager (fm_storageDir fm) d = Inr (fm\<lparr>fm_engine := e\<rparr>)"
proof -
  have nf: "no_faults d" using assms(2) by (auto simp: engine_saved.simps dest: e_ok_D)
  note F = assms(1) [unfolded files_saved.simps]
  have "NewEngine (fm_storageDir fm) d = Inr e" using reopen_engine [OF assms(2)] assms(3) by simp
  with F nf show ?thesis
    by (auto simp: NewFileManager_def os_MkdirAll_def no_faults_def fm_loadMetadata_def read_gob_def
        saved_as_def split: option.splits)
qed

text \<open>So a start on a kept directory opens what is there, and is saved itself.\<close>

lemma start_opens:
  assumes sn: "NewDecentralizedNode st config d = Ret (Inr sn)" and e: "engine_saved (e, d)" and fm: "files_saved (fm, d)"
    and dir: "en_storageDir e = node_dir (pl_pid_String (st_libs st)) (bn_ID (sn_node sn))" "fm_storageDir fm = en_storageDir e"
  shows "nd_self (sn_state sn) = bn_ID (sn_node sn)" and "nd_disk (sn_state sn) = d"
    and "nd_storage (sn_state sn) = e" and "nd_fileManager (sn_state sn) = fm\<lparr>fm_engine := e\<rparr>"
    and "nd_view (sn_state sn) = initial_view (bn_ID (sn_node sn)) fm" and "nd_published (sn_state sn) = []"
proof -
  obtain n pos e1 fm1 where e1: "NewEngine (node_dir (pl_pid_String (st_libs st)) (bn_ID n)) d = Inr e1"
    and fm1: "NewFileManager (node_dir (pl_pid_String (st_libs st)) (bn_ID n)) d = Inr fm1"
    and b: "sn = bring_up st pos e1 fm1 n d"
    using start_cases [OF sn] by metis
  have "e1 = e" using reopen_engine [OF e] e1 dir b by simp
  moreover have fm': "fm1 = fm\<lparr>fm_engine := e\<rparr>" using reopen_files [OF fm e dir(2)] fm1 dir b by simp
  moreover have "initial_view i (fm\<lparr>fm_engine := e\<rparr>) = initial_view i fm" for i
    by (simp add: initial_view_def fm_ListFiles_def)
  ultimately show "nd_self (sn_state sn) = bn_ID (sn_node sn)" and "nd_disk (sn_state sn) = d"
    and "nd_storage (sn_state sn) = e" and "nd_fileManager (sn_state sn) = fm\<lparr>fm_engine := e\<rparr>"
    and "nd_view (sn_state sn) = initial_view (bn_ID (sn_node sn)) fm" and "nd_published (sn_state sn) = []"
    using b by (simp_all, simp_all add: bring_up_def Let_def)
qed

lemma start_saved:
  assumes sn: "NewDecentralizedNode st config d = Ret (Inr sn)"
    and kept: "disk_kept (node_dir (pl_pid_String (st_libs st)) (bn_ID (sn_node sn))) d"
  shows "node_saved (sn_state sn)" and "nd_disk (sn_state sn) = d"
    and "fm_engine (nd_fileManager (sn_state sn)) = nd_storage (sn_state sn)"
    and "en_storageDir (nd_storage (sn_state sn)) = node_dir (pl_pid_String (st_libs st)) (bn_ID (sn_node sn))"
proof -
  from kept obtain e fm where saved: "engine_saved (e, d)" "files_saved (fm, d)"
    and dir: "en_storageDir e = node_dir (pl_pid_String (st_libs st)) (bn_ID (sn_node sn))" "fm_storageDir fm = en_storageDir e"
    by (auto simp: disk_kept_def)
  note O = start_opens [OF sn saved dir]
  have "files_saved (fm\<lparr>fm_engine := e\<rparr>, d)" using saved(2) by (simp add: files_saved_engine)
  then show "node_saved (sn_state sn)" and "nd_disk (sn_state sn) = d"
    and "fm_engine (nd_fileManager (sn_state sn)) = nd_storage (sn_state sn)"
    and "en_storageDir (nd_storage (sn_state sn)) = node_dir (pl_pid_String (st_libs st)) (bn_ID (sn_node sn))"
    using O saved dir by (simp_all add: node_saved_def node_defs)
qed

section \<open>Requests keep the disk up to date\<close>

lemma saved_ok: "node_saved nd \<Longrightarrow> nd_ok nd"
  by (simp add: node_saved_def nd_ok_def node_defs engine_saved.simps files_saved.simps)

lemma metadata_files_differ: "filepath_Join [dir, ''metadata.gob''] \<noteq> filepath_Join [dir, ''file_metadata.gob'']"
  by (simp add: filepath_Join_inj file_name_def)

text \<open>Key files end in \<open>.key\<close>; nothing a node writes below its directory ends like this.\<close>

definition same_keys :: "disk \<Rightarrow> disk \<Rightarrow> bool" where
  "same_keys d d' \<longleftrightarrow> (\<forall>q. last q = CHR ''y'' \<longrightarrow> gm_get (dk_files d') q = gm_get (dk_files d) q)"

lemma last_Join: "file_name n \<Longrightarrow> last (filepath_Join [d, n]) = last n"
  by (simp add: filepath_Join_file file_name_def)

lemma UpdateFileMetadata_saved:
  assumes "node_saved nd" and "fm_metadataFile fm = fm_metadataFile (nd_fileManager nd)"
    and "fm_storageDir fm = fm_storageDir (nd_fileManager nd)" and "fm_shardManager fm = fm_shardManager (nd_fileManager nd)"
    and u: "fm_UpdateFileMetadata m (fm, nd_disk nd) = (r, s)"
  shows "r = Inr ()" and "node_saved (set_files s nd)"
    and "fm_engine (fst s) = fm_engine fm" and "same_keys (nd_disk nd) (snd s)"
proof -
  obtain fm' d' where s: "s = (fm', d')" by (cases s)
  let ?e = "nd_storage nd"
  have e: "engine_saved (?e, nd_disk nd)" and f: "files_saved (nd_fileManager nd, nd_disk nd)"
    and dir: "fm_storageDir (nd_fileManager nd) = en_storageDir ?e"
    using assms(1) by (simp_all add: node_saved_def node_defs)
  have ok: "e_ok (?e, nd_disk nd)" using e by (simp add: engine_saved.simps)
  have mf: "fm_metadataFile fm = filepath_Join [en_storageDir ?e, ''file_metadata.gob'']"
    using f dir assms(2) by (simp add: files_saved.simps)
  note U = fm_UpdateFileMetadata_frame [OF ok mf u [unfolded s]]
  show r: "r = Inr ()" using U by simp
  have fm': "fm' = fm\<lparr>fm_fileIndex := gm_put (md_FileHash m) m (fm_fileIndex fm)\<rparr>" using U by simp
  with s show "fm_engine (fst s) = fm_engine fm" by simp
  have w: "write_gob (fm_metadataFile fm) (GobFiles (fm_fileIndex fm')) (nd_disk nd) = (Inr (), d')"
    using u s r by (auto simp: fm_UpdateFileMetadata_def fm_saveMetadata_def Let_def fm' split: prod.splits)
  have "last (fm_metadataFile fm) \<noteq> CHR ''y''" by (simp add: mf last_Join file_name_def)
  then have "q \<noteq> fm_metadataFile fm" if "last q = CHR ''y''" for q using that by auto
  then show "same_keys (nd_disk nd) (snd s)"
    using write_gob_frame(3) [OF w] s by (simp add: same_keys_def)
  have "en_metadataFile ?e \<noteq> fm_metadataFile fm"
    using mf e_inv_meta [of ?e "nd_disk nd"] e_ok_D [OF ok] metadata_files_differ by auto
  then have "engine_saved (?e, d')"
    using e U write_gob_frame(3) [OF w] by (simp add: engine_saved.simps saved_as_def)
  moreover have "files_saved (fm', d')"
    using f assms(2-4) write_gob_ok [OF w] fm' by (simp add: files_saved.simps saved_as_def)
  ultimately show "node_saved (set_files s nd)"
    using dir assms(3) s fm' by (simp add: node_saved_def node_defs)
qed

lemma save_shard_metadata_saved:
  assumes sv: "node_saved nd" and r: "save_shard_metadata now1 now2 req nd = Ret (q, s)"
  shows "q = Inr ()" and "node_saved (set_files s nd)" and "fm_engine (fst s) = fm_engine (nd_fileManager nd)"
    and "same_keys (nd_disk nd) (snd s)"
proof -
  from r obtain m fm1 where u: "fm_UpdateFileMetadata m (fm1, nd_disk nd) = (q, s)"
    and fm1: "fm_metadataFile fm1 = fm_metadataFile (nd_fileManager nd)"
      "fm_storageDir fm1 = fm_storageDir (nd_fileManager nd)" "fm_shardManager fm1 = fm_shardManager (nd_fileManager nd)"
      "fm_engine fm1 = fm_engine (nd_fileManager nd)"
    by (auto simp: save_shard_metadata_def Let_def node_defs go_bind_Ret_iff split: sum.splits)
  from UpdateFileMetadata_saved [OF sv fm1(1-3) u] fm1(4)
  show "q = Inr ()" and "node_saved (set_files s nd)" and "fm_engine (fst s) = fm_engine (nd_fileManager nd)"
    and "same_keys (nd_disk nd) (snd s)"
    by simp_all
qed

lemma set_view_saved [simp]: "node_saved (nd\<lparr>nd_view := v\<rparr>) = node_saved nd"
  by (simp add: node_saved_def node_defs)

lemma StoreChunk_saved:
  assumes sv: "node_saved nd" and v: "valid_chunkID k" and r: "e_StoreChunk k b (nd_store nd) = (Inr (), s)"
  shows "node_saved (set_store s nd)" and "same_keys (nd_disk nd) (snd s)"
proof -
  let ?e = "nd_storage nd" and ?d = "nd_disk nd" and ?fm = "nd_fileManager nd"
  obtain e' d' where s: "s = (e', d')" by (cases s)
  have e: "engine_saved (?e, ?d)" and f: "files_saved (?fm, ?d)" and dir: "fm_storageDir ?fm = en_storageDir ?e"
    using sv by (simp_all add: node_saved_def node_defs)
  have ok: "e_ok (?e, ?d)" using e by (simp add: engine_saved.simps)
  note inv = e_ok_D [OF ok]
  have r': "e_StoreChunk k b (?e, ?d) = (Inr (), (e', d'))" using r s by (simp add: node_defs)
  note S = e_StoreChunk_stored [OF _ v r']
  have e': "e' = ?e\<lparr>en_chunks := gm_put k (e_chunkPath ?e k) (en_chunks ?e)\<rparr>" using S(3) inv by simp
  obtain d1 where "e_saveMetadata e' d1 = (Inr (), d')"
    using r' e' by (auto elim!: e_StoreChunk_cases)
  then have m: "gm_get (dk_files d') (en_metadataFile e') = Some (GobChunks (en_chunks e'))"
    by (auto simp: e_saveMetadata_def dest: write_gob_ok)
  have "e_ok (e', d')" using chunks.put_ok [OF ok v r'] by simp
  then have "engine_saved (e', d')" using m e e' by (simp add: engine_saved.simps saved_as_def)
  moreover have "files_saved (?fm, d')"
  proof -
    have fn: "file_name ''file_metadata.gob''" by (simp add: file_name_def)
    have mf: "fm_metadataFile ?fm = filepath_Join [en_storageDir ?e, ''file_metadata.gob'']"
      using f dir by (simp add: files_saved.simps)
    have "k @ ''.chunk'' \<noteq> ''file_metadata.gob''" by (auto dest: append_eq_last)
    then have "fm_metadataFile ?fm \<noteq> e_chunkPath ?e k"
      using mf fn v by (simp add: e_chunkPath_def filepath_Join_inj chunk_file_name)
    moreover have "fm_metadataFile ?fm \<noteq> en_metadataFile ?e"
      using mf e_inv_meta [of ?e ?d] inv metadata_files_differ [of "en_storageDir ?e"] by auto
    ultimately have "gm_get (dk_files d') (fm_metadataFile ?fm) = gm_get (dk_files ?d) (fm_metadataFile ?fm)"
      using S(5) inv by simp
    from files_saved_frame [OF this] f show ?thesis by simp
  qed
  ultimately show "node_saved (set_store s nd)" using s e' dir by (simp add: node_saved_def node_defs)
  have "last (k @ ''.chunk'') \<noteq> CHR ''y''" "last ''metadata.gob'' \<noteq> CHR ''y''" "file_name ''metadata.gob''"
    by (simp_all add: file_name_def)
  then have "last (e_chunkPath ?e k) \<noteq> CHR ''y''" "last (en_metadataFile ?e) \<noteq> CHR ''y''"
    using chunk_file_name [OF v] e_inv_meta [of ?e ?d] inv by (simp_all add: e_chunkPath_def last_Join)
  then have "q \<noteq> e_chunkPath ?e k \<and> q \<noteq> en_metadataFile ?e" if "last q = CHR ''y''" for q using that by auto
  then show "same_keys ?d (snd s)" using S(5) inv s by (simp add: same_keys_def)
qed

lemma updateFileMetadata_saves:
  assumes "n_updateFileMetadata now1 now2 req nd = Ret (q, nd')"
  obtains q1 s1 where "save_shard_metadata now1 now2 req nd = Ret (q1, s1)"
    and "nd' = set_files s1 nd \<or>
      nd' = (set_files s1 nd)\<lparr>nd_view := index_own_shard (sq_FileHash req) (nd_self nd) (nd_view nd)\<rparr>"
proof -
  from assms obtain q1 s1 where s: "save_shard_metadata now1 now2 req nd = Ret (q1, s1)"
    by (auto simp: n_updateFileMetadata_def go_bind_Ret_iff)
  show ?thesis
  proof (rule that)
    show "nd' = set_files s1 nd \<or>
      nd' = (set_files s1 nd)\<lparr>nd_view := index_own_shard (sq_FileHash req) (nd_self nd) (nd_view nd)\<rparr>"
      using assms s by (cases q1) (auto simp: n_updateFileMetadata_def Let_def node_defs)
  qed (rule s)
qed

lemma StoreChunk_grows:
  assumes "e_StoreChunk k b (nd_store nd) = (r, s')" and "gm_get (en_chunks (nd_storage nd)) j = Some p"
  shows "gm_get (en_chunks (fst s')) j = Some p"
  using assms(2) assms(1) [unfolded nd_store_def] by (elim e_StoreChunk_cases) auto

text \<open>
  What a request leaves as it is: identity, directory, the engine of the file manager, the chunks
  the node has, and the key files.
\<close>

definition same_place :: "DNode \<Rightarrow> DNode \<Rightarrow> bool" where
  "same_place nd nd' \<longleftrightarrow> nd_self nd' = nd_self nd \<and> en_storageDir (nd_storage nd') = en_storageDir (nd_storage nd) \<and>
     fm_engine (nd_fileManager nd') = fm_engine (nd_fileManager nd) \<and> same_keys (nd_disk nd) (nd_disk nd') \<and>
     (\<forall>k p. gm_get (en_chunks (nd_storage nd)) k = Some p \<longrightarrow> gm_get (en_chunks (nd_storage nd')) k = Some p)"

lemma accept_saved:
  assumes sv: "node_saved nd" and req: "plain_request req"
    and a: "node_accept et now1 now2 req nd = Ret (resp, nd')"
  shows "node_saved nd' \<and> same_place nd nd'"
  using a req
proof (cases rule: node_accept_cases)
  case (refused x s)
  have "e_ok (nd_store nd)" using saved_ok [OF sv] by (simp add: nd_ok_def)
  then have "s = nd_store nd" using chunks.put_error refused(1) request_chunk_valid [OF req] by blast
  with refused(2) sv show ?thesis by (simp add: node_defs same_place_def same_keys_def)
next
  case (stored s q)
  let ?nd = "set_store s nd"
  note sv1 = StoreChunk_saved(1) [OF sv request_chunk_valid [OF req] stored(1)]
  from stored(2) obtain q1 s1 where u: "save_shard_metadata now1 now2 req ?nd = Ret (q1, s1)"
    and nd': "nd' = set_files s1 ?nd \<or> nd' = (set_files s1 ?nd)\<lparr>nd_view := index_own_shard (sq_FileHash req) (nd_self ?nd) (nd_view ?nd)\<rparr>"
    by (rule updateFileMetadata_saves)
  note W = save_shard_metadata_saved [OF sv1 u]
  have "same_place nd nd'"
    using nd' W(3,4) StoreChunk_saved(2) [OF sv request_chunk_valid [OF req] stored(1)] e_dir_Store [OF stored(1)]
      StoreChunk_grows [OF stored(1)]
    by (auto simp: same_place_def node_defs same_keys_def)
  with nd' W(2) show ?thesis by auto
qed

lemma same_place_refl: "same_place nd nd"
  by (simp add: same_place_def same_keys_def)

lemma same_place_trans: "same_place a b \<Longrightarrow> same_place b c \<Longrightarrow> same_place a c"
  by (simp add: same_place_def same_keys_def)

lemma accept_all_saved:
  "\<lbrakk>keeper.accept_all et now1 now2 reqs nd = Ret nd'; node_saved nd; \<forall>r \<in> set reqs. plain_request r\<rbrakk>
     \<Longrightarrow> node_saved nd' \<and> same_place nd nd'"
proof (induction reqs arbitrary: nd)
  case Nil
  then show ?case by (simp add: same_place_refl)
next
  case (Cons req reqs)
  from Cons.prems(1) obtain resp nd1 where a: "node_accept et now1 now2 req nd = Ret (resp, nd1)"
    and rest: "keeper.accept_all et now1 now2 reqs nd1 = Ret nd'"
    by (cases "node_accept et now1 now2 req nd") auto
  have "plain_request req" using Cons.prems(3) by simp
  note A = accept_saved [OF Cons.prems(2) this a]
  with Cons.IH [OF rest] Cons.prems(3) show ?case by (auto intro: same_place_trans)
qed

lemmas requests_saved = accept_all_saved [OF handle_requests_accept]

section \<open>Starting again\<close>

text \<open>libp2p derives the ID of a host from its key.\<close>

definition host_identity :: "('k, 'p) libp2p_crypto \<Rightarrow> 'k libp2p_host \<Rightarrow> bool" where
  "host_identity lc lh \<longleftrightarrow>
     (\<forall>addr k i addrs. lh_New lh addr k = Inr (i, addrs) \<longrightarrow> lc_IDFromPublicKey lc (lc_GetPublic lc k) = Inr i)"

lemma same_identity:
  assumes "host_identity lc lh" and "host_identity lc lh'"
    and "nc_PrivKey config = Some k" and "nc_PrivKey config' = Some k"
    and "NewNode lh g config = Inr n" and "NewNode lh' g' config' = Inr n'"
  shows "bn_ID n' = bn_ID n"
proof -
  from NewNode_parts(1) [OF assms(5)] assms(1,3) have "lc_IDFromPublicKey lc (lc_GetPublic lc k) = Inr (bn_ID n)"
    by (auto simp: host_identity_def)
  moreover from NewNode_parts(1) [OF assms(6)] assms(2,4)
  have "lc_IDFromPublicKey lc (lc_GetPublic lc k) = Inr (bn_ID n')" by (auto simp: host_identity_def)
  ultimately show ?thesis by simp
qed

lemma storing_populate:
  "storing_peers (fold (populate_file self) ms nv) h =
     storing_peers nv h \<union> (if h \<in> md_FileHash ` set ms then {self} else {})"
proof (induction ms arbitrary: nv)
  case (Cons m ms)
  have "storing_peers (populate_file self m nv) h = storing_peers nv h \<union> (if h = md_FileHash m then {self} else {})"
    by (auto simp: storing_peers_def gm_get_or_def populate_file_eq split: option.splits)
  with Cons.IH [of "populate_file self m nv"] show ?case by auto
qed simp

lemma storing_initial:
  "storing_peers (initial_view self fm) h = (if h \<in> md_FileHash ` set (fm_ListFiles fm) then {self} else {})"
  by (simp add: initial_view_def storing_populate) (simp add: storing_peers_def NewNetworkView_def gm_get_or_def)

lemma NewFileManager_opens: "no_faults d \<Longrightarrow> NewEngine dir d = Inr e \<Longrightarrow> \<exists>fm. NewFileManager dir d = Inr fm"
  by (simp add: NewFileManager_def os_MkdirAll_def no_faults_def)

text \<open>The answers of a node depend on its engine with the disk, and on its file index.\<close>

lemma shard_answers:
  "nd_store nd' = nd_store nd \<Longrightarrow> n_handleShardRequest et q (Some nd') = n_handleShardRequest et q (Some nd)"
  by (cases q) (auto simp: n_handleShardRequest_def)

lemma metadata_answers:
  "fm_fileIndex (nd_fileManager nd') = fm_fileIndex (nd_fileManager nd) \<Longrightarrow>
     n_handleFileMetadataRequest et q (Some nd') = n_handleFileMetadataRequest et q (Some nd)"
  by (cases q) (auto simp: n_handleFileMetadataRequest_def dn_GetFileMetadata_def fm_GetFileInfo_def)

lemma restarted:
  fixes sn :: "('k, 'm, 'p, 'cs, 'pk, 'vk) StartedNode" and base :: "('k, 'm) Node"
  assumes "host_identity lc (st_host st)" and "host_identity lc (st_host st')"
    and "nc_PrivKey config = Some k" and "nc_PrivKey config' = Some k"
    and "pl_pid_String (st_libs st') = pl_pid_String (st_libs st)"
    and "NewDecentralizedNode st config d = Ret (Inr sn)"
    and "disk_kept (node_dir (pl_pid_String (st_libs st)) (bn_ID (sn_node sn))) d"
    and "\<forall>r \<in> set reqs. plain_request r"
    and "handle_requests et now1 now2 reqs (Some (sn_state sn)) = Ret (Some nd)"
    and "comes_up st' config' base pos"
  shows "(NewDecentralizedNode st' config' (nd_disk nd) ::
        (setup_error + ('k, 'm, 'p, 'cs, 'pk, 'vk) StartedNode) go) =
      Ret (Inr (bring_up st' pos (nd_storage nd) ((nd_fileManager nd)\<lparr>fm_engine := nd_storage nd\<rparr>) base (nd_disk nd)))"
    and "bn_ID base = bn_ID (sn_node sn)" and "nd_self nd = bn_ID (sn_node sn)"
    and "disk_kept (node_dir (pl_pid_String (st_libs st)) (bn_ID (sn_node sn))) (nd_disk nd)"
proof -
  let ?dir = "node_dir (pl_pid_String (st_libs st)) (bn_ID (sn_node sn))"
  note S = start_saved [OF assms(6,7)]
  note R = requests_saved [OF assms(8,9) S(1) assms(8)]
  have engine: "engine_saved (nd_storage nd, nd_disk nd)" and files: "files_saved (nd_fileManager nd, nd_disk nd)"
    and dirs: "fm_storageDir (nd_fileManager nd) = en_storageDir (nd_storage nd)" "en_storageDir (nd_storage nd) = ?dir"
    using R S(4) by (simp_all add: node_saved_def node_defs same_place_def)
  have nf: "no_faults (nd_disk nd)" using engine by (auto simp: engine_saved.simps dest: e_ok_D)
  obtain n pos0 e0 fm0 where n: "NewNode (st_host st) (st_generated st) config = Inr n"
    and sn: "sn = bring_up st pos0 e0 fm0 n d"
    by (rule start_cases [OF assms(6)])
  have n': "NewNode (st_host st') (st_generated st') config' = Inr base" using assms(10) by (simp add: comes_up_def)
  have id: "bn_ID base = bn_ID (sn_node sn)" using same_identity [OF assms(1-4) n n'] sn by simp
  have e: "NewEngine (node_dir (pl_pid_String (st_libs st')) (bn_ID base)) (nd_disk nd) = Inr (nd_storage nd)"
    using reopen_engine [OF engine] dirs assms(5) id by simp
  have fm: "NewFileManager (node_dir (pl_pid_String (st_libs st')) (bn_ID base)) (nd_disk nd) =
      Inr ((nd_fileManager nd)\<lparr>fm_engine := nd_storage nd\<rparr>)"
    using reopen_files [OF files engine dirs(1)] dirs assms(5) id by simp
  show "(NewDecentralizedNode st' config' (nd_disk nd) ::
        (setup_error + ('k, 'm, 'p, 'cs, 'pk, 'vk) StartedNode) go) =
      Ret (Inr (bring_up st' pos (nd_storage nd) ((nd_fileManager nd)\<lparr>fm_engine := nd_storage nd\<rparr>) base (nd_disk nd)))"
    by (rule start_succeeds [OF assms(10) nf e fm])
  show "bn_ID base = bn_ID (sn_node sn)" by (rule id)
  show "nd_self nd = bn_ID (sn_node sn)" using R sn by (simp add: same_place_def)
  show "disk_kept ?dir (nd_disk nd)" using engine files dirs by (auto simp: disk_kept_def)
qed

text \<open>
  C13: A node comes back. Take a node that was started on a directory as nodes leave it (an empty one
  for instance), has handled any sequence of storage requests, and has stopped at any moment. If
  libp2p and the provers come up again, a start with the same key succeeds: the new process has the
  same peer ID, the engine the old one had, answers every request for a shard or for metadata as the
  old one did, lists itself as a storing peer of exactly the files it has metadata for, and leaves
  the directory as nodes leave it.
\<close>

theorem restart_restores_node:
  fixes sn :: "('k, 'm, 'p, 'cs, 'pk, 'vk) StartedNode" and base :: "('k, 'm) Node"
  assumes "host_identity lc (st_host st)" and "host_identity lc (st_host st')"
    and "nc_PrivKey config = Some k" and "nc_PrivKey config' = Some k"
    and "pl_pid_String (st_libs st') = pl_pid_String (st_libs st)"
    and "NewDecentralizedNode st config d = Ret (Inr sn)"
    and "disk_kept (node_dir (pl_pid_String (st_libs st)) (bn_ID (sn_node sn))) d"
    and "\<forall>r \<in> set reqs. plain_request r"
    and "handle_requests et now1 now2 reqs (Some (sn_state sn)) = Ret (Some nd)"
    and "comes_up st' config' base pos"
  shows "\<exists>sn' :: ('k, 'm, 'p, 'cs, 'pk, 'vk) StartedNode.
    NewDecentralizedNode st' config' (nd_disk nd) = Ret (Inr sn') \<and>
    bn_ID (sn_node sn') = bn_ID (sn_node sn) \<and> nd_self (sn_state sn') = nd_self nd \<and>
    nd_storage (sn_state sn') = nd_storage nd \<and>
    (\<forall>q. n_handleShardRequest et q (Some (sn_state sn')) = n_handleShardRequest et q (Some nd)) \<and>
    (\<forall>q. n_handleFileMetadataRequest et q (Some (sn_state sn')) = n_handleFileMetadataRequest et q (Some nd)) \<and>
    (\<forall>h. storing_peers (nd_view (sn_state sn')) h =
       (if h \<in> md_FileHash ` set (fm_ListFiles (nd_fileManager nd)) then {nd_self nd} else {})) \<and>
    disk_kept (node_dir (pl_pid_String (st_libs st')) (bn_ID (sn_node sn'))) (nd_disk (sn_state sn'))"
proof -
  let ?sn = "bring_up st' pos (nd_storage nd) ((nd_fileManager nd)\<lparr>fm_engine := nd_storage nd\<rparr>) base (nd_disk nd)"
  note R = restarted [OF assms]
  have "n_handleShardRequest et q (Some (sn_state ?sn)) = n_handleShardRequest et q (Some nd)" for q
    by (rule shard_answers) (simp add: node_defs)
  moreover have "n_handleFileMetadataRequest et q (Some (sn_state ?sn)) = n_handleFileMetadataRequest et q (Some nd)" for q
    by (rule metadata_answers) simp
  moreover have "storing_peers (nd_view (sn_state ?sn)) h =
      (if h \<in> md_FileHash ` set (fm_ListFiles (nd_fileManager nd)) then {bn_ID base} else {})" for h
    by (simp add: storing_initial) (simp add: fm_ListFiles_def)
  ultimately show ?thesis
    using R assms(5) by (intro exI [of _ ?sn]) simp
qed

section \<open>An example\<close>

definition example_host :: "8 word libp2p_host" where
  "example_host =
     \<lparr>lh_New = (\<lambda>addr k. Inr (replicate (unat k) CHR ''k'', [addr])), lh_dht = (\<lambda>_. Inr ()), lh_pubsub = (\<lambda>_. Inr ()),
      lh_Bootstrap = (\<lambda>_. Inr ()), lh_NewMultiaddr = (\<lambda>s. if s = ''?'' then Inl ''no address'' else Inr s),
      lh_AddrInfo = (\<lambda>s. Inr s), lh_Connect = (\<lambda>_ p. if p = ''down'' then Inl ''no route'' else Inr ()),
      lh_Join = Inr (), lh_Subscribe = Inr ()\<rparr>"

definition example_config :: "string list \<Rightarrow> 8 word NodeConfig" where
  "example_config peers =
     \<lparr>nc_Host = ''0.0.0.0'', nc_Port = 4003, nc_ProtocolID = ''/shadspace/1.0.0'', nc_Rendezvous = '''',
      nc_NodeType = ''master'', nc_BootstrapPeers = peers, nc_PrivKey = Some 7, nc_KeyFile = ''''\<rparr>"

definition example_start ::
  "(8 word, 8 word, StorageProofCircuit \<Rightarrow> bool, nat, nat, nat \<times> public_witness) start_env" where
  "example_start = \<lparr>st_host = example_host, st_generated = Inl ''no key'', st_libs = example_libs,
     st_toxic = (\<lambda>_. 3), st_keys = (\<lambda>_. Inr 9), st_clock = (\<lambda>_. 0)\<rparr>"

type_synonym example_base = "(8 word, unit) Node"
type_synonym example_node =
  "(8 word, unit, 8 word, StorageProofCircuit \<Rightarrow> bool, nat, nat) StartedNode"

lemma example_identity: "host_identity byte_crypto (st_host example_start)"
  by (simp add: host_identity_def byte_crypto_def example_start_def example_host_def)

lemma example_up:
  assumes "nc_PrivKey config = Some k"
  shows "\<exists>(base :: example_base) pos. comes_up example_start config base pos \<and> bn_ID base = replicate (unat k) CHR ''k''"
proof -
  have "\<exists>base :: example_base. NewNode example_host (Inl ''no key'') config = Inr base"
    using assms by (simp add: NewNode_def example_host_def Let_def)
  then obtain base :: example_base where b: "NewNode example_host (Inl ''no key'') config = Inr base" by blast
  have "bn_ID base = replicate (unat k) CHR ''k''" using NewNode_parts(1) [OF b] assms by (auto simp: example_host_def)
  moreover have "\<exists>pos. NewPoSManager example_libs (\<lambda>_. 3) (\<lambda>_. Inr 9) = Ret pos"
    by (simp add: NewPoSManager_def NewValidatorManager_verifier_def example_verifier_new)
  ultimately show ?thesis using b by (auto simp: comes_up_def example_start_def) (simp_all add: example_host_def)
qed

lemma example_comes_up: "\<exists>(base :: example_base) pos. comes_up example_start (example_config peers) base pos \<and> bn_ID base = ''kkkkkkk''"
proof -
  have "replicate (unat (7 :: 8 word)) CHR ''k'' = ''kkkkkkk''" by code_simp
  then show ?thesis using example_up [of "example_config peers" 7] by (simp add: example_config_def)
qed

lemma empty_dir_opens:
  assumes "no_faults d" and "gm_get (dk_files d) (filepath_Join [dir, ''metadata.gob'']) = None"
    and "gm_get (dk_files d) (filepath_Join [dir, ''file_metadata.gob'']) = None"
  shows "\<exists>e fm. engine_saved (e, d) \<and> files_saved (fm, d) \<and> en_storageDir e = dir \<and> fm_storageDir fm = dir \<and>
    fm_fileIndex fm = []"
proof -
  let ?e = "fresh_engine dir DefaultMaxStorageBytes"
  let ?fm = "\<lparr>fm_engine = ?e, fm_shardManager = NewShardManager, fm_fileIndex = [],
      fm_metadataFile = filepath_Join [dir, ''file_metadata.gob''], fm_storageDir = dir\<rparr>"
  have "engine_saved (?e, d)"
    using assms by (simp add: engine_saved.simps e_ok.simps e_inv.simps saved_as_def fresh_engine_def)
  moreover have "files_saved (?fm, d)" using assms by (simp add: files_saved.simps saved_as_def)
  moreover have "en_storageDir ?e = dir" by (simp add: fresh_engine_def)
  ultimately show ?thesis by (metis FileManager.select_convs(3,5))
qed

lemma empty_dir_kept:
  assumes "no_faults d" and "gm_get (dk_files d) (filepath_Join [dir, ''metadata.gob'']) = None"
    and "gm_get (dk_files d) (filepath_Join [dir, ''file_metadata.gob'']) = None"
  shows "disk_kept dir d"
  using empty_dir_opens [OF assms] by (auto simp: disk_kept_def)

lemma quiet_kept: "disk_kept dir quiet_disk"
  by (rule empty_dir_kept) (simp_all add: quiet_disk_def no_faults_def)

text \<open>The example node on an empty disk, and after the first shard it is sent.\<close>

lemma example_started_as:
  assumes k: "nc_PrivKey config = Some k"
  shows "\<exists>(sn :: example_node) (base :: example_base) pos. NewDecentralizedNode example_start config quiet_disk = Ret (Inr sn) \<and>
     bn_ID (sn_node sn) = replicate (unat k) CHR ''k'' \<and> comes_up example_start config base pos \<and>
     nd_storage (sn_state sn) = fresh_engine (node_dir (\<lambda>i. i) (bn_ID (sn_node sn))) DefaultMaxStorageBytes \<and>
     nd_disk (sn_state sn) = quiet_disk \<and> fm_fileIndex (nd_fileManager (sn_state sn)) = []"
proof -
  obtain base :: example_base and pos where up: "comes_up example_start config base pos"
    and id: "bn_ID base = replicate (unat k) CHR ''k''" using example_up [OF k] by blast
  have nf: "no_faults quiet_disk" by (simp add: quiet_disk_def no_faults_def)
  have e: "NewEngine dir quiet_disk = Inr (fresh_engine dir DefaultMaxStorageBytes)" for dir
    by (simp add: NewEngine_def os_MkdirAll_def quiet_disk_def e_loadMetadata_def read_gob_def fresh_engine_def)
  have "\<exists>fm. NewFileManager dir quiet_disk = Inr fm \<and> fm_fileIndex fm = []" for dir
    using e [of dir] by (simp add: NewFileManager_def os_MkdirAll_def quiet_disk_def fm_loadMetadata_def read_gob_def)
  then obtain fm where "NewFileManager (node_dir (pl_pid_String (st_libs example_start)) (bn_ID base)) quiet_disk = Inr fm"
    and "fm_fileIndex fm = []" by blast
  moreover have "pl_pid_String (st_libs example_start) = (\<lambda>i. i)" by (simp add: example_start_def example_libs_def)
  ultimately show ?thesis
    using start_succeeds [OF up nf e] up id by (metis bring_up_state(3-6))
qed

lemma example_started:
  "\<exists>(sn :: example_node) (base :: example_base) pos. NewDecentralizedNode example_start (example_config peers) quiet_disk = Ret (Inr sn) \<and>
     bn_ID (sn_node sn) = ''kkkkkkk'' \<and> comes_up example_start (example_config peers) base pos \<and>
     nd_storage (sn_state sn) = fresh_engine (node_dir (\<lambda>i. i) ''kkkkkkk'') DefaultMaxStorageBytes \<and>
     nd_disk (sn_state sn) = quiet_disk \<and> fm_fileIndex (nd_fileManager (sn_state sn)) = []"
proof -
  have "replicate (unat (7 :: 8 word)) CHR ''k'' = ''kkkkkkk''" by code_simp
  moreover have "nc_PrivKey (example_config peers) = Some 7" by (simp add: example_config_def)
  ultimately show ?thesis using example_started_as by metis
qed

lemma dec_one: "dec 1 = ''1''"
  by code_simp

text \<open>A request a nearly empty node takes.\<close>

lemma request_taken:
  assumes sv: "node_saved nd" and req: "plain_request req" and new: "\<not> e_has (nd_store nd) (request_chunk req)"
    and small: "e_total (nd_store nd) + length (sq_ShardData req) \<le> 10"
    and i: "1 \<le> sq_ShardIndex req" "sq_ShardIndex req < 2 ^ 63" and n: "0 \<le> sq_TotalShards req"
    and unk: "gm_get (fm_fileIndex (nd_fileManager nd)) (sq_FileHash req) = None"
  shows "\<exists>nd' md. handle_requests et now1 now2 [req] (Some nd) = Ret (Some nd') \<and> node_saved nd' \<and> same_place nd nd' \<and>
    e_RetrieveChunk (request_chunk req) (nd_store nd') = Inr (sq_ShardData req) \<and>
    en_chunks (nd_storage nd') = gm_put (request_chunk req) (e_chunkPath (nd_storage nd) (request_chunk req)) (en_chunks (nd_storage nd)) \<and>
    fm_fileIndex (nd_fileManager nd') = gm_put (sq_FileHash req) md (fm_fileIndex (nd_fileManager nd)) \<and>
    md_FileHash md = sq_FileHash req \<and> md_TotalShards md = sq_TotalShards req"
proof -
  note ok = saved_ok [OF sv]
  have eok: "e_ok (nd_store nd)" using ok by (simp add: nd_ok_def)
  have max: "en_MaxStorageBytes (fst (nd_store nd)) = DefaultMaxStorageBytes"
    using sv by (simp add: node_saved_def node_defs engine_saved.simps)
  obtain resp nd' where h: "n_handleStorageProtocol et now1 now2 (Some req) (Some nd) = Ret (Some resp, Some nd')"
    and suc: "sr_Success resp"
    using storage_protocol_accepts [OF ok req new fits_small [OF eok max small] i n] by blast
  then have a: "node_accept et now1 now2 req nd = Ret (resp, nd')" by (simp add: node_accept_def)
  note A = accept_saved [OF sv req a] node_accept_chunks(2) [OF ok req a suc]
  from a req obtain s q where st: "e_StoreChunk (request_chunk req) (sq_ShardData req) (nd_store nd) = (Inr (), s)"
    and u: "n_updateFileMetadata now1 now2 req (set_store s nd) = Ret (q, nd')"
    by (cases rule: node_accept_cases) (use suc in auto)
  obtain hashes where f: "fm_fileIndex (nd_fileManager nd') = gm_put (sq_FileHash req)
      (estimated_metadata now1 now2 req (nd_self nd) hashes) (fm_fileIndex (nd_fileManager nd))"
    using updateFileMetadata_new [OF _ u] unk by (auto simp: set_store_def)
  have "nd_storage nd' = fst s"
    using u by (rule updateFileMetadata_saves) (auto simp: node_defs)
  moreover have "fst s = (nd_storage nd)\<lparr>en_chunks := gm_put (request_chunk req)
      (e_chunkPath (nd_storage nd) (request_chunk req)) (en_chunks (nd_storage nd))\<rparr>"
    using st [unfolded nd_store_def] by (auto elim: e_StoreChunk_cases)
  ultimately show ?thesis using h A f
    by (intro exI [of _ nd'] exI [of _ "estimated_metadata now1 now2 req (nd_self nd) hashes"])
      (simp add: estimated_metadata_def)
qed

lemma first_shard_taken:
  "\<exists>(sn :: example_node) nd md (base :: example_base) pos. NewDecentralizedNode example_start (example_config peers) quiet_disk = Ret (Inr sn) \<and>
     bn_ID (sn_node sn) = ''kkkkkkk'' \<and> comes_up example_start (example_config peers) base pos \<and>
     handle_requests plain_errors 0 0 [first_shard] (Some (sn_state sn)) = Ret (Some nd) \<and>
     e_RetrieveChunk ''abc_shard_1'' (nd_store nd) = Inr [1] \<and>
     gm_keys (en_chunks (nd_storage nd)) = [''abc_shard_1''] \<and> fm_fileIndex (nd_fileManager nd) = [(''abc'', md)] \<and>
     md_FileHash md = ''abc'' \<and> md_TotalShards md = 3"
proof -
  have q: "quiet_disk = \<lparr>dk_files = [], dk_fails = \<lambda>_. False, dk_short = \<lambda>_. 0\<rparr>" by (rule quiet_disk_def)
  obtain sn :: example_node and base :: example_base and pos
    where st: "NewDecentralizedNode example_start (example_config peers) quiet_disk = Ret (Inr sn)"
    and sn: "bn_ID (sn_node sn) = ''kkkkkkk''" "comes_up example_start (example_config peers) base pos"
      "nd_storage (sn_state sn) = fresh_engine (node_dir (\<lambda>i. i) ''kkkkkkk'') DefaultMaxStorageBytes"
      "nd_disk (sn_state sn) = quiet_disk" "fm_fileIndex (nd_fileManager (sn_state sn)) = []"
    using example_started by blast
  note S = start_saved [OF st quiet_kept]
  have k: "request_chunk first_shard = ''abc_shard_1''" "plain_request first_shard" "sq_FileHash first_shard = ''abc''"
    "sq_ShardData first_shard = [1]" "sq_TotalShards first_shard = 3" "sq_ShardIndex first_shard = 1"
    by (simp_all add: request_chunk_def first_shard_def plain_request_def dec_one)
  have "\<not> e_has (nd_store (sn_state sn)) (request_chunk first_shard)" and "e_total (nd_store (sn_state sn)) = 0"
    using sn by (simp_all add: e_has_def e_total_def node_defs fresh_engine_def)
  then show ?thesis
    using request_taken [OF S(1) k(2), of plain_errors 0 0] st sn k by (auto simp: fresh_engine_def)
qed

theorem restart_restores_node_witness:
  "\<exists>(sn :: example_node) nd (sn' :: example_node).
     NewDecentralizedNode example_start (example_config []) quiet_disk = Ret (Inr sn) \<and>
     handle_requests plain_errors 0 0 [first_shard] (Some (sn_state sn)) = Ret (Some nd) \<and>
     NewDecentralizedNode example_start (example_config []) (nd_disk nd) = Ret (Inr sn') \<and>
     n_handleShardRequest plain_errors (Some (''abc'', 1)) (Some (sn_state sn')) = Some \<lparr>hr_Data = [1], hr_Error = ''''\<rparr>"
proof -
  obtain sn :: example_node and nd and base :: example_base and pos
    where st: "NewDecentralizedNode example_start (example_config []) quiet_disk = Ret (Inr sn)"
    and up: "comes_up example_start (example_config []) base pos"
    and run: "handle_requests plain_errors 0 0 [first_shard] (Some (sn_state sn)) = Ret (Some nd)"
    and has: "e_RetrieveChunk ''abc_shard_1'' (nd_store nd) = Inr [1]"
    using first_shard_taken by blast
  have k: "nc_PrivKey (example_config []) = Some 7" by (simp add: example_config_def)
  have p: "\<forall>r \<in> set [first_shard]. plain_request r" by (simp add: plain_request_def first_shard_def)
  have "n_handleShardRequest plain_errors (Some (''abc'', 1)) (Some nd) = Some \<lparr>hr_Data = [1], hr_Error = ''''\<rparr>"
    using has by (simp add: n_handleShardRequest_def dn_GetShard_def dec_one)
  with restart_restores_node [OF example_identity example_identity k k refl st quiet_kept p run up] st run
  show ?thesis by metis
qed

section \<open>Streams\<close>

text \<open>
  Routing. Whatever protocol ID the configuration has, a started node answers the four streams of
  the master protocol and the five file protocols with their own handlers; the proof protocol is
  answered by the proof verifier, never by the stub that \<open>NewNode\<close> registers first; and the master
  protocol has no master node behind it.
\<close>

theorem streams_routed:
  assumes "NewDecentralizedNode st config d = Ret (Inr sn)"
  shows "let s = gm_get (bn_streams (sn_node sn)); pid = nc_ProtocolID config
    in s (pid @ ''/bitswap'') = Some BitSwapStream \<and> s (pid @ ''/storage'') = Some StorageStream \<and>
      s (pid @ ''/discovery'') = Some DiscoveryStream \<and> s (pid @ ''/proofofstorage'') = Some ProofOfStorageStream \<and>
      s ''/shadspace/file-metadata/1.0.0'' = Some FileMetadataRequest \<and> s ''/shadspace/file-shard/1.0.0'' = Some ShardRequest \<and>
      s ''/shadspace/file-list/1.0.0'' = Some FileListRequest \<and> s ''/shadspace/storage/1.0.0'' = Some StorageProtocol \<and>
      s ''/shardspace/proof/1.0.0'' = Some ProofRequestHandler \<and> (\<forall>p. s p \<noteq> Some ProofVerificationStream) \<and>
      bn_handler (sn_node sn) = None"
proof -
  obtain n pos e fm where n: "NewNode (st_host st) (st_generated st) config = Inr n" and sn: "sn = bring_up st pos e fm n d"
    by (rule start_cases [OF assms])
  let ?pid = "nc_ProtocolID config"
  have s: "gm_get (bn_streams (sn_node sn)) p =
      (if p = proof_protocol then Some ProofRequestHandler else map_of (rev (stream_table ?pid)) p)" for p
    using NewNode_parts(2) [OF n] by (simp add: sn bring_up_def Let_def)
  have h: "bn_handler (sn_node sn) = None"
    using NewNode_parts(4) [OF n]
    by (simp add: sn bring_up_def Let_def dn_bootstrap_def register_verifiers_def SetStreamHandler_def
        split: sum.splits prod.splits option.splits)
  have other: "?pid @ x # xs \<noteq> proof_protocol" if "last (x # xs) \<noteq> CHR ''0''" for x xs
    using that by (auto simp: proof_protocol_def dest!: table_suffix)
  have c: "map_of (rev (stream_table ?pid)) ''/shadspace/file-metadata/1.0.0'' = Some FileMetadataRequest"
    "map_of (rev (stream_table ?pid)) ''/shadspace/file-shard/1.0.0'' = Some ShardRequest"
    "map_of (rev (stream_table ?pid)) ''/shadspace/file-list/1.0.0'' = Some FileListRequest"
    "map_of (rev (stream_table ?pid)) ''/shadspace/storage/1.0.0'' = Some StorageProtocol"
    by (simp_all add: stream_table_def)
  have stub: "map_of (rev (stream_table ?pid)) p \<noteq> Some ProofVerificationStream" if "p \<noteq> proof_protocol" for p
    using that by (auto simp: stream_table_def proof_protocol_def split: if_splits)
  show ?thesis
    unfolding Let_def s
    using h c stub stream_table_get [of ?pid] by (simp add: other) (simp add: proof_protocol_def)
qed

theorem streams_routed_witness:
  "\<exists>sn :: example_node. NewDecentralizedNode example_start (example_config []) quiet_disk = Ret (Inr sn) \<and>
     gm_get (bn_streams (sn_node sn)) ''/shadspace/1.0.0/storage'' = Some StorageStream"
proof -
  obtain sn :: example_node where st: "NewDecentralizedNode example_start (example_config []) quiet_disk = Ret (Inr sn)"
    using example_started by blast
  from streams_routed [OF st] have "gm_get (bn_streams (sn_node sn)) (nc_ProtocolID (example_config []) @ ''/storage'') = Some StorageStream"
    by (simp add: Let_def)
  with st show ?thesis by (simp add: example_config_def)
qed

section \<open>Deleting through a stale engine\<close>

text \<open>The index on disk is the one in memory.\<close>

fun index_written :: "store \<Rightarrow> bool" where
  "index_written (e, d) \<longleftrightarrow> gm_get (dk_files d) (en_metadataFile e) = Some (GobChunks (en_chunks e))"

lemma DeleteChunk_disk:
  assumes ok: "e_ok (e, d)"
  shows "e_has (e, d) k \<or> index_written (e, d) \<Longrightarrow> index_written (snd (e_DeleteChunk k (e, d)))"
    and "\<lbrakk>q \<noteq> en_metadataFile e; \<forall>j p. gm_get (en_chunks e) j = Some p \<longrightarrow> q \<noteq> p\<rbrakk> \<Longrightarrow>
      gm_get (dk_files (snd (snd (e_DeleteChunk k (e, d))))) q = gm_get (dk_files d) q"
    and "fst (snd (e_DeleteChunk k (e, d))) = e\<lparr>en_chunks := gm_del k (en_chunks e)\<rparr>"
proof -
  have inv: "e_inv (e, d)" and nf: "no_faults d" using e_ok_D [OF ok] by auto
  have f: "dk_fails d = (\<lambda>_. False)" using nf by (auto simp: no_faults_def)
  have del: "gm_get m k = None \<Longrightarrow> gm_del k m = m" for m :: "(string, string) gomap"
    by (induction m) (auto split: if_splits)
  have "(e_has (e, d) k \<or> index_written (e, d) \<longrightarrow> index_written (snd (e_DeleteChunk k (e, d)))) \<and>
    (q \<noteq> en_metadataFile e \<and> (\<forall>j p. gm_get (en_chunks e) j = Some p \<longrightarrow> q \<noteq> p) \<longrightarrow>
      gm_get (dk_files (snd (snd (e_DeleteChunk k (e, d))))) q = gm_get (dk_files d) q) \<and>
    fst (snd (e_DeleteChunk k (e, d))) = e\<lparr>en_chunks := gm_del k (en_chunks e)\<rparr>"
  proof (cases "gm_get (en_chunks e) k")
    case None
    then show ?thesis by (simp add: e_DeleteChunk_def e_has_def del)
  next
    case (Some p)
    note D = e_inv_D [OF inv Some]
    have "p \<noteq> en_metadataFile e" using D(1,2) e_inv_meta [OF inv] e_chunkPath_metadata by simp
    with D f Some show ?thesis
      by (auto simp: e_DeleteChunk_def os_Remove_def e_saveMetadata_def write_gob_def)
  qed
  then show "e_has (e, d) k \<or> index_written (e, d) \<Longrightarrow> index_written (snd (e_DeleteChunk k (e, d)))"
    and "\<lbrakk>q \<noteq> en_metadataFile e; \<forall>j p. gm_get (en_chunks e) j = Some p \<longrightarrow> q \<noteq> p\<rbrakk> \<Longrightarrow>
      gm_get (dk_files (snd (snd (e_DeleteChunk k (e, d))))) q = gm_get (dk_files d) q"
    and "fst (snd (e_DeleteChunk k (e, d))) = e\<lparr>en_chunks := gm_del k (en_chunks e)\<rparr>"
    by blast+
qed

lemma delete_all_disk:
  assumes "e_ok (e, d)" and "fold (\<lambda>k s. snd (e_DeleteChunk k s)) ks (e, d) = (e', d')"
  shows "(\<exists>k \<in> set ks. e_has (e, d) k) \<or> index_written (e, d) \<Longrightarrow> index_written (e', d')"
    and "\<lbrakk>q \<noteq> en_metadataFile e; \<forall>j p. gm_get (en_chunks e) j = Some p \<longrightarrow> q \<noteq> p\<rbrakk> \<Longrightarrow>
      gm_get (dk_files d') q = gm_get (dk_files d) q"
    and "\<exists>m. e' = e\<lparr>en_chunks := m\<rparr> \<and> (\<forall>j p. gm_get m j = Some p \<longrightarrow> gm_get (en_chunks e) j = Some p)"
proof -
  have "((\<exists>k \<in> set ks. e_has (e, d) k) \<or> index_written (e, d) \<longrightarrow> index_written (e', d')) \<and>
    (q \<noteq> en_metadataFile e \<and> (\<forall>j p. gm_get (en_chunks e) j = Some p \<longrightarrow> q \<noteq> p) \<longrightarrow>
      gm_get (dk_files d') q = gm_get (dk_files d) q) \<and>
    (\<exists>m. e' = e\<lparr>en_chunks := m\<rparr> \<and> (\<forall>j p. gm_get m j = Some p \<longrightarrow> gm_get (en_chunks e) j = Some p))"
    using assms
  proof (induction ks arbitrary: e d)
    case Nil
    then have "e' = e" "d' = d" by simp_all
    moreover have "e = e\<lparr>en_chunks := en_chunks e\<rparr>" by simp
    ultimately show ?case by (metis Engine.select_convs(1) empty_iff list.set(1))
  next
    case (Cons k ks)
    obtain e1 d1 where s: "snd (e_DeleteChunk k (e, d)) = (e1, d1)" by fastforce
    note D = DeleteChunk_disk [OF Cons.prems(1), where k = k, unfolded s]
    have e1: "e1 = e\<lparr>en_chunks := gm_del k (en_chunks e)\<rparr>" using D(3) by simp
    have ok1: "e_ok (e1, d1)" using chunks.del_inv [OF Cons.prems(1), of k] s by simp
    have h: "e_has (e1, d1) j \<longleftrightarrow> j \<noteq> k \<and> e_has (e, d) j" for j
      using chunks.del_has [OF Cons.prems(1), of k j] s by simp
    have f: "fold (\<lambda>k s. snd (e_DeleteChunk k s)) ks (e1, d1) = (e', d')" using Cons.prems(2) s by simp
    note IH = Cons.IH [OF ok1 f]
    have "index_written (e', d')" if "(\<exists>k \<in> set (k # ks). e_has (e, d) k) \<or> index_written (e, d)"
      using that IH D(1) h by (metis set_ConsD snd_conv)
    moreover have "gm_get (dk_files d') q = gm_get (dk_files d) q"
      if "q \<noteq> en_metadataFile e" "\<forall>j p. gm_get (en_chunks e) j = Some p \<longrightarrow> q \<noteq> p"
      using that IH D(2) [where q = q] e1 by simp
    moreover obtain m where "e' = e1\<lparr>en_chunks := m\<rparr>" "\<forall>j p. gm_get m j = Some p \<longrightarrow> gm_get (en_chunks e1) j = Some p"
      using IH by blast
    then have "e' = e\<lparr>en_chunks := m\<rparr> \<and> (\<forall>j p. gm_get m j = Some p \<longrightarrow> gm_get (en_chunks e) j = Some p)"
      using e1 by simp (metis option.distinct(1))
    ultimately show ?case by blast
  qed
  then show "(\<exists>k \<in> set ks. e_has (e, d) k) \<or> index_written (e, d) \<Longrightarrow> index_written (e', d')"
    and "\<lbrakk>q \<noteq> en_metadataFile e; \<forall>j p. gm_get (en_chunks e) j = Some p \<longrightarrow> q \<noteq> p\<rbrakk> \<Longrightarrow>
      gm_get (dk_files d') q = gm_get (dk_files d) q"
    and "\<exists>m. e' = e\<lparr>en_chunks := m\<rparr> \<and> (\<forall>j p. gm_get m j = Some p \<longrightarrow> gm_get (en_chunks e) j = Some p)"
    by blast+
qed

lemma chunkPath_not_files: "valid_chunkID k \<Longrightarrow> e_chunkPath e k \<noteq> filepath_Join [en_storageDir e, ''file_metadata.gob'']"
proof -
  assume k: "valid_chunkID k"
  have "k @ ''.chunk'' \<noteq> ''file_metadata.gob''" by (auto dest: append_eq_last)
  then show ?thesis
    using k filepath_Join_inj [OF chunk_file_name [OF k], of "''file_metadata.gob''"]
    by (simp add: e_chunkPath_def file_name_def)
qed

text \<open>An engine that knows some of the chunks of another one over the same directory.\<close>

lemma sub_engine_ok:
  assumes "e_ok (e, d)" and "e_ok (e0, d0)" and "en_storageDir e0 = en_storageDir e"
    and "\<forall>k p. gm_get (en_chunks e0) k = Some p \<longrightarrow> gm_get (en_chunks e) k = Some p"
  shows "e_ok (e0, d)"
proof -
  have inv: "e_inv (e, d)" and nf: "no_faults d" and inv0: "e_inv (e0, d0)"
    using e_ok_D [OF assms(1)] e_ok_D [OF assms(2)] by auto
  have "e_inv (e0, d)"
  proof (rule e_inv_I)
    show "gm_wf (en_chunks e0)" and "en_metadataFile e0 = filepath_Join [en_storageDir e0, ''metadata.gob'']"
      using inv0 by (simp_all add: e_inv.simps)
    fix k p
    assume "gm_get (en_chunks e0) k = Some p"
    with assms(4) have "gm_get (en_chunks e) k = Some p" by simp
    from e_inv_D [OF inv this] assms(3)
    show "valid_chunkID k \<and> p = e_chunkPath e0 k \<and> (\<exists>b. gm_get (dk_files d) p = Some (Raw b))"
      by (simp add: e_chunkPath_def)
  qed
  with nf show ?thesis by (simp add: e_ok.simps)
qed

text \<open>What a deletion leaves on the disk when the file manager's engine has a shard of the file.\<close>

lemma stale_delete:
  assumes ok: "e_ok (e, D)" and ok0: "e_ok (e0, D)" and dir: "en_storageDir e0 = en_storageDir e"
    and fm: "fm_engine fm = e0" "fm_metadataFile fm = filepath_Join [en_storageDir e0, ''file_metadata.gob'']"
    and md: "gm_get (fm_fileIndex fm) h = Some md" and hit: "j < nat (md_TotalShards md)" "e_has (e0, D) (shard_id h (j + 1))"
    and del: "fm_DeleteFile h (fm, D) = (Inr u, (fm2, d2))"
  obtains m where "e_ok (e0\<lparr>en_chunks := m\<rparr>, d2)" and "index_written (e0\<lparr>en_chunks := m\<rparr>, d2)"
    and "\<forall>k p. gm_get m k = Some p \<longrightarrow> gm_get (en_chunks e0) k = Some p"
    and "\<forall>k b. \<not> e_has (e0, D) k \<longrightarrow> e_RetrieveChunk k (e, D) = Inr b \<longrightarrow> e_RetrieveChunk k (e, d2) = Inr b"
proof -
  let ?ids = "shard_ids h (nat (md_TotalShards md))"
  obtain e1 d1 where ds: "fold (\<lambda>k s. snd (e_DeleteChunk k s)) ?ids (e0, D) = (e1, d1)" by fastforce
  have w: "write_gob (fm_metadataFile fm) (GobFiles (gm_del h (fm_fileIndex fm))) d1 = (Inr (), d2)"
    using del md ds fm(1)
    by (auto simp: fm_DeleteFile_def delete_shards_fold fm_saveMetadata_def Let_def split: prod.splits sum.splits)
  have "shard_id h (j + 1) \<in> set ?ids" using hit(1) by (auto simp: set_shard_ids)
  with hit(2) have "\<exists>k \<in> set ?ids. e_has (e0, D) k" by blast
  note DD = delete_all_disk(1) [OF ok0 ds disjI1, OF this] delete_all_disk(2,3) [OF ok0 ds]
  obtain m where e1: "e1 = e0\<lparr>en_chunks := m\<rparr>" and m: "\<forall>k p. gm_get m k = Some p \<longrightarrow> gm_get (en_chunks e0) k = Some p"
    using DD(3) by blast
  have ok1: "e_ok (e1, d1)" using chunks.del_all [OF ok0, of ?ids] ds by simp
  have g: "\<And>b. GobFiles (gm_del h (fm_fileIndex fm)) \<noteq> Raw b" by simp
  have mf: "fm_metadataFile fm = filepath_Join [en_storageDir e1, ''file_metadata.gob'']" using fm e1 by simp
  note ok2 = save_frame(2) [OF ok1 mf g w]
  have nf: "no_faults D" "no_faults d2" using e_ok_D [OF ok] e_ok_D [OF ok2] by auto
  have meta: "en_metadataFile e0 = filepath_Join [en_storageDir e0, ''metadata.gob'']"
    using e_ok_D [OF ok0] by (auto simp: e_inv.simps)
  then have "en_metadataFile e1 \<noteq> fm_metadataFile fm" using fm(2) e1 metadata_files_differ by auto
  then have "index_written (e1, d2)" using DD(1) write_gob_frame(3) [OF w] by simp
  moreover have "e_RetrieveChunk k (e, d2) = Inr b" if k: "\<not> e_has (e0, D) k" "e_RetrieveChunk k (e, D) = Inr b" for k b
  proof -
    have "e_RetrieveChunk k (e, d2) = e_RetrieveChunk k (e, D)"
    proof (rule e_RetrieveChunk_frame [OF nf refl])
      fix p
      assume p: "gm_get (en_chunks e) k = Some p"
      have D: "valid_chunkID k" "p = e_chunkPath e k" using e_inv_D [OF _ p] e_ok_D [OF ok] by auto
      have "e_chunkPath e = e_chunkPath e0" using dir by (simp add: e_chunkPath_def fun_eq_iff)
      then have "p \<noteq> q" if "gm_get (en_chunks e0) i = Some q" for i q
        using that D k(1) e_inv_D(1,2) [OF _ that] e_ok_D [OF ok0] by (auto simp: e_chunkPath_inj e_has_def)
      moreover have "p \<noteq> en_metadataFile e0"
        using D e_chunkPath_metadata [OF D(1), of e] meta dir by simp
      ultimately have "gm_get (dk_files d1) p = gm_get (dk_files D) p" by (intro DD(2)) auto
      moreover have "p \<noteq> fm_metadataFile fm" using D chunkPath_not_files [OF D(1), of e] fm(2) dir by simp
      ultimately show "gm_get (dk_files d2) p = gm_get (dk_files D) p" using write_gob_frame(3) [OF w] by simp
    qed
    with k(2) show ?thesis by simp
  qed
  ultimately show thesis using that ok2 m e1 by blast
qed

text \<open>The two engines of a node that has taken some requests.\<close>

lemma two_engines:
  assumes S: "node_saved (sn_state sn)" "nd_disk (sn_state sn) = d" "fm_engine (nd_fileManager (sn_state sn)) = nd_storage (sn_state sn)"
    and R: "node_saved nd" "same_place (sn_state sn) nd"
  shows "e_ok (nd_storage nd, nd_disk nd)" and "e_ok (nd_storage (sn_state sn), nd_disk nd)"
    and "en_storageDir (nd_storage (sn_state sn)) = en_storageDir (nd_storage nd)"
    and "fm_engine (nd_fileManager nd) = nd_storage (sn_state sn)"
    and "fm_metadataFile (nd_fileManager nd) = filepath_Join [en_storageDir (nd_storage (sn_state sn)), ''file_metadata.gob'']"
proof -
  show ok: "e_ok (nd_storage nd, nd_disk nd)" using saved_ok [OF R(1)] by (simp add: nd_ok_def node_defs)
  have "e_ok (nd_storage (sn_state sn), d)" using saved_ok [OF S(1)] S(2) by (simp add: nd_ok_def node_defs)
  then show "e_ok (nd_storage (sn_state sn), nd_disk nd)"
    using R(2) by (intro sub_engine_ok [OF ok]) (simp_all add: same_place_def)
  show dir: "en_storageDir (nd_storage (sn_state sn)) = en_storageDir (nd_storage nd)" using R(2) by (simp add: same_place_def)
  show "fm_engine (nd_fileManager nd) = nd_storage (sn_state sn)" using R(2) S(3) by (simp add: same_place_def)
  show "fm_metadataFile (nd_fileManager nd) = filepath_Join [en_storageDir (nd_storage (sn_state sn)), ''file_metadata.gob'']"
    using saved_ok [OF R(1)] dir by (simp add: nd_ok_def)
qed

text \<open>A start opens the engine whose index was written last.\<close>

lemma start_opens_written:
  assumes "e_ok (e, d)" and "index_written (e, d)" and "comes_up st config base pos"
    and "en_storageDir e = node_dir (pl_pid_String (st_libs st)) (bn_ID base)"
  shows "\<exists>fm. NewDecentralizedNode st config d =
    Ret (Inr (bring_up st pos (e\<lparr>en_MaxStorageBytes := DefaultMaxStorageBytes\<rparr>) fm base d))"
proof -
  have nf: "no_faults d" using e_ok_D [OF assms(1)] by simp
  have "NewEngine (en_storageDir e) d = Inr (e\<lparr>en_MaxStorageBytes := DefaultMaxStorageBytes\<rparr>)"
    using load_after_save [OF _ nf, of e] e_ok_D [OF assms(1)] assms(2) by simp
  then have e: "NewEngine (node_dir (pl_pid_String (st_libs st)) (bn_ID base)) d = Inr (e\<lparr>en_MaxStorageBytes := DefaultMaxStorageBytes\<rparr>)"
    using assms(4) by simp
  obtain fm where "NewFileManager (node_dir (pl_pid_String (st_libs st)) (bn_ID base)) d = Inr fm"
    using NewFileManager_opens [OF nf e] by blast
  from start_succeeds [OF assms(3) nf e this] show ?thesis by blast
qed

text \<open>
  C15: A deletion makes a node forget. The node and its file manager open an engine each on the same
  directory, and each saves its own index there. A node accepts a shard after its start and serves
  it; then a file is deleted of which the node had a shard when it was started. The shard is still
  served, but no longer after the next start: the index the file manager's engine has saved does
  not name it.
\<close>

theorem delete_forgets_shards:
  fixes sn :: "('k, 'm, 'p, 'cs, 'pk, 'vk) StartedNode" and base :: "('k, 'm) Node"
  assumes "host_identity lc (st_host st)" and "host_identity lc (st_host st')"
    and "nc_PrivKey config = Some key" and "nc_PrivKey config' = Some key"
    and "pl_pid_String (st_libs st') = pl_pid_String (st_libs st)"
    and "NewDecentralizedNode st config d = Ret (Inr sn)"
    and "disk_kept (node_dir (pl_pid_String (st_libs st)) (bn_ID (sn_node sn))) d"
    and "\<forall>r \<in> set reqs. plain_request r"
    and "handle_requests et now1 now2 reqs (Some (sn_state sn)) = Ret (Some nd)"
    and "\<not> e_has (nd_store (sn_state sn)) (h @ ''_shard_'' @ dec i)"
    and "n_handleShardRequest et (Some (h, i)) (Some nd) = Some \<lparr>hr_Data = b, hr_Error = ''''\<rparr>"
    and "gm_get (fm_fileIndex (nd_fileManager nd)) g = Some md" and "j < nat (md_TotalShards md)"
    and "e_has (nd_store (sn_state sn)) (shard_id g (j + 1))"
    and "so_DeleteFileDistributed env clock g nd = (Inr (), nd2)"
    and "comes_up st' config' base pos"
  shows "n_handleShardRequest et (Some (h, i)) (Some nd2) = Some \<lparr>hr_Data = b, hr_Error = ''''\<rparr> \<and>
    (\<exists>sn' :: ('k, 'm, 'p, 'cs, 'pk, 'vk) StartedNode.
      NewDecentralizedNode st' config' (nd_disk nd2) = Ret (Inr sn') \<and>
      n_handleShardRequest et (Some (h, i)) (Some (sn_state sn')) =
        Some \<lparr>hr_Data = [], hr_Error = ''failed to get shard: '' @ et_chunk et (ChunkNotFound (h @ ''_shard_'' @ dec i))\<rparr>)"
proof -
  let ?k = "h @ ''_shard_'' @ dec i" and ?e0 = "nd_storage (sn_state sn)"
  note S = start_saved [OF assms(6,7)]
  note R = requests_saved [OF assms(8,9) S(1) assms(8), THEN conjunct1] requests_saved [OF assms(8,9) S(1) assms(8), THEN conjunct2]
  note E = two_engines [OF S(1-3) R]
  have has: "\<not> e_has (?e0, nd_disk nd) ?k" "e_has (?e0, nd_disk nd) (shard_id g (j + 1))"
    using assms(10,14) by (simp_all add: e_has_def node_defs)
  obtain fm2 d2 u where del: "fm_DeleteFile g (nd_fileManager nd, nd_disk nd) = (Inr u, (fm2, d2))"
    and nd2: "nd_storage nd2 = nd_storage nd" "nd_disk nd2 = d2"
    using assms(15) by (auto simp: so_DeleteFileDistributed_def so_announceFileDeletion_def Let_def node_defs
        split: prod.splits sum.splits if_splits)
  obtain m where e2: "e_ok (?e0\<lparr>en_chunks := m\<rparr>, d2)" "index_written (?e0\<lparr>en_chunks := m\<rparr>, d2)"
    and m: "\<forall>k p. gm_get m k = Some p \<longrightarrow> gm_get (en_chunks ?e0) k = Some p"
    and keep: "\<forall>k b. \<not> e_has (?e0, nd_disk nd) k \<longrightarrow> e_RetrieveChunk k (nd_storage nd, nd_disk nd) = Inr b \<longrightarrow>
      e_RetrieveChunk k (nd_storage nd, d2) = Inr b"
    by (rule stale_delete [OF E assms(12,13) has(2) del])
  obtain n pos0 e0 fm0 where n: "NewNode (st_host st) (st_generated st) config = Inr n"
    and sn: "sn = bring_up st pos0 e0 fm0 n d"
    by (rule start_cases [OF assms(6)])
  have base: "NewNode (st_host st') (st_generated st') config' = Inr base" using assms(16) by (simp add: comes_up_def)
  have "en_storageDir (?e0\<lparr>en_chunks := m\<rparr>) = node_dir (pl_pid_String (st_libs st')) (bn_ID base)"
    using same_identity [OF assms(1-4) n base] sn S(4) assms(5) by simp
  from start_opens_written [OF e2 assms(16) this] obtain fm' where
    new: "(NewDecentralizedNode st' config' (nd_disk nd2) :: (setup_error + ('k, 'm, 'p, 'cs, 'pk, 'vk) StartedNode) go) =
      Ret (Inr (bring_up st' pos (?e0\<lparr>en_chunks := m, en_MaxStorageBytes := DefaultMaxStorageBytes\<rparr>) fm' base d2))"
    unfolding nd2(2) by auto
  have "gm_get m ?k = None" using m has(1) by (auto simp: e_has_def) (metis not_None_eq)
  then have "e_RetrieveChunk ?k (?e0\<lparr>en_chunks := m, en_MaxStorageBytes := DefaultMaxStorageBytes\<rparr>, d2) = Inl (ChunkNotFound ?k)"
    by (simp add: e_RetrieveChunk_def)
  moreover have "e_RetrieveChunk ?k (nd_store nd) = Inr b"
    using assms(11) by (auto simp: n_handleShardRequest_def dn_GetShard_def split: sum.splits)
  then have "e_RetrieveChunk ?k (nd_storage nd, d2) = Inr b" using keep has(1) by (simp add: node_defs)
  ultimately show ?thesis
    using new nd2 by (auto simp: n_handleShardRequest_def dn_GetShard_def node_defs)
qed

definition second_shard :: StorageRequest where
  "second_shard = first_shard\<lparr>sq_FileHash := ''xyz'', sq_ShardData := [2]\<rparr>"

lemma e_total_single:
  assumes "e_ok (e, d)" and "gm_keys (en_chunks e) = [k]" and "e_RetrieveChunk k (e, d) = Inr b"
  shows "e_total (e, d) = length b"
proof -
  obtain p where c: "en_chunks e = [(k, p)]" using assms(2) by (auto simp: gm_keys_def)
  moreover have "p = e_chunkPath e k" using e_inv_D(2) [of e d k p] e_ok_D [OF assms(1)] c by simp
  ultimately show ?thesis using assms(3) by (simp add: e_total_def e_RetrieveChunk_iff [OF assms(1)])
qed

lemma DeleteFile_quiet:
  assumes "e_ok (fm_engine fm, d)" and "gm_get (fm_fileIndex fm) h = Some md"
  shows "\<exists>s. fm_DeleteFile h (fm, d) = (Inr (), s)"
proof -
  obtain e1 d1 where ds: "delete_shards h (md_TotalShards md) (fm_engine fm, d) = (e1, d1)" by fastforce
  then have "e_ok (e1, d1)" using chunks.del_all [OF assms(1)] by (metis delete_shards_fold)
  then have "\<And>c. \<not> dk_fails d1 c" using e_ok_D by (auto simp: no_faults_def)
  with assms(2) ds show ?thesis by (simp add: fm_DeleteFile_def fm_saveMetadata_def write_gob_def Let_def)
qed

theorem delete_forgets_shards_witness:
  "\<exists>d (sn :: example_node) nd nd2 (sn' :: example_node).
     NewDecentralizedNode example_start (example_config []) d = Ret (Inr sn) \<and>
     handle_requests plain_errors 0 0 [second_shard] (Some (sn_state sn)) = Ret (Some nd) \<and>
     so_DeleteFileDistributed accepting_rpc (\<lambda>_. 0) ''abc'' nd = (Inr (), nd2) \<and>
     n_handleShardRequest plain_errors (Some (''xyz'', 1)) (Some nd2) = Some \<lparr>hr_Data = [2], hr_Error = ''''\<rparr> \<and>
     NewDecentralizedNode example_start (example_config []) (nd_disk nd2) = Ret (Inr sn') \<and>
     n_handleShardRequest plain_errors (Some (''xyz'', 1)) (Some (sn_state sn')) =
       Some \<lparr>hr_Data = [], hr_Error = ''failed to get shard: '' @ ''chunk''\<rparr>"
proof -
  obtain sn0 :: example_node and nd0 md and base :: example_base and pos
    where st0: "NewDecentralizedNode example_start (example_config []) quiet_disk = Ret (Inr sn0)"
    and id0: "bn_ID (sn_node sn0) = ''kkkkkkk''"
    and up: "comes_up example_start (example_config []) base pos"
    and run0: "handle_requests plain_errors 0 0 [first_shard] (Some (sn_state sn0)) = Ret (Some nd0)"
    and nd0: "e_RetrieveChunk ''abc_shard_1'' (nd_store nd0) = Inr [1]"
      "gm_keys (en_chunks (nd_storage nd0)) = [''abc_shard_1'']" "fm_fileIndex (nd_fileManager nd0) = [(''abc'', md)]"
      "md_TotalShards md = 3"
    using first_shard_taken by blast
  have key: "nc_PrivKey (example_config []) = Some 7" by (simp add: example_config_def)
  have p0: "\<forall>r \<in> set [first_shard]. plain_request r" by (simp add: plain_request_def first_shard_def)
  let ?d = "nd_disk nd0"
  let ?sn = "bring_up example_start pos (nd_storage nd0) ((nd_fileManager nd0)\<lparr>fm_engine := nd_storage nd0\<rparr>) base ?d :: example_node"
  note R = restarted [OF example_identity example_identity key key refl st0 quiet_kept p0 run0 up]
  have kept: "disk_kept (node_dir (pl_pid_String (st_libs example_start)) (bn_ID (sn_node ?sn))) ?d" using R by simp
  note S = start_saved [OF R(1) kept]
  have st: "nd_store (sn_state ?sn) = nd_store nd0" by (simp add: node_defs)
  have k: "plain_request second_shard" "request_chunk second_shard = ''xyz_shard_1''" "sq_FileHash second_shard = ''xyz''"
    "sq_ShardData second_shard = [2]" "sq_ShardIndex second_shard = 1" "sq_TotalShards second_shard = 3"
    by (simp_all add: second_shard_def first_shard_def plain_request_def request_chunk_def dec_one)
  have no: "\<not> e_has (nd_store (sn_state ?sn)) ''xyz_shard_1''"
    using nd0(2) by (simp add: st e_has_def node_defs gm_get_None_iff)
  have "e_ok (nd_store nd0)" using saved_ok [OF S(1)] st by (simp add: nd_ok_def)
  then have "e_total (nd_store nd0) = 1" using e_total_single nd0(1,2) by (simp add: node_defs)
  then obtain nd md2 where run: "handle_requests plain_errors 0 0 [second_shard] (Some (sn_state ?sn)) = Ret (Some nd)"
    and nd: "node_saved nd" "same_place (sn_state ?sn) nd" "e_RetrieveChunk ''xyz_shard_1'' (nd_store nd) = Inr [2]"
      "fm_fileIndex (nd_fileManager nd) = gm_put ''xyz'' md2 [(''abc'', md)]"
    using request_taken [OF S(1) k(1), of plain_errors 0 0] no k nd0(3) st by auto
  have served: "n_handleShardRequest plain_errors (Some (''xyz'', 1)) (Some nd) = Some \<lparr>hr_Data = [2], hr_Error = ''''\<rparr>"
    using nd(3) by (simp add: n_handleShardRequest_def dn_GetShard_def dec_one)
  have has: "e_has (nd_store (sn_state ?sn)) (shard_id ''abc'' (0 + 1))"
    using nd0(2) by (simp add: st e_has_def node_defs gm_get_None_iff shard_id_def dec_one)
  have "e_ok (fm_engine (nd_fileManager nd), nd_disk nd)"
  proof (rule sub_engine_ok)
    show "e_ok (nd_storage nd, nd_disk nd)" using saved_ok [OF nd(1)] by (simp add: nd_ok_def node_defs)
    show "e_ok (fm_engine (nd_fileManager nd), ?d)"
      using \<open>e_ok (nd_store nd0)\<close> nd(2) by (simp add: same_place_def node_defs)
  qed (use nd(2) in \<open>simp_all add: same_place_def\<close>)
  then obtain s where "fm_DeleteFile ''abc'' (nd_files nd) = (Inr (), s)"
    using DeleteFile_quiet [of "nd_fileManager nd" "nd_disk nd" "''abc''" md] nd(4) by (auto simp: nd_files_def)
  then obtain nd2 where del: "so_DeleteFileDistributed accepting_rpc (\<lambda>_. 0) ''abc'' nd = (Inr (), nd2)"
    by (simp add: so_DeleteFileDistributed_def)
  have md: "gm_get (fm_fileIndex (nd_fileManager nd)) ''abc'' = Some md" using nd(4) by simp
  have j: "0 < nat (md_TotalShards md)" using nd0(4) by simp
  have p: "\<forall>r \<in> set [second_shard]. plain_request r" using k(1) by simp
  have no': "\<not> e_has (nd_store (sn_state ?sn)) (''xyz'' @ ''_shard_'' @ dec 1)" using no by (simp add: dec_one)
  from delete_forgets_shards [OF example_identity example_identity key key refl R(1) kept p run no' served md j has del up]
  obtain sn' :: example_node where
    "n_handleShardRequest plain_errors (Some (''xyz'', 1)) (Some nd2) = Some \<lparr>hr_Data = [2], hr_Error = ''''\<rparr>"
    and "NewDecentralizedNode example_start (example_config []) (nd_disk nd2) = Ret (Inr sn')"
    and "n_handleShardRequest plain_errors (Some (''xyz'', 1)) (Some (sn_state sn')) =
      Some \<lparr>hr_Data = [], hr_Error = ''failed to get shard: '' @ et_chunk plain_errors (ChunkNotFound (''xyz'' @ ''_shard_'' @ dec 1))\<rparr>"
    by blast
  moreover have "et_chunk plain_errors x = ''chunk''" for x by (simp add: plain_errors_def)
  ultimately show ?thesis using R(1) run del by metis
qed

section \<open>What a new node knows of its peers\<close>

lemma populate_frame [simp]:
  "nv_peers (fold (populate_file self) ms nv) = nv_peers nv"
  "nv_reputation (fold (populate_file self) ms nv) = nv_reputation nv"
  by (induction ms arbitrary: nv) (simp_all add: populate_file_def Let_def)

lemma initial_view_empty [simp]: "nv_peers (initial_view self fm) = []" "nv_reputation (initial_view self fm) = []"
  by (simp_all add: initial_view_def) (simp_all add: NewNetworkView_def)

lemma connect_peers_keep:
  "p \<in> set conns \<Longrightarrow> p \<in> set (n_connect_peers lh addrs conns)"
  "p \<in> set conns \<Longrightarrow> p \<in> set (snd (dn_connect_peers lh addrs conns))"
  by (induction addrs arbitrary: conns) (auto simp: append_new_def split: sum.splits)

lemma connect_peers_reach:
  assumes "lh_NewMultiaddr lh addr = Inr ma" and "lh_AddrInfo lh ma = Inr p" and "lh_Connect lh 0 p = Inr ()"
  shows "addr \<in> set addrs \<Longrightarrow> p \<in> set (n_connect_peers lh addrs conns)"
proof (induction addrs arbitrary: conns)
  case (Cons a addrs)
  show ?case
  proof (cases "a = addr")
    case True
    then show ?thesis using assms by (auto simp: append_new_def intro: connect_peers_keep)
  next
    case False
    with Cons show ?thesis by (auto split: sum.splits)
  qed
qed simp

lemma NewNode_connected:
  "NewNode lh g config = Inr n \<Longrightarrow> lh_Bootstrap lh 0 = Inr () \<Longrightarrow>
     bn_connected n = n_connect_peers lh (nc_BootstrapPeers config) []"
proof -
  have b: "bn_connected (fold (\<lambda>(pid, h). SetStreamHandler pid h) t m) = bn_connected m"
    "bn_Config (fold (\<lambda>(pid, h). SetStreamHandler pid h) t m) = bn_Config m" for t and m :: "('k, 'm) Node"
    by (induction t arbitrary: m) auto
  assume "NewNode lh g config = Inr n" and "lh_Bootstrap lh 0 = Inr ()"
  then show ?thesis by (auto simp: NewNode_def Let_def n_bootstrap_def b split: sum.splits option.splits)
qed

lemma bring_up_connected:
  "p \<in> set (bn_connected n) \<Longrightarrow> p \<in> set (nd_connected (sn_state (bring_up st pos e fm n d)))"
  by (auto simp: bring_up_def Let_def dn_bootstrap_def split: sum.splits prod.splits)
    (metis connect_peers_keep(2) register_verifiers_frame(2) snd_conv)



end
