(* ===== verification/Commands.thy ===== *)
theory Commands
  imports Node_Restart Gateway
begin

text \<open>
  The programs: \<open>cmd/master-node\<close>, \<open>cmd/client\<close> and \<open>cmd/gateway\<close>, and the constructor of the gateway
  node (\<open>internal/gateway/gateway_node.go\<close>). The flags of a program are a record. \<open>log.Fatal\<close> is the
  panic \<open>LogFatal\<close>; what is written to the log by a command is its result. What the network does to
  the node while the program sleeps or waits is the function \<open>meanwhile\<close>; the wait for a signal and
  the shutdown after it have no effect but \<open>Close\<close>.
\<close>

section \<open>The key of a program\<close>

definition default_key_file :: "string \<Rightarrow> string" where
  "default_key_file name = filepath_Join [''keys'', name]"

text \<open>The client and the gateway give up when the directory of the default key cannot be made.\<close>

definition strict_key_file :: "string \<Rightarrow> string \<Rightarrow> disk \<Rightarrow> string go" where
  "strict_key_file name keyFlag d =
     (if keyFlag = '''' then
        (case os_MkdirAll (filepath_Dir (default_key_file name)) d of
           Inl err \<Rightarrow> Panic (LogFatal ''Failed to create keys directory'')
         | Inr _ \<Rightarrow> Ret (default_key_file name))
      else Ret keyFlag)"

section \<open>The master node\<close>

record master_flags =
  mf_key :: string
  mf_port :: int
  mf_host :: string
  mf_bootstrap :: string

text \<open>The master node falls back to the working directory.\<close>

definition master_key_file :: "string \<Rightarrow> disk \<Rightarrow> string" where
  "master_key_file keyFlag d =
     (if keyFlag = '''' then
        (case os_MkdirAll (filepath_Dir (default_key_file ''master_node_key.key'')) d of
           Inl err \<Rightarrow> ''master_node_key.key''
         | Inr _ \<Rightarrow> default_key_file ''master_node_key.key'')
      else keyFlag)"

definition master_config :: "master_flags \<Rightarrow> 'k \<Rightarrow> string \<Rightarrow> 'k NodeConfig" where
  "master_config flags privKey keyFile =
     \<lparr>nc_Host = mf_host flags, nc_Port = mf_port flags, nc_ProtocolID = ''/shadspace/1.0.0'',
      nc_Rendezvous = ''shadspace-network'', nc_NodeType = ''master'',
      nc_BootstrapPeers = (if mf_bootstrap flags \<noteq> '''' then [mf_bootstrap flags] else []),
      nc_PrivKey = Some privKey, nc_KeyFile = keyFile\<rparr>"

text \<open>\<open>main\<close> up to the wait for the signal. \<open>generated\<close>: the key generator's answer.\<close>

definition master_main ::
  "string + 'k \<Rightarrow> ('k, 'p, 'cs, 'pk, 'vk, 'pf) start_env \<Rightarrow> master_flags \<Rightarrow> disk \<Rightarrow>
   ('k, 'm, 'p, 'cs, 'pk, 'vk) StartedNode go" where
  "master_main generated st flags d =
     (let lc = pl_crypto (st_libs st); keyFile = master_key_file (mf_key flags) d
      in case GetOrCreateKey lc generated keyFile d of
           (Inl err, d1) \<Rightarrow> Panic (LogFatal ''Failed to load or generate private key'')
         | (Inr privKey, d1) \<Rightarrow>
             (case GetPeerIDFromKey lc (pl_pid_String (st_libs st)) privKey of
                Inl err \<Rightarrow> Panic (LogFatal ''Failed to get peer ID from private key'')
              | Inr peerID \<Rightarrow>
                  go_bind (NewDecentralizedNode st (master_config flags privKey keyFile) d1) (\<lambda>r.
                  case r of
                    Inl err \<Rightarrow> Panic (LogFatal ''Failed to create master node'')
                  | Inr masterNode \<Rightarrow> Ret masterNode)))"

section \<open>The client\<close>

record client_flags =
  cf_key :: string
  cf_port :: int
  cf_file :: string
  cf_action :: string
  cf_hash :: string

definition client_config :: "client_flags \<Rightarrow> 'k \<Rightarrow> string \<Rightarrow> 'k NodeConfig" where
  "client_config flags privKey keyFile =
     \<lparr>nc_Host = ''0.0.0.0'', nc_Port = cf_port flags, nc_ProtocolID = ''/shadspace/1.0.0'',
      nc_Rendezvous = ''shadspace-test-network'', nc_NodeType = ''test'',
      nc_BootstrapPeers = [''/ip4/127.0.0.1/tcp/4001/p2p/12D3KooWFgQMSugNGS6mW4drX2N5oQsAF7Jxa9CWgy8bAQaSHJaU''],
      nc_PrivKey = Some privKey, nc_KeyFile = keyFile\<rparr>"

definition client_start ::
  "string + 'k \<Rightarrow> ('k, 'p, 'cs, 'pk, 'vk, 'pf) start_env \<Rightarrow> client_flags \<Rightarrow> disk \<Rightarrow>
   ('k, 'm, 'p, 'cs, 'pk, 'vk) StartedNode go" where
  "client_start generated st flags d =
     go_bind (strict_key_file ''test_node.key'' (cf_key flags) d) (\<lambda>keyFile.
     case GetOrCreateKey (pl_crypto (st_libs st)) generated keyFile d of
       (Inl err, d1) \<Rightarrow> Panic (LogFatal ''Failed to load or generate private key'')
     | (Inr privKey, d1) \<Rightarrow>
         go_bind (NewDecentralizedNode st (client_config flags privKey keyFile) d1) (\<lambda>r.
         case r of
           Inl err \<Rightarrow> Panic (LogFatal ''Failed to create node'')
         | Inr node \<Rightarrow> Ret node))"

text \<open>
  \<open>testFileUpload\<close>: three shards, two of them required. An error of the distributed store is
  logged, and the check and the look-up go on with the empty hash.
\<close>

record upload_report =
  ur_stored :: "distributed_error + string"
  ur_fileName :: string
  ur_size :: int
  ur_integrity :: "file_error + bool"
  ur_info :: "file_error + FileMetadata"

definition testFileUpload ::
  "reed_solomon \<Rightarrow> rpc \<Rightarrow> (nat \<Rightarrow> go_time) \<Rightarrow> string \<Rightarrow> DNode \<Rightarrow> (upload_report \<times> DNode) go" where
  "testFileUpload rs env clock filePath nd =
     (case os_ReadFile filePath (nd_disk nd) of
        Inl err \<Rightarrow> Panic (LogFatal ''Failed to read file'')
      | Inr data \<Rightarrow>
          let fileName = filepath_Base filePath
          in go_bind (so_StoreFileDistributed rs env clock fileName data 3 2 nd) (\<lambda>(r, nd1).
             let fileHash = (case r of Inl err \<Rightarrow> '''' | Inr h \<Rightarrow> h)
             in go_bind (fm_VerifyFileIntegrity fileHash (nd_files nd1)) (\<lambda>integrity.
                Ret (\<lparr>ur_stored = r, ur_fileName = fileName, ur_size = int (length data), ur_integrity = integrity,
                      ur_info = fm_GetFileInfo fileHash (nd_fileManager nd1)\<rparr>, nd1))))"

text \<open>\<open>testFileRetrieve\<close>: the file is saved below \<open>retrieved\<close> under the name of its metadata.\<close>

record retrieve_report =
  rr_data :: bytes
  rr_path :: string
  rr_saved :: "io_error + unit"
  rr_matches :: bool

definition output_path :: "string \<Rightarrow> string \<Rightarrow> FileManager \<Rightarrow> string go" where
  "output_path retrievedDir fileHash fm =
     (case fm_GetFileInfo fileHash fm of
        Inl err \<Rightarrow> go_bind (go_prefix fileHash 8) (\<lambda>p. Ret (filepath_Join [retrievedDir, p @ ''.bin'']))
      | Inr fileMetadata \<Rightarrow> Ret (filepath_Join [retrievedDir, md_FileName fileMetadata]))"

definition testFileRetrieve ::
  "reed_solomon \<Rightarrow> rpc \<Rightarrow> string \<Rightarrow> DNode \<Rightarrow> (retrieve_report \<times> DNode) go" where
  "testFileRetrieve rs env fileHash nd =
     go_bind (so_RetrieveFileDistributed rs env fileHash nd) (\<lambda>(r, nd1).
     case r of
       Inl err \<Rightarrow> Panic (LogFatal ''Failed to retrieve file'')
     | Inr data \<Rightarrow>
         let retrievedDir = (case os_MkdirAll ''retrieved'' (nd_disk nd1) of Inl err \<Rightarrow> ''.'' | Inr _ \<Rightarrow> ''retrieved'')
         in go_bind (output_path retrievedDir fileHash (nd_fileManager nd1)) (\<lambda>outputPath.
            let (saved, d) = os_WriteFile outputPath data (nd_disk nd1)
            in Ret (\<lparr>rr_data = data, rr_path = outputPath, rr_saved = saved,
                     rr_matches = (CalculateFileHash data = fileHash)\<rparr>, nd1\<lparr>nd_disk := d\<rparr>)))"

definition testListFiles :: "DNode \<Rightarrow> FileMetadata list" where
  "testListFiles nd = fm_ListFiles (nd_fileManager nd)"

definition testStorageStats :: "DNode \<Rightarrow> FileStats \<times> EngineStats \<times> StorageStats" where
  "testStorageStats nd =
     (fm_GetFileStats (nd_files nd), e_GetStats (nd_storage nd) (nd_disk nd), so_GetStorageStats nd)"

datatype client_result = Uploaded upload_report | Retrieved retrieve_report | Listed "FileMetadata list"
  | Stats "FileStats \<times> EngineStats \<times> StorageStats"

text \<open>The dispatch of \<open>main\<close> on the action.\<close>

definition client_action ::
  "reed_solomon \<Rightarrow> rpc \<Rightarrow> (nat \<Rightarrow> go_time) \<Rightarrow> client_flags \<Rightarrow> DNode \<Rightarrow> (client_result \<times> DNode) go" where
  "client_action rs env clock flags nd =
     (if cf_action flags = ''upload'' then
        (if cf_file flags = '''' then Panic (LogFatal ''File path is required for upload action'')
         else go_bind (testFileUpload rs env clock (cf_file flags) nd) (\<lambda>(rep, nd1). Ret (Uploaded rep, nd1)))
      else if cf_action flags = ''retrieve'' then
        (if cf_hash flags = '''' then Panic (LogFatal ''File hash is required for retrieve action'')
         else go_bind (testFileRetrieve rs env (cf_hash flags) nd) (\<lambda>(rep, nd1). Ret (Retrieved rep, nd1)))
      else if cf_action flags = ''list'' then Ret (Listed (testListFiles nd), nd)
      else if cf_action flags = ''stats'' then Ret (Stats (testStorageStats nd), nd)
      else Panic (LogFatal (''Unknown action: '' @ cf_action flags)))"

definition client_main ::
  "string + 'k \<Rightarrow> ('k, 'p, 'cs, 'pk, 'vk, 'pf) start_env \<Rightarrow> (('k, 'm, 'p, 'cs, 'pk, 'vk) StartedNode \<Rightarrow> DNode) \<Rightarrow>
   reed_solomon \<Rightarrow> rpc \<Rightarrow> (nat \<Rightarrow> go_time) \<Rightarrow> client_flags \<Rightarrow> disk \<Rightarrow> (client_result \<times> DNode) go" where
  "client_main generated st meanwhile rs env clock flags d =
     go_bind (client_start generated st flags d) (\<lambda>node. client_action rs env clock flags (meanwhile node))"

section \<open>The gateway\<close>

record gateway_flags =
  gf_key :: string
  gf_apiPort :: int
  gf_nodePort :: int
  gf_bootstrap :: string

definition gateway_config :: "gateway_flags \<Rightarrow> 'k \<Rightarrow> string \<Rightarrow> 'k NodeConfig" where
  "gateway_config flags privKey keyFile =
     \<lparr>nc_Host = ''0.0.0.0'', nc_Port = gf_nodePort flags, nc_ProtocolID = ''/shadspace/1.0.0'',
      nc_Rendezvous = ''shadspace-gateway-network'', nc_NodeType = ''gateway'',
      nc_BootstrapPeers = [''/ip4/127.0.0.1/tcp/4001/p2p/12D3KooWFgQMSugNGS6mW4drX2N5oQsAF7Jxa9CWgy8bAQaSHJaU''] @
        (if gf_bootstrap flags \<noteq> '''' then [gf_bootstrap flags] else []),
      nc_PrivKey = Some privKey, nc_KeyFile = keyFile\<rparr>"

datatype gateway_error = GatewayNodeFailed setup_error | CloseNodeFailed setup_error

text \<open>
  The constructor of the gateway over a configuration. The file manager it checks for \<open>nil\<close> is
  always there: without one the node has ended the process.
\<close>

definition gateway_from_config ::
  "('k, 'p, 'cs, 'pk, 'vk, 'pf) start_env \<Rightarrow> (('k, 'm, 'p, 'cs, 'pk, 'vk) StartedNode \<Rightarrow> DNode) \<Rightarrow> gateway_env \<Rightarrow>
   'k NodeConfig \<Rightarrow> int \<Rightarrow> disk \<Rightarrow> (gateway_error + GatewayNode) go" where
  "gateway_from_config st meanwhile ge config apiPort d =
     go_bind (NewDecentralizedNode st config d) (\<lambda>r.
     case r of
       Inl err \<Rightarrow> Ret (Inl (GatewayNodeFailed err))
     | Inr decentralizedNode \<Rightarrow> Ret (Inr (NewGatewayNode ge apiPort (nc_Port config) (meanwhile decentralizedNode))))"

definition gateway_main ::
  "string + 'k \<Rightarrow> ('k, 'p, 'cs, 'pk, 'vk, 'pf) start_env \<Rightarrow> (('k, 'm, 'p, 'cs, 'pk, 'vk) StartedNode \<Rightarrow> DNode) \<Rightarrow>
   gateway_env \<Rightarrow> gateway_flags \<Rightarrow> disk \<Rightarrow> GatewayNode go" where
  "gateway_main generated st meanwhile ge flags d =
     go_bind (strict_key_file ''gateway_node.key'' (gf_key flags) d) (\<lambda>keyFile.
     case GetOrCreateKey (pl_crypto (st_libs st)) generated keyFile d of
       (Inl err, d1) \<Rightarrow> Panic (LogFatal ''Failed to load or generate private key'')
     | (Inr privKey, d1) \<Rightarrow>
         go_bind (gateway_from_config st meanwhile ge (gateway_config flags privKey keyFile) (gf_apiPort flags) d1) (\<lambda>r.
         case r of
           Inl err \<Rightarrow> Panic (LogFatal ''Failed to create gateway node'')
         | Inr gatewayNode \<Rightarrow> Ret gatewayNode))"

text \<open>\<open>Close\<close> of the gateway: a failed shutdown of the API server is logged, and the node never fails to close.\<close>

definition gw_Close ::
  "string + unit \<Rightarrow> string + unit \<Rightarrow> string + unit \<Rightarrow> string + unit \<Rightarrow>
   string list \<times> setup_error list \<times> (gateway_error + unit)" where
  "gw_Close api dht baseDht host =
     (let (logged, r) = dn_Close dht baseDht host
      in ((case api of Inl err \<Rightarrow> [err] | Inr _ \<Rightarrow> []), logged,
          (case r of Inl err \<Rightarrow> Inl (CloseNodeFailed err) | Inr _ \<Rightarrow> Inr ())))"

end
