(* ===== verification/Cluster.thy ===== *)
theory Cluster
  imports Network_Runs
begin

text \<open>
  Several nodes joined by the streams of \<open>NewNode\<close> (\<open>internal/network/node.go\<close>): what one
  node's storage operations ask, the protocol handlers of the other nodes answer. A cluster maps
  the identities of the running nodes to their states; a node whose handler panics is gone. The
  peers a file's shards go to are all different, so each answers from the state it had before.
\<close>

type_synonym cluster = "peer_id \<Rightarrow> DNode option"

text \<open>What the streams add: how errors read, the clocks of the receivers, and gossip.\<close>

record wire =
  wi_errors :: err_text
  wi_now1 :: go_time
  wi_now2 :: go_time
  wi_publish :: "nat \<Rightarrow> bool"

definition answer :: "cluster \<Rightarrow> peer_id \<Rightarrow> (DNode \<Rightarrow> 'a option) \<Rightarrow> string + 'a" where
  "answer c p serve =
     (case c p of
        None \<Rightarrow> Inl ''failed to open stream''
      | Some nd \<Rightarrow> (case serve nd of None \<Rightarrow> Inl ''EOF'' | Some response \<Rightarrow> Inr response))"

text \<open>The handler a request is routed to by the protocol of its stream.\<close>

definition node_rpc :: "wire \<Rightarrow> cluster \<Rightarrow> rpc" where
  "node_rpc w c =
     \<lparr>rpc_store = (\<lambda>p req. answer c p (\<lambda>nd.
         case n_handleStorageProtocol (wi_errors w) (wi_now1 w) (wi_now2 w) (Some req) (Some nd) of
           Ret (response, fileStore) \<Rightarrow> response | Panic x \<Rightarrow> None)),
      rpc_metadata = (\<lambda>p h. answer c p (\<lambda>nd. n_handleFileMetadataRequest (wi_errors w) (Some h) (Some nd))),
      rpc_shard = (\<lambda>p h i. answer c p (\<lambda>nd. n_handleShardRequest (wi_errors w) (Some (h, i)) (Some nd))),
      rpc_list = (\<lambda>p. answer c p (\<lambda>nd. n_handleFileListRequest (Some ()) (Some nd))),
      rpc_publish = wi_publish w\<rparr>"

text \<open>What a storage request leaves of the node that receives it.\<close>

definition receive :: "wire \<Rightarrow> StorageRequest \<Rightarrow> DNode option \<Rightarrow> DNode option" where
  "receive w req node =
     (case node of
        None \<Rightarrow> None
      | Some nd \<Rightarrow>
          (case n_handleStorageProtocol (wi_errors w) (wi_now1 w) (wi_now2 w) (Some req) (Some nd) of
             Ret (response, fileStore) \<Rightarrow> fileStore | Panic x \<Rightarrow> None))"

definition deliver :: "wire \<Rightarrow> peer_id \<times> StorageRequest \<Rightarrow> cluster \<Rightarrow> cluster" where
  "deliver w m c = c(fst m := receive w (snd m) (c (fst m)))"

section \<open>The requests of a distributed store\<close>

definition shard_request :: "go_time \<Rightarrow> string \<Rightarrow> string \<Rightarrow> nat \<Rightarrow> bytes \<Rightarrow> int \<Rightarrow> int \<Rightarrow> StorageRequest" where
  "shard_request now fileHash fileName i shardData totalShards requiredShards =
     \<lparr>sq_Operation = ''store_shard'', sq_FileHash = fileHash, sq_FileName = fileName,
      sq_ShardIndex = int i + 1, sq_ShardData = shardData, sq_TotalShards = totalShards,
      sq_RequiredShards = requiredShards, sq_Timestamp = now\<rparr>"

fun shard_requests ::
  "(nat \<Rightarrow> go_time) \<Rightarrow> string \<Rightarrow> string \<Rightarrow> int \<Rightarrow> int \<Rightarrow> nat \<Rightarrow> Shard list \<Rightarrow> peer_id list \<Rightarrow>
   (peer_id \<times> StorageRequest) list" where
  "shard_requests clock h f n k i (shard # shards) (p # peers) =
     (p, shard_request (clock (7 + i)) h f i (sh_Data shard) n k) # shard_requests clock h f n k (i + 1) shards peers"
| "shard_requests clock h f n k i shards peers = []"

text \<open>The requests \<open>StoreFileDistributed\<close> sends before anything can stop it.\<close>

definition sent_requests ::
  "reed_solomon \<Rightarrow> (nat \<Rightarrow> go_time) \<Rightarrow> string \<Rightarrow> bytes \<Rightarrow> int \<Rightarrow> int \<Rightarrow> DNode \<Rightarrow> (peer_id \<times> StorageRequest) list" where
  "sent_requests rs clock f data n k nd =
     (case so_selectStoragePeers n nd of
        Panic x \<Rightarrow> []
      | Ret peers \<Rightarrow>
          if int (length peers) < n then []
          else (case sm_ShardData rs data n k of
                  Inl err \<Rightarrow> []
                | Inr shards \<Rightarrow> shard_requests clock (CalculateFileHash data) f n k 0 shards peers))"

text \<open>Storing from node \<open>a\<close> and retrieving at node \<open>b\<close>, with what it does to every node.\<close>

definition cluster_store ::
  "wire \<Rightarrow> reed_solomon \<Rightarrow> (nat \<Rightarrow> go_time) \<Rightarrow> string \<Rightarrow> bytes \<Rightarrow> int \<Rightarrow> int \<Rightarrow> peer_id \<Rightarrow> DNode \<Rightarrow> cluster \<Rightarrow>
   ((distributed_error + string) \<times> cluster) go" where
  "cluster_store w rs clock f data n k a nd c =
     go_bind (so_StoreFileDistributed rs (node_rpc w c) clock f data n k nd) (\<lambda>(r, nd').
       Ret (r, (fold (deliver w) (sent_requests rs clock f data n k nd) c)(a \<mapsto> nd')))"

definition cluster_retrieve ::
  "wire \<Rightarrow> reed_solomon \<Rightarrow> string \<Rightarrow> peer_id \<Rightarrow> DNode \<Rightarrow> cluster \<Rightarrow> ((distributed_error + bytes) \<times> cluster) go" where
  "cluster_retrieve w rs h b nd c =
     go_bind (so_RetrieveFileDistributed rs (node_rpc w c) h nd) (\<lambda>(r, nd'). Ret (r, c(b \<mapsto> nd')))"

section \<open>Delivery\<close>

lemma fold_deliver:
  "distinct (map fst ms) \<Longrightarrow>
     fold (deliver w) ms c p = (case map_of ms p of None \<Rightarrow> c p | Some req \<Rightarrow> receive w req (c p))"
proof (induction ms arbitrary: c)
  case Nil
  then show ?case by simp
next
  case (Cons m ms)
  obtain q req where m: "m = (q, req)" by (cases m)
  have "map_of ms q = None" using Cons.prems by (simp add: m map_of_eq_None_iff)
  with Cons m show ?case by (cases "p = q") (simp_all add: deliver_def split: option.splits)
qed

lemma length_shard_requests: "length (shard_requests clock h f n k i shards peers) = min (length shards) (length peers)"
  by (induction clock h f n k i shards peers rule: shard_requests.induct) simp_all

lemma shard_requests_nth:
  "j < length shards \<Longrightarrow> j < length peers \<Longrightarrow> shard_requests clock h f n k i shards peers ! j =
     (peers ! j, shard_request (clock (7 + i + j)) h f (i + j) (sh_Data (shards ! j)) n k)"
proof (induction clock h f n k i shards peers arbitrary: j rule: shard_requests.induct)
  case (1 clock h f n k i shard shards p peers)
  then show ?case by (cases j) (simp_all add: add.assoc)
qed simp_all

lemma shard_requests_peers:
  "length shards = length peers \<Longrightarrow> map fst (shard_requests clock h f n k i shards peers) = peers"
  by (rule nth_equalityI) (simp_all add: length_shard_requests shard_requests_nth)

lemma map_of_requests:
  assumes "length shards = length peers" and "distinct peers" and "j < length peers"
  shows "map_of (shard_requests clock h f n k 0 shards peers) (peers ! j) =
    Some (shard_request (clock (7 + j)) h f j (sh_Data (shards ! j)) n k)"
proof -
  let ?ms = "shard_requests clock h f n k 0 shards peers"
  have "?ms ! j = (peers ! j, shard_request (clock (7 + j)) h f j (sh_Data (shards ! j)) n k)"
    using assms shard_requests_nth [of j shards peers clock h f n k 0] by simp
  moreover have "j < length ?ms" using assms by (simp add: length_shard_requests)
  ultimately have "(peers ! j, shard_request (clock (7 + j)) h f j (sh_Data (shards ! j)) n k) \<in> set ?ms"
    by (metis nth_mem)
  then show ?thesis using assms by (simp add: shard_requests_peers)
qed

section \<open>The receivers\<close>

text \<open>A cluster of well-formed nodes that answer to their own names.\<close>

definition cluster_ok :: "cluster \<Rightarrow> bool" where
  "cluster_ok c \<longleftrightarrow> (\<forall>p nd. c p = Some nd \<longrightarrow> nd_self nd = p \<and> nd_ok nd)"

text \<open>A node that has neither metadata nor shards of a file.\<close>

definition file_unknown :: "string \<Rightarrow> DNode \<Rightarrow> bool" where
  "file_unknown h nd \<longleftrightarrow>
     (\<forall>(g, md) \<in> set (fm_fileIndex (nd_fileManager nd)). g \<noteq> h \<and> md_FileHash md \<noteq> h) \<and>
     (\<forall>i. \<not> e_has (nd_store nd) (shard_id h i))"

definition accepted :: "wire \<Rightarrow> cluster \<Rightarrow> peer_id \<times> StorageRequest \<Rightarrow> bool" where
  "accepted w c m \<longleftrightarrow>
     (case rpc_store (node_rpc w c) (fst m) (snd m) of Inl err \<Rightarrow> False | Inr response \<Rightarrow> sr_Success response)"

text \<open>A running node from which a chunk can be read.\<close>

definition holds :: "DNode option \<Rightarrow> string \<Rightarrow> bytes \<Rightarrow> bool" where
  "holds node k b \<longleftrightarrow> (\<exists>nd. node = Some nd \<and> e_RetrieveChunk k (nd_store nd) = Inr b)"

lemma holds_simps [simp]:
  "\<not> holds None k b" "holds (Some nd) k b \<longleftrightarrow> e_RetrieveChunk k (nd_store nd) = Inr b"
  by (simp_all add: holds_def)

lemma request_chunk_shard [simp]: "request_chunk (shard_request now h f i d n k) = shard_id h (i + 1)"
  by (simp add: request_chunk_def shard_request_def shard_id_def add.commute)

lemma plain_shard_request: "slash \<notin> set h \<Longrightarrow> plain_request (shard_request now h f i d n k)"
  by (simp add: plain_request_def shard_request_def)

lemma unknown_index: "file_unknown h nd \<Longrightarrow> gm_get (fm_fileIndex (nd_fileManager nd)) h = None"
  by (force simp: file_unknown_def gm_get_None_iff gm_keys_def)

lemma receive_accepted:
  assumes c: "c p = Some nd" "nd_ok nd" and unk: "file_unknown h nd" and h: "slash \<notin> set h"
    and req: "req = shard_request now h f i d n k" and acc: "accepted w c (p, req)"
  obtains nd1 hashes where "receive w req (c p) = Some nd1" and "nd_self nd1 = nd_self nd"
    and "e_RetrieveChunk (shard_id h (i + 1)) (nd_store nd1) = Inr d"
    and "\<forall>k b. k \<noteq> shard_id h (i + 1) \<longrightarrow> holds (Some nd1) k b = holds (Some nd) k b"
    and "set_shard_hash (int i + 1) (CalculateShardHash d) (replicate (nat n) '''') = Ret hashes"
    and "fm_fileIndex (nd_fileManager nd1) = gm_put h
       (estimated_metadata (wi_now1 w) (wi_now2 w) req (nd_self nd) hashes) (fm_fileIndex (nd_fileManager nd))"
proof -
  from acc c obtain resp fs where hs: "n_handleStorageProtocol (wi_errors w) (wi_now1 w) (wi_now2 w) (Some req) (Some nd) =
      Ret (Some resp, fs)" and suc: "sr_Success resp"
    by (auto simp: accepted_def node_rpc_def answer_def split: option.splits go.splits)
  obtain nd1 where fs: "fs = Some nd1" using storage_protocol_keeps_store [OF hs] by blast
  have a: "node_accept (wi_errors w) (wi_now1 w) (wi_now2 w) req nd = Ret (resp, nd1)"
    using hs fs by (simp add: node_accept_def)
  have plain: "plain_request req" unfolding req by (rule plain_shard_request [OF h])
  have eok: "e_ok (nd_store nd)" using c(2) by (simp add: nd_ok_def)
  from a plain obtain s q where
    put: "e_StoreChunk (shard_id h (i + 1)) d (nd_store nd) = (Inr (), s)"
    and u: "n_updateFileMetadata (wi_now1 w) (wi_now2 w) req (set_store s nd) = Ret (q, nd1)"
    by (cases rule: node_accept_cases) (use suc in \<open>simp_all add: req, simp_all add: shard_request_def\<close>)
  have v: "valid_chunkID (shard_id h (i + 1))" by (rule valid_shard_id [OF h])
  note st = chunks.put_ok [OF eok v put] chunks.put_frame [OF eok v put]
  have set: "nd_ok (set_store s nd)" "nd_store (set_store s nd) = s"
    using nd_ok_store [OF c(2), of s] st(1) e_dir_Store [OF put] by (simp_all add: node_defs)
  note fr = updateFileMetadata_frame [OF set(1) u]
  have new: "gm_get (fm_fileIndex (nd_fileManager (set_store s nd))) (sq_FileHash req) = None"
    using unknown_index [OF unk] by (simp add: set_store_def req shard_request_def)
  from updateFileMetadata_new [OF new u] obtain hashes where
    "set_shard_hash (int i + 1) (CalculateShardHash d) (replicate (nat n) '''') = Ret hashes"
    and "fm_fileIndex (nd_fileManager nd1) = gm_put h
       (estimated_metadata (wi_now1 w) (wi_now2 w) req (nd_self nd) hashes) (fm_fileIndex (nd_fileManager nd))"
    by (auto simp: req set_store_def) (auto simp: shard_request_def)
  moreover have "receive w req (c p) = Some nd1" using hs fs c(1) by (simp add: receive_def)
  moreover have "nd_self nd1 = nd_self nd" using updateFileMetadata_self [OF u] by (simp add: set_store_def)
  moreover have "e_RetrieveChunk (shard_id h (i + 1)) (nd_store nd1) = Inr d" using fr set(2) st(1) by simp
  moreover have "\<forall>k b. k \<noteq> shard_id h (i + 1) \<longrightarrow> holds (Some nd1) k b = holds (Some nd) k b"
    using fr set(2) st(2) by simp
  ultimately show thesis using that by blast
qed

lemma receive_refused:
  assumes c: "c p = Some nd" "nd_ok nd" and req: "plain_request req" and acc: "\<not> accepted w c (p, req)"
    and r: "receive w req (c p) = Some nd1"
  shows "nd_fileManager nd1 = nd_fileManager nd \<and> holds (Some nd1) k b = holds (Some nd) k b"
proof -
  from r c obtain resp where hs: "n_handleStorageProtocol (wi_errors w) (wi_now1 w) (wi_now2 w) (Some req) (Some nd) =
      Ret (resp, Some nd1)"
    by (auto simp: receive_def split: go.splits)
  then obtain rs where "resp = Some rs" using storage_protocol_keeps_store by blast
  with hs acc c have suc: "\<not> sr_Success rs" and a: "node_accept (wi_errors w) (wi_now1 w) (wi_now2 w) req nd = Ret (rs, nd1)"
    by (auto simp: accepted_def node_rpc_def answer_def node_accept_def)
  from a req obtain x s where "e_StoreChunk (request_chunk req) (sq_ShardData req) (nd_store nd) = (Inl x, s)"
    and nd1: "nd1 = set_store s nd"
    by (cases rule: node_accept_cases) (use suc in simp_all)
  then have "s = nd_store nd"
    using chunks.put_error request_chunk_valid [OF req] c(2) by (simp add: nd_ok_def)
  with nd1 show ?thesis by (simp add: node_defs)
qed

lemma unknown_chunk: "nd_ok nd \<Longrightarrow> file_unknown h nd \<Longrightarrow> \<not> holds (Some nd) (shard_id h i) b"
  using chunks.get_has [of "nd_store nd" "shard_id h i"] by (auto simp: nd_ok_def file_unknown_def)

text \<open>What a store leaves of the node that stores.\<close>

lemma store_frame:
  assumes ok: "nd_ok nd" and new: "gm_get (fm_fileIndex (nd_fileManager nd)) (CalculateFileHash data) = None"
    and st: "so_StoreFileDistributed rs env clock f data n k nd = Ret (Inr h, nd')"
  shows "nd_self nd' = nd_self nd \<and> nd_ok nd' \<and> (\<forall>key. e_RetrieveChunk key (nd_store nd') = e_RetrieveChunk key (nd_store nd))"
proof -
  let ?op = "\<lambda>opShards. \<lparr>op_FileHash = CalculateFileHash data, op_Operation = ''store'', op_Status = ''completed'',
                                 op_Shards = opShards, op_StartTime = clock 0, op_CompletedAt = clock 1\<rparr>"
  from st obtain peers opShards where h: "h = CalculateFileHash data"
    and nd': "nd' = (let nd1 = nd\<lparr>nd_pendingOps := gm_put h (?op opShards) (nd_pendingOps nd)\<rparr>
        in snd (so_storeFileMetadataLocally clock h f data n k peers
             (so_announceFileToNetwork env clock h (so_getAnnouncementPeers peers nd1) nd1)))"
    by (auto simp: so_StoreFileDistributed_def go_bind_Ret_iff Let_def split: if_splits sum.splits)
  define nd1 where "nd1 = nd\<lparr>nd_pendingOps := gm_put h (?op opShards) (nd_pendingOps nd)\<rparr>"
  have "so_announceFileToNetwork env clock h ps nd1 = nd1" for ps
    using new h by (intro announce_unknown) (simp add: nd1_def)
  then have nd'': "nd' = snd (so_storeFileMetadataLocally clock h f data n k peers nd1)"
    by (simp add: nd' nd1_def Let_def)
  obtain r fm2 d2 where u: "fm_UpdateFileMetadata (new_metadata h f data n k peers (clock 5) (clock 6)) (nd_files nd1) = (r, (fm2, d2))"
    by (metis surj_pair)
  have e: "e_ok (nd_storage nd, nd_disk nd)"
    and fm: "fm_metadataFile (nd_fileManager nd) = filepath_Join [en_storageDir (nd_storage nd), ''file_metadata.gob'']"
    using ok by (simp_all add: nd_ok_def nd_store_def)
  from u have u': "fm_UpdateFileMetadata (new_metadata h f data n k peers (clock 5) (clock 6)) (nd_fileManager nd, nd_disk nd) = (r, (fm2, d2))"
    by (simp add: nd1_def nd_files_def)
  from fm_UpdateFileMetadata_frame [OF e fm u'] u show ?thesis
    using fm by (simp add: nd'' so_storeFileMetadataLocally_def nd1_def node_defs nd_ok_def Let_def)
qed

lemma cluster_store_parts:
  assumes "cluster_store w rs clock f data n k a nd c = Ret (Inr h, c')" and "rs_codec rs k (n - k)" and "nv_inv (nd_view nd)"
  obtains peers shards nd' where "so_selectStoragePeers n nd = Ret peers" and "sm_ShardData rs data n k = Inr shards"
    and "length peers = length shards" and "int (length shards) = n" and "distinct peers"
    and "\<forall>p \<in> set peers. p \<noteq> nd_self nd \<and> p \<in> set (nd_connected nd)"
    and "h = CalculateFileHash data" and "so_StoreFileDistributed rs (node_rpc w c) clock f data n k nd = Ret (Inr h, nd')"
    and "sent_requests rs clock f data n k nd = shard_requests clock h f n k 0 shards peers"
    and "c' = (fold (deliver w) (shard_requests clock h f n k 0 shards peers) c)(a \<mapsto> nd')"
proof -
  from assms(1) obtain nd' where st: "so_StoreFileDistributed rs (node_rpc w c) clock f data n k nd = Ret (Inr h, nd')"
    and c': "c' = (fold (deliver w) (sent_requests rs clock f data n k nd) c)(a \<mapsto> nd')"
    by (auto simp: cluster_store_def go_bind_Ret_iff)
  from st obtain peers shards where p: "so_selectStoragePeers n nd = Ret peers" "\<not> int (length peers) < n"
    and s: "sm_ShardData rs data n k = Inr shards" and h: "h = CalculateFileHash data"
    by (auto simp: so_StoreFileDistributed_def go_bind_Ret_iff Let_def split: if_splits sum.splits)
  have len: "int (length shards) = n" using ShardData_length [OF assms(2) s] by simp
  from selectStoragePeers_spec [OF assms(3), of n] p(1) have sel: "int (length peers) \<le> n" "distinct peers"
    "\<forall>p \<in> set peers. p \<noteq> nd_self nd \<and> p \<in> set (nd_connected nd)"
    by (auto split: if_splits)
  have sent: "sent_requests rs clock f data n k nd = shard_requests clock h f n k 0 shards peers"
    using p s by (simp add: sent_requests_def h)
  have "length peers = length shards" using p(2) len sel(1) by linarith
  then show thesis using that p s len sel h st sent c' by simp
qed

section \<open>Where the shards are\<close>

text \<open>The first \<open>m\<close> shards lie with their peers, and no shard of the file lies anywhere else.\<close>

definition spread :: "cluster \<Rightarrow> string \<Rightarrow> peer_id list \<Rightarrow> Shard list \<Rightarrow> nat \<Rightarrow> bool" where
  "spread c h peers shards m \<longleftrightarrow>
     (\<forall>p i b. holds (c p) (shard_id h (i + 1)) b \<longleftrightarrow>
        i < m \<and> i < length shards \<and> p = peers ! i \<and> b = sh_Data (shards ! i))"

text \<open>The requests of a store of which exactly the first \<open>m\<close> are accepted.\<close>

definition first_accepted :: "wire \<Rightarrow> cluster \<Rightarrow> (peer_id \<times> StorageRequest) list \<Rightarrow> nat \<Rightarrow> bool" where
  "first_accepted w c ms m \<longleftrightarrow> (\<forall>j < length ms. accepted w c (ms ! j) \<longleftrightarrow> j < m)"

lemma delivered:
  assumes "length peers = length shards" and "distinct peers" and "a \<notin> set peers"
    and "c' = (fold (deliver w) (shard_requests clock h f n k 0 shards peers) c)(a \<mapsto> nd')"
  shows "c' a = Some nd'"
    and "j < length shards \<Longrightarrow>
      c' (peers ! j) = receive w (shard_request (clock (7 + j)) h f j (sh_Data (shards ! j)) n k) (c (peers ! j))"
    and "p \<noteq> a \<Longrightarrow> p \<notin> set peers \<Longrightarrow> c' p = c p"
proof -
  have d: "distinct (map fst (shard_requests clock h f n k 0 shards peers))"
    using assms(1,2) by (simp add: shard_requests_peers)
  show "c' a = Some nd'" by (simp add: assms(4))
  show "c' (peers ! j) = receive w (shard_request (clock (7 + j)) h f j (sh_Data (shards ! j)) n k) (c (peers ! j))"
    if "j < length shards"
  proof -
    have "peers ! j \<noteq> a" using that assms(1,3) by (metis nth_mem)
    then show ?thesis
      using map_of_requests [of shards peers j clock h f n k] that assms(1,2)
      by (simp add: assms(4) fold_deliver [OF d])
  qed
  show "c' p = c p" if "p \<noteq> a" "p \<notin> set peers"
  proof -
    have "map_of (shard_requests clock h f n k 0 shards peers) p = None"
      using that(2) shard_requests_peers [OF assms(1) [symmetric], of clock h f n k 0]
      by (metis map_of_eq_None_iff set_map)
    then show ?thesis using that(1) by (simp add: assms(4) fold_deliver [OF d])
  qed
qed

lemma store_spread:
  assumes ok: "cluster_ok c" and unk: "\<forall>p nd. c p = Some nd \<longrightarrow> file_unknown h nd" and h: "slash \<notin> set h"
    and parts: "length peers = length shards" "distinct peers" "a \<notin> set peers"
      "c' = (fold (deliver w) (shard_requests clock h f n k 0 shards peers) c)(a \<mapsto> nd')"
    and acc: "first_accepted w c (shard_requests clock h f n k 0 shards peers) m"
    and own: "\<And>i b. \<not> holds (Some nd') (shard_id h i) b"
  shows "spread c' h peers shards m"
proof -
  let ?ms = "shard_requests clock h f n k 0 shards peers"
  let ?req = "\<lambda>j. shard_request (clock (7 + j)) h f j (sh_Data (shards ! j)) n k"
  note D = delivered [OF parts]
  have a: "accepted w c (peers ! j, ?req j) \<longleftrightarrow> j < m" if "j < length shards" for j
    using acc that parts(1) shard_requests_nth [of j shards peers clock h f n k 0]
    by (fastforce simp: first_accepted_def length_shard_requests)
  have none: "\<not> holds (c p) (shard_id h i) b" for p i b
    using ok unk unknown_chunk by (cases "c p") (auto simp: cluster_ok_def simp del: holds_simps(2))
  have peer: "holds (c' (peers ! j)) (shard_id h (i + 1)) b \<longleftrightarrow> i = j \<and> j < m \<and> b = sh_Data (shards ! j)"
    if j: "j < length shards" for i j b
  proof (cases "c (peers ! j)")
    case None
    then have "\<not> accepted w c (peers ! j, ?req j)" by (simp add: accepted_def node_rpc_def answer_def)
    with None show ?thesis using a [OF j] D(2) [OF j] by (simp add: receive_def)
  next
    case (Some nd)
    then have nd: "nd_ok nd" "file_unknown h nd" using ok unk by (auto simp: cluster_ok_def)
    show ?thesis
    proof (cases "j < m")
      case True
      with a [OF j] have acc: "accepted w c (peers ! j, ?req j)" by simp
      obtain nd1 where r: "receive w (?req j) (c (peers ! j)) = Some nd1"
        and own': "e_RetrieveChunk (shard_id h (j + 1)) (nd_store nd1) = Inr (sh_Data (shards ! j))"
        and other: "\<forall>k b. k \<noteq> shard_id h (j + 1) \<longrightarrow> holds (Some nd1) k b = holds (Some nd) k b"
        using receive_accepted [where req = "?req j", OF Some nd h refl acc] by metis
      show ?thesis
      proof (cases "i = j")
        case True
        with r own' \<open>j < m\<close> show ?thesis by (auto simp: D(2) [OF j])
      next
        case False
        then have "shard_id h (i + 1) \<noteq> shard_id h (j + 1)" by (simp add: shard_id_inject)
        with r other none [of "peers ! j"] False Some show ?thesis by (simp only: D(2) [OF j]) metis
      qed
    next
      case False
      have "\<not> holds (c' (peers ! j)) (shard_id h (i + 1)) b"
      proof (cases "c' (peers ! j)")
        case (Some nd1)
        then have r: "receive w (?req j) (c (peers ! j)) = Some nd1" by (simp only: D(2) [OF j])
        have "\<not> accepted w c (peers ! j, ?req j)" using a [OF j] False by simp
        from receive_refused [where p = "peers ! j" and req = "?req j", OF \<open>c (peers ! j) = Some nd\<close> nd(1)
            plain_shard_request [OF h] this r] none [of "peers ! j" "i + 1" b]
        show ?thesis by (simp only: Some \<open>c (peers ! j) = Some nd\<close>) blast
      qed simp
      with False show ?thesis by simp
    qed
  qed
  show ?thesis
    unfolding spread_def
  proof (intro allI)
    fix p i b
    show "holds (c' p) (shard_id h (i + 1)) b \<longleftrightarrow> i < m \<and> i < length shards \<and> p = peers ! i \<and> b = sh_Data (shards ! i)"
    proof (cases "p \<in> set peers")
      case True
      then obtain j where j: "j < length shards" "p = peers ! j" using parts(1) by (metis in_set_conv_nth)
      have "p = peers ! i \<longleftrightarrow> i = j" if "i < length shards"
        using that j parts(1,2) by (auto simp: nth_eq_iff_index_eq)
      with peer [OF j(1), of i b] j show ?thesis by auto
    next
      case False
      then have "p \<noteq> peers ! i" if "i < length shards" using that parts(1) by (metis nth_mem)
      moreover have "\<not> holds (c' p) (shard_id h (i + 1)) b"
        using own none D(1) D(3) [OF _ False] by (cases "p = a") (simp_all del: holds_simps(2))
      ultimately show ?thesis by blast
    qed
  qed
qed

section \<open>Fetching\<close>

text \<open>A node whose state, but for its view, is the one it has in the cluster.\<close>

definition runs_as :: "cluster \<Rightarrow> peer_id \<Rightarrow> DNode \<Rightarrow> bool" where
  "runs_as c b nd \<longleftrightarrow> nd_self nd = b \<and>
     (\<exists>ndb. c b = Some ndb \<and> nd_store nd = nd_store ndb \<and> nd_fileManager nd = nd_fileManager ndb)"

lemma Sync_runs_as:
  assumes "c b = Some nd" and "nd_self nd = b"
  shows "runs_as c b (so_SyncNetworkView env nd)"
proof -
  have q: "nd_self (so_queryPeerForFiles env p x) = nd_self x \<and> nd_store (so_queryPeerForFiles env p x) = nd_store x \<and>
      nd_fileManager (so_queryPeerForFiles env p x) = nd_fileManager x" for p x
    by (simp add: so_queryPeerForFiles_def nd_store_def split: sum.splits)
  have "nd_self (fold (so_queryPeerForFiles env) ps x) = nd_self x \<and>
      nd_store (fold (so_queryPeerForFiles env) ps x) = nd_store x \<and>
      nd_fileManager (fold (so_queryPeerForFiles env) ps x) = nd_fileManager x" for ps x
    by (induction ps arbitrary: x) (simp_all add: q)
  with assms show ?thesis by (simp add: runs_as_def so_SyncNetworkView_def)
qed

lemma dn_GetShard_id: "dn_GetShard h (int i + 1) s = e_RetrieveChunk (shard_id h (i + 1)) s"
  by (simp add: dn_GetShard_def shard_id_def add.commute)

lemma request_held:
  assumes "runs_as c b nd" and "holds (c p) (shard_id h (i + 1)) d"
  shows "so_requestShardFromPeer (node_rpc w c) p h (int i + 1) e nd = check_shard (int i + 1) d e"
  using assms
  by (auto simp: so_requestShardFromPeer_def runs_as_def holds_def node_rpc_def answer_def dn_GetShard_id
      n_handleShardRequest_def)

lemma request_missing:
  assumes "runs_as c b nd" and "\<forall>d. \<not> holds (c p) (shard_id h (i + 1)) d"
  shows "\<exists>err. so_requestShardFromPeer (node_rpc w c) p h (int i + 1) e nd = Inl err"
proof (cases "c p")
  case None
  with assms(1) show ?thesis
    by (auto simp: so_requestShardFromPeer_def runs_as_def node_rpc_def answer_def)
next
  case (Some ndp)
  then obtain x where "e_RetrieveChunk (shard_id h (i + 1)) (nd_store ndp) = Inl x"
    using assms(2) by (cases "e_RetrieveChunk (shard_id h (i + 1)) (nd_store ndp)") auto
  with Some assms(1) show ?thesis
    by (auto simp: so_requestShardFromPeer_def runs_as_def node_rpc_def answer_def dn_GetShard_id
        n_handleShardRequest_def)
qed

lemma retrieve_some:
  assumes "p \<in> set ps" and "so_requestShardFromPeer env p h i e nd = Inr s"
    and "\<forall>q \<in> set ps. \<forall>s. so_requestShardFromPeer env q h i e nd = Inr s \<longrightarrow> sh_Data s = d"
  shows "\<exists>s. so_retrieveShardFromPeers env h i e nd ps lastErr = Inr s \<and> sh_Data s = d"
  using assms by (induction ps arbitrary: lastErr) (auto split: sum.splits)

lemma retrieve_none:
  assumes "\<forall>q \<in> set ps. \<exists>err. so_requestShardFromPeer env q h i e nd = Inl err"
  shows "\<exists>err. so_retrieveShardFromPeers env h i e nd ps lastErr = Inl err"
  using assms by (induction ps arbitrary: lastErr) (auto split: sum.splits)

lemma spread_delivers:
  assumes sp: "spread c h peers shards m" and b: "runs_as c b nd" and ps: "\<forall>i < m. peers ! i \<in> set ps"
    and e: "\<forall>i < length shards. expected_hash md i \<in> {'''', CalculateShardHash (sh_Data (shards ! i))}"
  shows "delivers (node_rpc w c) h md ps nd shards m"
  unfolding delivers_def
proof (intro allI impI)
  fix i
  assume i: "i < length shards"
  let ?req = "\<lambda>q. so_requestShardFromPeer (node_rpc w c) q h (int i + 1) (expected_hash md i) nd"
  have other: "\<exists>err. ?req q = Inl err" if "\<not> (i < m \<and> q = peers ! i)" for q
    by (rule request_missing [OF b]) (use sp that in \<open>auto simp: spread_def\<close>)
  show "case so_retrieveShardFromPeers (node_rpc w c) h (int i + 1) (expected_hash md i) nd ps None of
      Inl err \<Rightarrow> m \<le> i | Inr s \<Rightarrow> i < m \<and> sh_Data s = sh_Data (shards ! i)"
  proof (cases "i < m")
    case True
    have "holds (c (peers ! i)) (shard_id h (i + 1)) (sh_Data (shards ! i))" using sp True i by (simp add: spread_def)
    then have req: "?req (peers ! i) = check_shard (int i + 1) (sh_Data (shards ! i)) (expected_hash md i)"
      by (rule request_held [OF b])
    then obtain s where s: "?req (peers ! i) = Inr s" using e i by (auto simp: check_shard_def)
    then have "sh_Data s = sh_Data (shards ! i)" using req check_shard_data by metis
    with s other have "\<forall>q \<in> set ps. \<forall>s. ?req q = Inr s \<longrightarrow> sh_Data s = sh_Data (shards ! i)"
      by (metis Inl_Inr_False sum.inject(2))
    with retrieve_some [OF _ s, of ps "sh_Data (shards ! i)" None] ps True
    obtain s' where "so_retrieveShardFromPeers (node_rpc w c) h (int i + 1) (expected_hash md i) nd ps None = Inr s'"
      "sh_Data s' = sh_Data (shards ! i)" by blast
    with True show ?thesis by simp
  next
    case False
    with retrieve_none [of ps "node_rpc w c" h "int i + 1" "expected_hash md i" nd None] other
    obtain err where "so_retrieveShardFromPeers (node_rpc w c) h (int i + 1) (expected_hash md i) nd ps None = Inl err"
      by blast
    with False show ?thesis by simp
  qed
qed

lemma request_metadata:
  assumes "runs_as c b nd" and "c p = Some ndp" and "gm_get (fm_fileIndex (nd_fileManager ndp)) h = Some md"
  shows "so_requestFileMetadata (node_rpc w c) p h nd = Inr (Some md)"
  using assms by (auto simp: so_requestFileMetadata_def runs_as_def node_rpc_def answer_def fm_GetFileInfo_def
      dn_GetFileMetadata_def n_handleFileMetadataRequest_def)

end
