(* ===== verification/Cluster_Correct.thy ===== *)
theory Cluster_Correct
  imports Cluster
begin

text \<open>
  Storing on one node and retrieving on another, over the same cluster: when a file comes back,
  and why, as the code stands, the node that stored it does not get it back.
\<close>

lemma store_outcome:
  assumes ok: "cluster_ok c" and unk: "\<forall>p nd. c p = Some nd \<longrightarrow> file_unknown (CalculateFileHash data) nd"
    and a: "c a = Some nd" "nv_inv (nd_view nd)" and codec: "rs_codec rs k (n - k)"
    and st: "cluster_store w rs clock f data n k a nd c = Ret (Inr h, c')"
    and acc: "first_accepted w c (sent_requests rs clock f data n k nd) m"
  obtains peers shards nd' where "h = CalculateFileHash data" and "sm_ShardData rs data n k = Inr shards"
    and "length peers = length shards" and "int (length shards) = n" and "distinct peers" and "a \<notin> set peers"
    and "set peers \<subseteq> set (nd_connected nd)" and "map fst (sent_requests rs clock f data n k nd) = peers"
    and "spread c' h peers shards m" and "c' a = Some nd'" and "nd_self nd' = a" and "nd_view nd' = nd_view nd"
    and "\<exists>md. gm_get (fm_fileIndex (nd_fileManager nd')) h = Some md \<and> md_TotalShards md = n \<and>
       md_RequiredShards md = k \<and> md_OriginalSize md = int (length data) \<and> md_ShardHashes md = []"
    and "\<forall>j < length shards. c' (peers ! j) =
       receive w (shard_request (clock (7 + j)) h f j (sh_Data (shards ! j)) n k) (c (peers ! j))"
    and "\<forall>j < length shards. accepted w c (peers ! j, shard_request (clock (7 + j)) h f j (sh_Data (shards ! j)) n k) \<longleftrightarrow> j < m"
    and "\<forall>p. p \<noteq> a \<longrightarrow> p \<notin> set peers \<longrightarrow> c' p = c p"
proof -
  obtain peers shards nd' where sel: "so_selectStoragePeers n nd = Ret peers" and sh: "sm_ShardData rs data n k = Inr shards"
    and len: "length peers = length shards" and n: "int (length shards) = n" and d: "distinct peers"
    and con: "\<forall>p \<in> set peers. p \<noteq> nd_self nd \<and> p \<in> set (nd_connected nd)" and h: "h = CalculateFileHash data"
    and so: "so_StoreFileDistributed rs (node_rpc w c) clock f data n k nd = Ret (Inr h, nd')"
    and sent: "sent_requests rs clock f data n k nd = shard_requests clock h f n k 0 shards peers"
    and c': "c' = (fold (deliver w) (shard_requests clock h f n k 0 shards peers) c)(a \<mapsto> nd')"
    using cluster_store_parts [OF st codec a(2)] by metis
  have nd: "nd_self nd = a" "nd_ok nd" "file_unknown (CalculateFileHash data) nd"
    using ok unk a(1) by (auto simp: cluster_ok_def)
  have aself: "a \<notin> set peers" using con nd(1) by blast
  note idx = unknown_index [OF nd(3)]
  note fr = store_frame [OF nd(2) idx so]
  note fs = first_store_facts [OF idx so]
  have unk': "\<forall>p nd. c p = Some nd \<longrightarrow> file_unknown h nd" using unk h by simp
  have slash: "slash \<notin> set h" using h by simp
  have own: "\<not> holds (Some nd') (shard_id h i) b" for i b
    using unknown_chunk [OF nd(2,3), of i b] fr h by simp
  have acc': "first_accepted w c (shard_requests clock h f n k 0 shards peers) m" using acc sent by simp
  note sp = store_spread [OF ok unk' slash len d aself c' acc' own]
  note D = delivered [OF len d aself c']
  have each: "\<forall>j < length shards. accepted w c (peers ! j, shard_request (clock (7 + j)) h f j (sh_Data (shards ! j)) n k) \<longleftrightarrow> j < m"
    using acc' len shard_requests_nth [of _ shards peers clock h f n k 0]
    by (fastforce simp: first_accepted_def length_shard_requests)
  show thesis
    by (rule that [OF h sh len n d aself _ _ sp D(1)])
      (use con sent len nd(1) fr fs each D in \<open>auto simp: shard_requests_peers\<close>)
qed


section \<open>The storing node asks for its own file\<close>

lemma mergePeers_storing:
  "storing_peers (fold so_mergePeers es nv) h = storing_peers nv h \<union> {p. \<exists>qs. (h, qs) \<in> set es \<and> p \<in> set qs}"
proof (induction es arbitrary: nv)
  case Nil
  then show ?case by simp
next
  case (Cons e es)
  obtain g qs where e: "e = (g, qs)" by (cases e)
  have "storing_peers (so_mergePeers e nv) h = storing_peers nv h \<union> (if h = g then set qs else {})"
    by (simp add: e mergePeers_add_location storing_peers_def gm_get_or_def [of _ _ h] add_location_eq fold_append_new_set)
      (auto simp: gm_get_or_def)
  with Cons.IH [of "so_mergePeers e nv"] show ?case by (auto simp: e)
qed

text \<open>What a peer's file list says about a file.\<close>

definition listed_by :: "rpc \<Rightarrow> string \<Rightarrow> peer_id \<Rightarrow> peer_id set" where
  "listed_by env h p =
     (case rpc_list env p of
        Inl err \<Rightarrow> {}
      | Inr response \<Rightarrow> if lr_Error response \<noteq> '''' then {} else {q. \<exists>qs. (h, qs) \<in> set (lr_FileIndex response) \<and> q \<in> set qs})"

lemma Sync_storing:
  "storing_peers (nd_view (so_SyncNetworkView env nd)) h =
     storing_peers (nd_view nd) h \<union> (\<Union>p \<in> set (gm_keys (nv_peers (nd_view nd))) - {nd_self nd}. listed_by env h p)"
proof -
  have "storing_peers (nd_view (fold (so_queryPeerForFiles env) ps nd)) h =
      storing_peers (nd_view nd) h \<union> (\<Union>p \<in> set ps - {nd_self nd}. listed_by env h p)" for ps
  proof (induction ps arbitrary: nd)
    case Nil
    then show ?case by simp
  next
    case (Cons p ps)
    let ?nd = "so_queryPeerForFiles env p nd"
    have "nd_self ?nd = nd_self nd" by (simp add: so_queryPeerForFiles_def split: sum.splits)
    moreover have "storing_peers (nd_view ?nd) h = storing_peers (nd_view nd) h \<union> (if p = nd_self nd then {} else listed_by env h p)"
      by (auto simp: so_queryPeerForFiles_def listed_by_def mergePeers_storing split: sum.splits)
    ultimately show ?case using Cons.IH [of ?nd] by auto
  qed
  from this [of "filter (\<lambda>p. p \<noteq> nd_self nd) (gm_keys (nv_peers (nd_view nd)))"]
  show ?thesis by (auto simp: so_SyncNetworkView_def)
qed

lemma file_list_get:
  "gm_get (fold (\<lambda>meta. gm_put (md_FileHash meta) [self]) ms acc) h =
     (if h \<in> md_FileHash ` set ms then Some [self] else gm_get acc h)"
  by (induction ms arbitrary: acc) auto

lemma file_list_wf: "gm_wf acc \<Longrightarrow> gm_wf (fold (\<lambda>meta. gm_put (md_FileHash meta) [self]) ms acc)"
  by (induction ms arbitrary: acc) simp_all

lemma listed_by_cluster:
  "listed_by (node_rpc w c) h p =
     (case c p of None \<Rightarrow> {}
      | Some nd \<Rightarrow> if h \<in> md_FileHash ` set (fm_ListFiles (nd_fileManager nd)) then {nd_self nd} else {})"
proof (cases "c p")
  case None
  then show ?thesis by (simp add: listed_by_def node_rpc_def answer_def)
next
  case (Some nd)
  let ?F = "fold (\<lambda>meta. gm_put (md_FileHash meta) [nd_self nd]) (fm_ListFiles (nd_fileManager nd)) []"
  have "(h, qs) \<in> set ?F \<longleftrightarrow> gm_get ?F h = Some qs" for qs
    by (rule gm_wf_get [OF file_list_wf]) simp
  with Some show ?thesis
    by (auto simp: listed_by_def node_rpc_def answer_def n_handleFileListRequest_def file_list_get)
qed

lemma unknown_not_listed: "file_unknown h nd \<Longrightarrow> h \<notin> md_FileHash ` set (fm_ListFiles (nd_fileManager nd))"
  by (auto simp: file_unknown_def fm_ListFiles_def)

lemma gm_get_in_set: "gm_get m k = Some v \<Longrightarrow> (k, v) \<in> set m"
  by (induction m) (auto split: if_splits)

text \<open>What a peer that accepted its shard tells about the file.\<close>

lemma accepted_entry:
  assumes c: "cluster_ok c" "\<forall>p nd. c p = Some nd \<longrightarrow> file_unknown h nd" "slash \<notin> set h"
    and acc: "accepted w c (p, shard_request now h f j d n k)" and j: "int j < n" "n < 2 ^ 63"
    and c': "c' p = receive w (shard_request now h f j d n k) (c p)"
  obtains nd1 md where "c' p = Some nd1" and "nd_self nd1 = p" and "gm_get (fm_fileIndex (nd_fileManager nd1)) h = Some md"
    and "h \<in> md_FileHash ` set (fm_ListFiles (nd_fileManager nd1))"
    and "md_TotalShards md = n" and "md_RequiredShards md = k" and "md_OriginalSize md = wrap64 (int (length d) * n)"
    and "md_ShardHashes md = (replicate (nat n) '''')[j := CalculateShardHash d]"
proof -
  let ?req = "shard_request now h f j d n k"
  obtain nd where nd: "c p = Some nd"
    using acc by (auto simp: accepted_def node_rpc_def answer_def split: option.splits)
  then have ok: "nd_ok nd" "file_unknown h nd" "nd_self nd = p" using c by (auto simp: cluster_ok_def)
  obtain nd1 hashes where r: "receive w ?req (c p) = Some nd1" "nd_self nd1 = nd_self nd"
    and hs: "set_shard_hash (int j + 1) (CalculateShardHash d) (replicate (nat n) '''') = Ret hashes"
    and idx: "fm_fileIndex (nd_fileManager nd1) = gm_put h
       (estimated_metadata (wi_now1 w) (wi_now2 w) ?req (nd_self nd) hashes) (fm_fileIndex (nd_fileManager nd))"
    using receive_accepted [where req = ?req, OF nd ok(1,2) c(3) refl acc] by metis
  let ?md = "estimated_metadata (wi_now1 w) (wi_now2 w) ?req (nd_self nd) hashes"
  have "wrap64 (int j + 1 - 1) = int j" using j by (simp add: wrap64_id)
  then have hashes: "hashes = (replicate (nat n) '''')[j := CalculateShardHash d]"
    using hs j by (simp add: set_shard_hash_def go_update_def split: if_splits)
  have get: "gm_get (fm_fileIndex (nd_fileManager nd1)) h = Some ?md" by (simp add: idx)
  then have "(h, ?md) \<in> set (fm_fileIndex (nd_fileManager nd1))" by (rule gm_get_in_set)
  then have "h \<in> md_FileHash ` set (fm_ListFiles (nd_fileManager nd1))"
    by (force simp: fm_ListFiles_def estimated_metadata_def shard_request_def)
  with r get hashes ok(3) c' show thesis
    by (intro that [of nd1 ?md]) (simp_all add: estimated_metadata_def shard_request_def)
qed

lemma holder_listed:
  assumes c: "cluster_ok c" "\<forall>p nd. c p = Some nd \<longrightarrow> file_unknown h nd" "slash \<notin> set h"
    and acc: "accepted w c (p, shard_request now h f j d n k)" and j: "int j < n" "n < 2 ^ 63"
    and c': "c' p = receive w (shard_request now h f j d n k) (c p)"
  shows "listed_by (node_rpc w c') h p = {p}"
proof -
  obtain nd1 where "c' p = Some nd1" "nd_self nd1 = p" "h \<in> md_FileHash ` set (fm_ListFiles (nd_fileManager nd1))"
    using accepted_entry [where c' = c' and p = p, OF c acc j c'] by metis
  then show ?thesis by (simp add: listed_by_cluster)
qed

lemma refused_not_listed:
  assumes c: "cluster_ok c" "\<forall>p nd. c p = Some nd \<longrightarrow> file_unknown h nd"
    and req: "plain_request req" and no: "\<not> accepted w c (p, req)" and c': "c' p = receive w req (c p)"
  shows "listed_by (node_rpc w c') h p = {}"
proof (cases "c' p")
  case None
  then show ?thesis by (simp add: listed_by_cluster)
next
  case (Some nd1)
  with c' have get: "receive w req (c p) = Some nd1" by simp
  then obtain ndp where ndp: "c p = Some ndp" by (cases "c p") (simp_all add: receive_def)
  then have "nd_ok ndp" "file_unknown h ndp" using c by (auto simp: cluster_ok_def)
  with receive_refused [where c = c and p = p and req = req, OF ndp _ req no get] Some show ?thesis
    by (simp add: listed_by_cluster unknown_not_listed)
qed

lemma lists_after_store:
  assumes c: "cluster_ok c" "\<forall>p nd. c p = Some nd \<longrightarrow> file_unknown h nd" "slash \<notin> set h"
    and len: "length peers = length shards" "int (length shards) = n" "n < 2 ^ 63"
    and rec: "\<forall>j < length shards. c' (peers ! j) = receive w (req j) (c (peers ! j))"
    and req: "req = (\<lambda>j. shard_request (clock (7 + j)) h f j (sh_Data (shards ! j)) n k)"
    and each: "\<forall>j < length shards. accepted w c (peers ! j, req j) \<longleftrightarrow> j < m"
    and rest: "p \<notin> set peers \<Longrightarrow> c' p = c p" and d: "distinct peers"
  shows "listed_by (node_rpc w c') h p = (if p \<in> set (take m peers) then {p} else {})"
proof (cases "p \<in> set peers")
  case True
  then obtain j where j: "j < length shards" "p = peers ! j" using len(1) by (metis in_set_conv_nth)
  have mem: "p \<in> set (take m peers) \<longleftrightarrow> j < m"
    using j len(1) d by (auto simp: in_set_conv_nth nth_eq_iff_index_eq intro!: exI [of _ j])
  have c': "c' p = receive w (req j) (c p)" using rec j by simp
  show ?thesis
  proof (cases "j < m")
    case True
    with each j have "accepted w c (p, shard_request (clock (7 + j)) h f j (sh_Data (shards ! j)) n k)" by (simp add: req)
    from holder_listed [where c' = c' and p = p, OF c this _ len(3)] c' j len(2) show ?thesis using True mem by (simp add: req)
  next
    case False
    with each j have "\<not> accepted w c (p, req j)" by simp
    from refused_not_listed [where c' = c' and p = p, OF c(1,2) _ this c'] plain_shard_request [OF c(3)] show ?thesis
      using False mem by (simp add: req)
  qed
next
  case False
  then have "p \<notin> set (take m peers)" by (meson in_set_takeD)
  with rest [OF False] c(2) show ?thesis by (auto simp: listed_by_cluster unknown_not_listed split: option.splits)
qed

text \<open>Metadata with an estimated size spoil a retrieval, however complete the shards are.\<close>

lemma retrieve_with_estimate:
  assumes codec: "rs_codec rs k (n - k)" "join_short rs k (n - k)" "k < n" and sh: "sm_ShardData rs data n k = Inr shards"
    and even: "\<forall>s \<in> set shards. length (sh_Data s) = L" "int L * n < 2 ^ 63"
    and idx: "gm_get (nd_index (so_SyncNetworkView env nd)) h = Some (p # ps)"
    and meta: "so_getFileMetadataFromNetwork env h (so_SyncNetworkView env nd) (p # ps) = Some md"
    and md: "md_TotalShards md = n" "md_RequiredShards md = k" "md_OriginalSize md = wrap64 (int L * n)"
    and dl: "delivers env h md (p # ps) (so_SyncNetworkView env nd) shards m" "k \<le> int m" "int m \<le> n"
  shows "\<exists>err. so_RetrieveFileDistributed rs env h nd =
    Ret (Inl (ReconstructionFailed (JoinFailed err)), so_SyncNetworkView env nd)"
proof -
  note got = fetched_in_place [OF codec(1) sh md(1) dl(1,3)]
  obtain err where "sm_ReconstructData rs (fetched_shards env h md (p # ps) (so_SyncNetworkView env nd)) n k
      (md_OriginalSize md) = Ret (Inl (JoinFailed err))"
    using reconstruct_join_in_place [OF codec(1) sh got(2)] got(3) dl(2) estimated_join_short [OF codec sh even] md(3) by auto
  then show ?thesis
    using idx meta md(1,2) got(1) dl(2)
    by (simp add: so_RetrieveFileDistributed_def so_retrieveShardsFromPeers_def gm_get_or_def Let_def)
qed

lemma own_hash_expected:
  assumes "md_ShardHashes md = (replicate n '''')[j := CalculateShardHash (sh_Data (shards ! j))]"
  shows "expected_hash md i \<in> {'''', CalculateShardHash (sh_Data (shards ! i))}"
proof (cases "i = j")
  case False
  then show ?thesis by (simp add: expected_hash_def assms)
next
  case True
  then show ?thesis by (cases "j < n") (simp_all add: expected_hash_def assms)
qed

lemma even_shards_few:
  assumes "rs_codec rs k (n - k)" and sh: "sm_ShardData rs data n k = Inr shards"
    and "\<forall>s \<in> set shards. length (sh_Data s) = L" and "int L * n < 2 ^ 63"
  shows "n < 2 ^ 63"
proof -
  note S = sm_ShardData_ok [OF sh]
  have "shards \<noteq> []" using ShardData_length(1) [OF assms(1) sh] S(2,3) by auto
  then have "L \<noteq> 0" using ShardData_length(2) [OF assms(1) sh] assms(3) by (cases shards) auto
  then have "1 * n \<le> int L * n" using S(2,3) by (intro mult_right_mono) simp_all
  then show ?thesis using assms(4) by simp
qed

lemma storing_node_finds_holders:
  assumes ok: "cluster_ok c" and unk: "\<forall>p nd. c p = Some nd \<longrightarrow> file_unknown (CalculateFileHash data) nd"
    and a: "c a = Some nd" "nv_inv (nd_view nd)" "storing_peers (nd_view nd) h = {}"
      "set (nd_connected nd) \<subseteq> set (gm_keys (nv_peers (nd_view nd)))"
    and codec: "rs_codec rs k (n - k)"
    and sh: "sm_ShardData rs data n k = Inr shards"
    and even: "\<forall>s \<in> set shards. length (sh_Data s) = L" "int L * n < 2 ^ 63"
    and st: "cluster_store w rs clock f data n k a nd c = Ret (Inr h, c')"
    and acc: "first_accepted w c (sent_requests rs clock f data n k nd) m" "k \<le> int m" "int m \<le> n"
  obtains nda peers p1 ps where "c' a = Some nda" and "runs_as c' a (so_SyncNetworkView (node_rpc w c') nda)"
    and "h = CalculateFileHash data" and "length peers = length shards" and "int (length shards) = n"
    and "spread c' h peers shards m"
    and "gm_get (nd_index (so_SyncNetworkView (node_rpc w c') nda)) h = Some (p1 # ps)" and "set (p1 # ps) = set (take m peers)"
    and "\<forall>j < length shards. c' (peers ! j) =
       receive w (shard_request (clock (7 + j)) h f j (sh_Data (shards ! j)) n k) (c (peers ! j))"
    and "\<forall>j < length shards. accepted w c (peers ! j, shard_request (clock (7 + j)) h f j (sh_Data (shards ! j)) n k) \<longleftrightarrow> j < m"
proof -
  obtain peers shards' nda where h: "h = CalculateFileHash data" and "sm_ShardData rs data n k = Inr shards'"
    and len: "length peers = length shards'" "int (length shards') = n" "distinct peers" "a \<notin> set peers"
    and con: "set peers \<subseteq> set (nd_connected nd)" and sp: "spread c' h peers shards' m"
    and nda: "c' a = Some nda" "nd_self nda = a" "nd_view nda = nd_view nd"
    and rec: "\<forall>j < length shards'. c' (peers ! j) =
       receive w (shard_request (clock (7 + j)) h f j (sh_Data (shards' ! j)) n k) (c (peers ! j))"
    and each: "\<forall>j < length shards'. accepted w c (peers ! j, shard_request (clock (7 + j)) h f j (sh_Data (shards' ! j)) n k) \<longleftrightarrow> j < m"
    and rest: "\<forall>p. p \<noteq> a \<longrightarrow> p \<notin> set peers \<longrightarrow> c' p = c p"
    by (rule store_outcome [OF ok unk a(1,2) codec st acc(1)])
  then have [simp]: "shards' = shards" using sh by simp
  have unk': "\<forall>p nd. c p = Some nd \<longrightarrow> file_unknown h nd" "slash \<notin> set h" using unk h by simp_all
  note S = sm_ShardData_ok [OF sh]
  let ?env = "node_rpc w c'" and ?nd = "so_SyncNetworkView (node_rpc w c') nda"
  have r: "runs_as c' a ?nd" using nda(1,2) by (rule Sync_runs_as)
  note small = even_shards_few [OF codec sh even]
  have m: "m \<le> length peers" "0 < m" using acc(2,3) len(1,2) S(2) by simp_all
  have "set (take m peers) \<subseteq> set (gm_keys (nv_peers (nd_view nd))) - {a}"
    using con a(4) len(4) set_take_subset [of m peers] by blast
  moreover have "listed_by ?env h p = (if p \<in> set (take m peers) then {p} else {})" if "p \<noteq> a" for p
    using lists_after_store [where c' = c' and p = p, OF ok unk' len(1,2) small rec refl each _ len(3)] rest that by blast
  ultimately have "(\<Union>p \<in> set (gm_keys (nv_peers (nd_view nd))) - {a}. listed_by ?env h p) = set (take m peers)"
    by auto
  then have stored: "storing_peers (nd_view ?nd) h = set (take m peers)"
    using a(3) nda(2,3) by (simp add: Sync_storing)
  then obtain p1 ps where idx: "gm_get (nd_index ?nd) h = Some (p1 # ps)" and ps: "set (p1 # ps) = set (take m peers)"
    using m by (cases "gm_get_or [] (nd_index ?nd) h")
      (auto simp: storing_peers_def nd_index_def gm_get_or_def split: option.splits)
  show thesis by (rule that [OF nda(1) r h _ _ _ idx ps]) (use len sp rec each in simp_all)
qed

text \<open>
  C17: The storing node does not get its file back. Let a node store a file with at least one
  parity shard, in a cluster of well-formed nodes that do not know the file, each connected peer in
  the node's view, and let the first \<open>m \<ge> k\<close> peers accept their shard. When the node then
  retrieves the file, nobody being down and every shard where it belongs, the call fails: the
  node's index knows only the peers with shards, the metadata they answer with are the ones they
  made up from the size of a shard, and joining the reconstructed shards runs short.
\<close>

theorem storing_node_cannot_retrieve:
  assumes ok: "cluster_ok c" and unk: "\<forall>p nd. c p = Some nd \<longrightarrow> file_unknown (CalculateFileHash data) nd"
    and a: "c a = Some nd" "nv_inv (nd_view nd)" "storing_peers (nd_view nd) h = {}"
      "set (nd_connected nd) \<subseteq> set (gm_keys (nv_peers (nd_view nd)))"
    and codec: "rs_codec rs k (n - k)" "join_short rs k (n - k)" "k < n"
    and sh: "sm_ShardData rs data n k = Inr shards"
    and even: "\<forall>s \<in> set shards. length (sh_Data s) = L" "int L * n < 2 ^ 63"
    and st: "cluster_store w rs clock f data n k a nd c = Ret (Inr h, c')"
    and acc: "first_accepted w c (sent_requests rs clock f data n k nd) m" "k \<le> int m" "int m \<le> n"
  shows "\<exists>nda err c2. c' a = Some nda \<and>
    cluster_retrieve w rs h a nda c' = Ret (Inl (ReconstructionFailed (JoinFailed err)), c2)"
proof -
  obtain nda peers p1 ps where nda: "c' a = Some nda" and r: "runs_as c' a (so_SyncNetworkView (node_rpc w c') nda)"
    and h: "h = CalculateFileHash data" and len: "length peers = length shards" "int (length shards) = n"
    and sp: "spread c' h peers shards m"
    and idx: "gm_get (nd_index (so_SyncNetworkView (node_rpc w c') nda)) h = Some (p1 # ps)" and ps: "set (p1 # ps) = set (take m peers)"
    and rec: "\<forall>j < length shards. c' (peers ! j) =
       receive w (shard_request (clock (7 + j)) h f j (sh_Data (shards ! j)) n k) (c (peers ! j))"
    and each: "\<forall>j < length shards. accepted w c (peers ! j, shard_request (clock (7 + j)) h f j (sh_Data (shards ! j)) n k) \<longleftrightarrow> j < m"
    by (rule storing_node_finds_holders [OF ok unk a codec(1) sh even st acc])
  let ?env = "node_rpc w c'" and ?nd = "so_SyncNetworkView (node_rpc w c') nda"
  have unk': "\<forall>p nd. c p = Some nd \<longrightarrow> file_unknown h nd" "slash \<notin> set h" using unk h by simp_all
  note S = sm_ShardData_ok [OF sh]
  note small = even_shards_few [OF codec(1) sh even]
  have m: "m \<le> length peers" using acc(3) len by simp
  have "p1 \<in> set (take m peers)" using ps by auto
  then obtain j where j: "j < m" "j < length shards" "p1 = peers ! j" using len(1) by (auto simp: in_set_conv_nth)
  have hold: "accepted w c (p1, shard_request (clock (7 + j)) h f j (sh_Data (shards ! j)) n k)"
    "c' p1 = receive w (shard_request (clock (7 + j)) h f j (sh_Data (shards ! j)) n k) (c p1)"
    using each rec j by simp_all
  have "int j < n" using j(2) len(2) by simp
  from accepted_entry [where c' = c' and p = p1, OF ok unk' hold(1) this small hold(2)]
  obtain nd1 md where nd1: "c' p1 = Some nd1" "gm_get (fm_fileIndex (nd_fileManager nd1)) h = Some md"
    and md: "md_TotalShards md = n" "md_RequiredShards md = k" "md_OriginalSize md = wrap64 (int (length (sh_Data (shards ! j))) * n)"
      "md_ShardHashes md = (replicate (nat n) '''')[j := CalculateShardHash (sh_Data (shards ! j))]"
    by metis
  have "so_requestFileMetadata ?env p1 h ?nd = Inr (Some md)" by (rule request_metadata [OF r nd1])
  moreover have "valid_metadata md" using S(2,3) md by (simp add: valid_metadata_def)
  ultimately have meta: "so_getFileMetadataFromNetwork ?env h ?nd (p1 # ps) = Some md" by simp
  have "\<forall>i < m. peers ! i \<in> set (p1 # ps)" unfolding ps using m(1) by (auto simp: in_set_conv_nth)
  moreover have "\<forall>i < length shards. expected_hash md i \<in> {'''', CalculateShardHash (sh_Data (shards ! i))}"
    using own_hash_expected [OF md(4)] by simp
  ultimately have dl: "delivers ?env h md (p1 # ps) ?nd shards m" using spread_delivers [OF sp r] by simp
  have "md_OriginalSize md = wrap64 (int L * n)" using md(3) even(1) j(2) by simp
  from retrieve_with_estimate [OF codec sh even idx meta md(1,2) this dl acc(2,3)] nda
  show ?thesis by (auto simp: cluster_retrieve_def)
qed

section \<open>A small cluster\<close>

text \<open>Three empty peers, a node that knows them, and a reader whose index names all four for a file.\<close>

definition peer_view :: NetworkView where
  "peer_view = NewNetworkView\<lparr>nv_peers := [(''a'', new_peer 0 None), (''b'', new_peer 0 None), (''c'', new_peer 0 None)]\<rparr>"

definition storing_node :: DNode where
  "storing_node = fresh_node\<lparr>nd_connected := [''a'', ''b'', ''c''], nd_view := peer_view\<rparr>"

definition reading_node :: "string \<Rightarrow> DNode" where
  "reading_node h = fresh_node\<lparr>nd_self := ''r'',
     nd_view := NewNetworkView\<lparr>nv_fileIndex := [(h, [''me'', ''a'', ''b'', ''c''])]\<rparr>\<rparr>"

definition example_cluster :: cluster where
  "example_cluster p =
     (if p \<in> {''a'', ''b'', ''c''} then Some (fresh_node\<lparr>nd_self := p\<rparr>)
      else if p = ''me'' then Some storing_node
      else if p = ''r'' then Some (reading_node (CalculateFileHash [1, 2]))
      else None)"

definition example_wire :: wire where
  "example_wire = \<lparr>wi_errors = plain_errors, wi_now1 = 0, wi_now2 = 0, wi_publish = (\<lambda>_. True)\<rparr>"

lemma example_nodes:
  assumes "example_cluster p = Some nd"
  shows "nd_self nd = p \<and> nd_ok nd \<and> file_unknown h nd"
proof -
  have same: "nd_store nd = nd_store fresh_node \<and> nd_fileManager nd = fresh_manager \<and> nd_storage nd = nd_storage fresh_node"
    using assms by (auto simp: example_cluster_def storing_node_def reading_node_def fresh_node_def nd_store_def split: if_splits)
  moreover have "nd_self nd = p"
    using assms by (auto simp: example_cluster_def storing_node_def reading_node_def fresh_node_def split: if_splits)
  moreover have "nd_fileManager fresh_node = fresh_manager" by (simp add: fresh_node_def)
  ultimately show ?thesis
    using fresh_node_ok by (simp add: nd_ok_def file_unknown_def) (simp add: fresh_manager_def)
qed

lemma example_accepts:
  assumes "p \<in> {''a'', ''b'', ''c''}" and "slash \<notin> set h" and "j < 3"
  shows "accepted w example_cluster (p, shard_request now h f j [b] 3 2)"
proof -
  let ?nd = "fresh_node\<lparr>nd_self := p\<rparr>" and ?req = "shard_request now h f j [b] 3 2"
  have c: "example_cluster p = Some ?nd" using assms(1) by (simp add: example_cluster_def)
  have ok: "nd_ok ?nd" using example_nodes [OF c] by blast
  have new: "\<not> e_has (nd_store ?nd) (request_chunk ?req)"
    using example_nodes [OF c, of h] unfolding request_chunk_shard file_unknown_def by blast
  have "e_calculateUsedBytes (fresh_engine ''d'' DefaultMaxStorageBytes) quiet_disk = 0"
    by (simp add: e_calculateUsedBytes_def fresh_engine_def)
  then have "e_fits (fresh_engine ''d'' DefaultMaxStorageBytes, quiet_disk) [b]"
    by (simp add: e_fits_def) (simp add: fresh_engine_def DefaultMaxStorageBytes_def)
  then have fits: "e_fits (nd_store ?nd) (sq_ShardData ?req)"
    by (simp add: fresh_node_def nd_store_def shard_request_def)
  have i: "1 \<le> sq_ShardIndex ?req" "sq_ShardIndex ?req < 2 ^ 63" "0 \<le> sq_TotalShards ?req"
    using assms(3) by (simp_all add: shard_request_def)
  obtain resp nd' where "n_handleStorageProtocol (wi_errors w) (wi_now1 w) (wi_now2 w) (Some ?req) (Some ?nd) = Ret (Some resp, Some nd')"
    and "sr_Success resp"
    using storage_protocol_accepts [OF ok plain_shard_request [OF assms(2)] new fits i] by blast
  with c show ?thesis by (simp add: accepted_def node_rpc_def answer_def)
qed

lemma distribute_accepted:
  "accepted w c (p, shard_request now h f i d n k) \<Longrightarrow>
     so_distributeShardToPeer (node_rpc w c) now h f (int i + 1) d p n k = Inr ()"
  by (auto simp: accepted_def so_distributeShardToPeer_def shard_request_def split: sum.splits)

lemma storing_node_selects: "so_selectStoragePeers 3 storing_node = Ret [''a'', ''b'', ''c'']"
proof -
  have "\<not> f_lt (Fin 1) (f64 (3 / 10))" by code_simp
  then have "peer_suitable (new_peer 0 None)" by (simp add: peer_suitable_def new_peer_def)
  then show ?thesis
    by (simp add: so_selectStoragePeers_def rs_GetBestPeers_def storing_node_def fresh_node_def peer_view_def
        NewNetworkView_def)
qed

lemma example_sent:
  "sent_requests xor_codec (\<lambda>_. 0) ''f'' [1, 2] 3 2 storing_node =
     [(''a'', shard_request 0 (CalculateFileHash [1, 2]) ''f'' 0 [1] 3 2),
      (''b'', shard_request 0 (CalculateFileHash [1, 2]) ''f'' 1 [2] 3 2),
      (''c'', shard_request 0 (CalculateFileHash [1, 2]) ''f'' 2 [3] 3 2)]"
  by (simp add: sent_requests_def storing_node_selects xor_shards_12 numeral_2_eq_2)

lemma example_first_accepted:
  "first_accepted w example_cluster (sent_requests xor_codec (\<lambda>_. 0) ''f'' [1, 2] 3 2 storing_node) 3"
  by (simp add: example_sent first_accepted_def example_accepts less_Suc_eq numeral_3_eq_3 numeral_2_eq_2)

lemma example_stored:
  "\<exists>c'. cluster_store w xor_codec (\<lambda>_. 0) ''f'' [1, 2] 3 2 ''me'' storing_node example_cluster =
     Ret (Inr (CalculateFileHash [1, 2]), c')"
proof -
  let ?env = "node_rpc w example_cluster" and ?h = "CalculateFileHash [1, 2]"
  have "so_distributeShardToPeer ?env 0 ?h ''f'' 1 [1] ''a'' 3 2 = Inr ()"
    using distribute_accepted [OF example_accepts [of "''a''" ?h 0 w 0 "''f''" 1]] by simp
  moreover have "so_distributeShardToPeer ?env 0 ?h ''f'' 2 [2] ''b'' 3 2 = Inr ()"
    using distribute_accepted [OF example_accepts [of "''b''" ?h 1 w 0 "''f''" 2]] by simp
  moreover have "so_distributeShardToPeer ?env 0 ?h ''f'' 3 [3] ''c'' 3 2 = Inr ()"
    using distribute_accepted [OF example_accepts [of "''c''" ?h 2 w 0 "''f''" 3]] by simp
  ultimately show ?thesis
    by (simp add: cluster_store_def so_StoreFileDistributed_def storing_node_selects xor_shards_12 go_make_def Let_def)
qed

lemma example_cluster_ok:
  "cluster_ok example_cluster" "\<forall>p nd. example_cluster p = Some nd \<longrightarrow> file_unknown h nd"
  "example_cluster ''me'' = Some storing_node" "example_cluster ''r'' = Some (reading_node (CalculateFileHash [1, 2]))"
  "nv_inv (nd_view storing_node)" "storing_peers (nd_view storing_node) h = {}"
  "set (nd_connected storing_node) \<subseteq> set (gm_keys (nv_peers (nd_view storing_node)))"
proof -
  show "cluster_ok example_cluster" "\<forall>p nd. example_cluster p = Some nd \<longrightarrow> file_unknown h nd"
    using example_nodes by (auto simp: cluster_ok_def)
  show "example_cluster ''me'' = Some storing_node" "example_cluster ''r'' = Some (reading_node (CalculateFileHash [1, 2]))"
    by (simp_all add: example_cluster_def)
  show "nv_inv (nd_view storing_node)"
    by (simp add: storing_node_def peer_view_def nv_inv_def nv_scored_def index_wf_def NewNetworkView_def
        new_peer_def gm_all_def gm_wf_def)
  show "storing_peers (nd_view storing_node) h = {}"
    by (simp add: storing_node_def peer_view_def storing_peers_def gm_get_or_def NewNetworkView_def)
  show "set (nd_connected storing_node) \<subseteq> set (gm_keys (nv_peers (nd_view storing_node)))"
    by (simp add: storing_node_def peer_view_def)
qed

lemma reading_sync: "so_SyncNetworkView env (reading_node h) = reading_node h"
  by (simp add: so_SyncNetworkView_def reading_node_def NewNetworkView_def)


theorem storing_node_cannot_retrieve_witness:
  "\<exists>c' nda err c2. cluster_store example_wire xor_codec (\<lambda>_. 0) ''f'' [1, 2] 3 2 ''me'' storing_node example_cluster =
      Ret (Inr (CalculateFileHash [1, 2]), c') \<and> c' ''me'' = Some nda \<and>
    cluster_retrieve example_wire xor_codec (CalculateFileHash [1, 2]) ''me'' nda c' =
      Ret (Inl (ReconstructionFailed (JoinFailed err)), c2)"
proof -
  let ?h = "CalculateFileHash [1, 2]" and ?w = example_wire
  obtain c' where st: "cluster_store ?w xor_codec (\<lambda>_. 0) ''f'' [1, 2] 3 2 ''me'' storing_node example_cluster = Ret (Inr ?h, c')"
    using example_stored by blast
  have acc: "first_accepted ?w example_cluster (sent_requests xor_codec (\<lambda>_. 0) ''f'' [1, 2] 3 2 storing_node) 3"
    by (rule example_first_accepted)
  have even: "\<forall>s \<in> set [\<lparr>sh_Index = 1, sh_Data = [1], sh_Hash = CalculateShardHash [1], sh_Size = 1\<rparr>,
      \<lparr>sh_Index = 2, sh_Data = [2], sh_Hash = CalculateShardHash [2], sh_Size = 1\<rparr>,
      \<lparr>sh_Index = 3, sh_Data = [3], sh_Hash = CalculateShardHash [3], sh_Size = 1\<rparr>]. length (sh_Data s) = 1"
    by simp
  have n: "(2 :: int) < 3" "int 1 * 3 < 2 ^ 63" and m: "2 \<le> int 3" "int 3 \<le> 3" by simp_all
  have j: "join_short xor_codec 2 (3 - 2)" by (rule join_short_xor)
  from storing_node_cannot_retrieve [OF example_cluster_ok(1) example_cluster_ok(2) [of ?h] example_cluster_ok(3,5)
      example_cluster_ok(6) [of ?h] example_cluster_ok(7) xor_3_2 j n(1) xor_shards_12 even n(2) st acc m] st
  show ?thesis by blast
qed

end
