(* ===== verification/Commands_Correct.thy ===== *)
theory Commands_Correct
  imports Commands Cluster_Correct
begin

text \<open>
  What the programs do: the check after an upload of the client, where the client writes what it
  retrieves, and that the master node keeps its identity and its data from run to run.
\<close>

section \<open>The check after an upload\<close>

lemma verify_without_hashes:
  "md_ShardHashes md = [] \<Longrightarrow>
     verify_shards h md s is n = Panic IndexOutOfRange \<or> verify_shards h md s is n = Ret (Inr (n + length is))"
proof (induction "is" arbitrary: n)
  case (Cons i "is")
  then show ?case
    using Cons.IH [of "n + 1"] by (cases "e_RetrieveChunk (shard_id h (i + 1)) s") (auto simp: go_index_def)
qed simp

lemma verify_metadata_only:
  assumes "gm_get (fm_fileIndex fm) h = Some md" and "md_ShardHashes md = []" and "0 < md_TotalShards md"
    and "fm_VerifyFileIntegrity h (fm, d) = Ret r"
  shows "r = Inr False"
  using assms verify_without_hashes [OF assms(2), of h "(fm_engine fm, d)" "[0..<nat (md_TotalShards md)]" 0]
  by (auto simp: fm_VerifyFileIntegrity_def fm_GetFileInfo_def)

lemma stored_metadata:
  assumes "so_StoreFileDistributed rs env clock fileName data n k nd = Ret (Inr h, nd')"
  shows "fm_engine (nd_fileManager nd') = fm_engine (nd_fileManager nd) \<and>
    (\<exists>md. gm_get (fm_fileIndex (nd_fileManager nd')) h = Some md \<and> md_TotalShards md = n \<and>
      md_ShardHashes md = [] \<and> md_FileName md = fileName)"
  using assms
  by (auto simp: so_StoreFileDistributed_def so_storeFileMetadataLocally_def fm_UpdateFileMetadata_def node_defs
      new_metadata_def go_bind_Ret_iff Let_def split: if_splits sum.splits prod.splits)

text \<open>
  C31: The client's own check never succeeds. Whenever the upload of a file to the network succeeds and
  the client comes to its end, the integrity check that follows has failed: the metadata stored with
  the file have no shard hashes, so a shard is either counted as missing or ends the process.
\<close>

theorem upload_check_fails:
  assumes "testFileUpload rs env clock filePath nd = Ret (rep, nd1)" and "ur_stored rep = Inr h"
  shows "ur_integrity rep = Inr False \<and>
    (\<exists>md. ur_info rep = Inr md \<and> md_FileName md = filepath_Base filePath \<and> md_ShardHashes md = [])"
proof -
  from assms(1) obtain data q r where st0: "so_StoreFileDistributed rs env clock (filepath_Base filePath) data 3 2 nd = Ret (q, nd1)"
    and v0: "fm_VerifyFileIntegrity (case q of Inl err \<Rightarrow> '''' | Inr h \<Rightarrow> h) (nd_files nd1) = Ret r"
    and rep: "ur_integrity rep = r" "ur_stored rep = q"
      "ur_info rep = fm_GetFileInfo (case q of Inl err \<Rightarrow> '''' | Inr h \<Rightarrow> h) (nd_fileManager nd1)"
    by (cases "os_ReadFile filePath (nd_disk nd)") (auto simp: testFileUpload_def go_bind_Ret_iff Let_def)
  have q: "q = Inr h" using rep(2) assms(2) by simp
  have st: "so_StoreFileDistributed rs env clock (filepath_Base filePath) data 3 2 nd = Ret (Inr h, nd1)"
    and v: "fm_VerifyFileIntegrity h (nd_files nd1) = Ret r"
    using st0 v0 unfolding q by simp_all
  obtain md where md: "gm_get (fm_fileIndex (nd_fileManager nd1)) h = Some md" "md_TotalShards md = 3"
    "md_ShardHashes md = []" "md_FileName md = filepath_Base filePath"
    using stored_metadata [OF st] by blast
  have "r = Inr False" using verify_metadata_only [OF md(1,3)] md(2) v by (simp add: nd_files_def)
  with rep md show ?thesis unfolding q by (simp add: fm_GetFileInfo_def)
qed

theorem upload_check_fails_witness:
  "\<exists>rep nd1. testFileUpload xor_codec accepting_rpc (\<lambda>_. 0) ''f''
       (three_peer_node\<lparr>nd_disk := quiet_disk\<lparr>dk_files := [(''f'', Raw [1, 2])]\<rparr>\<rparr>) = Ret (rep, nd1) \<and>
     ur_stored rep = Inr (CalculateFileHash [1, 2]) \<and> ur_integrity rep = Inr False"
proof -
  let ?nd = "three_peer_node\<lparr>nd_disk := quiet_disk\<lparr>dk_files := [(''f'', Raw [1, 2])]\<rparr>\<rparr>"
  let ?h = "CalculateFileHash [1, 2]"
  have r: "os_ReadFile ''f'' (nd_disk ?nd) = Inr [1, 2]" by (simp add: os_ReadFile_def quiet_disk_def)
  have f: "filepath_Base ''f'' = ''f''" by code_simp
  have sel: "so_selectStoragePeers 3 ?nd = Ret [''a'', ''b'', ''c'']"
  proof -
    have "\<not> f_lt (Fin 1) (f64 (3 / 10))" by code_simp
    then have "peer_suitable (new_peer 0 None)" by (simp add: peer_suitable_def new_peer_def)
    then show ?thesis
      by (simp add: so_selectStoragePeers_def rs_GetBestPeers_def three_peer_node_def example_node_def NewNetworkView_def)
  qed
  have "\<exists>nd1. so_StoreFileDistributed xor_codec accepting_rpc (\<lambda>_. 0) ''f'' [1, 2] 3 2 ?nd = Ret (Inr ?h, nd1)"
    using sel by (simp add: so_StoreFileDistributed_def xor_shards_12 go_make_def Let_def so_distributeShardToPeer_def
        accepting_rpc_def)
  then obtain nd1 where st: "so_StoreFileDistributed xor_codec accepting_rpc (\<lambda>_. 0) ''f'' [1, 2] 3 2 ?nd = Ret (Inr ?h, nd1)"
    by blast
  obtain md where md: "gm_get (fm_fileIndex (nd_fileManager nd1)) ?h = Some md" "md_TotalShards md = 3"
    and eng: "fm_engine (nd_fileManager nd1) = fm_engine (nd_fileManager ?nd)"
    using stored_metadata [OF st] by blast
  have e: "en_chunks (fm_engine (nd_fileManager nd1)) = []" using eng by (simp add: three_peer_node_def example_node_def)
  have "e_RetrieveChunk k (fm_engine (nd_fileManager nd1), d) = Inl (ChunkNotFound k)" for k d
    using e by (simp add: e_RetrieveChunk_def)
  then have "fm_VerifyFileIntegrity ?h (nd_files nd1) = Ret (Inr False)"
    using md by (simp add: fm_VerifyFileIntegrity_def fm_GetFileInfo_def nd_files_def upt_rec numeral_3_eq_3)
  then have "\<exists>rep. testFileUpload xor_codec accepting_rpc (\<lambda>_. 0) ''f'' ?nd = Ret (rep, nd1) \<and> ur_stored rep = Inr ?h"
    using r f st by (simp add: testFileUpload_def Let_def)
  then obtain rep where u: "testFileUpload xor_codec accepting_rpc (\<lambda>_. 0) ''f'' ?nd = Ret (rep, nd1)"
    "ur_stored rep = Inr ?h" by blast
  from upload_check_fails [OF u] u show ?thesis by blast
qed


section \<open>Where the client writes\<close>

text \<open>One step up leaves the directory of the client.\<close>

lemma join_up: "d \<noteq> '''' \<Longrightarrow> slash \<notin> set d \<Longrightarrow> d \<noteq> ''.'' \<Longrightarrow> d \<noteq> ''..'' \<Longrightarrow> \<not> path_rooted p \<Longrightarrow>
  filepath_Join [d, ''../'' @ p] = filepath_Clean p"
proof -
  assume d: "d \<noteq> ''''" "slash \<notin> set d" "d \<noteq> ''.''" "d \<noteq> ''..''" and p: "\<not> path_rooted p"
  have r: "\<not> path_rooted (d @ slash # ''../'' @ p)"
    using d(1,2) by (cases d) (auto simp: path_rooted_def)
  have "split_on slash (d @ slash # ''../'' @ p) = d # ''..'' # split_on slash p"
    using d(2) split_on_append [of slash d "''../'' @ p"] split_on_append [of slash "''..''" p] by simp
  then have "path_comps (d @ slash # ''../'' @ p) = path_comps p"
    unfolding path_comps_def using d p r by (simp add: clean_step_def)
  with r p d(1) show ?thesis by (simp add: filepath_Join_def filepath_Clean_def)
qed

lemma accepted_name:
  assumes a: "node_accept et now1 now2 req nd = Ret (resp, nd1)" and req: "plain_request req" and suc: "sr_Success resp"
    and new: "gm_get (fm_fileIndex (nd_fileManager nd)) (sq_FileHash req) = None"
  shows "\<exists>md. gm_get (fm_fileIndex (nd_fileManager nd1)) (sq_FileHash req) = Some md \<and> md_FileName md = sq_FileName req"
proof -
  from a req obtain s q where u: "n_updateFileMetadata now1 now2 req (set_store s nd) = Ret (q, nd1)"
    by (cases rule: node_accept_cases) (use suc in auto)
  have "gm_get (fm_fileIndex (nd_fileManager (set_store s nd))) (sq_FileHash req) = None"
    using new by (simp add: node_defs)
  from updateFileMetadata_new [OF this u] show ?thesis by (auto simp: estimated_metadata_def)
qed

text \<open>
  C19: A peer chooses the file the client overwrites. The name in the first shard a node takes for a
  file becomes the name of the file; when it leads up and out of the directory \<open>retrieved\<close>, the client
  that retrieves the file writes what it retrieved to the path the peer gave. If that is the key
  file, the next start takes the identity in the retrieved bytes.
\<close>

theorem retrieved_file_escapes:
  assumes "node_accept et now1 now2 req nd = Ret (resp, nd1)" and "plain_request req" and "sr_Success resp"
    and "gm_get (fm_fileIndex (nd_fileManager nd)) (sq_FileHash req) = None"
    and "sq_FileName req = ''../'' @ p" and "\<not> path_rooted p" and "no_faults (nd_disk nd1)"
    and "testFileRetrieve rs env (sq_FileHash req) nd1 = Ret (rep, nd2)"
  shows "rr_path rep = filepath_Clean p \<and> rr_saved rep = Inr () \<and>
    os_ReadFile (filepath_Clean p) (nd_disk nd2) = Inr (rr_data rep) \<and>
    (\<forall>lc generated. fst (GetOrCreateKey lc generated (filepath_Clean p) (nd_disk nd2)) =
      (case lc_UnmarshalPrivateKey lc (rr_data rep) of Inl err \<Rightarrow> Inl (UnmarshalKeyFailed err) | Inr k \<Rightarrow> Inr k))"
proof -
  obtain md where md: "gm_get (fm_fileIndex (nd_fileManager nd1)) (sq_FileHash req) = Some md" "md_FileName md = ''../'' @ p"
    using accepted_name [OF assms(1-4)] assms(5) by auto
  have join: "filepath_Join [''retrieved'', ''../'' @ p] = filepath_Clean p" using assms(6) by (intro join_up) auto
  obtain q nd' where r0: "so_RetrieveFileDistributed rs env (sq_FileHash req) nd1 = Ret (q, nd')"
    using assms(8) by (auto simp: testFileRetrieve_def go_bind_Ret_iff)
  note nd' = Retrieve_state [OF r0]
  obtain data where "q = Inr data" using assms(8) r0 by (cases q) (auto simp: testFileRetrieve_def)
  then have r: "so_RetrieveFileDistributed rs env (sq_FileHash req) nd1 = Ret (Inr data, so_SyncNetworkView env nd1)"
    using r0 nd' by simp
  have f: "dk_fails (nd_disk nd1) e = False" for e using assms(7) by (simp add: no_faults_def)
  have "rr_path rep = filepath_Clean p \<and> rr_saved rep = Inr () \<and> rr_data rep = data \<and>
      nd_disk nd2 = (nd_disk nd1)\<lparr>dk_files := gm_put (filepath_Clean p) (Raw data) (dk_files (nd_disk nd1))\<rparr>"
    using assms(8) r md join Sync_disk [of env nd1] f
    by (auto simp: testFileRetrieve_def os_MkdirAll_def output_path_def fm_GetFileInfo_def os_WriteFile_def Let_def)
  then show ?thesis
    using f by (auto simp: os_ReadFile_def GetOrCreateKey_def os_Stat_def LoadKey_def split: sum.splits)
qed


text \<open>A client that has been told of a file and is then sent a shard of it with a name of the sender's choice.\<close>

definition told_client :: DNode where
  "told_client = fresh_node\<lparr>nd_view := NewNetworkView\<lparr>nv_fileIndex := [(''abc'', [''p''])]\<rparr>\<rparr>"

definition named_shard :: StorageRequest where
  "named_shard = first_shard\<lparr>sq_FileName := ''../'' @ ''keys/test_node.key''\<rparr>"

lemma named_shard_taken:
  "\<exists>resp nd1 peers. node_accept plain_errors 0 0 named_shard told_client = Ret (resp, nd1) \<and> sr_Success resp \<and>
     nd_ok nd1 \<and> nd_self nd1 = ''me'' \<and> nv_peers (nd_view nd1) = [] \<and> gm_get (nd_index nd1) ''abc'' = Some (''p'' # peers)"
proof -
  have same: "nd_store told_client = nd_store fresh_node" "nd_fileManager told_client = nd_fileManager fresh_node"
    "nd_storage told_client = nd_storage fresh_node"
    by (simp_all add: told_client_def node_defs)
  have ok: "nd_ok told_client" and new: "\<not> e_has (nd_store told_client) k" for k
    using fresh_node_ok same by (simp_all add: nd_ok_def)
  have p: "plain_request named_shard" "sq_ShardData named_shard = [1]" "1 \<le> sq_ShardIndex named_shard"
    "sq_ShardIndex named_shard < 2 ^ 63" "0 \<le> sq_TotalShards named_shard"
    by (simp_all add: plain_request_def named_shard_def first_shard_def)
  have max: "en_MaxStorageBytes (fst (nd_store told_client)) = DefaultMaxStorageBytes" "e_total (nd_store told_client) = 0"
    using same by (simp_all add: fresh_node_def node_defs fresh_engine_def e_total_def)
  have eok: "e_ok (nd_store told_client)" using ok by (simp add: nd_ok_def)
  have fits: "e_fits (nd_store told_client) (sq_ShardData named_shard)"
    using fits_small [OF eok max(1)] max(2) p(2) by simp
  obtain resp nd1 s q where h: "n_handleStorageProtocol plain_errors 0 0 (Some named_shard) (Some told_client) = Ret (Some resp, Some nd1)"
    and suc: "sr_Success resp" and u: "n_updateFileMetadata 0 0 named_shard (set_store s told_client) = Ret (q, nd1)"
    using storage_protocol_accepts [OF ok p(1) new fits p(3-5)] by blast
  have a: "node_accept plain_errors 0 0 named_shard told_client = Ret (resp, nd1)" using h by (simp add: node_accept_def)
  have "nd_self nd1 = ''me'' \<and> nv_peers (nd_view nd1) = [] \<and> (\<exists>peers. gm_get (nd_index nd1) ''abc'' = Some (''p'' # peers))"
    using u
    by (rule updateFileMetadata_saves)
      (auto simp: node_defs told_client_def fresh_node_def NewNetworkView_def index_own_shard_def named_shard_def
        first_shard_def nd_index_def)
  with a suc node_accept_chunks(1) [OF ok p(1) a] show ?thesis by blast
qed

theorem retrieved_file_escapes_witness:
  "\<exists>resp nd1 rep nd2. node_accept plain_errors 0 0 named_shard told_client = Ret (resp, nd1) \<and>
     testFileRetrieve xor_codec (holder_rpc {}) ''abc'' nd1 = Ret (rep, nd2) \<and> rr_path rep = ''keys/test_node.key'' \<and>
     os_ReadFile ''keys/test_node.key'' (nd_disk nd2) = Inr (rr_data rep)"
proof -
  let ?md = "new_metadata ''abc'' ''f'' [1, 2] 3 2 [''p''] 0 0"
  obtain resp nd1 peers where a: "node_accept plain_errors 0 0 named_shard told_client = Ret (resp, nd1)" "sr_Success resp"
    and nd1: "nd_ok nd1" "nd_self nd1 = ''me''" "nv_peers (nd_view nd1) = []" "gm_get (nd_index nd1) ''abc'' = Some (''p'' # peers)"
    using named_shard_taken by blast
  have sync: "so_SyncNetworkView (holder_rpc {}) nd1 = nd1" using nd1(3) by (simp add: so_SyncNetworkView_def)
  have m: "so_getFileMetadataFromNetwork (holder_rpc {}) ''abc'' nd1 (''p'' # peers) = Some ?md"
    using nd1(2) by (simp add: so_requestFileMetadata_def holder_rpc_def valid_metadata_def new_metadata_def)
  have c: "rs_codec xor_codec 2 (3 - 2)" using xor_codec_ok by simp
  have sh: "so_retrieveShardFromPeers (holder_rpc {}) ''abc'' i '''' nd1 (''p'' # peers) None =
      Inr \<lparr>sh_Index = i, sh_Data = [word_of_int i], sh_Hash = CalculateShardHash [word_of_int i], sh_Size = 1\<rparr>" for i
    using nd1(2) by (simp add: so_requestShardFromPeer_def holder_rpc_def check_shard_def)
  have d: "delivers (holder_rpc {}) ''abc'' ?md (''p'' # peers) nd1
      [\<lparr>sh_Index = 1, sh_Data = [1], sh_Hash = CalculateShardHash [1], sh_Size = 1\<rparr>,
       \<lparr>sh_Index = 2, sh_Data = [2], sh_Hash = CalculateShardHash [2], sh_Size = 1\<rparr>,
       \<lparr>sh_Index = 3, sh_Data = [3], sh_Hash = CalculateShardHash [3], sh_Size = 1\<rparr>] 3"
    unfolding delivers_def no_expected_hash sh by (simp add: less_Suc_eq numeral_2_eq_2 numeral_3_eq_3)
  have r: "so_RetrieveFileDistributed xor_codec (holder_rpc {}) ''abc'' nd1 = Ret (Inr [1, 2], nd1)"
    using retrieve_prefix [OF c xor_shards_12, of "holder_rpc {}" nd1 "''abc''" "''p''" peers ?md 3] nd1(4) m d sync
    by (simp add: new_metadata_def)
  have q: "plain_request named_shard" "sq_FileHash named_shard = ''abc''" "sq_FileName named_shard = ''../'' @ ''keys/test_node.key''"
    by (simp_all add: plain_request_def named_shard_def first_shard_def)
  have new: "gm_get (fm_fileIndex (nd_fileManager told_client)) (sq_FileHash named_shard) = None"
    by (simp add: told_client_def fresh_node_def fresh_manager_def)
  have nr: "\<not> path_rooted ''keys/test_node.key''" and cl: "filepath_Clean ''keys/test_node.key'' = ''keys/test_node.key''"
    by code_simp+
  have nf: "no_faults (nd_disk nd1)" using nd1(1) by (auto simp: nd_ok_def nd_store_def dest: e_ok_D)
  obtain md where md: "gm_get (fm_fileIndex (nd_fileManager nd1)) ''abc'' = Some md"
    using accepted_name [OF a(1) q(1) a(2) new] q(2) by auto
  have "\<exists>rep nd2. testFileRetrieve xor_codec (holder_rpc {}) ''abc'' nd1 = Ret (rep, nd2)"
    using r md by (simp add: testFileRetrieve_def output_path_def fm_GetFileInfo_def Let_def split: prod.splits sum.splits)
  then obtain rep nd2 where t: "testFileRetrieve xor_codec (holder_rpc {}) ''abc'' nd1 = Ret (rep, nd2)" by blast
  from retrieved_file_escapes [OF a(1) q(1) a(2) new q(3) nr nf, unfolded q(2), OF t] a t cl show ?thesis by metis
qed


section \<open>The master node from run to run\<close>

text \<open>A file that ends like a key file does not matter to the data of a node.\<close>

lemma disk_kept_key:
  assumes "disk_kept dir d" and "dk_fails d' = dk_fails d" and "last f = CHR ''y''"
    and same: "\<forall>q. q \<noteq> f \<longrightarrow> gm_get (dk_files d') q = gm_get (dk_files d) q"
  shows "disk_kept dir d'"
proof -
  obtain e fm where e: "engine_saved (e, d)" "en_storageDir e = dir" and fm: "files_saved (fm, d)" "fm_storageDir fm = dir"
    using assms(1) by (auto simp: disk_kept_def)
  have g: "gm_get (dk_files d') q = gm_get (dk_files d) q" if "last q \<noteq> CHR ''y''" for q using same that assms(3) by auto
  have inv: "e_inv (e, d)" and nf: "no_faults d" using e(1) by (auto simp: engine_saved.simps dest: e_ok_D)
  have mf: "last (en_metadataFile e) \<noteq> CHR ''y''"
    using e_inv_meta [OF inv] by (simp add: last_Join file_name_def)
  have "e_inv (e, d')"
  proof (rule e_inv_I)
    show "gm_wf (en_chunks e)" and "en_metadataFile e = filepath_Join [en_storageDir e, ''metadata.gob'']"
      using inv by (simp_all add: e_inv.simps)
    fix k p
    assume "gm_get (en_chunks e) k = Some p"
    note D = e_inv_D [OF inv this]
    have "last p \<noteq> CHR ''y''" using D chunk_file_name [OF D(1)] by (simp add: e_chunkPath_def last_Join)
    from g [OF this] D show "valid_chunkID k \<and> p = e_chunkPath e k \<and> (\<exists>b. gm_get (dk_files d') p = Some (Raw b))" by simp
  qed
  moreover have "no_faults d'" using nf assms(2) by (simp add: no_faults_def)
  ultimately have "engine_saved (e, d')"
    using e(1) g [OF mf] by (simp add: engine_saved.simps e_ok.simps saved_as_def)
  moreover have "last (fm_metadataFile fm) \<noteq> CHR ''y''"
    using fm by (simp add: files_saved.simps last_Join file_name_def)
  then have "files_saved (fm, d')" using files_saved_frame [OF g] fm(1) by simp
  ultimately show ?thesis using e(2) fm(2) by (auto simp: disk_kept_def)
qed

lemma master_started:
  assumes "master_main generated st flags d = Ret sn"
  obtains k d1 where "GetOrCreateKey (pl_crypto (st_libs st)) generated (master_key_file (mf_key flags) d) d = (Inr k, d1)"
    and "NewDecentralizedNode st (master_config flags k (master_key_file (mf_key flags) d)) d1 = Ret (Inr sn)"
    and "\<exists>i. lc_IDFromPublicKey (pl_crypto (st_libs st)) (lc_GetPublic (pl_crypto (st_libs st)) k) = Inr i"
  using assms
  by (auto simp: master_main_def Let_def go_bind_Ret_iff GetPeerIDFromKey_def split: prod.splits sum.splits)

lemma default_key_last: "last (default_key_file ''master_node_key.key'') = CHR ''y''"
  by (simp add: default_key_file_def last_Join file_name_def)

text \<open>
  C16: The master node is the same in every run. The first run makes its key under \<open>keys\<close> and its data
  directory, and takes any sequence of shards; whatever key the generator would give the next time
  and whatever the flags are, the next run on that disk loads the same key, has the same peer ID and
  the same engine, and answers requests for shards and metadata like the one before.
\<close>

theorem master_restart:
  fixes sn :: "('k, 'm, 'p, 'cs, 'pk, 'vk) StartedNode"
  assumes "lc_lawful (pl_crypto (st_libs st))" and "st_libs st' = st_libs st"
    and "host_identity (pl_crypto (st_libs st)) (st_host st)" and "host_identity (pl_crypto (st_libs st)) (st_host st')"
    and "mf_key flags = ''''" and "mf_key flags' = ''''"
    and "master_main generated st flags d = Ret sn"
    and "disk_kept (node_dir (pl_pid_String (st_libs st)) (bn_ID (sn_node sn))) d"
    and "\<forall>r \<in> set reqs. plain_request r"
    and "handle_requests et now1 now2 reqs (Some (sn_state sn)) = Ret (Some nd)"
    and "\<forall>k. \<exists>(base :: ('k, 'm) Node) pos.
      comes_up st' (master_config flags' k (default_key_file ''master_node_key.key'')) base pos"
  shows "\<exists>sn' :: ('k, 'm, 'p, 'cs, 'pk, 'vk) StartedNode.
    master_main generated' st' flags' (nd_disk nd) = Ret sn' \<and>
    bn_ID (sn_node sn') = bn_ID (sn_node sn) \<and> nd_storage (sn_state sn') = nd_storage nd \<and>
    (\<forall>q. n_handleShardRequest et q (Some (sn_state sn')) = n_handleShardRequest et q (Some nd)) \<and>
    (\<forall>q. n_handleFileMetadataRequest et q (Some (sn_state sn')) = n_handleFileMetadataRequest et q (Some nd))"
proof -
  let ?lc = "pl_crypto (st_libs st)" and ?f = "default_key_file ''master_node_key.key''"
  have nf: "no_faults d" using assms(8) by (auto simp: disk_kept_def engine_saved.simps dest: e_ok_D)
  then have f: "master_key_file (mf_key flags) d = ?f" using assms(5) by (simp add: master_key_file_def os_MkdirAll_def no_faults_def)
  obtain k d1 where key: "GetOrCreateKey ?lc generated ?f d = (Inr k, d1)"
    and start: "NewDecentralizedNode st (master_config flags k ?f) d1 = Ret (Inr sn)"
    and pid: "\<exists>i. lc_IDFromPublicKey ?lc (lc_GetPublic ?lc k) = Inr i"
    by (rule master_started [OF assms(7), unfolded f])
  have kept: "disk_kept (node_dir (pl_pid_String (st_libs st)) (bn_ID (sn_node sn))) d1"
    using disk_kept_key [OF assms(8) _ default_key_last] key_written [OF key] by blast
  note S = start_saved [OF start kept]
  note A = requests_saved [OF assms(9,10) S(1) assms(9)]
  have nf2: "no_faults (nd_disk nd)" using saved_ok A by (auto simp: nd_ok_def nd_store_def dest: e_ok_D)
  have "gm_get (dk_files (nd_disk nd)) ?f = gm_get (dk_files d1) ?f"
    using A S(2) default_key_last by (simp add: same_place_def same_keys_def)
  from key_kept [OF assms(1) nf key nf2 this]
  have key2: "GetOrCreateKey ?lc generated' ?f (nd_disk nd) = (Inr k, nd_disk nd)" by simp
  obtain base :: "('k, 'm) Node" and pos where up: "comes_up st' (master_config flags' k ?f) base pos" using assms(11) by blast
  have pk: "nc_PrivKey (master_config flags k ?f) = Some k" "nc_PrivKey (master_config flags' k ?f) = Some k"
    "pl_pid_String (st_libs st') = pl_pid_String (st_libs st)"
    using assms(2) by (simp_all add: master_config_def)
  let ?sn = "bring_up st' pos (nd_storage nd) ((nd_fileManager nd)\<lparr>fm_engine := nd_storage nd\<rparr>) base (nd_disk nd)"
  note R = restarted [OF assms(3,4) pk start kept assms(9,10) up]
  have "master_key_file (mf_key flags') (nd_disk nd) = ?f"
    using assms(6) nf2 by (simp add: master_key_file_def os_MkdirAll_def no_faults_def)
  then have "master_main generated' st' flags' (nd_disk nd) = Ret ?sn"
    using key2 pid R(1) assms(2) by (auto simp: master_main_def GetPeerIDFromKey_def)
  moreover have "n_handleShardRequest et q (Some (sn_state ?sn)) = n_handleShardRequest et q (Some nd)" for q
    by (rule shard_answers) (simp add: node_defs)
  moreover have "n_handleFileMetadataRequest et q (Some (sn_state ?sn)) = n_handleFileMetadataRequest et q (Some nd)" for q
    by (rule metadata_answers) simp
  ultimately show ?thesis using R(2) by (intro exI [of _ ?sn]) simp
qed


definition default_flags :: master_flags where
  "default_flags = \<lparr>mf_key = '''', mf_port = 4001, mf_host = ''0.0.0.0'', mf_bootstrap = ''''\<rparr>"

lemma master_example:
  "\<exists>sn :: example_node. master_main (Inr 7) example_start default_flags quiet_disk = Ret sn"
proof -
  let ?f = "default_key_file ''master_node_key.key''" and ?d = "quiet_disk\<lparr>dk_files := [(default_key_file ''master_node_key.key'', Raw [7])]\<rparr>"
  have q: "dk_fails quiet_disk = (\<lambda>_. False)" "dk_files quiet_disk = []" by (simp_all add: quiet_disk_def)
  have nf: "no_faults ?d" using q by (simp add: no_faults_def)
  have k: "pl_crypto (st_libs example_start) = byte_crypto" by (simp add: example_start_def example_libs_def)
  have f: "master_key_file (mf_key default_flags) quiet_disk = ?f"
    by (simp add: master_key_file_def os_MkdirAll_def q default_flags_def)
  have key: "GetOrCreateKey byte_crypto (Inr 7) ?f quiet_disk = (Inr 7, ?d)"
    by (simp add: GetOrCreateKey_def os_Stat_def q GenerateAndSaveKey_def byte_crypto_def os_WriteFile_def)
  have cfg: "nc_PrivKey (master_config default_flags (7 :: 8 word) ?f) = Some 7" by (simp add: master_config_def)
  obtain base :: example_base and pos where up: "comes_up example_start (master_config default_flags 7 ?f) base pos"
    using example_up [OF cfg] by blast
  let ?dir = "node_dir (pl_pid_String (st_libs example_start)) (bn_ID base)"
  have none: "gm_get (dk_files ?d) (filepath_Join [?dir, n]) = None" if "file_name n" "last n \<noteq> CHR ''y''" for n
  proof -
    have "filepath_Join [?dir, n] \<noteq> ?f" using that last_Join [of n ?dir] default_key_last by metis
    then show ?thesis by simp
  qed
  have files: "file_name ''metadata.gob''" "file_name ''file_metadata.gob''" by (simp_all add: file_name_def)
  have e: "NewEngine ?dir ?d = Inr (fresh_engine ?dir DefaultMaxStorageBytes)"
    using none [OF files(1)] q
    by (simp add: NewEngine_def os_MkdirAll_def e_loadMetadata_def read_gob_def fresh_engine_def)
  obtain fm where fm: "NewFileManager ?dir ?d = Inr fm" using NewFileManager_opens [OF nf e] by blast
  from start_succeeds [OF up nf e fm] show ?thesis
    using f key k by (simp add: master_main_def GetPeerIDFromKey_def byte_crypto_def)
qed

theorem master_restart_witness:
  "\<exists>(sn :: example_node) (sn' :: example_node). master_main (Inr 7) example_start default_flags quiet_disk = Ret sn \<and>
     master_main (Inr 9) example_start (default_flags\<lparr>mf_port := 4010\<rparr>) (nd_disk (sn_state sn)) = Ret sn' \<and>
     bn_ID (sn_node sn') = bn_ID (sn_node sn)"
proof -
  obtain sn :: example_node where m: "master_main (Inr 7) example_start default_flags quiet_disk = Ret sn"
    using master_example by blast
  have k: "pl_crypto (st_libs example_start) = byte_crypto" by (simp add: example_start_def example_libs_def)
  have up: "\<forall>k. \<exists>(base :: example_base) pos.
      comes_up example_start (master_config (default_flags\<lparr>mf_port := 4010\<rparr>) k (default_key_file ''master_node_key.key'')) base pos"
    using example_up by (metis (no_types, lifting) NodeConfig.select_convs(7) master_config_def)
  have fl: "mf_key default_flags = ''''" "mf_key (default_flags\<lparr>mf_port := 4010\<rparr>) = ''''" by (simp_all add: default_flags_def)
  have run: "handle_requests plain_errors 0 0 [] (Some (sn_state sn)) = Ret (Some (sn_state sn))" by simp
  from master_restart [OF _ refl _ _ fl m quiet_kept _ run up, unfolded k, OF byte_crypto_lawful example_identity example_identity]
  show ?thesis using m by (metis empty_iff empty_set)
qed

end
