(* ===== verification/Committee_Cycle.thy ===== *)
theory Committee_Cycle
  imports Validators_Correct Proof_Verification_Correct
begin

text \<open>
  The life of the committee: the loop that selects the first one (\<open>delayedValidatorSelection\<close> of
  \<open>internal/network/validator.go\<close>), the goroutine that makes it current, and what changes afterwards.
  The sleeps are steps of an inductive relation; what else happens to the node between two steps is
  arbitrary, only its identity stays.
\<close>

section \<open>The selection loop\<close>

text \<open>What one attempt reads from outside: random numbers, clock and stakes.\<close>

record selection_input =
  si_draws :: "int list"
  si_clock :: "nat \<Rightarrow> go_time"
  si_draw :: "peer_id \<Rightarrow> nat \<Rightarrow> int"

text \<open>
  One entry for every attempt, with the node as the attempt finds it. The end of the list is the
  cancelled context: the loop returns without a committee. \<open>None\<close>: an attempt has not returned.
\<close>

fun vm_delayedValidatorSelection ::
  "(Validator list \<Rightarrow> Validator list) \<Rightarrow> (selection_input \<times> DNode) list \<Rightarrow> ValidatorManager \<Rightarrow>
   (ValidatorCommittee \<times> ValidatorManager \<times> DNode) option go option" where
  "vm_delayedValidatorSelection sorter [] vm = Some (Ret None)"
| "vm_delayedValidatorSelection sorter ((si, nd) # attempts) vm =
     (case vm_performValidationSelection sorter (si_draws si) (si_clock si) (si_draw si) nd vm of
        None \<Rightarrow> None
      | Some (Panic p) \<Rightarrow> Some (Panic p)
      | Some (Ret (Inl err, vm1, nd1)) \<Rightarrow> vm_delayedValidatorSelection sorter attempts vm1
      | Some (Ret (Inr committee, vm1, nd1)) \<Rightarrow> Some (Ret (Some (committee, vm1, nd1))))"

text \<open>The node itself is always eligible, so an attempt never fails with an error.\<close>

lemma selection_never_refused:
  "vm_performValidationSelection sorter draws clock draw nd vm \<noteq> Some (Ret (Inl err, vm', nd'))"
  by (auto simp: vm_performValidationSelection_def vm_getEligiblePeers_def Let_def go_bind_Ret_iff split: option.splits)


definition plain_input :: selection_input where
  "plain_input = \<lparr>si_draws = [], si_clock = (\<lambda>_. 0), si_draw = (\<lambda>p n. 0)\<rparr>"


section \<open>From selection to retirement\<close>

text \<open>
  The state of the consensus in a node: the manager, the node, the committee a goroutine is about to
  make current, and whether the selection loop is still running.
\<close>

record consensus =
  co_vm :: ValidatorManager
  co_node :: DNode
  co_pending :: "ValidatorCommittee option"
  co_looping :: bool

definition consensus_start :: "DNode \<Rightarrow> consensus" where
  "consensus_start nd = \<lparr>co_vm = NewValidatorManager, co_node = nd, co_pending = None, co_looping = True\<rparr>"

text \<open>\<open>network\<close> is everything else that happens to the node: messages, peers, files, time.\<close>

inductive consensus_step ::
  "(Validator list \<Rightarrow> Validator list) \<Rightarrow> (peer_id \<Rightarrow> string) \<Rightarrow> consensus \<Rightarrow> consensus \<Rightarrow> bool" for sorter pid where
  selected: "\<lbrakk>co_looping s;
      vm_delayedValidatorSelection sorter ((si, co_node s) # attempts) (co_vm s) = Some (Ret (Some (c, vm', nd')))\<rbrakk> \<Longrightarrow>
    consensus_step sorter pid s (s\<lparr>co_vm := vm', co_node := nd', co_pending := Some c, co_looping := False\<rparr>)"
| activated: "\<lbrakk>co_pending s = Some c; vm_broadcastCommitteeUpdate pid joined publish now (Some c) (co_node s) = Ret nd'\<rbrakk> \<Longrightarrow>
    consensus_step sorter pid s (s\<lparr>co_vm := vm_activate (co_vm s), co_node := nd', co_pending := None\<rparr>)"
| reported: "consensus_step sorter pid s (s\<lparr>co_vm := vm_UpdateValidatorStats now validatorID proofVerified responseTime (co_vm s)\<rparr>)"
| network: "nd_self nd' = nd_self (co_node s) \<Longrightarrow> consensus_step sorter pid s (s\<lparr>co_node := nd'\<rparr>)"

inductive_cases consensus_stepE [consumes 1, case_names selected activated reported network]: "consensus_step sorter pid s s'"

abbreviation consensus_run ::
  "(Validator list \<Rightarrow> Validator list) \<Rightarrow> (peer_id \<Rightarrow> string) \<Rightarrow> consensus \<Rightarrow> consensus \<Rightarrow> bool" where
  "consensus_run sorter pid \<equiv> (consensus_step sorter pid)\<^sup>*\<^sup>*"

text \<open>What a committee is apart from the statistics of its members.\<close>

definition same_committee :: "ValidatorCommittee \<Rightarrow> ValidatorCommittee \<Rightarrow> bool" where
  "same_committee c c' \<longleftrightarrow> map va_PeerID (vc_Validators c') = map va_PeerID (vc_Validators c) \<and>
     vc_StartTime c' = vc_StartTime c \<and> vc_EndTime c' = vc_EndTime c \<and> vc_CycleID c' = vc_CycleID c"

lemma same_committee_refl [simp]: "same_committee c c"
  by (simp add: same_committee_def)

lemma same_committee_trans: "same_committee a b \<Longrightarrow> same_committee b c \<Longrightarrow> same_committee a c"
  by (simp add: same_committee_def)

lemma report_committee:
  "vm_nextCycle (vm_UpdateValidatorStats now v ok rt vm) = vm_nextCycle vm"
  "vm_currentCycle vm = None \<Longrightarrow> vm_currentCycle (vm_UpdateValidatorStats now v ok rt vm) = None"
  "vm_currentCycle vm = Some c \<Longrightarrow>
     \<exists>c'. vm_currentCycle (vm_UpdateValidatorStats now v ok rt vm) = Some c' \<and> same_committee c c'"
  by (simp_all add: vm_UpdateValidatorStats_def same_committee_def update_first_ids split: option.splits)

text \<open>The phases: before the selection, between selection and activation, and after.\<close>

definition consensus_inv :: "consensus \<Rightarrow> bool" where
  "consensus_inv s \<longleftrightarrow>
     (if co_looping s then vm_currentCycle (co_vm s) = None \<and> vm_nextCycle (co_vm s) = None \<and> co_pending s = None
      else case co_pending s of
          None \<Rightarrow> vm_currentCycle (co_vm s) \<noteq> None \<and> vm_nextCycle (co_vm s) = None
        | Some c \<Rightarrow> vm_currentCycle (co_vm s) = None \<and> vm_nextCycle (co_vm s) = Some c)"

lemma selected_manager:
  assumes "vm_delayedValidatorSelection sorter ((si, nd) # attempts) vm = Some (Ret (Some (c, vm', nd')))"
  shows "vm' = vm\<lparr>vm_nextCycle := Some c\<rparr>" and "nd_self nd' = nd_self nd"
proof -
  have "vm_performValidationSelection sorter (si_draws si) (si_clock si) (si_draw si) nd vm = Some (Ret (Inr c, vm', nd'))"
    using assms by (auto simp: selection_never_refused split: option.splits go.splits sum.splits)
  then have "vm' = vm\<lparr>vm_nextCycle := Some c\<rparr> \<and> nd_self nd' = nd_self nd"
    by (auto simp: vm_performValidationSelection_def Let_def go_bind_Ret_iff split: option.splits if_splits)
  then show "vm' = vm\<lparr>vm_nextCycle := Some c\<rparr>" and "nd_self nd' = nd_self nd" by simp_all
qed

lemma broadcast_self: "vm_broadcastCommitteeUpdate pid joined publish now c nd = Ret nd' \<Longrightarrow> nd_self nd' = nd_self nd"
  by (auto simp: vm_broadcastCommitteeUpdate_def Let_def go_bind_Ret_iff split: option.splits if_splits sum.splits)

lemma consensus_step_inv: "consensus_step sorter pid s s' \<Longrightarrow> consensus_inv s \<Longrightarrow> consensus_inv s'"
proof (induction rule: consensus_step.induct)
  case (selected s si attempts c vm' nd')
  from selected_manager(1) [OF selected(2)] selected(1,3) show ?case by (simp add: consensus_inv_def)
next
  case (activated s c joined publish now nd')
  then show ?case by (auto simp: consensus_inv_def vm_activate_def split: if_splits)
next
  case (reported s now v ok rt)
  then show ?case
    using report_committee [where vm = "co_vm s" and now = now and v = v and ok = ok and rt = rt]
    by (fastforce simp: consensus_inv_def split: if_splits option.splits)
next
  case (network nd' s)
  then show ?case by (auto simp: consensus_inv_def split: option.splits if_splits)
qed

lemma consensus_run_inv: "consensus_run sorter pid s s' \<Longrightarrow> consensus_inv s \<Longrightarrow> consensus_inv s'"
  by (induction rule: rtranclp_induct) (auto intro: consensus_step_inv)

lemma consensus_start_inv: "consensus_inv (consensus_start nd)"
  by (simp add: consensus_inv_def consensus_start_def NewValidatorManager_def)

lemma active_step:
  assumes "consensus_step sorter pid s s'" and "consensus_inv s" and "vm_currentCycle (co_vm s) = Some c"
  shows "\<exists>c'. vm_currentCycle (co_vm s') = Some c' \<and> same_committee c c'"
  using assms
proof (cases rule: consensus_step.cases)
  case (reported now v ok rt)
  then show ?thesis using report_committee(3) [OF assms(3)] by simp
qed (auto simp: consensus_inv_def split: if_splits)

text \<open>
  C20: A committee serves for ever. Once a committee is current, it is current in every later state of
  the node, whatever messages, reports and peers arrive and however much time passes: its members,
  its cycle and its end time never change, and the end time is never acted upon.
\<close>

theorem committee_serves_forever:
  assumes "consensus_run sorter pid (consensus_start nd) s" and "vm_currentCycle (co_vm s) = Some c"
    and "consensus_run sorter pid s s'"
  shows "\<exists>c'. vm_currentCycle (co_vm s') = Some c' \<and> same_committee c c'"
  using assms(3)
proof (induction rule: rtranclp_induct)
  case base
  with assms(2) show ?case by simp
next
  case (step s1 s2)
  then obtain c1 where c1: "vm_currentCycle (co_vm s1) = Some c1" "same_committee c c1" by blast
  have "consensus_inv s1"
    using consensus_run_inv [OF rtranclp_trans [OF assms(1) step(1)] consensus_start_inv] .
  from active_step [OF step(2) this c1(1)] c1(2) show ?case by (blast intro: same_committee_trans)
qed

section \<open>A node that knows nobody\<close>

definition members_only :: "peer_id \<Rightarrow> ValidatorCommittee \<Rightarrow> bool" where
  "members_only p c \<longleftrightarrow> map va_PeerID (vc_Validators c) = [p]"

definition lonely :: "peer_id \<Rightarrow> consensus \<Rightarrow> bool" where
  "lonely p s \<longleftrightarrow> nd_self (co_node s) = p \<and> \<not> co_looping s \<and> consensus_inv s \<and>
     (\<forall>c. co_pending s = Some c \<or> vm_currentCycle (co_vm s) = Some c \<longrightarrow> members_only p c)"

lemma members_only_same: "same_committee c c' \<Longrightarrow> members_only p c \<Longrightarrow> members_only p c'"
  by (simp add: same_committee_def members_only_def)

lemma lonely_step: "consensus_step sorter pid s s' \<Longrightarrow> lonely p s \<Longrightarrow> lonely p s'"
proof (frule consensus_step_inv)
  assume s: "consensus_step sorter pid s s'" and l: "lonely p s"
  then show "consensus_inv s" by (simp add: lonely_def)
  assume inv: "consensus_inv s'"
  from s show "lonely p s'"
  proof (cases rule: consensus_step.cases)
    case (selected si attempts c vm' nd')
    with l show ?thesis by (simp add: lonely_def)
  next
    case (activated c joined publish now nd')
    have "vm_nextCycle (co_vm s) = Some c" using l activated(2) by (simp add: lonely_def consensus_inv_def split: if_splits)
    with l inv activated broadcast_self [OF activated(3)] show ?thesis by (auto simp: lonely_def vm_activate_def)
  next
    case (reported now v ok rt)
    show ?thesis
    proof (cases "vm_currentCycle (co_vm s)")
      case None
      with l inv reported show ?thesis by (auto simp: lonely_def report_committee(2))
    next
      case (Some c)
      from report_committee(3) [OF this, where now = now and v = v and ok = ok and rt = rt] l Some inv reported show ?thesis
        by (auto simp: lonely_def intro: members_only_same)
    qed
  next
    case (network nd')
    with l inv show ?thesis by (auto simp: lonely_def)
  qed
qed

lemma lonely_run: "consensus_run sorter pid s s' \<Longrightarrow> lonely p s \<Longrightarrow> lonely p s'"
  by (induction rule: rtranclp_induct) (auto intro: lonely_step)

lemma alone_elected:
  assumes "vm_delayedValidatorSelection sorter ((si, nd) # attempts) vm = Some (Ret (Some (c, vm', nd')))"
    and "nv_peers (nd_view nd) = []"
  shows "members_only (nd_self nd) c"
proof -
  have r: "vm_performValidationSelection sorter (si_draws si) (si_clock si) (si_draw si) nd vm = Some (Ret (Inr c, vm', nd'))"
    using assms(1) by (auto simp: selection_never_refused split: option.splits go.splits sum.splits)
  have "vm_getEligiblePeers (si_clock si 0) (si_draw si) nd vm =
      [new_validator (nd_self nd) (vm_getStakeAmount (si_draw si (nd_self nd) 0) vm) (rs_GetPeerScore (nd_self nd) (nd_view nd))]"
    using assms(2) by (simp add: vm_getEligiblePeers_def nv_GetPeers_eq gm_wf_def Let_def)
  with r show ?thesis
    by (auto simp: vm_performValidationSelection_def Let_def go_bind_Ret_iff vm_calculateWeights_def committee_size_def
        vm_selectValidators_def members_only_def new_validator_def)
qed

text \<open>
  C21: Elected alone, alone for ever. A node that knows no peer two minutes after its start elects
  itself alone; from then on, whatever peers it finds and whatever their answers would be, no
  submission of a storage proof ever succeeds.
\<close>

theorem elected_alone_forever:
  assumes "consensus_run sorter pid (consensus_start nd0) s" and "co_looping s" and "nv_peers (nd_view (co_node s)) = []"
    and "vm_delayedValidatorSelection sorter ((si, co_node s) # attempts) (co_vm s) = Some (Ret (Some (c, vm', nd')))"
    and "consensus_run sorter pid (s\<lparr>co_vm := vm', co_node := nd', co_pending := Some c, co_looping := False\<rparr>) s'"
  shows "map va_PeerID (vc_Validators c) = [nd_self (co_node s)] \<and>
    pv_SubmitProof pl rpc_proof clock proof (co_vm s') (co_node s') \<in> {Inl NoCommittee, Inl NotSubmitted}"
proof -
  let ?p = "nd_self (co_node s)" and ?s = "s\<lparr>co_vm := vm', co_node := nd', co_pending := Some c, co_looping := False\<rparr>"
  have alone: "members_only ?p c" by (rule alone_elected [OF assms(4,3)])
  have inv: "consensus_inv s" by (rule consensus_run_inv [OF assms(1) consensus_start_inv])
  note m = selected_manager [OF assms(4)]
  have "consensus_inv ?s" by (rule consensus_step_inv [OF selected [OF assms(2,4)] inv])
  then have "lonely ?p ?s" using alone m inv assms(2) by (auto simp: lonely_def consensus_inv_def)
  then have l: "lonely ?p s'" by (rule lonely_run [OF assms(5)])
  have "pv_SubmitProof pl rpc_proof clock proof (co_vm s') (co_node s') \<in> {Inl NoCommittee, Inl NotSubmitted}"
  proof (cases "vm_currentCycle (co_vm s')")
    case None
    then show ?thesis by (simp add: pv_SubmitProof_def vm_GetCurrentCommittee_def)
  next
    case (Some d)
    with l have "map va_PeerID (vc_Validators d) = [nd_self (co_node s')]" by (auto simp: lonely_def members_only_def)
    then obtain v where "vc_Validators d = [v]" "va_PeerID v = nd_self (co_node s')" by auto
    with Some show ?thesis by (simp add: pv_SubmitProof_def vm_GetCurrentCommittee_def)
  qed
  with alone show ?thesis by (simp add: members_only_def)
qed


section \<open>Examples\<close>

lemma first_selection:
  assumes "gm_wf (nv_peers (nd_view nd))" and "length (vm_getEligiblePeers 0 (\<lambda>p n. 0) nd NewValidatorManager) \<le> 21"
    and "\<forall>p. \<not> blank_peer (nd_view nd) p"
  shows "\<exists>c vm' nd'. vm_delayedValidatorSelection weight_sort [(plain_input, nd)] NewValidatorManager = Some (Ret (Some (c, vm', nd')))"
proof -
  obtain c vm' nd' where "vm_performValidationSelection weight_sort [] (\<lambda>_. 0) (\<lambda>p n. 0) nd NewValidatorManager =
      Some (Ret (Inr c, vm', nd'))"
    using selection_few [of nd "\<lambda>_. 0" "\<lambda>p n. 0" NewValidatorManager weight_sort "[]"] assms by blast
  then have "vm_delayedValidatorSelection weight_sort [(plain_input, nd)] NewValidatorManager = Some (Ret (Some (c, vm', nd')))"
    by (simp add: plain_input_def)
  then show ?thesis by blast
qed

theorem committee_serves_forever_witness:
  "\<exists>s c c'. consensus_run weight_sort (\<lambda>i. i) (consensus_start (pair_node (Some farmer_info))) s \<and>
     vm_currentCycle (co_vm s) = Some c \<and>
     vm_currentCycle (vm_UpdateValidatorStats 5 ''p'' True 7 (co_vm s)) = Some c' \<and> vc_EndTime c' = vc_EndTime c"
proof -
  let ?nd = "pair_node (Some farmer_info)" and ?s = "consensus_start (pair_node (Some farmer_info))"
  have "gm_wf (nv_peers (nd_view ?nd))" using pair_node_facts(1) by (simp add: nv_scored_def)
  then obtain c vm' nd' where sel: "vm_delayedValidatorSelection weight_sort [(plain_input, ?nd)] NewValidatorManager = Some (Ret (Some (c, vm', nd')))"
    using first_selection [of ?nd] pair_node_eligible(1) pair_node_facts(4) by auto
  let ?s1 = "?s\<lparr>co_vm := vm', co_node := nd', co_pending := Some c, co_looping := False\<rparr>"
  have start: "co_looping ?s" "co_node ?s = ?nd" "co_vm ?s = NewValidatorManager" by (simp_all add: consensus_start_def)
  have 1: "consensus_step weight_sort (\<lambda>i. i) ?s ?s1"
    by (rule selected [OF start(1), where si = plain_input and attempts = "[]"]) (simp only: start sel)
  have b: "vm_broadcastCommitteeUpdate (\<lambda>i. i) False (\<lambda>_. Inr ()) 0 (Some c) nd' = Ret nd'"
    by (simp add: vm_broadcastCommitteeUpdate_def gm_PublishMessage_def)
  let ?s2 = "?s1\<lparr>co_vm := vm_activate vm', co_node := nd', co_pending := None\<rparr>"
  have 2: "consensus_step weight_sort (\<lambda>i. i) ?s1 ?s2"
    using activated [of ?s1 c "\<lambda>i. i" False "\<lambda>_. Inr ()" 0 nd' weight_sort] b by simp
  have run: "consensus_run weight_sort (\<lambda>i. i) ?s ?s2" 
  proof (rule converse_rtranclp_into_rtranclp)
    show "consensus_run weight_sort (\<lambda>i. i) ?s1 ?s2" using 2 by (rule r_into_rtranclp)
  qed (rule 1)
  have cur: "vm_currentCycle (co_vm ?s2) = Some c" using selected_manager(1) [OF sel] by (simp add: vm_activate_def)
  have "consensus_run weight_sort (\<lambda>i. i) ?s2 (?s2\<lparr>co_vm := vm_UpdateValidatorStats 5 ''p'' True 7 (co_vm ?s2)\<rparr>)"
    by (rule r_into_rtranclp) (rule reported)
  from committee_serves_forever [OF run cur this] run cur show ?thesis by (auto simp: same_committee_def)
qed

theorem elected_alone_forever_witness:
  "\<exists>c vm' nd'. vm_delayedValidatorSelection weight_sort [(plain_input, (pair_node None)\<lparr>nd_view := NewNetworkView\<rparr>)] NewValidatorManager =
       Some (Ret (Some (c, vm', nd'))) \<and> map va_PeerID (vc_Validators c) = [''me'']"
proof -
  let ?nd = "(pair_node None)\<lparr>nd_view := NewNetworkView\<rparr>"
  have empty: "nv_peers (nd_view ?nd) = []" by (simp add: NewNetworkView_def)
  have few: "length (vm_getEligiblePeers 0 (\<lambda>p n. 0) ?nd NewValidatorManager) \<le> 21"
    using empty by (simp add: vm_getEligiblePeers_def nv_GetPeers_eq gm_wf_def Let_def)
  have wf: "gm_wf (nv_peers (nd_view ?nd))" and blank: "\<forall>p. \<not> blank_peer (nd_view ?nd) p"
    unfolding empty by (simp_all only: gm_wf_def blank_peer_def empty gm_keys_def) simp_all
  obtain c vm' nd' where sel: "vm_delayedValidatorSelection weight_sort [(plain_input, ?nd)] NewValidatorManager = Some (Ret (Some (c, vm', nd')))"
    using first_selection [OF wf few blank] by blast
  let ?s = "consensus_start ?nd"
  have start: "co_looping ?s" "co_node ?s = ?nd" "co_vm ?s = NewValidatorManager" by (simp_all add: consensus_start_def)
  from elected_alone_forever [OF rtranclp.rtrancl_refl start(1), unfolded start, OF empty sel rtranclp.rtrancl_refl]
  have "map va_PeerID (vc_Validators c) = [nd_self ?nd]" by blast
  with sel show ?thesis by (simp add: pair_node_def)
qed

end
