(* ===== verification/Rejoin.thy ===== *)
theory Rejoin
  imports Node_Restart
begin

text \<open>
  From a restart to a download: a node that has come up again announces the files it found on its
  disk, and every other node that reads the announcements lists it as a storing peer of exactly these
  files, among them those of the shards it accepted before it stopped, which it still serves.
\<close>

section \<open>Reading announcements\<close>

text \<open>
  The loop of \<open>readMessages\<close> over messages of one peer. The handlers are goroutines that hold the lock
  of the view, so the messages are in the order in which they got it.
\<close>

fun gm_readMessages ::
  "(peer_id \<Rightarrow> string) \<Rightarrow> peer_id \<Rightarrow> go_time \<Rightarrow> peer_id \<Rightarrow> GossipMessage list \<Rightarrow> NetworkView \<Rightarrow> NetworkView go" where
  "gm_readMessages pid_String self now receivedFrom [] nv = Ret nv"
| "gm_readMessages pid_String self now receivedFrom (msg # msgs) nv =
     go_bind (gm_readMessage pid_String self now receivedFrom (Some msg) nv)
       (gm_readMessages pid_String self now receivedFrom msgs)"

text \<open>A message that announces one peer as the holder of one file.\<close>

definition announces :: "peer_id \<Rightarrow> string \<Rightarrow> GossipMessage \<Rightarrow> bool" where
  "announces p h msg \<longleftrightarrow> gs_Type msg = GossipTypeFileAnnounce \<and>
     (case gs_Payload msg of
        AnnouncePayload a \<Rightarrow> (case fa_Locations a of [l] \<Rightarrow> fl_FileHash l = h \<and> fl_PeerIDs l = [p] | _ \<Rightarrow> False)
      | _ \<Rightarrow> False)"

lemma announcesE:
  assumes "announces p h msg"
  obtains a l where "gs_Type msg = GossipTypeFileAnnounce" and "gs_Payload msg = AnnouncePayload a"
    and "fa_Locations a = [l]" and "fl_FileHash l = h" and "fl_PeerIDs l = [p]"
  using assms by (auto simp: announces_def split: GossipPayload.splits list.splits)

lemma announces_inj: "announces p h msg \<Longrightarrow> announces p h' msg \<Longrightarrow> h' = h"
  by (auto elim!: announcesE)

lemma announcement_read:
  assumes "announces p h msg" and "from \<noteq> self"
  obtains nv' where "gm_readMessage pid self now from (Some msg) nv = Ret nv'"
    and "\<And>g. storing_peers nv' g = storing_peers nv g \<union> (if g = h then {p} else {})"
    and "nv_peers nv' = nv_peers nv" and "nv_reputation nv' = nv_reputation nv"
proof -
  from assms(1) obtain a l where a: "gs_Type msg = GossipTypeFileAnnounce" "gs_Payload msg = AnnouncePayload a"
    "fa_Locations a = [l]" "fl_FileHash l = h" "fl_PeerIDs l = [p]"
    by (rule announcesE)
  show thesis
  proof (rule that)
    show "gm_readMessage pid self now from (Some msg) nv = Ret (add_location l nv)"
      using a assms(2) by (simp add: gm_readMessage_def gm_handleGossipMessage_def
          gm_handleFileAnnounceMessage_def go_index_def Let_def)
    show "storing_peers (add_location l nv) g = storing_peers nv g \<union> (if g = h then {p} else {})" for g
      using add_locations_peers [of "[l]" nv g] a by auto
  qed simp_all
qed

lemma announcements_read:
  assumes "\<forall>msg \<in> set msgs. \<exists>h. announces p h msg" and "from \<noteq> self"
  shows "\<exists>nv'. gm_readMessages pid self now from msgs nv = Ret nv' \<and>
    (\<forall>g. storing_peers nv' g = storing_peers nv g \<union> (if \<exists>msg \<in> set msgs. announces p g msg then {p} else {})) \<and>
    nv_peers nv' = nv_peers nv \<and> nv_reputation nv' = nv_reputation nv"
  using assms(1)
proof (induction msgs arbitrary: nv)
  case Nil
  then show ?case by simp
next
  case (Cons msg msgs)
  from Cons.prems obtain h where h: "announces p h msg" by auto
  obtain nv1 where r: "gm_readMessage pid self now from (Some msg) nv = Ret nv1"
    and s: "\<And>g. storing_peers nv1 g = storing_peers nv g \<union> (if g = h then {p} else {})"
    and f: "nv_peers nv1 = nv_peers nv" "nv_reputation nv1 = nv_reputation nv"
    using announcement_read [OF h assms(2), of pid now nv] by metis
  have g: "announces p g msg \<longleftrightarrow> g = h" for g using h announces_inj by metis
  from Cons.prems have "\<forall>msg \<in> set msgs. \<exists>h. announces p h msg" by simp
  from Cons.IH [OF this, of nv1] r s f g show ?case by fastforce
qed

section \<open>Announcing the local files\<close>

lemma announce_own:
  assumes "list_ex (rpc_publish env) [0, 1, 2]"
  shows "nd_self (so_announceFileToNetwork env clock h ps nd) = nd_self nd"
    and "nd_store (so_announceFileToNetwork env clock h ps nd) = nd_store nd"
    and "gm_get (fm_fileIndex (nd_fileManager nd)) h = Some md \<Longrightarrow>
      \<exists>msg. nd_published (so_announceFileToNetwork env clock h [p] nd) = nd_published nd @ [msg] \<and> announces p h msg"
  using assms
  by (auto simp: so_announceFileToNetwork_def fm_GetFileInfo_def publish_retry_def Let_def announces_def node_defs
      split: option.splits)

abbreviation announce_list ::
  "rpc \<Rightarrow> (nat \<Rightarrow> go_time) \<Rightarrow> peer_id \<Rightarrow> FileMetadata list \<Rightarrow> DNode \<Rightarrow> DNode" where
  "announce_list env clock self \<equiv>
     fold (\<lambda>meta nd1. so_announceFileToNetwork env clock (md_FileHash meta) [self] nd1)"

lemma announce_all_frame:
  assumes "list_ex (rpc_publish env) [0, 1, 2]"
  shows "nd_self (announce_list env clock self ms nd) = nd_self nd"
    and "nd_store (announce_list env clock self ms nd) = nd_store nd"
  by (induction ms arbitrary: nd) (simp_all add: announce_own(1,2) [OF assms])

lemma announce_all:
  assumes pub: "list_ex (rpc_publish env) [0, 1, 2]"
  shows "\<exists>msgs. nd_published (announce_list env clock self ms nd) = nd_published nd @ msgs \<and>
      (\<forall>msg \<in> set msgs. \<exists>h. announces self h msg) \<and>
      (\<forall>h. (\<exists>msg \<in> set msgs. announces self h msg) \<longleftrightarrow>
         h \<in> md_FileHash ` set ms \<and> gm_get (fm_fileIndex (nd_fileManager nd)) h \<noteq> None)"
proof (induction ms arbitrary: nd)
  case Nil
  then show ?case by simp
next
  case (Cons m ms)
  let ?nd = "so_announceFileToNetwork env clock (md_FileHash m) [self] nd"
  from Cons.IH [of ?nd] obtain msgs where
    p: "nd_published (announce_list env clock self (m # ms) nd) = nd_published ?nd @ msgs"
    and own: "\<forall>msg \<in> set msgs. \<exists>h. announces self h msg"
    and msgs: "\<forall>h. (\<exists>msg \<in> set msgs. announces self h msg) \<longleftrightarrow>
       h \<in> md_FileHash ` set ms \<and> gm_get (fm_fileIndex (nd_fileManager nd)) h \<noteq> None"
    by auto
  show ?case
  proof (cases "gm_get (fm_fileIndex (nd_fileManager nd)) (md_FileHash m)")
    case None
    then have "?nd = nd" by (rule announce_unknown)
    with p own msgs None show ?thesis by (intro exI [of _ msgs]) auto
  next
    case (Some md)
    then obtain msg where msg: "nd_published ?nd = nd_published nd @ [msg]" "announces self (md_FileHash m) msg"
      using announce_own(3) [OF pub] by blast
    have "announces self h msg \<longleftrightarrow> h = md_FileHash m" for h using msg(2) announces_inj by metis
    with p own msgs msg Some show ?thesis by (intro exI [of _ "msg # msgs"]) auto
  qed
qed

section \<open>The index of files\<close>

text \<open>Every entry of a file index lies under the hash it records.\<close>

definition index_keyed :: "(string, FileMetadata) gomap \<Rightarrow> bool" where
  "index_keyed m \<longleftrightarrow> list_all (\<lambda>(h, md). md_FileHash md = h) m"

lemma keyed_put: "index_keyed m \<Longrightarrow> md_FileHash md = h \<Longrightarrow> index_keyed (gm_put h md m)"
  unfolding index_keyed_def by (induction m) auto

lemma keyed_get: "index_keyed m \<Longrightarrow> gm_get m h = Some md \<Longrightarrow> md_FileHash md = h"
  unfolding index_keyed_def by (induction m) (auto split: if_splits)

lemma keyed_listed:
  assumes "index_keyed (fm_fileIndex fm)"
  shows "h \<in> md_FileHash ` set (fm_ListFiles fm) \<longleftrightarrow> gm_get (fm_fileIndex fm) h \<noteq> None"
proof -
  have "h \<in> md_FileHash ` snd ` set m \<longleftrightarrow> gm_get m h \<noteq> None" if "index_keyed m" for m
    using that unfolding index_keyed_def by (induction m) auto
  from this [OF assms] show ?thesis by (simp add: fm_ListFiles_def)
qed

text \<open>Saving the metadata of a shard keeps every file of the index and adds that of the shard.\<close>

lemma UpdateFileMetadata_index:
  "fm_UpdateFileMetadata m (fm, d) = (r, s) \<Longrightarrow> fm_fileIndex (fst s) = gm_put (md_FileHash m) m (fm_fileIndex fm)"
  by (auto simp: fm_UpdateFileMetadata_def Let_def split: prod.splits)

definition index_grows :: "StorageRequest \<Rightarrow> DNode \<Rightarrow> FileManager \<Rightarrow> bool" where
  "index_grows req nd fm \<longleftrightarrow> index_keyed (fm_fileIndex fm) \<and> gm_get (fm_fileIndex fm) (sq_FileHash req) \<noteq> None \<and>
     (\<forall>h. gm_get (fm_fileIndex (nd_fileManager nd)) h \<noteq> None \<longrightarrow> gm_get (fm_fileIndex fm) h \<noteq> None)"

lemma save_shard_metadata_keyed:
  assumes r: "save_shard_metadata now1 now2 req nd = Ret (q, s)" and k: "index_keyed (fm_fileIndex (nd_fileManager nd))"
  shows "index_grows req nd (fst s)"
proof (cases "gm_get (fm_fileIndex (nd_fileManager nd)) (sq_FileHash req)")
  case None
  with r obtain hashes where
    "fm_UpdateFileMetadata (estimated_metadata now1 now2 req (nd_self nd) hashes) (nd_files nd) = (q, s)"
    by (auto simp: save_shard_metadata_def fm_GetFileInfo_def Let_def go_bind_Ret_iff)
  from UpdateFileMetadata_index [OF this [unfolded nd_files_def]] k show ?thesis
    by (simp add: index_grows_def keyed_put estimated_metadata_def)
next
  case (Some md)
  then have md: "md_FileHash md = sq_FileHash req" using keyed_get [OF k] by blast
  from Some r obtain hashes where
    "fm_UpdateFileMetadata (known_metadata now1 (nd_self nd) hashes md)
       ((nd_fileManager nd)\<lparr>fm_fileIndex := gm_put (sq_FileHash req) (known_metadata now1 (nd_self nd) hashes md)
          (fm_fileIndex (nd_fileManager nd))\<rparr>, nd_disk nd) = (q, s)"
    by (auto simp: save_shard_metadata_def fm_GetFileInfo_def Let_def go_bind_Ret_iff)
  from UpdateFileMetadata_index [OF this] k md show ?thesis
    by (simp add: index_grows_def keyed_put known_metadata_def)
qed

lemma accept_keyed:
  assumes a: "node_accept et now1 now2 req nd = Ret (resp, nd')" and "plain_request req"
    and k: "index_keyed (fm_fileIndex (nd_fileManager nd))"
  shows "index_keyed (fm_fileIndex (nd_fileManager nd'))"
    and "sr_Success resp \<Longrightarrow> gm_get (fm_fileIndex (nd_fileManager nd')) (sq_FileHash req) \<noteq> None"
    and "gm_get (fm_fileIndex (nd_fileManager nd)) h \<noteq> None \<Longrightarrow> gm_get (fm_fileIndex (nd_fileManager nd')) h \<noteq> None"
proof -
  from a assms(2) have "nd_fileManager nd' = nd_fileManager nd \<and> \<not> sr_Success resp \<or> index_grows req nd (nd_fileManager nd')"
  proof (cases rule: node_accept_cases)
    case (refused x s)
    then show ?thesis by (simp add: node_defs)
  next
    case (stored s q)
    from stored(2) obtain q1 s1 where u: "save_shard_metadata now1 now2 req (set_store s nd) = Ret (q1, s1)"
      and nd': "nd_fileManager nd' = fst s1"
      by (rule updateFileMetadata_saves) (auto simp: node_defs)
    have "index_grows req (set_store s nd) (nd_fileManager nd')"
      using save_shard_metadata_keyed [OF u] k nd' by (simp add: node_defs)
    then show ?thesis by (simp add: index_grows_def node_defs)
  qed
  then show "index_keyed (fm_fileIndex (nd_fileManager nd'))"
    and "sr_Success resp \<Longrightarrow> gm_get (fm_fileIndex (nd_fileManager nd')) (sq_FileHash req) \<noteq> None"
    and "gm_get (fm_fileIndex (nd_fileManager nd)) h \<noteq> None \<Longrightarrow> gm_get (fm_fileIndex (nd_fileManager nd')) h \<noteq> None"
    using k by (auto simp: index_grows_def)
qed

lemma accept_all_keyed:
  "\<lbrakk>keeper.accept_all et now1 now2 reqs nd = Ret nd'; \<forall>r \<in> set reqs. plain_request r;
    index_keyed (fm_fileIndex (nd_fileManager nd))\<rbrakk>
   \<Longrightarrow> index_keyed (fm_fileIndex (nd_fileManager nd')) \<and>
     (\<forall>h. gm_get (fm_fileIndex (nd_fileManager nd)) h \<noteq> None \<longrightarrow> gm_get (fm_fileIndex (nd_fileManager nd')) h \<noteq> None)"
proof (induction reqs arbitrary: nd)
  case Nil
  then show ?case by simp
next
  case (Cons req reqs)
  from Cons.prems(1) obtain resp nd1 where a: "node_accept et now1 now2 req nd = Ret (resp, nd1)"
    and rest: "keeper.accept_all et now1 now2 reqs nd1 = Ret nd'"
    by (cases "node_accept et now1 now2 req nd") auto
  have "plain_request req" using Cons.prems(2) by simp
  note A = accept_keyed [OF a this Cons.prems(3)]
  from Cons.IH [OF rest _ A(1)] Cons.prems(2) A(3) show ?case by simp
qed

section \<open>Found again\<close>

lemma handle_requests_append:
  "handle_requests et now1 now2 (reqs @ reqs') fs =
     go_bind (handle_requests et now1 now2 reqs fs) (handle_requests et now1 now2 reqs')"
proof (induction reqs arbitrary: fs)
  case (Cons req reqs)
  show ?case by (cases "n_handleStorageProtocol et now1 now2 (Some req) fs") (auto simp: Cons.IH)
qed simp

text \<open>What a node holds and lists after requests of which one succeeded.\<close>

lemma request_among:
  assumes ok: "nd_ok nd" and k: "index_keyed (fm_fileIndex (nd_fileManager nd))"
    and p: "\<forall>r \<in> set reqs. plain_request r" "plain_request req" "\<forall>r \<in> set reqs'. plain_request r"
    and h: "handle_requests et now1 now2 reqs (Some nd) = Ret (Some nd0)"
    and a: "n_handleStorageProtocol et now1 now2 (Some req) (Some nd0) = Ret (Some resp, Some nd1)"
    and suc: "sr_Success resp"
    and h': "handle_requests et now1 now2 reqs' (Some nd1) = Ret (Some nd2)"
  shows "handle_requests et now1 now2 (reqs @ req # reqs') (Some nd) = Ret (Some nd2)"
    and "index_keyed (fm_fileIndex (nd_fileManager nd2))"
    and "gm_get (fm_fileIndex (nd_fileManager nd2)) (sq_FileHash req) \<noteq> None"
    and "n_handleShardRequest et (Some (sq_FileHash req, sq_ShardIndex req)) (Some nd2) =
      Some \<lparr>hr_Data = sq_ShardData req, hr_Error = ''''\<rparr>"
proof -
  show "handle_requests et now1 now2 (reqs @ req # reqs') (Some nd) = Ret (Some nd2)"
    using h a h' by (simp add: handle_requests_append)
  have A: "keeper.accept_all et now1 now2 reqs nd = Ret nd0" "node_accept et now1 now2 req nd0 = Ret (resp, nd1)"
    "keeper.accept_all et now1 now2 reqs' nd1 = Ret nd2"
    using handle_requests_accept p h h' a by (simp_all add: node_accept_def)
  have ok0: "nd_ok nd0" using A(1) p(1) ok
    by (induction reqs arbitrary: nd) (auto simp: go_bind_Ret_iff dest: keeper.accept_ok)
  note K0 = accept_all_keyed [OF A(1) p(1) k]
  note K1 = accept_keyed [OF A(2) p(2) conjunct1 [OF K0]]
  note K2 = accept_all_keyed [OF A(3) p(3) K1(1)]
  show "index_keyed (fm_fileIndex (nd_fileManager nd2))" using K2 by simp
  show "gm_get (fm_fileIndex (nd_fileManager nd2)) (sq_FileHash req) \<noteq> None" using K2 K1(2) [OF suc] by blast
  have "node_serve et (sq_FileHash req) (sq_ShardIndex req) nd2 = \<lparr>hr_Data = sq_ShardData req, hr_Error = ''''\<rparr>"
    by (rule keeper.accepted_stays [OF ok0 p(2) A(2) suc p(3) A(3)])
  then show "n_handleShardRequest et (Some (sq_FileHash req, sq_ShardIndex req)) (Some nd2) =
      Some \<lparr>hr_Data = sq_ShardData req, hr_Error = ''''\<rparr>"
    by (simp add: node_serve_def n_handleShardRequest_def)
qed

text \<open>
  C14: An accepted shard is found again after a restart. A node is started on a directory as nodes
  leave it, handles storage requests, answers one of them with success, handles more of them and
  stops. Started again with its key it announces its files, and gossip takes each announcement in
  one of its three attempts. Then every other node, whatever it knew, that reads the announcements in
  any order and any number of times adds the restarted node to the storing peers of exactly the files
  it has metadata for, among them the file of that shard, keeps what it knows of peers and scores, and
  a request for the shard to the restarted node is answered with the bytes it was sent.
\<close>

theorem restarted_node_is_found:
  fixes sn :: "('k, 'm, 'p, 'cs, 'pk, 'vk) StartedNode" and base :: "('k, 'm) Node"
  assumes "host_identity lc (st_host st)" and "host_identity lc (st_host st')"
    and "nc_PrivKey config = Some k" and "nc_PrivKey config' = Some k"
    and "pl_pid_String (st_libs st') = pl_pid_String (st_libs st)"
    and "NewDecentralizedNode st config d = Ret (Inr sn)"
    and "disk_kept (node_dir (pl_pid_String (st_libs st)) (bn_ID (sn_node sn))) d"
    and "index_keyed (fm_fileIndex (nd_fileManager (sn_state sn)))"
    and "\<forall>r \<in> set reqs. plain_request r" and "plain_request req" and "\<forall>r \<in> set reqs'. plain_request r"
    and "handle_requests et now1 now2 reqs (Some (sn_state sn)) = Ret (Some nd0)"
    and "n_handleStorageProtocol et now1 now2 (Some req) (Some nd0) = Ret (Some resp, Some nd1)"
    and "sr_Success resp"
    and "handle_requests et now1 now2 reqs' (Some nd1) = Ret (Some nd)"
    and "comes_up st' config' base pos"
    and "list_ex (rpc_publish env) [0, 1, 2]" and "other \<noteq> nd_self nd"
  shows "\<exists>sn' :: ('k, 'm, 'p, 'cs, 'pk, 'vk) StartedNode.
    NewDecentralizedNode st' config' (nd_disk nd) = Ret (Inr sn') \<and> nd_self (sn_state sn') = nd_self nd \<and>
    (let rejoined = dn_announceLocalFiles env clock (sn_state sn')
     in n_handleShardRequest et (Some (sq_FileHash req, sq_ShardIndex req)) (Some rejoined) =
          Some \<lparr>hr_Data = sq_ShardData req, hr_Error = ''''\<rparr> \<and>
        gm_get (fm_fileIndex (nd_fileManager nd)) (sq_FileHash req) \<noteq> None \<and>
        (\<forall>msgs nv. set msgs = set (nd_published rejoined) \<longrightarrow>
          (\<exists>nv'. gm_readMessages pid other now (nd_self nd) msgs nv = Ret nv' \<and>
             (\<forall>h. storing_peers nv' h = storing_peers nv h \<union>
                (if gm_get (fm_fileIndex (nd_fileManager nd)) h \<noteq> None then {nd_self nd} else {})) \<and>
             nv_peers nv' = nv_peers nv \<and> nv_reputation nv' = nv_reputation nv)))"
proof -
  have ok: "nd_ok (sn_state sn)" using start_saved(1) [OF assms(6,7)] by (rule saved_ok)
  note Q = request_among [OF ok assms(8-15)]
  have plain: "\<forall>r \<in> set (reqs @ req # reqs'). plain_request r" using assms(9-11) by auto
  note R = restarted [OF assms(1-7) plain Q(1) assms(16)]
  let ?fm = "(nd_fileManager nd)\<lparr>fm_engine := nd_storage nd\<rparr>"
  let ?sn = "bring_up st' pos (nd_storage nd) ?fm base (nd_disk nd) :: ('k, 'm, 'p, 'cs, 'pk, 'vk) StartedNode"
  let ?rejoined = "dn_announceLocalFiles env clock (sn_state ?sn)"
  have self: "nd_self (sn_state ?sn) = nd_self nd" using R(2,3) by simp
  have listed: "h \<in> md_FileHash ` set (fm_ListFiles ?fm) \<longleftrightarrow> gm_get (fm_fileIndex (nd_fileManager nd)) h \<noteq> None" for h
    using keyed_listed [of ?fm h] Q(2) by simp
  have "nd_published (sn_state ?sn) = []" by (simp add: bring_up_def Let_def)
  with announce_all [OF assms(17), of clock "nd_self nd" "fm_ListFiles ?fm" "sn_state ?sn"] self listed
  have own: "\<forall>msg \<in> set (nd_published ?rejoined). \<exists>h. announces (nd_self nd) h msg"
    and files: "\<And>h. (\<exists>msg \<in> set (nd_published ?rejoined). announces (nd_self nd) h msg) \<longleftrightarrow>
      gm_get (fm_fileIndex (nd_fileManager nd)) h \<noteq> None"
    by (auto simp: dn_announceLocalFiles_def)
  have "nd_store ?rejoined = nd_store nd"
    using announce_all_frame(2) [OF assms(17)] by (simp add: dn_announceLocalFiles_def) (simp add: node_defs)
  then have serves: "n_handleShardRequest et (Some (sq_FileHash req, sq_ShardIndex req)) (Some ?rejoined) =
      Some \<lparr>hr_Data = sq_ShardData req, hr_Error = ''''\<rparr>"
    using Q(4) shard_answers by metis
  have reads: "\<exists>nv'. gm_readMessages pid other now (nd_self nd) msgs nv = Ret nv' \<and>
      (\<forall>h. storing_peers nv' h = storing_peers nv h \<union>
         (if gm_get (fm_fileIndex (nd_fileManager nd)) h \<noteq> None then {nd_self nd} else {})) \<and>
      nv_peers nv' = nv_peers nv \<and> nv_reputation nv' = nv_reputation nv"
    if "set msgs = set (nd_published ?rejoined)" for msgs nv
    using announcements_read [of msgs "nd_self nd" "nd_self nd" other pid now nv] own files assms(18) that by simp
  show ?thesis
    using R(1) self serves reads Q(3) by (intro exI [of _ ?sn]) (simp add: Let_def)
qed

text \<open>The example node takes its first shard.\<close>

lemma first_shard_answered:
  "\<exists>(sn :: example_node) (base :: example_base) pos resp nd.
     NewDecentralizedNode example_start (example_config []) quiet_disk = Ret (Inr sn) \<and> bn_ID (sn_node sn) = ''kkkkkkk'' \<and>
     comes_up example_start (example_config []) base pos \<and> fm_fileIndex (nd_fileManager (sn_state sn)) = [] \<and>
     n_handleStorageProtocol plain_errors 0 0 (Some first_shard) (Some (sn_state sn)) = Ret (Some resp, Some nd) \<and>
     sr_Success resp"
proof -
  obtain sn :: example_node and base :: example_base and pos
    where st: "NewDecentralizedNode example_start (example_config []) quiet_disk = Ret (Inr sn)"
    and id: "bn_ID (sn_node sn) = ''kkkkkkk''" and up: "comes_up example_start (example_config []) base pos"
    and e: "nd_storage (sn_state sn) = fresh_engine (node_dir (\<lambda>i. i) ''kkkkkkk'') DefaultMaxStorageBytes"
      "nd_disk (sn_state sn) = quiet_disk" "fm_fileIndex (nd_fileManager (sn_state sn)) = []"
    using example_started by blast
  note S = start_saved [OF st quiet_kept]
  have ok: "nd_ok (sn_state sn)" using S(1) by (rule saved_ok)
  have plain: "plain_request first_shard" by (simp add: plain_request_def first_shard_def)
  have eok: "e_ok (nd_store (sn_state sn))" using ok by (simp add: nd_ok_def)
  have new: "\<not> e_has (nd_store (sn_state sn)) (request_chunk first_shard)"
    and max: "en_MaxStorageBytes (fst (nd_store (sn_state sn))) = DefaultMaxStorageBytes"
    and small: "e_total (nd_store (sn_state sn)) + length (sq_ShardData first_shard) \<le> 10"
    using e by (simp_all add: e_has_def e_total_def node_defs fresh_engine_def first_shard_def)
  have i: "1 \<le> sq_ShardIndex first_shard" "sq_ShardIndex first_shard < 2 ^ 63" "0 \<le> sq_TotalShards first_shard"
    by (simp_all add: first_shard_def)
  obtain resp nd where a: "n_handleStorageProtocol plain_errors 0 0 (Some first_shard) (Some (sn_state sn)) = Ret (Some resp, Some nd)"
    and suc: "sr_Success resp"
    using storage_protocol_accepts [OF ok plain new fits_small [OF eok max small] i] by blast
  from st id up e(3) a suc show ?thesis by blast
qed

theorem restarted_node_is_found_witness:
  "\<exists>(sn :: example_node) nd (sn' :: example_node) nv'.
     NewDecentralizedNode example_start (example_config []) quiet_disk = Ret (Inr sn) \<and>
     handle_requests plain_errors 0 0 [first_shard] (Some (sn_state sn)) = Ret (Some nd) \<and>
     NewDecentralizedNode example_start (example_config []) (nd_disk nd) = Ret (Inr sn') \<and>
     gm_readMessages id ''me'' 0 (nd_self nd)
       (nd_published (dn_announceLocalFiles accepting_rpc (\<lambda>_. 0) (sn_state sn'))) NewNetworkView = Ret nv' \<and>
     storing_peers nv' ''abc'' = {nd_self nd}"
proof -
  obtain sn :: example_node and base :: example_base and pos resp nd
    where st: "NewDecentralizedNode example_start (example_config []) quiet_disk = Ret (Inr sn)"
    and id: "bn_ID (sn_node sn) = ''kkkkkkk''" and up: "comes_up example_start (example_config []) base pos"
    and e: "fm_fileIndex (nd_fileManager (sn_state sn)) = []"
    and a: "n_handleStorageProtocol plain_errors 0 0 (Some first_shard) (Some (sn_state sn)) = Ret (Some resp, Some nd)"
    and suc: "sr_Success resp"
    using first_shard_answered by blast
  have plain: "plain_request first_shard" by (simp add: plain_request_def first_shard_def)
  have key: "nc_PrivKey (example_config []) = Some 7" by (simp add: example_config_def)
  have k: "index_keyed (fm_fileIndex (nd_fileManager (sn_state sn)))" using e by (simp add: index_keyed_def)
  have env: "list_ex (rpc_publish accepting_rpc) [0, 1, 2]" by (simp add: accepting_rpc_def)
  have run: "handle_requests plain_errors 0 0 [first_shard] (Some (sn_state sn)) = Ret (Some nd)" using a by simp
  have "nd_self nd = bn_ID (sn_node sn)"
    using restarted(3) [OF example_identity example_identity key key refl st quiet_kept _ run up] plain by simp
  with id have self: "''me'' \<noteq> nd_self nd" by simp
  have none: "\<forall>r \<in> set []. plain_request r" and nil: "handle_requests et n1 n2 [] fs = Ret fs" for et n1 n2 fs by simp_all
  from restarted_node_is_found [OF example_identity example_identity key key refl st quiet_kept k none plain none
      nil a suc nil up env self]
  obtain sn' :: example_node where r: "NewDecentralizedNode example_start (example_config []) (nd_disk nd) = Ret (Inr sn')"
    and has: "gm_get (fm_fileIndex (nd_fileManager nd)) (sq_FileHash first_shard) \<noteq> None"
    and reads: "\<And>msgs nv. set msgs = set (nd_published (dn_announceLocalFiles accepting_rpc (\<lambda>_. 0) (sn_state sn'))) \<Longrightarrow>
      \<exists>nv'. gm_readMessages id ''me'' 0 (nd_self nd) msgs nv = Ret nv' \<and>
        (\<forall>h. storing_peers nv' h = storing_peers nv h \<union>
          (if gm_get (fm_fileIndex (nd_fileManager nd)) h \<noteq> None then {nd_self nd} else {}))"
    unfolding Let_def by metis
  have "sq_FileHash first_shard = ''abc''" by (simp add: first_shard_def)
  moreover have "storing_peers NewNetworkView h = {}" for h
    by (simp add: storing_peers_def NewNetworkView_def gm_get_or_def)
  ultimately show ?thesis using reads [OF refl, of NewNetworkView] st run r has by fastforce
qed

end
