(* ===== verification/Network_Life.thy ===== *)
theory Network_Life
  imports Rejoin Cluster
begin

text \<open>
  The life of a network: nodes that are started, stopped and crash, take storage requests from
  anybody, store and retrieve files, announce what they have, and read each other's gossip, in any
  interleaving. What a node has once accepted it serves for as long as no file is deleted, however
  often it is started again; and who is listed for a file has the file's metadata.
\<close>

section \<open>States\<close>

text \<open>
  A node is a running process, or the disk one has left behind. A gossip message stays on the topic:
  it can reach a node late, repeatedly or never. The last components are histories: the storage
  requests that were answered with success, those whose handler panicked, and the stores (node, data,
  total and required shards) that succeeded.
\<close>

datatype process = Up DNode | Down disk

record network =
  nt_nodes :: "peer_id \<Rightarrow> process option"
  nt_sent :: "(peer_id \<times> GossipMessage) list"
  nt_accepted :: "(peer_id \<times> StorageRequest) list"
  nt_crashed :: "(peer_id \<times> StorageRequest) list"
  nt_stored :: "(peer_id \<times> bytes \<times> int \<times> int) list"

definition running :: "network \<Rightarrow> cluster" where
  "running net p = (case nt_nodes net p of Some (Up nd) \<Rightarrow> Some nd | _ \<Rightarrow> None)"

definition node_after :: "peer_id \<Rightarrow> DNode \<Rightarrow> network \<Rightarrow> network" where
  "node_after p nd net = net\<lparr>nt_nodes := (nt_nodes net)(p \<mapsto> Up nd), nt_sent := nt_sent net @ map (Pair p) (nd_published nd)\<rparr>"

definition node_gone :: "peer_id \<Rightarrow> disk \<Rightarrow> network \<Rightarrow> network" where
  "node_gone p d net = net\<lparr>nt_nodes := (nt_nodes net)(p \<mapsto> Down d)\<rparr>"

text \<open>Before anything was started: disks on which no node has stored anything.\<close>

definition blank_disk :: "string \<Rightarrow> disk \<Rightarrow> bool" where
  "blank_disk dir d \<longleftrightarrow> no_faults d \<and> gm_get (dk_files d) (filepath_Join [dir, ''metadata.gob'']) = None \<and>
     gm_get (dk_files d) (filepath_Join [dir, ''file_metadata.gob'']) = None"

definition first_network :: "(peer_id \<Rightarrow> string) \<Rightarrow> network \<Rightarrow> bool" where
  "first_network pid net \<longleftrightarrow> nt_sent net = [] \<and> nt_accepted net = [] \<and> nt_crashed net = [] \<and> nt_stored net = [] \<and>
     (\<forall>p proc. nt_nodes net p = Some proc \<longrightarrow> (\<exists>d. proc = Down d \<and> blank_disk (node_dir pid p) d))"

section \<open>Steps\<close>

text \<open>What a node does to its view by itself.\<close>

inductive own_step :: "peer_id \<Rightarrow> NetworkView \<Rightarrow> NetworkView \<Rightarrow> bool" for self where
  connected: "own_step self nv (dn_onPeerConnected now p nv)"
| disconnected: "own_step self nv (dn_onPeerDisconnected p nv)"
| discover: "own_step self nv (snd (pd_discoverPeers self routingTable peerstore (pd, nv)))"
| maintain: "own_step self nv (dn_maintainNetworkState now1 now2 nv)"
| review: "own_step self nv (rs_performReputationUpdate now nv)"
| success: "own_step self nv (rs_RecordSuccessfulInteraction p nv)"
| failure: "own_step self nv (rs_RecordFailedInteraction p nv)"
| removed: "own_step self nv (dn_RemoveFileFromIndex h p nv)"

text \<open>
  What a store hears from its peers: a success only from a peer that has accepted the request before
  (an answer may also get lost, and the peer may have gone since).
\<close>

definition answers_honest :: "(peer_id \<times> StorageRequest) list \<Rightarrow> rpc \<Rightarrow> bool" where
  "answers_honest acc env \<longleftrightarrow>
     (\<forall>q req resp. rpc_store env q req = Inr resp \<longrightarrow> sr_Success resp \<longrightarrow> (q, req) \<in> set acc)"

text \<open>
  The relation is indexed by the setups \<open>(st, config)\<close> a node can be started with, and by whether
  nodes store only files they do not know (\<open>once\<close>). A storage operation and a handler are one
  step each. A request that panics ends the process after the chunk was written. Requests are those
  of \<open>plain_request\<close>: no slash in the hash.
\<close>

inductive net_step ::
  "(peer_id \<Rightarrow> string) \<Rightarrow> bool \<Rightarrow> (peer_id \<Rightarrow> ('k, 'p, 'cs, 'pk, 'vk, 'pf) start_env \<Rightarrow> 'k NodeConfig \<Rightarrow> bool) \<Rightarrow>
   network \<Rightarrow> network \<Rightarrow> bool"
  for pid once setups where
  start: "\<lbrakk>nt_nodes net p = Some (Down d); setups p st config; pl_pid_String (st_libs st) = pid;
      NewDecentralizedNode st config d = Ret (Inr (sn :: ('k, unit, 'p, 'cs, 'pk, 'vk) StartedNode));
      bn_ID (sn_node sn) = p\<rbrakk>
    \<Longrightarrow> net_step pid once setups net (node_after p (sn_state sn) net)"
| stop: "running net p = Some nd \<Longrightarrow> net_step pid once setups net (node_gone p (nd_disk nd) net)"
| request: "\<lbrakk>running net p = Some nd; plain_request req;
      n_handleStorageProtocol et now1 now2 (Some req) (Some nd) = Ret (Some resp, Some nd')\<rbrakk>
    \<Longrightarrow> net_step pid once setups net ((node_after p nd' net)
          \<lparr>nt_accepted := (if sr_Success resp then [(p, req)] else []) @ nt_accepted net\<rparr>)"
| crash: "\<lbrakk>running net p = Some nd; plain_request req;
      panics (n_handleStorageProtocol et now1 now2 (Some req) (Some nd));
      e_StoreChunk (request_chunk req) (sq_ShardData req) (nd_store nd) = (r, s)\<rbrakk>
    \<Longrightarrow> net_step pid once setups net ((node_gone p (snd s) net)\<lparr>nt_crashed := (p, req) # nt_crashed net\<rparr>)"
| hear: "\<lbrakk>running net p = Some nd; (q, msg) \<in> set (nt_sent net);
      gm_readMessage pid p now q (Some msg) (nd_view nd) = Ret nv'\<rbrakk>
    \<Longrightarrow> net_step pid once setups net (node_after p (nd\<lparr>nd_view := nv'\<rparr>) net)"
| announce: "running net p = Some nd
    \<Longrightarrow> net_step pid once setups net (node_after p (dn_announceLocalFiles env clock nd) net)"
| store: "\<lbrakk>running net p = Some nd; answers_honest (nt_accepted net) env;
      once \<longrightarrow> gm_get (fm_fileIndex (nd_fileManager nd)) (CalculateFileHash data) = None;
      so_StoreFileDistributed rs env clock f data n k nd = Ret (r, nd')\<rbrakk>
    \<Longrightarrow> net_step pid once setups net ((node_after p nd' net)
          \<lparr>nt_stored := (case r of Inl err \<Rightarrow> [] | Inr h \<Rightarrow> [(p, data, n, k)]) @ nt_stored net\<rparr>)"
| retrieve: "\<lbrakk>running net p = Some nd; so_RetrieveFileDistributed rs (node_rpc w (running net)) h nd = Ret (r, nd')\<rbrakk>
    \<Longrightarrow> net_step pid once setups net (node_after p nd' net)"
| own: "\<lbrakk>running net p = Some nd; own_step p (nd_view nd) nv'\<rbrakk>
    \<Longrightarrow> net_step pid once setups net (node_after p (nd\<lparr>nd_view := nv'\<rparr>) net)"
| link: "running net p = Some nd \<Longrightarrow> net_step pid once setups net (node_after p (nd\<lparr>nd_connected := ps\<rparr>) net)"
| tidy: "running net p = Some nd \<Longrightarrow> net_step pid once setups net (node_after p (so_cleanupCompletedOperations now nd) net)"

inductive_cases net_stepE: "net_step pid once setups net net'"

inductive net_run ::
  "(peer_id \<Rightarrow> string) \<Rightarrow> bool \<Rightarrow> (peer_id \<Rightarrow> ('k, 'p, 'cs, 'pk, 'vk, 'pf) start_env \<Rightarrow> 'k NodeConfig \<Rightarrow> bool) \<Rightarrow> network \<Rightarrow> bool"
  for pid once setups where
  first: "first_network pid net \<Longrightarrow> net_run pid once setups net"
| more: "net_run pid once setups net \<Longrightarrow> net_step pid once setups net net' \<Longrightarrow> net_run pid once setups net'"

section \<open>What an operation keeps\<close>

text \<open>
  A node after an operation that loses nothing: the same node on the same directory, saved, with
  every file of its index and every chunk it could read.
\<close>

definition carries :: "DNode \<Rightarrow> DNode \<Rightarrow> bool" where
  "carries nd nd' \<longleftrightarrow> nd_self nd' = nd_self nd \<and> node_saved nd' \<and>
     en_storageDir (nd_storage nd') = en_storageDir (nd_storage nd) \<and> index_keyed (fm_fileIndex (nd_fileManager nd')) \<and>
     (\<forall>h. gm_get (fm_fileIndex (nd_fileManager nd)) h \<noteq> None \<longrightarrow> gm_get (fm_fileIndex (nd_fileManager nd')) h \<noteq> None) \<and>
     (\<forall>k b. e_RetrieveChunk k (nd_store nd) = Inr b \<longrightarrow> e_RetrieveChunk k (nd_store nd') = Inr b)"

lemma carries_same:
  "\<lbrakk>node_saved nd; index_keyed (fm_fileIndex (nd_fileManager nd)); nd_self nd' = nd_self nd;
    nd_storage nd' = nd_storage nd; nd_fileManager nd' = nd_fileManager nd; nd_disk nd' = nd_disk nd\<rbrakk>
   \<Longrightarrow> carries nd nd'"
  by (simp add: carries_def node_saved_def node_defs)

lemma carries_accept:
  assumes sv: "node_saved nd" and k: "index_keyed (fm_fileIndex (nd_fileManager nd))" and req: "plain_request req"
    and h: "n_handleStorageProtocol et now1 now2 (Some req) (Some nd) = Ret (Some resp, Some nd')"
  shows "carries nd nd'"
    and "sr_Success resp \<Longrightarrow> e_RetrieveChunk (request_chunk req) (nd_store nd') = Inr (sq_ShardData req) \<and>
      gm_get (fm_fileIndex (nd_fileManager nd')) (sq_FileHash req) \<noteq> None"
proof -
  have a: "node_accept et now1 now2 req nd = Ret (resp, nd')" using h by (simp add: node_accept_def)
  note ok = saved_ok [OF sv]
  note A = accept_saved [OF sv req a] and C = node_accept_chunks [OF ok req a] and K = accept_keyed [OF a req k]
  show "carries nd nd'" using A C(3) K by (auto simp: carries_def same_place_def)
  show "sr_Success resp \<Longrightarrow> e_RetrieveChunk (request_chunk req) (nd_store nd') = Inr (sq_ShardData req) \<and>
      gm_get (fm_fileIndex (nd_fileManager nd')) (sq_FileHash req) \<noteq> None"
    using C(2) K(2) by blast
qed

lemma announce_frame [simp]:
  "nd_self (so_announceFileToNetwork env clock h ps nd) = nd_self nd"
  "nd_storage (so_announceFileToNetwork env clock h ps nd) = nd_storage nd"
  "nd_disk (so_announceFileToNetwork env clock h ps nd) = nd_disk nd"
  by (simp_all add: so_announceFileToNetwork_def publish_retry_def Let_def split: sum.splits)

lemma announce_list_frame:
  "nd_self (announce_list env clock i ms nd) = nd_self nd \<and> nd_storage (announce_list env clock i ms nd) = nd_storage nd \<and>
   nd_fileManager (announce_list env clock i ms nd) = nd_fileManager nd \<and> nd_disk (announce_list env clock i ms nd) = nd_disk nd"
  by (induction ms arbitrary: nd) simp_all

lemma Sync_frame:
  "nd_self (so_SyncNetworkView env nd) = nd_self nd \<and> nd_storage (so_SyncNetworkView env nd) = nd_storage nd \<and>
   nd_fileManager (so_SyncNetworkView env nd) = nd_fileManager nd \<and> nd_disk (so_SyncNetworkView env nd) = nd_disk nd \<and>
   nd_published (so_SyncNetworkView env nd) = nd_published nd"
proof -
  have "nd_self (fold (so_queryPeerForFiles env) ps x) = nd_self x \<and> nd_storage (fold (so_queryPeerForFiles env) ps x) = nd_storage x \<and>
      nd_fileManager (fold (so_queryPeerForFiles env) ps x) = nd_fileManager x \<and> nd_disk (fold (so_queryPeerForFiles env) ps x) = nd_disk x \<and>
      nd_published (fold (so_queryPeerForFiles env) ps x) = nd_published x" for ps x
    by (induction ps arbitrary: x) (simp_all add: so_queryPeerForFiles_def split: sum.splits)
  then show ?thesis by (simp add: so_SyncNetworkView_def)
qed

text \<open>The two ends of a store: the node as it was, or with the announcement and the metadata.\<close>

lemma store_cases:
  assumes "so_StoreFileDistributed rs env clock f data n k nd = Ret (r, nd')"
  obtains (failed) x where "r = Inl x" and "nd' = nd"
  | (stored) ops peers nd1 q s where "r = Inr (CalculateFileHash data)"
    and "nd1 = so_announceFileToNetwork env clock (CalculateFileHash data)
      (so_getAnnouncementPeers peers (nd\<lparr>nd_pendingOps := ops\<rparr>)) (nd\<lparr>nd_pendingOps := ops\<rparr>)"
    and "fm_UpdateFileMetadata (new_metadata (CalculateFileHash data) f data n k peers (clock 5) (clock 6)) (nd_files nd1) = (q, s)"
    and "nd' = set_files s nd1"
proof -
  from assms have "nd' = nd \<and> (\<exists>x. r = Inl x) \<or>
      (\<exists>ops peers. r = Inr (CalculateFileHash data) \<and>
         nd' = snd (so_storeFileMetadataLocally clock (CalculateFileHash data) f data n k peers
           (so_announceFileToNetwork env clock (CalculateFileHash data)
             (so_getAnnouncementPeers peers (nd\<lparr>nd_pendingOps := ops\<rparr>)) (nd\<lparr>nd_pendingOps := ops\<rparr>))))"
    by (auto simp: so_StoreFileDistributed_def go_bind_Ret_iff Let_def split: if_splits sum.splits)
  then show thesis
  proof (elim disjE exE conjE)
    fix x assume "nd' = nd" "r = Inl x"
    then show thesis by (rule failed [rotated])
  next
    fix ops peers
    let ?nd1 = "so_announceFileToNetwork env clock (CalculateFileHash data)
      (so_getAnnouncementPeers peers (nd\<lparr>nd_pendingOps := ops\<rparr>)) (nd\<lparr>nd_pendingOps := ops\<rparr>)"
    assume r: "r = Inr (CalculateFileHash data)"
      and nd': "nd' = snd (so_storeFileMetadataLocally clock (CalculateFileHash data) f data n k peers ?nd1)"
    obtain q s where u: "fm_UpdateFileMetadata (new_metadata (CalculateFileHash data) f data n k peers (clock 5) (clock 6)) (nd_files ?nd1) = (q, s)"
      by (metis surj_pair)
    with nd' have "nd' = set_files s ?nd1" by (simp add: so_storeFileMetadataLocally_def Let_def)
    with r u show thesis by (rule stored [OF _ refl])
  qed
qed

lemma carries_store:
  assumes sv: "node_saved nd" and k: "index_keyed (fm_fileIndex (nd_fileManager nd))"
    and st: "so_StoreFileDistributed rs env clock f data n kk nd = Ret (r, nd')"
  shows "carries nd nd'"
  using st
proof (cases rule: store_cases)
  case (failed x)
  then show ?thesis using sv k by (simp add: carries_same)
next
  case (stored ops peers nd1 q s)
  let ?md = "new_metadata (CalculateFileHash data) f data n kk peers (clock 5) (clock 6)"
  have same: "nd_self nd1 = nd_self nd" "nd_storage nd1 = nd_storage nd" "nd_fileManager nd1 = nd_fileManager nd" "nd_disk nd1 = nd_disk nd"
    using stored(2) by simp_all
  then have sv1: "node_saved nd1" using sv by (simp add: node_saved_def node_defs)
  have u: "fm_UpdateFileMetadata ?md (nd_fileManager nd1, nd_disk nd1) = (q, s)" using stored(3) by (simp add: nd_files_def)
  have eok: "e_ok (nd_storage nd1, nd_disk nd1)"
    and fm: "fm_metadataFile (nd_fileManager nd1) = filepath_Join [en_storageDir (nd_storage nd1), ''file_metadata.gob'']"
    using saved_ok [OF sv1] by (simp_all add: nd_ok_def nd_store_def)
  obtain fm' d' where s: "s = (fm', d')" by (cases s)
  note F = fm_UpdateFileMetadata_frame [OF eok fm u [unfolded s]]
  have sv': "node_saved nd'" using UpdateFileMetadata_saved(2) [OF sv1 refl refl refl u] stored(4) by simp
  have "index_keyed (fm_fileIndex fm')" using F k same by (simp add: keyed_put)
  then show ?thesis using sv' F stored(4) s same by (simp add: carries_def node_defs)
qed

section \<open>Accepted shards\<close>

text \<open>
  An engine and a file manager on the directory of a node, with what is on disk, that hold every
  shard of the node's accepted requests and the metadata of its file.
\<close>

definition node_kept ::
  "(peer_id \<Rightarrow> string) \<Rightarrow> (peer_id \<times> StorageRequest) list \<Rightarrow> peer_id \<Rightarrow> Engine \<Rightarrow> FileManager \<Rightarrow> disk \<Rightarrow> bool" where
  "node_kept pid acc p e fm d \<longleftrightarrow> engine_saved (e, d) \<and> files_saved (fm, d) \<and>
     en_storageDir e = node_dir pid p \<and> fm_storageDir fm = node_dir pid p \<and> index_keyed (fm_fileIndex fm) \<and>
     (\<forall>req. (p, req) \<in> set acc \<longrightarrow> e_RetrieveChunk (request_chunk req) (e, d) = Inr (sq_ShardData req) \<and>
        gm_get (fm_fileIndex fm) (sq_FileHash req) \<noteq> None)"

fun process_kept :: "(peer_id \<Rightarrow> string) \<Rightarrow> (peer_id \<times> StorageRequest) list \<Rightarrow> peer_id \<Rightarrow> process \<Rightarrow> bool" where
  "process_kept pid acc p (Up nd) \<longleftrightarrow> nd_self nd = p \<and> node_kept pid acc p (nd_storage nd) (nd_fileManager nd) (nd_disk nd)"
| "process_kept pid acc p (Down d) \<longleftrightarrow> (\<exists>e fm. node_kept pid acc p e fm d)"

definition net_kept :: "(peer_id \<Rightarrow> string) \<Rightarrow> network \<Rightarrow> bool" where
  "net_kept pid net \<longleftrightarrow>
     (\<forall>p proc. nt_nodes net p = Some proc \<longrightarrow> process_kept pid (nt_accepted net) p proc) \<and>
     (\<forall>p req. (p, req) \<in> set (nt_accepted net) \<longrightarrow> nt_nodes net p \<noteq> None)"

lemma running_iff: "running net p = Some nd \<longleftrightarrow> nt_nodes net p = Some (Up nd)"
  by (auto simp: running_def split: option.splits process.splits)

lemma net_kept_histories [simp]:
  "net_kept pid (net\<lparr>nt_crashed := x\<rparr>) = net_kept pid net" "net_kept pid (net\<lparr>nt_stored := y\<rparr>) = net_kept pid net"
  by (simp_all add: net_kept_def)

lemma net_keptD:
  assumes "net_kept pid net" and "running net p = Some nd"
  shows "process_kept pid (nt_accepted net) p (Up nd)" and "nd_self nd = p" and "node_saved nd"
    and "index_keyed (fm_fileIndex (nd_fileManager nd))"
proof -
  show k: "process_kept pid (nt_accepted net) p (Up nd)" using assms by (simp add: net_kept_def running_iff del: process_kept.simps)
  then show "nd_self nd = p" and "node_saved nd" and "index_keyed (fm_fileIndex (nd_fileManager nd))"
    by (simp_all add: node_kept_def node_saved_def node_defs)
qed

lemma process_kept_carries:
  assumes "process_kept pid acc p (Up nd)" and "carries nd nd'"
    and "\<And>req. (p, req) \<in> set acc' \<Longrightarrow> (p, req) \<notin> set acc \<Longrightarrow>
      e_RetrieveChunk (request_chunk req) (nd_store nd') = Inr (sq_ShardData req) \<and>
      gm_get (fm_fileIndex (nd_fileManager nd')) (sq_FileHash req) \<noteq> None"
  shows "process_kept pid acc' p (Up nd')"
proof -
  have "e_RetrieveChunk (request_chunk req) (nd_store nd') = Inr (sq_ShardData req) \<and>
      gm_get (fm_fileIndex (nd_fileManager nd')) (sq_FileHash req) \<noteq> None" if "(p, req) \<in> set acc'" for req
    using assms that by (cases "(p, req) \<in> set acc") (auto simp: node_kept_def carries_def nd_store_def)
  then show ?thesis using assms(1,2) by (auto simp: node_kept_def carries_def node_saved_def node_defs)
qed

lemma process_kept_mono: "process_kept pid acc p proc \<Longrightarrow> (\<And>req. (p, req) \<in> set acc' \<Longrightarrow> (p, req) \<in> set acc) \<Longrightarrow> process_kept pid acc' p proc"
proof (cases proc)
  case (Down d)
  moreover have "node_kept pid acc p e fm d \<Longrightarrow> (\<And>req. (p, req) \<in> set acc' \<Longrightarrow> (p, req) \<in> set acc) \<Longrightarrow> node_kept pid acc' p e fm d"
    for e fm by (auto simp: node_kept_def)
  ultimately show "process_kept pid acc p proc \<Longrightarrow> (\<And>req. (p, req) \<in> set acc' \<Longrightarrow> (p, req) \<in> set acc) \<Longrightarrow> ?thesis"
    by (simp, blast)
qed (auto simp: node_kept_def)

text \<open>An operation of one node, and the end of one.\<close>

lemma net_kept_after:
  assumes net: "net_kept pid net" and p: "nt_nodes net p \<noteq> None" and up: "process_kept pid acc p (Up nd')"
    and acc: "\<And>q req. (q, req) \<in> set acc \<Longrightarrow> q = p \<or> (q, req) \<in> set (nt_accepted net)"
  shows "net_kept pid ((node_after p nd' net)\<lparr>nt_accepted := acc\<rparr>)"
  unfolding net_kept_def
proof (intro conjI allI impI)
  fix q proc
  assume q: "nt_nodes ((node_after p nd' net)\<lparr>nt_accepted := acc\<rparr>) q = Some proc"
  show "process_kept pid (nt_accepted ((node_after p nd' net)\<lparr>nt_accepted := acc\<rparr>)) q proc"
  proof (cases "q = p")
    case True
    with q up show ?thesis by (auto simp: node_after_def)
  next
    case False
    with q net have "process_kept pid (nt_accepted net) q proc" by (simp add: node_after_def net_kept_def)
    then show ?thesis using acc False by (auto intro: process_kept_mono)
  qed
next
  fix q req
  assume "(q, req) \<in> set (nt_accepted ((node_after p nd' net)\<lparr>nt_accepted := acc\<rparr>))"
  then show "nt_nodes ((node_after p nd' net)\<lparr>nt_accepted := acc\<rparr>) q \<noteq> None"
    using acc [of q req] net by (auto simp: node_after_def net_kept_def)
qed

lemma net_kept_carries:
  assumes "net_kept pid net" and "running net p = Some nd" and "carries nd nd'"
  shows "net_kept pid (node_after p nd' net)"
proof -
  have "process_kept pid (nt_accepted net) p (Up nd')"
    using process_kept_carries [OF net_keptD(1) [OF assms(1,2)] assms(3)] by blast
  from net_kept_after [OF assms(1) _ this] assms(2) show ?thesis by (simp add: running_iff node_after_def)
qed

lemma net_kept_same:
  assumes "net_kept pid net" and "running net p = Some nd" and "nd_self nd' = nd_self nd" and "nd_storage nd' = nd_storage nd"
    and "nd_fileManager nd' = nd_fileManager nd" and "nd_disk nd' = nd_disk nd"
  shows "net_kept pid (node_after p nd' net)"
  by (rule net_kept_carries [OF assms(1,2) carries_same [OF net_keptD(3,4) [OF assms(1,2)] assms(3-6)]])

lemma net_kept_gone:
  assumes "net_kept pid net" and "nt_nodes net p \<noteq> None" and "node_kept pid (nt_accepted net) p e fm d"
  shows "net_kept pid (node_gone p d net)"
  using assms by (auto simp: net_kept_def node_gone_def)

text \<open>Started again, a node has what its disk keeps.\<close>

lemma start_kept:
  assumes k: "node_kept pid acc p e fm d" and id: "pl_pid_String (st_libs st) = pid" "bn_ID (sn_node sn) = p"
    and sn: "NewDecentralizedNode st config d = Ret (Inr sn)"
  shows "process_kept pid acc p (Up (sn_state sn))" and "nd_view (sn_state sn) = initial_view p fm"
    and "nd_published (sn_state sn) = []" and "fm_fileIndex (nd_fileManager (sn_state sn)) = fm_fileIndex fm"
proof -
  note K = k [unfolded node_kept_def]
  have e: "engine_saved (e, d)" and fm: "files_saved (fm, d)"
    and dirs: "en_storageDir e = node_dir (pl_pid_String (st_libs st)) (bn_ID (sn_node sn))" "fm_storageDir fm = en_storageDir e"
    using K id by simp_all
  note O = start_opens [OF sn e fm dirs]
  show "process_kept pid acc p (Up (sn_state sn))" using O K id by (simp add: node_kept_def files_saved_engine)
  show "nd_view (sn_state sn) = initial_view p fm" and "nd_published (sn_state sn) = []"
    and "fm_fileIndex (nd_fileManager (sn_state sn)) = fm_fileIndex fm"
    using O id by simp_all
qed

text \<open>A request whose handler panics has written its chunk.\<close>

lemma crash_kept:
  assumes k: "process_kept pid acc p (Up nd)" and req: "plain_request req"
    and st: "e_StoreChunk (request_chunk req) (sq_ShardData req) (nd_store nd) = (r, s)"
  shows "node_kept pid acc p (fst s) (nd_fileManager nd) (snd s)"
proof -
  note K = k [unfolded process_kept.simps node_kept_def]
  have sv: "node_saved nd" using K by (simp add: node_saved_def node_defs)
  have eok: "e_ok (nd_store nd)" using saved_ok [OF sv] by (simp add: nd_ok_def)
  note v = request_chunk_valid [OF req]
  show ?thesis
  proof (cases r)
    case (Inl x)
    then have "s = nd_store nd" using chunks.put_error [OF eok v] st by blast
    then show ?thesis using k by (simp add: nd_store_def)
  next
    case (Inr u)
    with st have st': "e_StoreChunk (request_chunk req) (sq_ShardData req) (nd_store nd) = (Inr (), s)" by simp
    note S = StoreChunk_saved(1) [OF sv v st']
    note put = chunks.put_ok [OF eok v st'] chunks.put_frame [OF eok v st']
    have "e_RetrieveChunk j s = Inr b" if "e_RetrieveChunk j (nd_store nd) = Inr b" for j b
      using put that chunks.get_has [OF eok, of j] by metis
    then show ?thesis
      using K S e_dir_Store [OF st'] by (simp add: node_kept_def node_saved_def node_defs)
  qed
qed

lemma blank_kept: "blank_disk (node_dir pid p) d \<Longrightarrow> \<exists>e fm. node_kept pid [] p e fm d \<and> fm_fileIndex fm = []"
  using empty_dir_opens [of d "node_dir pid p"] by (fastforce simp: blank_disk_def node_kept_def index_keyed_def)

lemma first_kept: "first_network pid net \<Longrightarrow> net_kept pid net"
  using blank_kept by (fastforce simp: first_network_def net_kept_def)

lemma running_nodes: "running net p = Some nd \<Longrightarrow> nt_nodes net p \<noteq> None"
  by (simp add: running_iff)

lemma announceLocalFiles_frame:
  "nd_self (dn_announceLocalFiles env clock nd) = nd_self nd \<and> nd_storage (dn_announceLocalFiles env clock nd) = nd_storage nd \<and>
   nd_fileManager (dn_announceLocalFiles env clock nd) = nd_fileManager nd \<and> nd_disk (dn_announceLocalFiles env clock nd) = nd_disk nd"
  using announce_list_frame by (simp add: dn_announceLocalFiles_def)

lemma net_step_kept:
  assumes "net_step pid once setups net net'" and "net_kept pid net"
  shows "net_kept pid net'"
  using assms
proof (induction rule: net_step.induct)
  case (start net p d st config sn)
  then obtain e fm where k: "node_kept pid (nt_accepted net) p e fm d" by (fastforce simp: net_kept_def)
  have "process_kept pid (nt_accepted net) p (Up (sn_state sn))"
    using start_kept(1) [OF k start(3,5,4)] .
  from net_kept_after [OF start(6) _ this] start(1) show ?case by (simp add: node_after_def)
next
  case (stop net p nd)
  from net_keptD(1) [OF stop(2,1)] show ?case
    using net_kept_gone [OF stop(2) running_nodes [OF stop(1)]] by (auto simp del: not_None_eq)
next
  case (request net p nd req et now1 now2 resp nd')
  note D = net_keptD [OF request(4,1)]
  note A = carries_accept [OF D(3,4) request(2,3)]
  let ?acc = "(if sr_Success resp then [(p, req)] else []) @ nt_accepted net"
  have "process_kept pid ?acc p (Up nd')"
    by (rule process_kept_carries [OF D(1) A(1)]) (use A(2) in \<open>auto split: if_splits\<close>)
  then show ?case by (rule net_kept_after [OF request(4) running_nodes [OF request(1)]]) (auto split: if_splits)
next
  case (crash net p nd req et now1 now2 r s)
  from net_kept_gone [OF crash(5) running_nodes [OF crash(1)] crash_kept [OF net_keptD(1) [OF crash(5,1)] crash(2,4)]]
  show ?case by simp
next
  case (hear net p nd q msg now nv')
  show ?case by (rule net_kept_same [OF hear(4,1)]) simp_all
next
  case (announce net p nd env clock)
  show ?case by (rule net_kept_same [OF announce(2,1)]) (simp_all add: announceLocalFiles_frame)
next
  case (store net p nd env data rs clock f n k r nd')
  note D = net_keptD [OF store(5,1)]
  from net_kept_carries [OF store(5,1) carries_store [OF D(3,4) store(4)]] show ?case by simp
next
  case (retrieve net p nd rs w h r nd')
  have "nd' = so_SyncNetworkView (node_rpc w (running net)) nd" using retrieve(2) by (rule retrieve_view)
  then show ?case by (intro net_kept_same [OF retrieve(3,1)]) (simp_all add: Sync_frame)
next
  case (own net p nd nv')
  show ?case by (rule net_kept_same [OF own(3,1)]) simp_all
next
  case (link net p nd ps)
  show ?case by (rule net_kept_same [OF link(2,1)]) simp_all
next
  case (tidy net p nd now)
  show ?case by (rule net_kept_same [OF tidy(2,1)]) (simp_all add: so_cleanupCompletedOperations_def Let_def)
qed

lemma net_run_kept: "net_run pid once setups net \<Longrightarrow> net_kept pid net"
  by (induction rule: net_run.induct) (auto simp: first_kept intro: net_step_kept)

text \<open>What a kept process answers.\<close>

lemma kept_serves:
  assumes "process_kept pid acc p (Up nd)" and "(p, req) \<in> set acc"
  shows "n_handleShardRequest et (Some (sq_FileHash req, sq_ShardIndex req)) (Some nd) =
      Some \<lparr>hr_Data = sq_ShardData req, hr_Error = ''''\<rparr>"
    and "\<exists>md. n_handleFileMetadataRequest et (Some (sq_FileHash req)) (Some nd) = Some \<lparr>mr_Metadata = Some md, mr_Error = ''''\<rparr> \<and>
      md_FileHash md = sq_FileHash req"
proof -
  have k: "e_RetrieveChunk (request_chunk req) (nd_store nd) = Inr (sq_ShardData req)"
    "gm_get (fm_fileIndex (nd_fileManager nd)) (sq_FileHash req) \<noteq> None" "index_keyed (fm_fileIndex (nd_fileManager nd))"
    using assms by (auto simp: node_kept_def nd_store_def)
  then show "n_handleShardRequest et (Some (sq_FileHash req, sq_ShardIndex req)) (Some nd) =
      Some \<lparr>hr_Data = sq_ShardData req, hr_Error = ''''\<rparr>"
    by (simp add: n_handleShardRequest_def dn_GetShard_def request_chunk_def)
  from k(2,3) show "\<exists>md. n_handleFileMetadataRequest et (Some (sq_FileHash req)) (Some nd) = Some \<lparr>mr_Metadata = Some md, mr_Error = ''''\<rparr> \<and>
      md_FileHash md = sq_FileHash req"
    using keyed_get by (auto simp: n_handleFileMetadataRequest_def dn_GetFileMetadata_def fm_GetFileInfo_def)
qed

text \<open>
  C10: No accepted shard is lost. In every state a network can reach by starts, stops, crashes by
  malformed requests, storage requests from anybody, gossip that is late, repeated or lost, stores,
  retrievals and the nodes' own loops, in any interleaving and with any number of restarts: a node
  that has ever answered a storage request with success, and is running, answers a request for that
  shard with exactly its bytes, and a request for the file's metadata with metadata of that file.
\<close>

theorem accepted_shards_survive:
  assumes "net_run pid once setups net" and "(p, req) \<in> set (nt_accepted net)" and "running net p = Some nd"
  shows "n_handleShardRequest et (Some (sq_FileHash req, sq_ShardIndex req)) (Some nd) =
      Some \<lparr>hr_Data = sq_ShardData req, hr_Error = ''''\<rparr> \<and>
    (\<exists>md. n_handleFileMetadataRequest et (Some (sq_FileHash req)) (Some nd) = Some \<lparr>mr_Metadata = Some md, mr_Error = ''''\<rparr> \<and>
       md_FileHash md = sq_FileHash req)"
  using kept_serves [OF net_keptD(1) [OF net_run_kept [OF assms(1)] assms(3)] assms(2)] by blast

text \<open>
  C11: A stopped node can always come back with everything. In a reachable state, take a node that
  has ever accepted a shard and is not running, however it ended. If libp2p and the provers come up
  for its key, its start is a step of the network, and it serves every shard it has ever accepted.
\<close>

theorem stopped_node_returns:
  fixes base :: "('k, unit) Node"
  assumes "net_run pid once setups net" and "(p, req) \<in> set (nt_accepted net)" and "running net p = None"
    and "setups p st config" and "pl_pid_String (st_libs st) = pid" and "comes_up st config base pos" and "bn_ID base = p"
  shows "\<exists>net' nd. net_step pid once setups net net' \<and> running net' p = Some nd \<and> nt_accepted net' = nt_accepted net \<and>
    (\<forall>rq. (p, rq) \<in> set (nt_accepted net) \<longrightarrow>
       n_handleShardRequest et (Some (sq_FileHash rq, sq_ShardIndex rq)) (Some nd) =
         Some \<lparr>hr_Data = sq_ShardData rq, hr_Error = ''''\<rparr>)"
proof -
  have net: "net_kept pid net" using assms(1) by (rule net_run_kept)
  obtain d where d: "nt_nodes net p = Some (Down d)"
    using net assms(2,3) by (auto simp: net_kept_def running_def split: option.splits process.splits)
  with net obtain e fm where k: "node_kept pid (nt_accepted net) p e fm d" by (fastforce simp: net_kept_def)
  note K = k [unfolded node_kept_def]
  have nf: "no_faults d" using K by (auto simp: engine_saved.simps dest: e_ok_D)
  have dir: "node_dir (pl_pid_String (st_libs st)) (bn_ID base) = en_storageDir e" "fm_storageDir fm = en_storageDir e"
    using K assms(5,7) by simp_all
  let ?sn = "bring_up st pos e (fm\<lparr>fm_engine := e\<rparr>) base d"
  have "NewEngine (node_dir (pl_pid_String (st_libs st)) (bn_ID base)) d = Inr e"
    using reopen_engine [of e d] K dir(1) by simp
  moreover have "NewFileManager (node_dir (pl_pid_String (st_libs st)) (bn_ID base)) d = Inr (fm\<lparr>fm_engine := e\<rparr>)"
    using reopen_files [of fm d e] K dir by simp
  ultimately have sn: "NewDecentralizedNode st config d = Ret (Inr ?sn)" by (rule start_succeeds [OF assms(6) nf])
  have id: "bn_ID (sn_node ?sn) = p" using assms(7) by simp
  have "net_step pid once setups net (node_after p (sn_state ?sn) net)"
    by (rule net_step.start) (use d assms(4,5) sn id in simp_all)
  moreover have "process_kept pid (nt_accepted net) p (Up (sn_state ?sn))" by (rule start_kept(1) [OF k assms(5) id sn])
  then have "\<forall>rq. (p, rq) \<in> set (nt_accepted net) \<longrightarrow> n_handleShardRequest et (Some (sq_FileHash rq, sq_ShardIndex rq)) (Some (sn_state ?sn)) =
         Some \<lparr>hr_Data = sq_ShardData rq, hr_Error = ''''\<rparr>" using kept_serves(1) by blast
  ultimately show ?thesis by (intro exI [of _ "node_after p (sn_state ?sn) net"]) (simp add: running_iff, simp add: node_after_def)
qed

section \<open>A small life\<close>

text \<open>One node, on an empty disk, that is started and takes a shard.\<close>

definition example_setups ::
  "peer_id \<Rightarrow> (8 word, 8 word, StorageProofCircuit \<Rightarrow> bool, nat, nat, nat \<times> public_witness) start_env \<Rightarrow> 8 word NodeConfig \<Rightarrow> bool" where
  "example_setups p st config \<longleftrightarrow> st = example_start \<and> config = example_config []"

definition example_network :: network where
  "example_network = \<lparr>nt_nodes = [''kkkkkkk'' \<mapsto> Down quiet_disk], nt_sent = [], nt_accepted = [], nt_crashed = [], nt_stored = []\<rparr>"

lemma example_pid: "pl_pid_String (st_libs example_start) = (\<lambda>i. i)"
  by (simp add: example_start_def example_libs_def)

lemma example_life:
  "\<exists>net nd nd0 resp. net_run (\<lambda>i. i) True example_setups net \<and> (''kkkkkkk'', first_shard) \<in> set (nt_accepted net) \<and>
     running net ''kkkkkkk'' = Some nd \<and> nd_self nd0 = ''kkkkkkk'' \<and> node_saved nd0 \<and> sr_Success resp \<and>
     n_handleStorageProtocol plain_errors 0 0 (Some first_shard) (Some nd0) = Ret (Some resp, Some nd)"
proof -
  obtain sn :: example_node and resp nd
    where st: "NewDecentralizedNode example_start (example_config []) quiet_disk = Ret (Inr sn)"
    and id: "bn_ID (sn_node sn) = ''kkkkkkk''"
    and a: "n_handleStorageProtocol plain_errors 0 0 (Some first_shard) (Some (sn_state sn)) = Ret (Some resp, Some nd)"
    and suc: "sr_Success resp"
    using first_shard_answered by blast
  let ?net1 = "node_after ''kkkkkkk'' (sn_state sn) example_network"
  let ?net2 = "(node_after ''kkkkkkk'' nd ?net1)\<lparr>nt_accepted := (if sr_Success resp then [(''kkkkkkk'', first_shard)] else []) @ nt_accepted ?net1\<rparr>"
  have "first_network (\<lambda>i. i) example_network"
    by (simp add: first_network_def example_network_def blank_disk_def quiet_disk_def no_faults_def)
  then have "net_run (\<lambda>i. i) True example_setups example_network" by (rule net_run.first)
  moreover have "net_step (\<lambda>i. i) True example_setups example_network ?net1"
    by (rule net_step.start) (use st id example_pid in \<open>simp_all add: example_network_def example_setups_def\<close>)
  ultimately have run: "net_run (\<lambda>i. i) True example_setups ?net1" by (rule net_run.more)
  have up: "running ?net1 ''kkkkkkk'' = Some (sn_state sn)" by (simp add: running_iff node_after_def)
  have "net_step (\<lambda>i. i) True example_setups ?net1 ?net2"
    by (rule net_step.request) (use a in \<open>simp_all add: running_iff node_after_def plain_request_def first_shard_def\<close>)
  with run have "net_run (\<lambda>i. i) True example_setups ?net2" by (rule net_run.more)
  moreover have "running ?net2 ''kkkkkkk'' = Some nd" by (simp add: running_iff node_after_def)
  moreover have "(''kkkkkkk'', first_shard) \<in> set (nt_accepted ?net2)" using suc by simp
  ultimately show ?thesis using net_keptD(2,3) [OF net_run_kept [OF run] up] a suc by blast
qed

theorem accepted_shards_survive_witness:
  "\<exists>net nd. net_run (\<lambda>i. i) True example_setups net \<and> running net ''kkkkkkk'' = Some nd \<and>
     n_handleShardRequest plain_errors (Some (''abc'', 1)) (Some nd) = Some \<lparr>hr_Data = [1], hr_Error = ''''\<rparr>"
proof -
  obtain net nd where n: "net_run (\<lambda>i. i) True example_setups net" "(''kkkkkkk'', first_shard) \<in> set (nt_accepted net)"
    "running net ''kkkkkkk'' = Some nd" using example_life by blast
  from accepted_shards_survive [OF this, of plain_errors] n show ?thesis by (auto simp: first_shard_def)
qed

theorem stopped_node_returns_witness:
  "\<exists>net net' nd. net_run (\<lambda>i. i) True example_setups net \<and> running net ''kkkkkkk'' = None \<and>
     net_step (\<lambda>i. i) True example_setups net net' \<and> running net' ''kkkkkkk'' = Some nd \<and>
     n_handleShardRequest plain_errors (Some (''abc'', 1)) (Some nd) = Some \<lparr>hr_Data = [1], hr_Error = ''''\<rparr>"
proof -
  obtain net nd where n: "net_run (\<lambda>i. i) True example_setups net" "(''kkkkkkk'', first_shard) \<in> set (nt_accepted net)"
    "running net ''kkkkkkk'' = Some nd" using example_life by blast
  let ?net = "node_gone ''kkkkkkk'' (nd_disk nd) net"
  have run: "net_run (\<lambda>i. i) True example_setups ?net" by (rule net_run.more [OF n(1) net_step.stop [OF n(3)]])
  have acc: "(''kkkkkkk'', first_shard) \<in> set (nt_accepted ?net)" using n(2) by (simp add: node_gone_def)
  have gone: "running ?net ''kkkkkkk'' = None" by (simp add: running_def node_gone_def)
  obtain base :: example_base and pos where up: "comes_up example_start (example_config []) base pos" "bn_ID base = ''kkkkkkk''"
    using example_comes_up by blast
  have own: "example_setups ''kkkkkkk'' example_start (example_config [])" by (simp add: example_setups_def)
  from stopped_node_returns [OF run acc gone own example_pid up, of plain_errors]
  obtain net' nd' where s: "net_step (\<lambda>i. i) True example_setups ?net net'" "running net' ''kkkkkkk'' = Some nd'"
    and served: "\<forall>rq. (''kkkkkkk'', rq) \<in> set (nt_accepted ?net) \<longrightarrow>
       n_handleShardRequest plain_errors (Some (sq_FileHash rq, sq_ShardIndex rq)) (Some nd') =
         Some \<lparr>hr_Data = sq_ShardData rq, hr_Error = ''''\<rparr>" by blast
  have "n_handleShardRequest plain_errors (Some (sq_FileHash first_shard, sq_ShardIndex first_shard)) (Some nd') =
      Some \<lparr>hr_Data = sq_ShardData first_shard, hr_Error = ''''\<rparr>" using served acc by blast
  then have "n_handleShardRequest plain_errors (Some (''abc'', 1)) (Some nd') = Some \<lparr>hr_Data = [1], hr_Error = ''''\<rparr>"
    by (simp add: first_shard_def)
  with run gone s show ?thesis by blast
qed

end
