(* ===== verification/Network_Listing.thy ===== *)
theory Network_Listing
  imports Network_Life Cluster_Correct
begin

text \<open>
  Who is listed for a file. In a network whose nodes store only files they do not know yet, every
  peer a node lists for a file, wherever it heard of it, has the metadata of the file, running or on
  its disk. A second store of a known file announces peers that need not hold anything.
\<close>

section \<open>Who knows a file\<close>

fun process_files :: "(peer_id \<Rightarrow> string) \<Rightarrow> peer_id \<Rightarrow> process \<Rightarrow> (string, FileMetadata) gomap" where
  "process_files pid p (Up nd) = fm_fileIndex (nd_fileManager nd)"
| "process_files pid p (Down d) =
     (case gm_get (dk_files d) (filepath_Join [node_dir pid p, ''file_metadata.gob'']) of
        Some (GobFiles m) \<Rightarrow> m | _ \<Rightarrow> [])"

definition knows :: "(peer_id \<Rightarrow> string) \<Rightarrow> network \<Rightarrow> peer_id \<Rightarrow> string \<Rightarrow> bool" where
  "knows pid net p h \<longleftrightarrow>
     (case nt_nodes net p of None \<Rightarrow> False | Some proc \<Rightarrow> gm_get (process_files pid p proc) h \<noteq> None)"

text \<open>A message that announces only peers of which \<open>K\<close> holds.\<close>

definition truthful :: "(peer_id \<Rightarrow> string \<Rightarrow> bool) \<Rightarrow> GossipMessage \<Rightarrow> bool" where
  "truthful K msg \<longleftrightarrow>
     (case gs_Payload msg of
        AnnouncePayload a \<Rightarrow> list_all (\<lambda>l. list_all (\<lambda>q. K q (fl_FileHash l)) (fl_PeerIDs l)) (fa_Locations a)
      | _ \<Rightarrow> True)"

definition node_listed :: "(peer_id \<Rightarrow> string \<Rightarrow> bool) \<Rightarrow> DNode \<Rightarrow> bool" where
  "node_listed K nd \<longleftrightarrow>
     (\<forall>h q. q \<in> storing_peers (nd_view nd) h \<longrightarrow> K q h) \<and> list_all (truthful K) (nd_published nd)"

definition net_listed :: "(peer_id \<Rightarrow> string) \<Rightarrow> network \<Rightarrow> bool" where
  "net_listed pid net \<longleftrightarrow>
     (\<forall>p nd. running net p = Some nd \<longrightarrow> node_listed (knows pid net) nd) \<and>
     list_all (\<lambda>(q, msg). truthful (knows pid net) msg) (nt_sent net)"

lemma truthful_mono: "truthful K msg \<Longrightarrow> (\<And>q h. K q h \<Longrightarrow> K' q h) \<Longrightarrow> truthful K' msg"
  by (auto simp: truthful_def list_all_iff split: GossipPayload.splits)

lemma node_listed_mono: "node_listed K nd \<Longrightarrow> (\<And>q h. K q h \<Longrightarrow> K' q h) \<Longrightarrow> node_listed K' nd"
  by (auto simp: node_listed_def list_all_iff intro: truthful_mono)

lemma kept_files: "node_kept pid acc p e fm d \<Longrightarrow> process_files pid p (Down d) = fm_fileIndex fm"
  by (auto simp: node_kept_def files_saved.simps saved_as_def split: option.splits)

lemma knows_after: "knows pid (node_after p nd net) q h \<longleftrightarrow>
    (if q = p then gm_get (fm_fileIndex (nd_fileManager nd)) h \<noteq> None else knows pid net q h)"
  by (simp add: knows_def node_after_def)

lemma knows_gone: "knows pid (node_gone p d net) q h \<longleftrightarrow>
    (if q = p then gm_get (process_files pid p (Down d)) h \<noteq> None else knows pid net q h)"
  by (simp add: knows_def node_gone_def)

lemma knows_histories [simp]:
  "knows pid (net\<lparr>nt_accepted := acc\<rparr>) = knows pid net" "knows pid (net\<lparr>nt_crashed := x\<rparr>) = knows pid net"
  "knows pid (net\<lparr>nt_stored := y\<rparr>) = knows pid net"
  by (intro ext, simp add: knows_def)+

lemma knows_running: "running net p = Some nd \<Longrightarrow> knows pid net p h \<longleftrightarrow> gm_get (fm_fileIndex (nd_fileManager nd)) h \<noteq> None"
  by (simp add: knows_def running_iff)

lemma net_listed_histories [simp]:
  "net_listed pid (net\<lparr>nt_accepted := acc\<rparr>) = net_listed pid net" "net_listed pid (net\<lparr>nt_crashed := x\<rparr>) = net_listed pid net"
  "net_listed pid (net\<lparr>nt_stored := y\<rparr>) = net_listed pid net"
  by (simp_all add: net_listed_def running_def)

lemma listed_after:
  assumes net: "net_listed pid net" and mono: "\<And>h. knows pid net p h \<Longrightarrow> gm_get (fm_fileIndex (nd_fileManager nd')) h \<noteq> None"
    and nd': "node_listed (knows pid (node_after p nd' net)) nd'"
  shows "net_listed pid (node_after p nd' net)"
proof -
  have K: "knows pid (node_after p nd' net) q h" if "knows pid net q h" for q h
    using that mono by (cases "q = p") (simp_all add: knows_after)
  have "node_listed (knows pid (node_after p nd' net)) nd" if "running (node_after p nd' net) q = Some nd" for q nd
  proof (cases "q = p")
    case True
    with that nd' show ?thesis by (simp add: running_iff node_after_def)
  next
    case False
    with that have "running net q = Some nd" by (simp add: running_iff node_after_def)
    with net have "node_listed (knows pid net) nd" by (simp add: net_listed_def)
    then show ?thesis using K by (rule node_listed_mono)
  qed
  moreover have "list_all (\<lambda>(q, msg). truthful (knows pid (node_after p nd' net)) msg) (nt_sent (node_after p nd' net))"
    using net nd' by (auto simp: net_listed_def node_listed_def node_after_def [of p nd' net] list_all_iff
        intro: truthful_mono [OF _ K [unfolded node_after_def]])
  ultimately show ?thesis by (simp add: net_listed_def)
qed

lemma listed_gone:
  assumes net: "net_listed pid net" and mono: "\<And>h. knows pid net p h \<Longrightarrow> gm_get (process_files pid p (Down d)) h \<noteq> None"
  shows "net_listed pid (node_gone p d net)"
proof -
  have K: "knows pid (node_gone p d net) q h" if "knows pid net q h" for q h
    using that mono by (cases "q = p") (simp_all add: knows_gone del: process_files.simps)
  have "node_listed (knows pid (node_gone p d net)) nd" if "running (node_gone p d net) q = Some nd" for q nd
  proof -
    have "running net q = Some nd" using that by (simp add: running_iff node_gone_def split: if_splits)
    with net have "node_listed (knows pid net) nd" by (simp add: net_listed_def)
    then show ?thesis using K by (rule node_listed_mono)
  qed
  moreover have "nt_sent (node_gone p d net) = nt_sent net" by (simp add: node_gone_def)
  ultimately show ?thesis using net K by (auto simp: net_listed_def list_all_iff intro: truthful_mono)
qed

section \<open>What the steps do to the lists\<close>

lemma own_step_storing: "own_step self nv nv' \<Longrightarrow> storing_peers nv' h \<subseteq> storing_peers nv h"
proof (induction rule: own_step.induct)
  case (connected nv now p)
  have "nv_fileIndex (dn_onPeerConnected now p nv) = nv_fileIndex nv" by (simp add: dn_onPeerConnected_def Let_def)
  then show ?case by (simp add: storing_peers_def)
next
  case (disconnected nv p)
  then show ?case by (simp add: storing_peers_def dn_onPeerDisconnected_def)
next
  case (discover nv routingTable peerstore pd)
  have dial: "nv_fileIndex (snd (pd_tryConnectToPeer a s)) = nv_fileIndex (snd s)" for a s
    by (auto simp: pd_tryConnectToPeer_def pd_updateNetworkView_def Let_def split: prod.splits)
  have "nv_fileIndex (snd (fold pd_tryConnectToPeer as s)) = nv_fileIndex (snd s)" for "as" s
    by (induction "as" arbitrary: s) (simp_all add: dial)
  then have "nv_fileIndex (snd (pd_discoverFromDHT routingTable s)) = nv_fileIndex (snd s)" for s
    by (simp add: pd_discoverFromDHT_def split: option.splits)
  moreover have "nv_fileIndex (snd (fold (peerstore_attempt self) as s)) = nv_fileIndex (snd s)" for "as" s
    by (induction "as" arbitrary: s) (simp_all add: peerstore_attempt_def dial)
  ultimately show ?case by (simp add: storing_peers_def pd_discoverPeers_def pd_discoverFromPeerstore_def)
next
  case (maintain nv now1 now2)
  have "gm_get (nv_fileIndex (dn_maintainNetworkState now1 now2 nv)) h =
      map_option (filter (\<lambda>p. p \<notin> set (map fst (filter (\<lambda>(p, i). stale (now1 - 10 * minute) i) (nv_peers nv))))) (gm_get (nv_fileIndex nv) h)"
    by (simp add: dn_maintainNetworkState_def dn_updateNetworkMetrics_def dn_cleanupStalePeers_def cleanup_fold removePeers_eq)
  then show ?case by (auto simp: storing_peers_def gm_get_or_def split: option.splits)
next
  case (review nv now)
  have "nv_fileIndex (fold (rs_reviewPeer now) ps v) = nv_fileIndex v" for ps v
    by (induction ps arbitrary: v) (auto simp: rs_reviewPeer_def Let_def split: prod.splits)
  then show ?case by (simp add: storing_peers_def rs_performReputationUpdate_def)
next
  case (success nv p)
  have "nv_fileIndex (rs_RecordSuccessfulInteraction p nv) = nv_fileIndex nv"
    by (simp add: rs_RecordSuccessfulInteraction_def Let_def split: option.splits)
  then show ?case by (simp add: storing_peers_def)
next
  case (failure nv p)
  have "nv_fileIndex (rs_RecordFailedInteraction p nv) = nv_fileIndex nv"
    by (simp add: rs_RecordFailedInteraction_def Let_def split: option.splits)
  then show ?case by (simp add: storing_peers_def)
next
  case (removed nv g p)
  show ?case
    by (auto simp: storing_peers_def gm_get_or_def RemoveFileFromIndex_eq drop_peer_def split: option.splits if_splits)
qed

text \<open>A message adds the peers it announces, and no other.\<close>

lemma readMessage_storing:
  assumes "gm_readMessage pid self now from (Some msg) nv = Ret nv'" and "truthful K msg"
    and "q \<in> storing_peers nv' h"
  shows "q \<in> storing_peers nv h \<or> K q h"
proof (cases "from = self")
  case True
  then show ?thesis using assms by (simp add: gm_readMessage_def)
next
  case False
  then have m: "gm_handleGossipMessage pid now msg nv = Ret nv'" using assms(1) by (simp add: gm_readMessage_def)
  show ?thesis
  proof (cases "gs_Type msg")
    case GossipTypeNodeInfo
    then have "nv' = gm_handleNodeInfoMessage now msg nv" using m by (simp add: gm_handleGossipMessage_def)
    then have "nv_fileIndex nv' = nv_fileIndex nv"
      by (auto simp: gm_handleNodeInfoMessage_def Let_def split: GossipPayload.splits option.splits)
    with assms(3) show ?thesis by (simp add: storing_peers_def)
  next
    case GossipTypeFileAnnounce
    show ?thesis
    proof (cases "\<exists>a. gs_Payload msg = AnnouncePayload a")
      case True
      then obtain a where a: "gs_Payload msg = AnnouncePayload a" by blast
      with m GossipTypeFileAnnounce have "nv' = fold add_location (fa_Locations a) nv"
        by (auto simp: gm_handleGossipMessage_def gm_handleFileAnnounceMessage_def Let_def go_bind_Ret_iff)
      with assms(2,3) a show ?thesis by (auto simp: add_locations_peers truthful_def list_all_iff)
    next
      case False
      with m GossipTypeFileAnnounce have "nv' = nv"
        by (auto simp: gm_handleGossipMessage_def gm_handleFileAnnounceMessage_def split: GossipPayload.splits)
      with assms(3) show ?thesis by simp
    qed
  next
    case GossipTypeFileDelete
    then have "nv' = gm_handleFileDeleteMessage msg nv" using m by (simp add: gm_handleGossipMessage_def)
    with assms(3) show ?thesis
      by (auto simp: handleFileDelete_eq storing_peers_def gm_get_or_def RemoveFileFromIndex_eq drop_peer_def
          split: GossipPayload.splits option.splits if_splits)
  qed (use m assms(3) in \<open>auto simp: gm_handleGossipMessage_def gm_handleValidatorUpdateMessage_def go_bind_Ret_iff
      split: GossipPayload.splits\<close>)
qed

text \<open>Announcing the local files.\<close>

lemma announce_one_listed:
  assumes "node_listed K nd" and "gm_get (fm_fileIndex (nd_fileManager nd)) h \<noteq> None \<Longrightarrow> K i h"
  shows "node_listed K (so_announceFileToNetwork env clock h [i] nd)"
proof (cases "gm_get (fm_fileIndex (nd_fileManager nd)) h")
  case None
  then show ?thesis using assms(1) by (simp add: announce_unknown)
next
  case (Some md)
  then have "storing_peers (nd_view (so_announceFileToNetwork env clock h [i] nd)) g =
      (if g = h then {i} else storing_peers (nd_view nd) g)" for g
    by (auto simp: so_announceFileToNetwork_def fm_GetFileInfo_def publish_retry_def Let_def storing_peers_def gm_get_or_def)
  moreover have "list_all (truthful K) (nd_published (so_announceFileToNetwork env clock h [i] nd))"
    using assms Some
    by (auto simp: so_announceFileToNetwork_def fm_GetFileInfo_def publish_retry_def Let_def node_listed_def truthful_def)
  ultimately show ?thesis using assms Some by (auto simp: node_listed_def split: if_splits)
qed

lemma announceLocalFiles_listed:
  assumes "node_listed K nd" and "\<And>h. gm_get (fm_fileIndex (nd_fileManager nd)) h \<noteq> None \<Longrightarrow> K (nd_self nd) h"
  shows "node_listed K (dn_announceLocalFiles env clock nd)"
proof -
  have "node_listed K (announce_list env clock (nd_self nd) ms x)" if "node_listed K x" "nd_fileManager x = nd_fileManager nd" for ms x
    using that
  proof (induction ms arbitrary: x)
    case (Cons m ms)
    have "node_listed K (so_announceFileToNetwork env clock (md_FileHash m) [nd_self nd] x)"
      by (rule announce_one_listed [OF Cons.prems(1)]) (use Cons.prems(2) assms(2) in simp)
    with Cons.IH Cons.prems(2) show ?case by simp
  qed simp
  then show ?thesis using assms(1) by (simp add: dn_announceLocalFiles_def)
qed

text \<open>A store of a file the node does not know announces nothing.\<close>

lemma store_listed:
  assumes st: "so_StoreFileDistributed rs env clock f data n k nd = Ret (r, nd')"
    and new: "gm_get (fm_fileIndex (nd_fileManager nd)) (CalculateFileHash data) = None"
  shows "nd_view nd' = nd_view nd \<and> nd_published nd' = nd_published nd"
  using st
proof (cases rule: store_cases)
  case (stored ops peers nd1 q s)
  then have "nd1 = nd\<lparr>nd_pendingOps := ops\<rparr>" using new by (simp add: announce_unknown)
  then show ?thesis using stored(4) by (simp add: node_defs)
qed simp

text \<open>A storage request lists the node itself for the file of an accepted shard.\<close>

lemma request_listed:
  assumes h: "n_handleStorageProtocol et now1 now2 (Some req) (Some nd) = Ret (Some resp, Some nd')" and req: "plain_request req"
  shows "nd_published nd' = nd_published nd"
    and "storing_peers (nd_view nd') g \<subseteq> storing_peers (nd_view nd) g \<union>
      (if g = sq_FileHash req \<and> sr_Success resp then {nd_self nd} else {})"
proof -
  have a: "node_accept et now1 now2 req nd = Ret (resp, nd')" using h by (simp add: node_accept_def)
  have own: "storing_peers (dn_UpdateFileIndex x p nv) y = storing_peers nv y \<union> (if y = x then {p} else {})" for x y p nv
    by (auto simp: storing_peers_def gm_get_or_def [of _ "nv_fileIndex (dn_UpdateFileIndex x p nv)"] UpdateFileIndex_eq append_new_def)
      (auto simp: gm_get_or_def)
  from a req have "nd_published nd' = nd_published nd \<and>
    storing_peers (nd_view nd') g \<subseteq> storing_peers (nd_view nd) g \<union>
      (if g = sq_FileHash req \<and> sr_Success resp then {nd_self nd} else {})"
  proof (cases rule: node_accept_cases)
    case (refused x s)
    then show ?thesis by (simp add: node_defs)
  next
    case (stored s q)
    from stored(2) obtain q1 s1 where
      "nd' = set_files s1 (set_store s nd) \<or> nd' = (set_files s1 (set_store s nd))
         \<lparr>nd_view := index_own_shard (sq_FileHash req) (nd_self (set_store s nd)) (nd_view (set_store s nd))\<rparr>"
      by (rule updateFileMetadata_saves)
    with stored(3) show ?thesis by (auto simp: node_defs index_own_shard_eq own)
  qed
  then show "nd_published nd' = nd_published nd"
    and "storing_peers (nd_view nd') g \<subseteq> storing_peers (nd_view nd) g \<union>
      (if g = sq_FileHash req \<and> sr_Success resp then {nd_self nd} else {})" by blast+
qed

section \<open>The invariant\<close>

lemma knows_carries:
  assumes "running net p = Some nd" and "carries nd nd'" and "knows pid net p h"
  shows "gm_get (fm_fileIndex (nd_fileManager nd')) h \<noteq> None"
  using assms by (simp add: knows_running carries_def del: not_None_eq)

text \<open>An operation of a running node that loses nothing and lists only peers that know.\<close>

lemma listed_carries:
  assumes net: "net_listed pid net" and p: "running net p = Some nd" and c: "carries nd nd'"
    and nd': "node_listed (knows pid (node_after p nd' net)) nd \<Longrightarrow> node_listed (knows pid (node_after p nd' net)) nd'"
  shows "net_listed pid (node_after p nd' net)"
proof (rule listed_after [OF net knows_carries [OF p c] nd'])
  have "node_listed (knows pid net) nd" using net p by (simp add: net_listed_def)
  then show "node_listed (knows pid (node_after p nd' net)) nd"
    by (rule node_listed_mono) (use knows_carries [OF p c] in \<open>auto simp: knows_after simp del: not_None_eq\<close>)
qed

lemma view_listed:
  "\<lbrakk>node_listed K nd; nd_published nd' = nd_published nd; \<And>q h. q \<in> storing_peers (nd_view nd') h \<Longrightarrow> q \<in> storing_peers (nd_view nd) h \<or> K q h\<rbrakk>
   \<Longrightarrow> node_listed K nd'"
  by (auto simp: node_listed_def)

text \<open>An operation that only changes the view, and lists only peers that know.\<close>

lemma listed_same:
  assumes net: "net_kept pid net" "net_listed pid net" and p: "running net p = Some nd"
    and same: "nd_self nd' = nd_self nd" "nd_storage nd' = nd_storage nd" "nd_fileManager nd' = nd_fileManager nd" "nd_disk nd' = nd_disk nd"
    and pub: "nd_published nd' = nd_published nd"
    and lists: "\<And>q h. q \<in> storing_peers (nd_view nd') h \<Longrightarrow> q \<in> storing_peers (nd_view nd) h \<or> knows pid net q h"
  shows "net_listed pid (node_after p nd' net)"
proof (rule listed_carries [OF net(2) p carries_same [OF net_keptD(3,4) [OF net(1) p] same]], erule view_listed [OF _ pub])
  fix q h
  assume "q \<in> storing_peers (nd_view nd') h"
  moreover have "knows pid (node_after p nd' net) q h" if "knows pid net q h"
    using that p same(3) by (cases "q = p") (simp_all add: knows_after knows_running)
  ultimately show "q \<in> storing_peers (nd_view nd) h \<or> knows pid (node_after p nd' net) q h" using lists by blast
qed

lemma list_of_running:
  assumes "net_kept pid net" and "q \<in> listed_by (node_rpc w (running net)) h p"
  shows "knows pid net q h"
proof -
  obtain nd where nd: "running net p = Some nd" and q: "q = nd_self nd"
    and h: "h \<in> md_FileHash ` set (fm_ListFiles (nd_fileManager nd))"
    using assms(2) by (auto simp: listed_by_cluster split: option.splits if_splits)
  note D = net_keptD [OF assms(1) nd]
  show ?thesis using keyed_listed [OF D(4)] h q D(2) nd by (simp add: knows_running)
qed

lemma net_step_listed:
  assumes "net_step pid once setups net net'" and "once" and "net_kept pid net" and "net_listed pid net"
  shows "net_listed pid net'"
  using assms
proof (induction rule: net_step.induct)
  case (start net p d st config sn)
  from start(1,7) obtain e fm where k: "node_kept pid (nt_accepted net) p e fm d" by (fastforce simp: net_kept_def)
  note S = start_kept [OF k start(3,5,4)]
  have same: "knows pid net p h \<longleftrightarrow> gm_get (fm_fileIndex (nd_fileManager (sn_state sn))) h \<noteq> None" for h
    using start(1) kept_files [OF k] S(4) by (simp add: knows_def del: process_files.simps)
  have "index_keyed (fm_fileIndex fm)" using k by (simp add: node_kept_def)
  then have "node_listed (knows pid (node_after p (sn_state sn) net)) (sn_state sn)"
    using S keyed_listed [of fm] by (auto simp: node_listed_def storing_initial knows_after split: if_splits)
  then show ?case by (intro listed_after [OF start(8)]) (use same in simp_all)
next
  case (stop net p nd)
  have "node_kept pid (nt_accepted net) p (nd_storage nd) (nd_fileManager nd) (nd_disk nd)"
    using net_keptD(1) [OF stop(3,1)] by simp
  from listed_gone [OF stop(4), of p "nd_disk nd"] kept_files [OF this] stop(1) show ?case
    by (simp add: knows_running del: process_files.simps)
next
  case (request net p nd req et now1 now2 resp nd')
  note D = net_keptD [OF request(5,1)]
  note A = carries_accept [OF D(3,4) request(2,3)]
  note L = request_listed [OF request(3,2)]
  have "net_listed pid (node_after p nd' net)"
  proof (rule listed_carries [OF request(6,1) A(1)], erule view_listed [OF _ L(1)])
    fix q h
    assume "q \<in> storing_peers (nd_view nd') h"
    with L(2) [of h] A(2) D(2) show "q \<in> storing_peers (nd_view nd) h \<or> knows pid (node_after p nd' net) q h"
      by (auto simp: knows_after split: if_splits)
  qed
  then show ?case by simp
next
  case (crash net p nd req et now1 now2 r s)
  have "node_kept pid (nt_accepted net) p (fst s) (nd_fileManager nd) (snd s)"
    by (rule crash_kept [OF net_keptD(1) [OF crash(6,1)] crash(2,4)])
  from listed_gone [OF crash(7), of p "snd s"] kept_files [OF this] crash(1) show ?case
    by (simp add: knows_running del: process_files.simps)
next
  case (hear net p nd q msg now nv')
  have "truthful (knows pid net) msg" using hear(2,6) by (auto simp: net_listed_def list_all_iff)
  from readMessage_storing [OF hear(3) this] show ?case by (intro listed_same [OF hear(5,6,1)]) simp_all
next
  case (announce net p nd env clock)
  note D = net_keptD [OF announce(3,1)]
  have c: "carries nd (dn_announceLocalFiles env clock nd)"
    by (rule carries_same [OF D(3,4)]) (simp_all add: announceLocalFiles_frame)
  show ?case
    by (rule listed_carries [OF announce(4,1) c], erule announceLocalFiles_listed)
      (use D(2) in \<open>simp add: knows_after announceLocalFiles_frame\<close>)
next
  case (store net p nd env data rs clock f n k r nd')
  note D = net_keptD [OF store(6,1)]
  have "gm_get (fm_fileIndex (nd_fileManager nd)) (CalculateFileHash data) = None" using store(3,5) by simp
  from store_listed [OF store(4) this] have "net_listed pid (node_after p nd' net)"
    by (intro listed_carries [OF store(7,1) carries_store [OF D(3,4) store(4)]]) (simp add: node_listed_def)
  then show ?case by simp
next
  case (retrieve net p nd rs w h r nd')
  have "nd' = so_SyncNetworkView (node_rpc w (running net)) nd" using retrieve(2) by (rule retrieve_view)
  then show ?case
    by (intro listed_same [OF retrieve(4,5,1)])
      (use list_of_running [OF retrieve(4)] in \<open>auto simp: Sync_frame Sync_storing\<close>)
next
  case (own net p nd nv')
  show ?case by (rule listed_same [OF own(4,5,1)]) (use own_step_storing [OF own(2)] in auto)
next
  case (link net p nd ps)
  show ?case by (rule listed_same [OF link(3,4,1)]) simp_all
next
  case (tidy net p nd now)
  show ?case by (rule listed_same [OF tidy(3,4,1)]) (simp_all add: so_cleanupCompletedOperations_def Let_def)
qed

lemma first_listed: "first_network pid net \<Longrightarrow> net_listed pid net"
  by (fastforce simp: first_network_def net_listed_def running_iff)

lemma net_run_listed: "net_run pid once setups net \<Longrightarrow> once \<Longrightarrow> net_listed pid net"
  by (induction rule: net_run.induct) (auto simp: first_listed intro: net_step_listed net_run_kept)


lemma request_lists_self:
  assumes sv: "node_saved nd" and req: "plain_request req"
    and h: "n_handleStorageProtocol et now1 now2 (Some req) (Some nd) = Ret (Some resp, Some nd')" and suc: "sr_Success resp"
  shows "nd_self nd \<in> storing_peers (nd_view nd') (sq_FileHash req)"
proof -
  have a: "node_accept et now1 now2 req nd = Ret (resp, nd')" using h by (simp add: node_accept_def)
  from a req obtain s q where st: "e_StoreChunk (request_chunk req) (sq_ShardData req) (nd_store nd) = (Inr (), s)"
    and u: "n_updateFileMetadata now1 now2 req (set_store s nd) = Ret (q, nd')"
    by (cases rule: node_accept_cases) (use suc in auto)
  from u obtain q1 s1 where m: "save_shard_metadata now1 now2 req (set_store s nd) = Ret (q1, s1)"
    by (auto simp: n_updateFileMetadata_def go_bind_Ret_iff)
  have "q1 = Inr ()"
    by (rule save_shard_metadata_saved(1) [OF StoreChunk_saved(1) [OF sv request_chunk_valid [OF req] st] m])
  with u m have "nd_view nd' = dn_UpdateFileIndex (sq_FileHash req) (nd_self nd) (nd_view nd)"
    by (auto simp: n_updateFileMetadata_def Let_def node_defs index_own_shard_eq)
  then show ?thesis by (simp add: storing_peers_def gm_get_or_def UpdateFileIndex_eq append_new_def)
qed


section \<open>A file stored twice\<close>

text \<open>
  A peer that refuses is listed. When a node stores a file whose metadata it has already, the
  announcement goes out and names every chosen peer, whether it took its shard or not, the node
  itself, and every gateway the node is connected to; the node's own view lists them too.
\<close>

theorem second_store_lists_everyone:
  assumes "so_StoreFileDistributed rs env clock f data n k nd = Ret (Inr h, nd')"
    and "gm_get (fm_fileIndex (nd_fileManager nd)) h \<noteq> None" and "list_ex (rpc_publish env) [0, 1, 2]"
    and "so_selectStoragePeers n nd = Ret peers"
  shows "storing_peers (nd_view nd') h = set peers \<union> {nd_self nd} \<union> set (so_findGatewayPeers nd) \<and>
    (\<exists>msg a l. nd_published nd' = nd_published nd @ [msg] \<and> gs_Payload msg = AnnouncePayload a \<and> fa_Locations a = [l] \<and>
       fl_FileHash l = h \<and> set (fl_PeerIDs l) = set peers \<union> {nd_self nd} \<union> set (so_findGatewayPeers nd))"
proof -
  let ?ps = "\<lambda>ops. so_getAnnouncementPeers peers (nd\<lparr>nd_pendingOps := ops\<rparr>)"
  from assms(1,4) obtain ops where h: "h = CalculateFileHash data"
    and nd': "nd' = snd (so_storeFileMetadataLocally clock h f data n k peers
       (so_announceFileToNetwork env clock h (?ps ops) (nd\<lparr>nd_pendingOps := ops\<rparr>)))"
    by (auto simp: so_StoreFileDistributed_def go_bind_Ret_iff Let_def split: if_splits sum.splits)
  obtain md where md: "gm_get (fm_fileIndex (nd_fileManager nd)) h = Some md" using assms(2) by blast
  have ps: "set (?ps ops) = set peers \<union> {nd_self nd} \<union> set (so_findGatewayPeers nd)"
    by (auto simp: so_getAnnouncementPeers_def fold_append_new_set so_findGatewayPeers_def)
  let ?nd1 = "so_announceFileToNetwork env clock h (?ps ops) (nd\<lparr>nd_pendingOps := ops\<rparr>)"
  have meta: "nd_view nd' = nd_view ?nd1" "nd_published nd' = nd_published ?nd1"
    by (simp_all add: nd' so_storeFileMetadataLocally_def node_defs Let_def split: prod.splits)
  have "storing_peers (nd_view nd') h = set (?ps ops)"
    using md by (simp add: meta so_announceFileToNetwork_def fm_GetFileInfo_def publish_retry_def Let_def storing_peers_def gm_get_or_def)
  moreover
  let ?l = "\<lparr>fl_FileHash = h, fl_ShardHashes = md_ShardHashes md, fl_PeerIDs = ?ps ops, fl_Timestamp = clock 2,
      fl_FileSize = md_FileSize md, fl_TotalShards = md_TotalShards md, fl_RequiredShards = md_RequiredShards md\<rparr>"
  let ?a = "\<lparr>fa_FileHash = h, fa_Locations = [?l], fa_Timestamp = clock 3, fa_SourcePeer = nd_self nd\<rparr>"
  let ?msg = "\<lparr>gs_Type = GossipTypeFileAnnounce, gs_PeerID = nd_self nd, gs_Timestamp = clock 4, gs_Payload = AnnouncePayload ?a\<rparr>"
  have "nd_published nd' = nd_published nd @ [?msg]"
    using md assms(3)
    by (simp add: meta so_announceFileToNetwork_def fm_GetFileInfo_def publish_retry_def Let_def)
  ultimately show ?thesis
    unfolding ps [symmetric] by (intro conjI exI [of _ ?msg] exI [of _ ?a] exI [of _ ?l]) simp_all
qed

definition twice_node :: DNode where
  "twice_node = three_peer_node\<lparr>nd_fileManager := (nd_fileManager three_peer_node)
     \<lparr>fm_fileIndex := [(CalculateFileHash [1, 2], new_metadata (CalculateFileHash [1, 2]) ''f'' [1, 2] 3 2 [] 0 0)]\<rparr>\<rparr>"

definition one_refuses_rpc :: rpc where
  "one_refuses_rpc = accepting_rpc\<lparr>rpc_store := \<lambda>p r. Inr \<lparr>sr_Success = (p \<noteq> ''c''), sr_Error = ''full'', sr_Message = '''', sr_Data = []\<rparr>\<rparr>"

theorem second_store_lists_everyone_witness:
  "\<exists>nd'. so_StoreFileDistributed xor_codec one_refuses_rpc (\<lambda>_. 0) ''f'' [1, 2] 3 2 twice_node = Ret (Inr (CalculateFileHash [1, 2]), nd') \<and>
     ''c'' \<in> storing_peers (nd_view nd') (CalculateFileHash [1, 2])"
proof -
  have "\<not> f_lt (Fin 1) (f64 (3 / 10))" by code_simp
  then have "peer_suitable (new_peer 0 None)" by (simp add: peer_suitable_def new_peer_def)
  then have sel: "so_selectStoragePeers 3 twice_node = Ret [''a'', ''b'', ''c'']"
    by (simp add: so_selectStoragePeers_def rs_GetBestPeers_def twice_node_def three_peer_node_def example_node_def NewNetworkView_def)
  then obtain nd' where st: "so_StoreFileDistributed xor_codec one_refuses_rpc (\<lambda>_. 0) ''f'' [1, 2] 3 2 twice_node =
      Ret (Inr (CalculateFileHash [1, 2]), nd')"
    by (simp add: so_StoreFileDistributed_def xor_shards_12 go_make_def Let_def so_distributeShardToPeer_def one_refuses_rpc_def)
  have "gm_get (fm_fileIndex (nd_fileManager twice_node)) (CalculateFileHash [1, 2]) \<noteq> None" by (simp add: twice_node_def)
  moreover have "list_ex (rpc_publish one_refuses_rpc) [0, 1, 2]" by (simp add: one_refuses_rpc_def accepting_rpc_def)
  ultimately have "set [''a'', ''b'', ''c''] \<subseteq> storing_peers (nd_view nd') (CalculateFileHash [1, 2])"
    using second_store_lists_everyone [OF st _ _ sel] by blast
  then have "''c'' \<in> storing_peers (nd_view nd') (CalculateFileHash [1, 2])" by (rule subsetD) simp
  with st show ?thesis by blast
qed

end
