(* ===== verification/Network_Files.thy ===== *)
theory Network_Files
  imports Network_Listing
begin

text \<open>
  The life of a file in a network. Every chunk a node can read, running or on its disk, is the shard
  of a request it took, and the node that stored a file keeps the file's metadata as they were; so a
  file once stored comes back, whatever the network has been through.
\<close>

section \<open>The names of shards\<close>

lemma dec_no_underscore: "CHR ''_'' \<notin> set (dec i)"
proof -
  have "CHR ''_'' \<notin> set (dec_nat n)" for n
  proof
    assume "CHR ''_'' \<in> set (dec_nat n)"
    then obtain d where d: "d < 10" and s: "CHR ''_'' = digit_char d" by (blast dest: dec_nat_chars)
    have "digit_char d \<noteq> CHR ''_''" by (rule digit_char_neq [OF d]) simp
    with s show False by simp
  qed
  then show ?thesis by (simp add: dec_def)
qed

lemma dec_eq_int: "dec i = dec (int j) \<Longrightarrow> i = int j"
proof (cases "0 \<le> i")
  case False
  assume "dec i = dec (int j)"
  then have "hd (dec_nat j) = CHR ''-''" using False by (simp add: dec_def split: if_splits) (metis list.sel(1))
  then show ?thesis using hd_dec_nat [of j] digit_char_neq [of _ "CHR ''-''"] by auto
qed (simp add: dec_inject)

lemma last_separator:
  "c \<notin> set x \<Longrightarrow> c \<notin> set y \<Longrightarrow> g @ c # x = h @ c # y \<Longrightarrow> g = h \<and> x = y"
  by (induction g arbitrary: h) (auto simp: Cons_eq_append_conv append_eq_Cons_conv)

text \<open>The name of a chunk says which shard of which file it is.\<close>

lemma request_chunk_names:
  assumes "request_chunk req = shard_id h j"
  shows "sq_FileHash req = h \<and> sq_ShardIndex req = int j"
proof -
  have "(sq_FileHash req @ ''_shard'') @ CHR ''_'' # dec (sq_ShardIndex req) = (h @ ''_shard'') @ CHR ''_'' # dec (int j)"
    using assms by (simp add: request_chunk_def shard_id_def)
  from last_separator [OF dec_no_underscore dec_no_underscore this] show ?thesis using dec_eq_int by simp
qed

section \<open>Where chunks come from\<close>

definition chunks_from :: "(peer_id \<times> StorageRequest) list \<Rightarrow> peer_id \<Rightarrow> store \<Rightarrow> bool" where
  "chunks_from taken p s \<longleftrightarrow>
     (\<forall>k b. e_RetrieveChunk k s = Inr b \<longrightarrow> (\<exists>req. (p, req) \<in> set taken \<and> request_chunk req = k \<and> sq_ShardData req = b))"

fun process_store :: "(peer_id \<Rightarrow> string) \<Rightarrow> peer_id \<Rightarrow> process \<Rightarrow> store option" where
  "process_store pid p (Up nd) = Some (nd_store nd)"
| "process_store pid p (Down d) = (case NewEngine (node_dir pid p) d of Inl err \<Rightarrow> None | Inr e \<Rightarrow> Some (e, d))"

definition taken :: "network \<Rightarrow> (peer_id \<times> StorageRequest) list" where
  "taken net = nt_accepted net @ nt_crashed net"

text \<open>The metadata a store leaves at the node that stores.\<close>

definition describes_stored :: "bytes \<Rightarrow> int \<Rightarrow> int \<Rightarrow> (string, FileMetadata) gomap \<Rightarrow> bool" where
  "describes_stored data n k files \<longleftrightarrow>
     (\<exists>md. gm_get files (CalculateFileHash data) = Some md \<and> md_TotalShards md = n \<and> md_RequiredShards md = k \<and>
        md_OriginalSize md = int (length data) \<and> md_ShardHashes md = [])"

definition net_filed :: "(peer_id \<Rightarrow> string) \<Rightarrow> network \<Rightarrow> bool" where
  "net_filed pid net \<longleftrightarrow>
     (\<forall>p proc s. nt_nodes net p = Some proc \<longrightarrow> process_store pid p proc = Some s \<longrightarrow> chunks_from (taken net) p s) \<and>
     (\<forall>a data n k. (a, data, n, k) \<in> set (nt_stored net) \<longrightarrow>
        (\<exists>proc. nt_nodes net a = Some proc \<and> describes_stored data n k (process_files pid a proc)))"

lemma net_filedD:
  "net_filed pid net \<Longrightarrow> nt_nodes net p = Some proc \<Longrightarrow> process_store pid p proc = Some s \<Longrightarrow> chunks_from (taken net) p s"
  "net_filed pid net \<Longrightarrow> nt_nodes net p = Some proc \<Longrightarrow> (p, data, n, k) \<in> set (nt_stored net) \<Longrightarrow>
     describes_stored data n k (process_files pid p proc)"
  unfolding net_filed_def by (blast, force)

lemma chunks_from_mono: "chunks_from xs p s \<Longrightarrow> set xs \<subseteq> set ys \<Longrightarrow> chunks_from ys p s"
  unfolding chunks_from_def by blast

text \<open>A store changes by at most the chunk of a request that is among those taken.\<close>

lemma chunks_from_step:
  assumes c: "chunks_from xs p s" and grows: "set xs \<subseteq> set ys"
    and step: "\<And>j x. e_RetrieveChunk j s' = Inr x \<Longrightarrow>
      e_RetrieveChunk j s = Inr x \<or> (p, req) \<in> set ys \<and> request_chunk req = j \<and> sq_ShardData req = x"
  shows "chunks_from ys p s'"
  unfolding chunks_from_def
proof (intro allI impI)
  fix j x
  assume "e_RetrieveChunk j s' = Inr x"
  from step [OF this] show "\<exists>rq. (p, rq) \<in> set ys \<and> request_chunk rq = j \<and> sq_ShardData rq = x"
    using c grows unfolding chunks_from_def by blast
qed

text \<open>A disk opens as the engine that was on it.\<close>

lemma kept_store: "node_kept pid acc p e fm d \<Longrightarrow> process_store pid p (Down d) = Some (e, d)"
  using reopen_engine [of e d] by (simp add: node_kept_def)

text \<open>One process is replaced, and the histories may have grown by what it did.\<close>

lemma filed_update:
  assumes net: "net_filed pid net" and nodes: "nt_nodes net' = (nt_nodes net)(p \<mapsto> proc)"
    and grows: "set (taken net) \<subseteq> set (taken net')"
    and chunks: "\<And>s. process_store pid p proc = Some s \<Longrightarrow> chunks_from (taken net') p s"
    and files: "\<And>data n k. (p, data, n, k) \<in> set (nt_stored net') \<Longrightarrow> describes_stored data n k (process_files pid p proc)"
    and others: "\<And>q x. q \<noteq> p \<Longrightarrow> (q, x) \<in> set (nt_stored net') \<Longrightarrow> (q, x) \<in> set (nt_stored net)"
  shows "net_filed pid net'"
  unfolding net_filed_def
proof (intro conjI allI impI)
  fix q pr s
  assume a: "nt_nodes net' q = Some pr" "process_store pid q pr = Some s"
  show "chunks_from (taken net') q s"
  proof (cases "q = p")
    case True
    then show ?thesis using a nodes chunks by simp
  next
    case False
    with a(1) nodes have "nt_nodes net q = Some pr" by simp
    from chunks_from_mono [OF net_filedD(1) [OF net this a(2)] grows] show ?thesis .
  qed
next
  fix q data n k
  assume "(q, data, n, k) \<in> set (nt_stored net')"
  then show "\<exists>pr. nt_nodes net' q = Some pr \<and> describes_stored data n k (process_files pid q pr)"
    using net files others nodes by (cases "q = p") (fastforce simp: net_filed_def simp del: process_files.simps)+
qed


section \<open>What the operations keep\<close>

lemma put_chunks:
  assumes ok: "e_ok s" and v: "valid_chunkID k" and st: "e_StoreChunk k b s = (r, s')" and j: "e_RetrieveChunk j s' = Inr x"
  shows "e_RetrieveChunk j s = Inr x \<or> j = k \<and> x = b"
proof (cases r)
  case (Inl y)
  then show ?thesis using chunks.put_error [OF ok v] st j by blast
next
  case (Inr u)
  with st have st': "e_StoreChunk k b s = (Inr (), s')" by simp
  show ?thesis using chunks.put_ok [OF ok v st'] chunks.put_frame [OF ok v st'] j by (cases "j = k") auto
qed

lemma accept_chunks:
  assumes ok: "nd_ok nd" and req: "plain_request req" and a: "node_accept et now1 now2 req nd = Ret (resp, nd')"
    and r: "e_RetrieveChunk j (nd_store nd') = Inr x"
  shows "e_RetrieveChunk j (nd_store nd) = Inr x \<or> sr_Success resp \<and> request_chunk req = j \<and> sq_ShardData req = x"
proof -
  have eok: "e_ok (nd_store nd)" using ok by (simp add: nd_ok_def)
  note v = request_chunk_valid [OF req]
  from a req show ?thesis
  proof (cases rule: node_accept_cases)
    case (refused y s)
    have "s = nd_store nd" using chunks.put_error [OF eok v refused(1)] .
    with refused(2) r show ?thesis by (simp add: node_defs)
  next
    case (stored s q)
    have "nd_ok (set_store s nd)" "nd_store (set_store s nd) = s"
      using chunks.put_ok [OF eok v stored(1)] e_dir_Store [OF stored(1)] nd_ok_store [OF ok] by (simp_all add: node_defs)
    with updateFileMetadata_frame [OF _ stored(2)] r have "e_RetrieveChunk j s = Inr x" by simp
    from put_chunks [OF eok v stored(1) this] stored(3) show ?thesis by blast
  qed
qed

text \<open>A shard of a file the node has stored itself leaves what the store recorded.\<close>

lemma no_hash_set: "set_shard_hash i h [] = Ret hashes \<Longrightarrow> hashes = []"
  by (auto simp: set_shard_hash_def go_update_def split: if_splits)

lemma save_shard_describes:
  assumes r: "save_shard_metadata now1 now2 req nd = Ret (q, s)" and k: "index_keyed (fm_fileIndex (nd_fileManager nd))"
    and d: "describes_stored data n kk (fm_fileIndex (nd_fileManager nd))"
  shows "describes_stored data n kk (fm_fileIndex (fst s))"
proof (cases "gm_get (fm_fileIndex (nd_fileManager nd)) (sq_FileHash req)")
  case None
  with r obtain hashes where
    "fm_UpdateFileMetadata (estimated_metadata now1 now2 req (nd_self nd) hashes) (nd_files nd) = (q, s)"
    by (auto simp: save_shard_metadata_def fm_GetFileInfo_def Let_def go_bind_Ret_iff)
  from UpdateFileMetadata_index [OF this [unfolded nd_files_def]] d None show ?thesis
    by (auto simp: describes_stored_def estimated_metadata_def)
next
  case (Some md)
  then have md: "md_FileHash md = sq_FileHash req" using keyed_get [OF k] by blast
  from Some r obtain hashes where
    u: "fm_UpdateFileMetadata (known_metadata now1 (nd_self nd) hashes md)
       ((nd_fileManager nd)\<lparr>fm_fileIndex := gm_put (sq_FileHash req) (known_metadata now1 (nd_self nd) hashes md)
          (fm_fileIndex (nd_fileManager nd))\<rparr>, nd_disk nd) = (q, s)"
    and hs: "set_shard_hash (sq_ShardIndex req) (CalculateShardHash (sq_ShardData req)) (md_ShardHashes md) = Ret hashes"
    by (auto simp: save_shard_metadata_def fm_GetFileInfo_def Let_def go_bind_Ret_iff)
  have "hashes = []" if "md_ShardHashes md = []" using hs that no_hash_set by simp
  with UpdateFileMetadata_index [OF u] d md Some show ?thesis
    by (auto simp: describes_stored_def known_metadata_def)
qed

lemma accept_describes:
  assumes a: "node_accept et now1 now2 req nd = Ret (resp, nd')" and req: "plain_request req"
    and k: "index_keyed (fm_fileIndex (nd_fileManager nd))" and d: "describes_stored data n kk (fm_fileIndex (nd_fileManager nd))"
  shows "describes_stored data n kk (fm_fileIndex (nd_fileManager nd'))"
  using a req
proof (cases rule: node_accept_cases)
  case (refused x s)
  then show ?thesis using d by (simp add: node_defs)
next
  case (stored s q)
  from stored(2) obtain q1 s1 where u: "save_shard_metadata now1 now2 req (set_store s nd) = Ret (q1, s1)"
    and nd': "nd_fileManager nd' = fst s1"
    by (rule updateFileMetadata_saves) (auto simp: node_defs)
  show ?thesis using save_shard_describes [OF u] k d nd' by (simp add: node_defs)
qed

text \<open>A store of a new file adds its metadata and touches no chunk.\<close>

lemma store_filed:
  assumes sv: "node_saved nd" and st: "so_StoreFileDistributed rs env clock f data n k nd = Ret (r, nd')"
    and new: "gm_get (fm_fileIndex (nd_fileManager nd)) (CalculateFileHash data) = None"
  shows "e_RetrieveChunk j (nd_store nd') = e_RetrieveChunk j (nd_store nd)"
    and "r = Inr h \<Longrightarrow> describes_stored data n k (fm_fileIndex (nd_fileManager nd'))"
    and "describes_stored dt n1 k1 (fm_fileIndex (nd_fileManager nd)) \<Longrightarrow> describes_stored dt n1 k1 (fm_fileIndex (nd_fileManager nd'))"
proof -
  have "e_RetrieveChunk j (nd_store nd') = e_RetrieveChunk j (nd_store nd) \<and>
      (r = Inr h \<longrightarrow> describes_stored data n k (fm_fileIndex (nd_fileManager nd'))) \<and>
      (describes_stored dt n1 k1 (fm_fileIndex (nd_fileManager nd)) \<longrightarrow> describes_stored dt n1 k1 (fm_fileIndex (nd_fileManager nd')))"
    using st
  proof (cases rule: store_cases)
    case (failed x)
    then show ?thesis by simp
  next
    case (stored ops peers nd1 q s)
    let ?md = "new_metadata (CalculateFileHash data) f data n k peers (clock 5) (clock 6)"
    have same: "nd_storage nd1 = nd_storage nd" "nd_fileManager nd1 = nd_fileManager nd" "nd_disk nd1 = nd_disk nd"
      using stored(2) by simp_all
    have u: "fm_UpdateFileMetadata ?md (nd_fileManager nd, nd_disk nd) = (q, s)" using stored(3) same by (simp add: nd_files_def)
    have eok: "e_ok (nd_storage nd, nd_disk nd)"
      and fm: "fm_metadataFile (nd_fileManager nd) = filepath_Join [en_storageDir (nd_storage nd), ''file_metadata.gob'']"
      using saved_ok [OF sv] by (simp_all add: nd_ok_def nd_store_def)
    obtain fm' d' where s: "s = (fm', d')" by (cases s)
    note F = fm_UpdateFileMetadata_frame [OF eok fm u [unfolded s]]
    have "fm_fileIndex (nd_fileManager nd') = gm_put (CalculateFileHash data) ?md (fm_fileIndex (nd_fileManager nd))"
      using F stored(4) s by (simp add: node_defs new_metadata_def)
    then show ?thesis using F stored(4) s same new by (auto simp: describes_stored_def node_defs new_metadata_def)
  qed
  then show "e_RetrieveChunk j (nd_store nd') = e_RetrieveChunk j (nd_store nd)"
    and "r = Inr h \<Longrightarrow> describes_stored data n k (fm_fileIndex (nd_fileManager nd'))"
    and "describes_stored dt n1 k1 (fm_fileIndex (nd_fileManager nd)) \<Longrightarrow> describes_stored dt n1 k1 (fm_fileIndex (nd_fileManager nd'))"
    by blast+
qed

section \<open>The invariant\<close>

lemma filed_same:
  assumes net: "net_filed pid net" and p: "running net p = Some nd"
    and same: "nd_store nd' = nd_store nd" "fm_fileIndex (nd_fileManager nd') = fm_fileIndex (nd_fileManager nd)"
  shows "net_filed pid (node_after p nd' net)"
proof -
  have up: "nt_nodes net p = Some (Up nd)" using p by (simp add: running_iff)
  show ?thesis
    by (rule filed_update [OF net, where p = p and proc = "Up nd'"])
      (use net_filedD(1) [OF net up] net_filedD(2) [OF net up] same in \<open>simp_all add: node_after_def taken_def\<close>)
qed

lemma filed_gone:
  assumes net: "net_filed pid net" and p: "running net p = Some nd" and k: "node_kept pid acc p e (nd_fileManager nd) d"
    and chunks: "chunks_from (taken net') p (e, d)" and grows: "set (taken net) \<subseteq> set (taken net')"
    and net': "nt_nodes net' = (nt_nodes net)(p \<mapsto> Down d)" "nt_stored net' = nt_stored net"
  shows "net_filed pid net'"
proof -
  have up: "nt_nodes net p = Some (Up nd)" using p by (simp add: running_iff)
  show ?thesis
  proof (rule filed_update [OF net net'(1) grows])
    show "chunks_from (taken net') p s" if "process_store pid p (Down d) = Some s" for s
      using that kept_store [OF k] chunks by simp
    show "describes_stored data n k (process_files pid p (Down d))" if "(p, data, n, k) \<in> set (nt_stored net')" for data n k
      using net_filedD(2) [OF net up] that net'(2) kept_files [OF k] by simp
  qed (use net'(2) in simp)
qed

lemma net_step_filed:
  assumes "net_step pid once setups net net'" and "once" and "net_kept pid net" and "net_filed pid net"
  shows "net_filed pid net'"
  using assms
proof (induction rule: net_step.induct)
  case (start net p d st config sn)
  from start(1,7) obtain e fm where k: "node_kept pid (nt_accepted net) p e fm d" by (fastforce simp: net_kept_def)
  note K = k [unfolded node_kept_def]
  have dirs: "en_storageDir e = node_dir (pl_pid_String (st_libs st)) (bn_ID (sn_node sn))" "fm_storageDir fm = en_storageDir e"
    and sv: "engine_saved (e, d)" "files_saved (fm, d)" using K start(3,5) by simp_all
  note O = start_opens [OF start(4) sv dirs]
  have "nd_store (sn_state sn) = (e, d)" "fm_fileIndex (nd_fileManager (sn_state sn)) = process_files pid p (Down d)"
    using O kept_files [OF k] by (simp_all add: nd_store_def del: process_files.simps)
  then show ?case
    by (intro filed_update [OF start(8), where p = p and proc = "Up (sn_state sn)"])
      (use net_filedD [OF start(8,1)] kept_store [OF k] in \<open>simp_all add: node_after_def taken_def del: process_files.simps(2)\<close>)
next
  case (stop net p nd)
  have k: "node_kept pid (nt_accepted net) p (nd_storage nd) (nd_fileManager nd) (nd_disk nd)"
    using net_keptD(1) [OF stop(3,1)] by simp
  have "nt_nodes net p = Some (Up nd)" using stop(1) by (simp add: running_iff)
  from net_filedD(1) [OF stop(4) this] have "chunks_from (taken net) p (nd_storage nd, nd_disk nd)" by (simp add: nd_store_def)
  then show ?case by (intro filed_gone [OF stop(4,1) k]) (simp_all add: node_gone_def taken_def)
next
  case (request net p nd req et now1 now2 resp nd')
  note D = net_keptD [OF request(5,1)]
  have a: "node_accept et now1 now2 req nd = Ret (resp, nd')" using request(3) by (simp add: node_accept_def)
  have up: "nt_nodes net p = Some (Up nd)" using request(1) by (simp add: running_iff)
  have c: "chunks_from (taken net) p (nd_store nd)" using net_filedD(1) [OF request(6) up] by simp
  let ?net = "(node_after p nd' net)\<lparr>nt_accepted := (if sr_Success resp then [(p, req)] else []) @ nt_accepted net\<rparr>"
  have "chunks_from (taken ?net) p (nd_store nd')"
    by (rule chunks_from_step [OF c, where req = req])
      (use accept_chunks [OF saved_ok [OF D(3)] request(2) a] in \<open>auto simp: taken_def node_after_def\<close>)
  then show ?case
    by (intro filed_update [OF request(6), where p = p and proc = "Up nd'"])
      (use net_filedD(2) [OF request(6) up] accept_describes [OF a request(2) D(4)] in \<open>auto simp: node_after_def taken_def\<close>)
next
  case (crash net p nd req et now1 now2 r s)
  note D = net_keptD [OF crash(6,1)]
  have k: "node_kept pid (nt_accepted net) p (fst s) (nd_fileManager nd) (snd s)" by (rule crash_kept [OF D(1) crash(2,4)])
  have up: "nt_nodes net p = Some (Up nd)" using crash(1) by (simp add: running_iff)
  have c: "chunks_from (taken net) p (nd_store nd)" using net_filedD(1) [OF crash(7) up] by simp
  let ?net = "(node_gone p (snd s) net)\<lparr>nt_crashed := (p, req) # nt_crashed net\<rparr>"
  have eok: "e_ok (nd_store nd)" using saved_ok [OF D(3)] by (simp add: nd_ok_def)
  have "chunks_from (taken ?net) p s"
    by (rule chunks_from_step [OF c, where req = req])
      (use put_chunks [OF eok request_chunk_valid [OF crash(2)] crash(4)] in \<open>auto simp: taken_def node_gone_def\<close>)
  then have "chunks_from (taken ?net) p (fst s, snd s)" by simp
  then show ?case by (intro filed_gone [OF crash(7,1) k]) (auto simp: node_gone_def taken_def)
next
  case (hear net p nd q msg now nv')
  then show ?case by (intro filed_same [OF hear(6,1)]) (simp_all add: nd_store_def)
next
  case (announce net p nd env clock)
  then show ?case by (intro filed_same [OF announce(4,1)]) (simp_all add: nd_store_def announceLocalFiles_frame)
next
  case (store net p nd env data rs clock f n k r nd')
  note D = net_keptD [OF store(6,1)]
  have up: "nt_nodes net p = Some (Up nd)" using store(1) by (simp add: running_iff)
  have new: "gm_get (fm_fileIndex (nd_fileManager nd)) (CalculateFileHash data) = None" using store(3,5) by simp
  note S = store_filed [OF D(3) store(4) new]
  have "chunks_from (taken net) p (nd_store nd')"
    using net_filedD(1) [OF store(7) up] S(1) by (simp add: chunks_from_def)
  then show ?case
    by (intro filed_update [OF store(7), where p = p and proc = "Up nd'"])
      (use net_filedD(2) [OF store(7) up] S(2,3) in \<open>auto simp: node_after_def taken_def split: sum.splits\<close>)
next
  case (retrieve net p nd rs w h r nd')
  have "nd' = so_SyncNetworkView (node_rpc w (running net)) nd" using retrieve(2) by (rule retrieve_view)
  then show ?case by (intro filed_same [OF retrieve(5,1)]) (simp_all add: Sync_frame nd_store_def)
next
  case (own net p nd nv')
  then show ?case by (intro filed_same [OF own(5,1)]) (simp_all add: nd_store_def)
next
  case (link net p nd ps)
  then show ?case by (intro filed_same [OF link(4,1)]) (simp_all add: nd_store_def)
next
  case (tidy net p nd now)
  then show ?case
    by (intro filed_same [OF tidy(4,1)]) (simp_all add: nd_store_def so_cleanupCompletedOperations_def Let_def)
qed

lemma first_filed:
  assumes "first_network pid net"
  shows "net_filed pid net"
  unfolding net_filed_def
proof (intro conjI allI impI)
  fix p proc s
  assume "nt_nodes net p = Some proc" and s: "process_store pid p proc = Some s"
  with assms obtain d where d: "proc = Down d" "blank_disk (node_dir pid p) d" by (fastforce simp: first_network_def)
  let ?e = "fresh_engine (node_dir pid p) DefaultMaxStorageBytes"
  have "engine_saved (?e, d)"
    using d(2) by (simp add: blank_disk_def engine_saved.simps e_ok.simps e_inv.simps saved_as_def fresh_engine_def)
  from reopen_engine [OF this] have "NewEngine (node_dir pid p) d = Inr ?e" by (simp add: fresh_engine_def)
  with s d(1) have "s = (?e, d)" by simp
  then show "chunks_from (taken net) p s" by (simp add: chunks_from_def e_RetrieveChunk_def fresh_engine_def)
qed (use assms in \<open>auto simp: first_network_def\<close>)

lemma net_run_filed: "net_run pid once setups net \<Longrightarrow> once \<Longrightarrow> net_filed pid net"
  by (induction rule: net_run.induct) (auto simp: first_filed intro: net_step_filed net_run_kept)

section \<open>A stored file survives\<close>

text \<open>A request that brings one of the first \<open>m\<close> shards of a file.\<close>

definition brings_shard :: "string \<Rightarrow> Shard list \<Rightarrow> nat \<Rightarrow> StorageRequest \<Rightarrow> bool" where
  "brings_shard h shards m req \<longleftrightarrow>
     sq_FileHash req = h \<and> (\<exists>i < m. sq_ShardIndex req = int i + 1 \<and> sq_ShardData req = sh_Data (shards ! i))"

text \<open>What the peers of a file hold of it, when they have taken only its first \<open>m\<close> shards.\<close>

lemma taken_held:
  assumes net: "net_filed pid net" and p: "running net p = Some nd"
    and t: "\<And>req. (p, req) \<in> set (taken net) \<Longrightarrow> sq_FileHash req = h \<Longrightarrow> brings_shard h shards m req"
    and k: "holds (running net p) (shard_id h (i + 1)) b"
  shows "i < m \<and> b = sh_Data (shards ! i)"
proof -
  have up: "nt_nodes net p = Some (Up nd)" using p by (simp add: running_iff)
  have "e_RetrieveChunk (shard_id h (i + 1)) (nd_store nd) = Inr b" using k p by simp
  with net_filedD(1) [OF net up] obtain req where req: "(p, req) \<in> set (taken net)" "request_chunk req = shard_id h (i + 1)"
    "sq_ShardData req = b" unfolding chunks_from_def by auto
  note N = request_chunk_names [OF req(2)]
  from t [OF req(1)] N obtain j where "j < m" "int (i + 1) = int j + 1" "sq_ShardData req = sh_Data (shards ! j)"
    by (auto simp: brings_shard_def)
  with req(3) show ?thesis by auto
qed

lemma taken_delivers:
  assumes net: "net_kept pid net" "net_filed pid net" and b: "runs_as (running net) b nd"
    and t: "\<And>p req. p \<in> set ps \<Longrightarrow> (p, req) \<in> set (taken net) \<Longrightarrow> sq_FileHash req = h \<Longrightarrow> brings_shard h shards m req"
    and held: "\<And>i. i < m \<Longrightarrow> \<exists>p req. p \<in> set ps \<and> running net p \<noteq> None \<and> (p, req) \<in> set (nt_accepted net) \<and>
      sq_FileHash req = h \<and> sq_ShardIndex req = int i + 1"
    and e: "\<And>i. expected_hash md i = ''''"
  shows "delivers (node_rpc w (running net)) h md ps nd shards m"
  unfolding delivers_def
proof (intro allI impI)
  fix i
  assume i: "i < length shards"
  let ?req = "\<lambda>q. so_requestShardFromPeer (node_rpc w (running net)) q h (int i + 1) (expected_hash md i) nd"
  have got: "i < m \<and> sh_Data s = sh_Data (shards ! i)" if q: "q \<in> set ps" and s: "?req q = Inr s" for q s
  proof -
    have "\<exists>d. holds (running net q) (shard_id h (i + 1)) d" using request_missing [OF b, of q h i w] s by (metis Inl_Inr_False)
    then obtain d where d: "holds (running net q) (shard_id h (i + 1)) d" by blast
    then obtain ndq where ndq: "running net q = Some ndq" by (auto simp: holds_def)
    have "sh_Data s = d" using request_held [OF b d] s check_shard_data by metis
    with taken_held [OF net(2) ndq t [OF q] d] show ?thesis by simp
  qed
  show "case so_retrieveShardFromPeers (node_rpc w (running net)) h (int i + 1) (expected_hash md i) nd ps None of
      Inl err \<Rightarrow> m \<le> i | Inr s \<Rightarrow> i < m \<and> sh_Data s = sh_Data (shards ! i)"
  proof (cases "i < m")
    case True
    from held [OF True] obtain p req ndp where p: "p \<in> set ps" "running net p = Some ndp"
      and req: "(p, req) \<in> set (nt_accepted net)" "sq_FileHash req = h" "sq_ShardIndex req = int i + 1" by auto
    have "e_RetrieveChunk (request_chunk req) (nd_store ndp) = Inr (sq_ShardData req)"
      using net_keptD(1) [OF net(1) p(2)] req(1) by (auto simp: node_kept_def nd_store_def)
    moreover have "request_chunk req = shard_id h (i + 1)" using req by (simp add: request_chunk_def shard_id_def add.commute)
    ultimately have "holds (running net p) (shard_id h (i + 1)) (sq_ShardData req)" using p(2) by simp
    from request_held [OF b this, of w "expected_hash md i"] e obtain s where "?req p = Inr s" by (auto simp: check_shard_def)
    from retrieve_some [OF p(1) this, of "sh_Data (shards ! i)" None] got True show ?thesis by force
  next
    case False
    have "\<exists>err. ?req q = Inl err" if "q \<in> set ps" for q using got [OF that] False by (cases "?req q") auto
    then obtain err where "so_retrieveShardFromPeers (node_rpc w (running net)) h (int i + 1) (expected_hash md i) nd ps None = Inl err"
      using retrieve_none [of ps "node_rpc w (running net)" h "int i + 1" "expected_hash md i" nd None] by blast
    with False show ?thesis by simp
  qed
qed

text \<open>The list of a file keeps its first peer when the lists of other nodes are merged in.\<close>

lemma append_new_head: "\<exists>ps. fold append_new qs (a # xs) = a # ps"
  by (induction qs arbitrary: xs) (auto simp: append_new_def)

lemma Sync_head:
  assumes "gm_get (nd_index nd) h = Some (a # xs)"
  shows "\<exists>ps. gm_get (nd_index (so_SyncNetworkView env nd)) h = Some (a # ps)"
proof -
  let ?P = "\<lambda>nv. \<exists>ps. gm_get (nv_fileIndex nv) h = Some (a # ps)"
  have merge: "?P (so_mergePeers e nv)" if "?P nv" for e nv
    using that append_new_head by (cases e) (auto simp: mergePeers_add_location add_location_eq gm_get_or_def)
  have fold_merge: "?P nv \<Longrightarrow> ?P (fold so_mergePeers es nv)" for es nv
  proof (induction es arbitrary: nv)
    case (Cons e es)
    from Cons.IH [OF merge [OF Cons.prems]] show ?case by simp
  qed simp
  have query: "?P (nd_view (so_queryPeerForFiles env p x))" if "?P (nd_view x)" for p x
    using that fold_merge [OF that] by (simp add: so_queryPeerForFiles_def split: sum.splits)
  have "?P (nd_view x) \<Longrightarrow> ?P (nd_view (fold (so_queryPeerForFiles env) ps x))" for ps x
  proof (induction ps arbitrary: x)
    case (Cons p ps)
    from Cons.IH [OF query [OF Cons.prems]] show ?case by simp
  qed simp
  with assms show ?thesis by (simp add: so_SyncNetworkView_def nd_index_def)
qed


section \<open>An example\<close>

text \<open>A file of one shard, its bytes: the codec for one data shard and no parity.\<close>

definition whole_codec :: reed_solomon where
  "whole_codec =
     \<lparr>rs_New = (\<lambda>d p. if d = 1 \<and> p = 0 then Inr () else Inl ''unsupported''),
      rs_Split = (\<lambda>d p data. Inr [data]), rs_Encode = (\<lambda>d p shards. Inr shards),
      rs_Reconstruct = (\<lambda>d p shards. Inr shards),
      rs_Join = (\<lambda>d p shards outSize. if int (length (concat shards)) < outSize then Inl ''short data''
        else Inr (take (nat outSize) (concat shards)))\<rparr>"

lemma whole_codec_ok: "rs_codec whole_codec 1 (1 - 1)"
proof -
  have e: "encodes_to whole_codec 1 0 data t \<longleftrightarrow> t = [data]" for data t
    by (auto simp: encodes_to_def whole_codec_def)
  have "raw = [data]" if "partial_shards raw [data] 1" for raw data
    using that by (auto simp: partial_shards_def list_all2_Cons2 split: if_splits)
  then show ?thesis by (auto simp: rs_codec_def e) (simp_all add: whole_codec_def)
qed

lemma whole_shards:
  "data \<noteq> [] \<Longrightarrow> sm_ShardData whole_codec data 1 1 =
     Inr [\<lparr>sh_Index = 1, sh_Data = data, sh_Hash = CalculateShardHash data, sh_Size = int (length data)\<rparr>]"
  by (simp add: sm_ShardData_def Let_def whole_codec_def)

text \<open>Two nodes with the keys 1 and 2, on empty disks.\<close>

definition pair_setups ::
  "peer_id \<Rightarrow> (8 word, 8 word, StorageProofCircuit \<Rightarrow> bool, nat, nat, nat \<times> public_witness) start_env \<Rightarrow> 8 word NodeConfig \<Rightarrow> bool" where
  "pair_setups p st config \<longleftrightarrow> st = example_start \<and> (\<exists>k. config = (example_config [])\<lparr>nc_PrivKey := Some k\<rparr>)"

definition pair_network :: network where
  "pair_network = \<lparr>nt_nodes = [''k'' \<mapsto> Down quiet_disk, ''kk'' \<mapsto> Down quiet_disk], nt_sent = [], nt_accepted = [],
     nt_crashed = [], nt_stored = []\<rparr>"

lemma pair_starts:
  assumes d: "nt_nodes net p = Some (Down quiet_disk)" and p: "p = replicate (unat (k :: 8 word)) CHR ''k''"
  shows "\<exists>nd. net_step (\<lambda>i. i) True pair_setups net (node_after p nd net) \<and> nd_self nd = p \<and> nd_view nd = NewNetworkView \<and>
    nd_store nd = (fresh_engine (node_dir (\<lambda>i. i) p) DefaultMaxStorageBytes, quiet_disk) \<and>
    fm_fileIndex (nd_fileManager nd) = [] \<and> nd_published nd = []"
proof -
  let ?config = "(example_config [])\<lparr>nc_PrivKey := Some k\<rparr>"
  obtain sn :: example_node where sn: "NewDecentralizedNode example_start ?config quiet_disk = Ret (Inr sn)"
    and id: "bn_ID (sn_node sn) = p" and e: "nd_storage (sn_state sn) = fresh_engine (node_dir (\<lambda>i. i) p) DefaultMaxStorageBytes"
    "nd_disk (sn_state sn) = quiet_disk" "fm_fileIndex (nd_fileManager (sn_state sn)) = []"
    using example_started_as [of ?config k] p by auto
  have "blank_disk (node_dir (\<lambda>i. i) p) quiet_disk" by (simp add: blank_disk_def quiet_disk_def no_faults_def)
  from blank_kept [OF this] obtain e0 fm where k: "node_kept (\<lambda>i. i) [] p e0 fm quiet_disk" and fm: "fm_fileIndex fm = []" by blast
  note S = start_kept [OF k example_pid id sn]
  have "net_step (\<lambda>i. i) True pair_setups net (node_after p (sn_state sn) net)"
    by (rule net_step.start [OF d _ example_pid sn id]) (auto simp: pair_setups_def)
  moreover have "initial_view p fm = NewNetworkView" using fm by (simp add: initial_view_def fm_ListFiles_def)
  ultimately show ?thesis using S e by (intro exI [of _ "sn_state sn"]) (simp add: nd_store_def)
qed

lemma pair_view: "nv_peers (dn_onPeerConnected 0 ''k'' NewNetworkView) = [(''k'', new_peer 0 None)]"
  by code_simp

lemma pair_selects:
  assumes "nd_view nd = dn_onPeerConnected 0 ''k'' NewNetworkView" and "nd_connected nd = [''k'']" and "nd_self nd = ''kk''"
  shows "so_selectStoragePeers 1 nd = Ret [''k'']"
proof -
  have "rs_GetBestPeers (f64 (7 / 10)) 1 (dn_onPeerConnected 0 ''k'' NewNetworkView) = Ret []" by code_simp
  moreover have "peer_suitable (new_peer 0 None)" by code_simp
  ultimately show ?thesis using assms pair_view by (simp add: so_selectStoragePeers_def)
qed

text \<open>What a node lists after it has announced its files.\<close>

lemma announce_lists:
  assumes "gm_get (fm_fileIndex (nd_fileManager nd)) h \<noteq> None" and "index_keyed (fm_fileIndex (nd_fileManager nd))"
  shows "gm_get (nd_index (dn_announceLocalFiles env clock nd)) h = Some [nd_self nd] \<and>
    nv_peers (nd_view (dn_announceLocalFiles env clock nd)) = nv_peers (nd_view nd)"
proof -
  have one: "gm_get (nd_index (so_announceFileToNetwork env clock g [i] x)) h =
        (if g = h \<and> gm_get (fm_fileIndex (nd_fileManager x)) g \<noteq> None then Some [i] else gm_get (nd_index x) h) \<and>
      nv_peers (nd_view (so_announceFileToNetwork env clock g [i] x)) = nv_peers (nd_view x)" for g i x
    by (auto simp: so_announceFileToNetwork_def fm_GetFileInfo_def publish_retry_def Let_def nd_index_def split: option.splits)
  have "gm_get (nd_index (announce_list env clock i ms x)) h =
        (if h \<in> md_FileHash ` set ms then Some [i] else gm_get (nd_index x) h) \<and>
      nv_peers (nd_view (announce_list env clock i ms x)) = nv_peers (nd_view x)"
    if "gm_get (fm_fileIndex (nd_fileManager x)) h \<noteq> None" for i ms x
    using that
  proof (induction ms arbitrary: x)
    case (Cons m ms)
    from Cons.IH [of "so_announceFileToNetwork env clock (md_FileHash m) [i] x"] Cons.prems one show ?case by auto
  qed simp
  then show ?thesis using assms keyed_listed [OF assms(2)] by (simp add: dn_announceLocalFiles_def)
qed

text \<open>The storing node is told that the request was accepted.\<close>

definition whole_request :: "8 word \<Rightarrow> StorageRequest" where
  "whole_request b = shard_request 0 (CalculateFileHash [b]) ''f'' 0 [b] 1 1"

definition told_rpc :: "8 word \<Rightarrow> rpc" where
  "told_rpc b = accepting_rpc\<lparr>rpc_store := \<lambda>q req.
     if q = ''k'' \<and> req = whole_request b then Inr \<lparr>sr_Success = True, sr_Error = '''', sr_Message = '''', sr_Data = []\<rparr>
     else Inl ''refused''\<rparr>"

lemma pair_store:
  assumes "so_selectStoragePeers 1 nd = Ret [''k'']"
  shows "\<exists>nd'. so_StoreFileDistributed whole_codec (told_rpc b) (\<lambda>_. 0) ''f'' [b] 1 1 nd = Ret (Inr (CalculateFileHash [b]), nd')"
  using assms
  by (simp add: so_StoreFileDistributed_def whole_shards go_make_def Let_def so_distributeShardToPeer_def told_rpc_def
      whole_request_def shard_request_def)

lemma whole_request_taken:
  assumes ok: "nd_ok nd" and e: "nd_store nd = (fresh_engine dir DefaultMaxStorageBytes, quiet_disk)"
  shows "\<exists>resp nd'. n_handleStorageProtocol plain_errors 0 0 (Some (whole_request b)) (Some nd) = Ret (Some resp, Some nd') \<and> sr_Success resp"
proof -
  have plain: "plain_request (whole_request b)" unfolding whole_request_def by (rule plain_shard_request) simp
  have eok: "e_ok (nd_store nd)" using ok by (simp add: nd_ok_def)
  have "\<not> e_has (nd_store nd) (request_chunk (whole_request b))"
    and max: "en_MaxStorageBytes (fst (nd_store nd)) = DefaultMaxStorageBytes"
    and small: "e_total (nd_store nd) + length (sq_ShardData (whole_request b)) \<le> 10"
    using e by (simp_all add: e_has_def e_total_def fresh_engine_def whole_request_def shard_request_def)
  with storage_protocol_accepts [OF ok plain _ fits_small [OF eok max small], of plain_errors 0 0] show ?thesis
    by (auto simp: whole_request_def shard_request_def)
qed

abbreviation pair_run :: "network \<Rightarrow> bool" where
  "pair_run \<equiv> net_run (\<lambda>i. i) True pair_setups"

text \<open>Both nodes start.\<close>

lemma pair_up:
  "\<exists>net np na. pair_run net \<and> running net ''k'' = Some np \<and> running net ''kk'' = Some na \<and>
     nd_store np = (fresh_engine (node_dir (\<lambda>i. i) ''k'') DefaultMaxStorageBytes, quiet_disk) \<and>
     nd_view na = NewNetworkView \<and> fm_fileIndex (nd_fileManager na) = [] \<and>
     nt_accepted net = [] \<and> nt_crashed net = [] \<and> nt_stored net = []"
proof -
  have k: "''k'' = replicate (unat (1 :: 8 word)) CHR ''k''" "''kk'' = replicate (unat (2 :: 8 word)) CHR ''k''" by code_simp+
  have "first_network (\<lambda>i. i) pair_network"
    by (simp add: first_network_def pair_network_def blank_disk_def quiet_disk_def no_faults_def)
  then have run0: "pair_run pair_network" by (rule net_run.first)
  have "nt_nodes pair_network ''k'' = Some (Down quiet_disk)" by (simp add: pair_network_def)
  from pair_starts [OF this k(1)] obtain np where
    np: "net_step (\<lambda>i. i) True pair_setups pair_network (node_after ''k'' np pair_network)"
    "nd_store np = (fresh_engine (node_dir (\<lambda>i. i) ''k'') DefaultMaxStorageBytes, quiet_disk)" by blast
  let ?net = "node_after ''k'' np pair_network"
  have "nt_nodes ?net ''kk'' = Some (Down quiet_disk)" by (simp add: node_after_def pair_network_def)
  from pair_starts [OF this k(2)] obtain na where
    na: "net_step (\<lambda>i. i) True pair_setups ?net (node_after ''kk'' na ?net)"
    "nd_view na = NewNetworkView" "fm_fileIndex (nd_fileManager na) = []" by blast
  have "pair_run (node_after ''kk'' na ?net)" by (rule net_run.more [OF net_run.more [OF run0 np(1)] na(1)])
  moreover have "running (node_after ''kk'' na ?net) ''k'' = Some np" "running (node_after ''kk'' na ?net) ''kk'' = Some na"
    by (simp_all add: running_iff node_after_def)
  ultimately show ?thesis using np(2) na(2,3)
    by (intro exI [of _ "node_after ''kk'' na ?net"] exI) (auto simp: node_after_def pair_network_def)
qed

text \<open>The node \<open>k\<close> takes the shard, and \<open>kk\<close> gets to know \<open>k\<close>.\<close>

lemma pair_ready:
  "\<exists>net na. pair_run net \<and> running net ''k'' \<noteq> None \<and> running net ''kk'' = Some na \<and>
     nd_view na = dn_onPeerConnected 0 ''k'' NewNetworkView \<and> nd_connected na = [''k''] \<and> fm_fileIndex (nd_fileManager na) = [] \<and>
     nt_accepted net = [(''k'', whole_request b)] \<and> nt_crashed net = [] \<and> nt_stored net = []"
proof -
  obtain net np na where run: "pair_run net" and up: "running net ''k'' = Some np" "running net ''kk'' = Some na"
    and np: "nd_store np = (fresh_engine (node_dir (\<lambda>i. i) ''k'') DefaultMaxStorageBytes, quiet_disk)"
    and na: "nd_view na = NewNetworkView" "fm_fileIndex (nd_fileManager na) = []"
    and hist: "nt_accepted net = []" "nt_crashed net = []" "nt_stored net = []" using pair_up by blast
  have "nd_ok np" using net_keptD(3) [OF net_run_kept [OF run] up(1)] by (rule saved_ok)
  from whole_request_taken [OF this np] obtain resp np1 where a:
    "n_handleStorageProtocol plain_errors 0 0 (Some (whole_request b)) (Some np) = Ret (Some resp, Some np1)" "sr_Success resp" by blast
  have plain: "plain_request (whole_request b)" unfolding whole_request_def by (rule plain_shard_request) simp
  define net1 where "net1 = (node_after ''k'' np1 net)\<lparr>nt_accepted := (if sr_Success resp then [(''k'', whole_request b)] else []) @ nt_accepted net\<rparr>"
  have run1: "pair_run net1" unfolding net1_def by (rule net_run.more [OF run net_step.request [OF up(1) plain a(1)]])
  have up1: "running net1 ''kk'' = Some na" using up(2) by (simp add: running_iff net1_def node_after_def)
  let ?na1 = "na\<lparr>nd_view := dn_onPeerConnected 0 ''k'' NewNetworkView\<rparr>"
  have "own_step ''kk'' (nd_view na) (dn_onPeerConnected 0 ''k'' NewNetworkView)" unfolding na(1) by (rule own_step.connected)
  then have run2: "pair_run (node_after ''kk'' ?na1 net1)" by (rule net_run.more [OF run1 net_step.own [OF up1]])
  have "running (node_after ''kk'' ?na1 net1) ''kk'' = Some ?na1" by (simp add: running_iff node_after_def)
  then have "pair_run (node_after ''kk'' (?na1\<lparr>nd_connected := [''k'']\<rparr>) (node_after ''kk'' ?na1 net1))"
    by (rule net_run.more [OF run2 net_step.link])
  then show ?thesis
    by (intro exI [of _ "node_after ''kk'' (?na1\<lparr>nd_connected := [''k'']\<rparr>) (node_after ''kk'' ?na1 net1)"]
        exI [of _ "?na1\<lparr>nd_connected := [''k'']\<rparr>"])
      (use a(2) hist na(2) in \<open>simp add: running_iff net1_def node_after_def\<close>)
qed

text \<open>The node \<open>kk\<close> stores, and announces its files.\<close>

lemma pair_life:
  "\<exists>net nd. pair_run net \<and> running net ''kk'' = Some nd \<and> running net ''k'' \<noteq> None \<and>
     nt_stored net = [(''kk'', [b], 1, 1)] \<and> nt_accepted net = [(''k'', whole_request b)] \<and> nt_crashed net = [] \<and>
     gm_get (nd_index nd) (CalculateFileHash [b]) = Some [''kk''] \<and> nv_peers (nd_view nd) = [(''k'', new_peer 0 None)]"
proof -
  obtain net na where run: "pair_run net" and up: "running net ''k'' \<noteq> None" "running net ''kk'' = Some na"
    and na: "nd_view na = dn_onPeerConnected 0 ''k'' NewNetworkView" "nd_connected na = [''k'']" "fm_fileIndex (nd_fileManager na) = []"
    and hist: "nt_accepted net = [(''k'', whole_request b)]" "nt_crashed net = []" "nt_stored net = []" using pair_ready by blast
  note D = net_keptD [OF net_run_kept [OF run] up(2)]
  obtain na1 where st: "so_StoreFileDistributed whole_codec (told_rpc b) (\<lambda>_. 0) ''f'' [b] 1 1 na = Ret (Inr (CalculateFileHash [b]), na1)"
    using pair_store [OF pair_selects [OF na(1,2) D(2)]] by blast
  have new: "gm_get (fm_fileIndex (nd_fileManager na)) (CalculateFileHash [b]) = None" by (simp add: na(3))
  then have once: "True \<longrightarrow> gm_get (fm_fileIndex (nd_fileManager na)) (CalculateFileHash [b]) = None" by simp
  have honest: "answers_honest (nt_accepted net) (told_rpc b)" by (simp add: answers_honest_def told_rpc_def hist(1))
  define net1 where "net1 = (node_after ''kk'' na1 net)\<lparr>nt_stored := (case Inr (CalculateFileHash [b]) of Inl (err :: distributed_error) \<Rightarrow> []
      | Inr h \<Rightarrow> [(''kk'', [b], 1, 1)]) @ nt_stored net\<rparr>"
  have run1: "pair_run net1" unfolding net1_def by (rule net_run.more [OF run net_step.store [OF up(2) honest once st]])
  have up1: "running net1 ''kk'' = Some na1" by (simp add: running_iff net1_def node_after_def)
  note D1 = net_keptD [OF net_run_kept [OF run1] up1]
  let ?nd = "dn_announceLocalFiles accepting_rpc (\<lambda>_. 0) na1"
  have "pair_run (node_after ''kk'' ?nd net1)" by (rule net_run.more [OF run1 net_step.announce [OF up1]])
  moreover have "gm_get (fm_fileIndex (nd_fileManager na1)) (CalculateFileHash [b]) \<noteq> None"
    using store_filed(2) [OF D(3) st new] by (auto simp: describes_stored_def)
  note L = announce_lists [OF this D1(4), of accepting_rpc "\<lambda>_. 0"]
  moreover have "nv_peers (nd_view na1) = [(''k'', new_peer 0 None)]" using store_listed [OF st new] pair_view na(1) by simp
  ultimately show ?thesis
    by (intro exI [of _ "node_after ''kk'' ?nd net1"] exI [of _ ?nd])
      (use up(1) hist D1(2) in \<open>simp add: running_iff net1_def node_after_def\<close>)
qed


end
