(* ===== verification/Background.thy ===== *)
theory Background
  imports Network_Runs Pos_Manager Gateway
begin

text \<open>
  The loops in the background (\<open>reputation.go\<close>, \<open>storage_operations.go\<close>, \<open>peer-discovery.go\<close>,
  \<open>pos.go\<close>, \<open>gateway_node.go\<close>), which all have the same shape: wait for the end of the context or for
  the next tick, and do the work of a tick. Then what a gateway starts, the constructors of the
  small components, and the reports for debugging, as the lines they log.
\<close>

section \<open>Loops on a ticker\<close>

text \<open>
  What a loop sees: the end of its context, a tick with what the outside answers during it, or that
  other goroutines have changed the state it works on. The list is what the \<open>select\<close> chose; when it
  is used up the loop waits. A panic in the work ends the process.
\<close>

datatype ('e, 's) loop_event = Done | Tick 'e | Meanwhile 's

fun ticker_loop :: "('e \<Rightarrow> 's \<Rightarrow> 's go) \<Rightarrow> ('e, 's) loop_event list \<Rightarrow> 's \<Rightarrow> 's go" where
  "ticker_loop work [] s = Ret s"
| "ticker_loop work (Done # events) s = Ret s"
| "ticker_loop work (Tick e # events) s = go_bind (work e s) (ticker_loop work events)"
| "ticker_loop work (Meanwhile s1 # events) s = ticker_loop work events s1"

definition rs_MonitorPeers :: "(go_time, NetworkView) loop_event list \<Rightarrow> NetworkView \<Rightarrow> NetworkView go" where
  "rs_MonitorPeers = ticker_loop (\<lambda>now nv. Ret (rs_performReputationUpdate now nv))"

definition so_MonitorStorageOperations :: "(go_time, DNode) loop_event list \<Rightarrow> DNode \<Rightarrow> DNode go" where
  "so_MonitorStorageOperations = ticker_loop (\<lambda>now nd. Ret (so_cleanupCompletedOperations now nd))"

text \<open>A discovery pass is what the routing table and the peer store hold at its time.\<close>

definition pd_Start ::
  "peer_id \<Rightarrow> attempt list option \<times> attempt list \<Rightarrow> (attempt list option \<times> attempt list, discovery) loop_event list \<Rightarrow>
   discovery \<Rightarrow> discovery go" where
  "pd_Start self first events s =
     ticker_loop (\<lambda>(routingTable, peerstore) s. Ret (pd_discoverPeers self routingTable peerstore s)) events
       (pd_discoverPeers self (fst first) (snd first) s)"

text \<open>
  The proofs of the local files, once after the start and then at each tick; the state is the node,
  which making a proof leaves as it is.
\<close>

definition pos_generatePeriodicProofs ::
  "reed_solomon \<Rightarrow> ('k, 'p, 'cs, 'pk, 'vk, 'pf) proof_libs \<Rightarrow> (nat \<Rightarrow> proof_env) \<Rightarrow> ('k, 'p, 'cs, 'pk, 'vk) PoSManager \<Rightarrow>
   (nat \<Rightarrow> proof_env, DNode) loop_event list \<Rightarrow> DNode \<Rightarrow> DNode go" where
  "pos_generatePeriodicProofs rs pl env pos events nd =
     go_bind (pos_generateProofsForLocalFiles rs pl env pos nd) (\<lambda>proofCount.
     ticker_loop (\<lambda>env1 nd1. go_bind (pos_generateProofsForLocalFiles rs pl env1 pos nd1) (\<lambda>proofCount1. Ret nd1)) events nd)"

text \<open>The state of the committee monitor is what it has logged: whether the node is a validator.\<close>

definition pos_monitorCommittee ::
  "(('k, 'p, 'cs, 'pk, 'vk) PoSManager \<times> DNode, bool list) loop_event list \<Rightarrow> bool list \<Rightarrow> bool list go" where
  "pos_monitorCommittee = ticker_loop (\<lambda>(pos, nd) logged. Ret (logged @ [pos_checkValidatorStatus pos nd]))"

definition gw_monitorGateway :: "(gateway_env, GatewayNode) loop_event list \<Rightarrow> GatewayNode \<Rightarrow> GatewayNode go" where
  "gw_monitorGateway = ticker_loop (\<lambda>ge gn. Ret (gw_updateGatewayStats ge gn))"

text \<open>After the end of its context a loop does nothing any more.\<close>

lemma ticker_loop_done: "ticker_loop work (events @ Done # rest) s = ticker_loop work (events @ [Done]) s"
proof (induction events arbitrary: s)
  case (Cons e events)
  show ?case
  proof (cases e)
    case (Tick x)
    then show ?thesis using Cons.IH by (cases "work x s") simp_all
  qed (simp_all add: Cons.IH)
qed simp

lemma ticker_loop_returns:
  assumes "\<And>e s. \<exists>s'. work e s = Ret s'"
  shows "\<exists>s'. ticker_loop work events s = Ret s'"
proof (induction events arbitrary: s)
  case (Cons e events)
  show ?case
  proof (cases e)
    case (Tick x)
    obtain s1 where "work x s = Ret s1" using assms by blast
    with Tick Cons.IH [of s1] show ?thesis by simp
  qed (simp_all add: Cons.IH)
qed simp

text \<open>What every tick keeps, and every other goroutine, the loop keeps.\<close>

lemma ticker_loop_keeps:
  assumes tick: "\<And>e s s'. P s \<Longrightarrow> work e s = Ret s' \<Longrightarrow> P s'" and other: "\<And>s. Meanwhile s \<in> set events \<Longrightarrow> P s"
    and "P s" and "ticker_loop work events s = Ret s'"
  shows "P s'"
  using assms(2-4)
proof (induction events arbitrary: s)
  case (Cons e events)
  show ?case
  proof (cases e)
    case (Tick x)
    with Cons.prems(3) obtain s1 where "work x s = Ret s1" "ticker_loop work events s1 = Ret s'"
      by (auto simp: go_bind_Ret_iff)
    with tick [OF Cons.prems(2)] Cons.IH Cons.prems(1) show ?thesis by auto
  qed (use Cons in auto)
qed simp

lemma MonitorPeers_inv:
  assumes "nv_inv nv" and "\<And>v. Meanwhile v \<in> set events \<Longrightarrow> nv_inv v"
  shows "\<exists>nv'. rs_MonitorPeers events nv = Ret nv' \<and> nv_inv nv'"
proof -
  obtain nv' where r: "rs_MonitorPeers events nv = Ret nv'"
    using ticker_loop_returns [of "\<lambda>now nv. Ret (rs_performReputationUpdate now nv)" events nv] by (auto simp: rs_MonitorPeers_def)
  have "nv_inv (rs_performReputationUpdate now v)" if "nv_inv v" for now v
    by (rule view_step_inv [OF view_step.review that])
  then have "nv_inv nv'"
    by (intro ticker_loop_keeps [where P = nv_inv, OF _ assms(2,1) r [unfolded rs_MonitorPeers_def]]) auto
  with r show ?thesis by blast
qed

text \<open>
  Through any number of passes the retry counts stay between 1 and the limit of 3, and the view
  stays well-formed.
\<close>

lemma tryConnects_inv:
  "pd_inv (fst s) \<and> nv_inv (snd s) \<Longrightarrow> pd_inv (fst (pd_discoverPeers self rt ps s)) \<and> nv_inv (snd (pd_discoverPeers self rt ps s))"
proof -
  have "pd_inv (fst s) \<and> nv_inv (snd s) \<Longrightarrow> pd_inv (fst (fold pd_tryConnectToPeer as s)) \<and> nv_inv (snd (fold pd_tryConnectToPeer as s))" for "as" s
    by (induction "as" arbitrary: s) (simp_all add: tryConnect_inv)
  then have "pd_inv (fst s) \<and> nv_inv (snd s) \<Longrightarrow> pd_inv (fst (pd_discoverFromDHT rt s)) \<and> nv_inv (snd (pd_discoverFromDHT rt s))" for s
    by (simp add: pd_discoverFromDHT_def split: option.splits)
  moreover have "pd_inv (fst s) \<and> nv_inv (snd s) \<Longrightarrow> pd_inv (fst (fold (peerstore_attempt self) as s)) \<and> nv_inv (snd (fold (peerstore_attempt self) as s))" for "as" s
    by (induction "as" arbitrary: s) (simp_all add: peerstore_attempt_def tryConnect_inv)
  ultimately show "pd_inv (fst s) \<and> nv_inv (snd s) \<Longrightarrow> ?thesis"
    by (simp add: pd_discoverPeers_def pd_discoverFromPeerstore_def)
qed

lemma discovery_inv:
  assumes "pd_inv (fst s)" and "nv_inv (snd s)" and "\<And>x. Meanwhile x \<in> set events \<Longrightarrow> pd_inv (fst x) \<and> nv_inv (snd x)"
  shows "\<exists>s'. pd_Start self first events s = Ret s' \<and> pd_inv (fst s') \<and> nv_inv (snd s')"
proof -
  let ?work = "\<lambda>(routingTable, peerstore) s. Ret (pd_discoverPeers self routingTable peerstore s)"
  let ?s = "pd_discoverPeers self (fst first) (snd first) s"
  obtain s' where r: "ticker_loop ?work events ?s = Ret s'" using ticker_loop_returns [of ?work events ?s] by auto
  have tick: "pd_inv (fst s2) \<and> nv_inv (snd s2)" if "pd_inv (fst s1) \<and> nv_inv (snd s1)" "?work e s1 = Ret s2" for e s1 s2
    using tryConnects_inv [OF that(1), of self "fst e" "snd e"] that(2) by (cases e) auto
  have "pd_inv (fst s') \<and> nv_inv (snd s')"
    by (rule ticker_loop_keeps [where P = "\<lambda>s. pd_inv (fst s) \<and> nv_inv (snd s)", OF tick assms(3) tryConnects_inv r])
      (use assms(1,2) in simp_all)
  with r show ?thesis by (simp add: pd_Start_def)
qed

text \<open>
  A tick of the storage monitor drops exactly the finished operations that were completed more
  than an hour before, and touches nothing else of the node.
\<close>

lemma gm_get_filter:
  "gm_wf m \<Longrightarrow> gm_get (filter (\<lambda>(k, v). P v) m) k = (case gm_get m k of None \<Rightarrow> None | Some v \<Rightarrow> if P v then Some v else None)"
  by (induction m) (auto simp: gm_wf_def gm_keys_def gm_get_None_iff split: option.splits)

lemma storage_tick_exact:
  assumes "gm_wf (nd_pendingOps nd)"
  shows "gm_get (nd_pendingOps (so_cleanupCompletedOperations now nd)) h =
      (case gm_get (nd_pendingOps nd) h of None \<Rightarrow> None
       | Some op \<Rightarrow> if op_Status op \<in> {''completed'', ''failed''} \<and> op_CompletedAt op < now - hour then None else Some op)"
    and "(so_cleanupCompletedOperations now nd)\<lparr>nd_pendingOps := nd_pendingOps nd\<rparr> = nd"
  using gm_get_filter [OF assms, of "\<lambda>op. \<not> ((op_Status op = ''completed'' \<or> op_Status op = ''failed'') \<and> op_CompletedAt op < now - hour)"]
  by (auto simp: so_cleanupCompletedOperations_def Let_def split: option.splits)

section \<open>Starting the services of a gateway\<close>

text \<open>\<open>ListenAndServe\<close> returns \<open>nil\<close>, \<open>http.ErrServerClosed\<close>, or another error.\<close>

datatype listen_result = NoError | ServerClosed | ListenFailed string

definition a_Start :: "listen_result \<Rightarrow> string + unit" where
  "a_Start listen = (case listen of ListenFailed err \<Rightarrow> Inl (''API server failed: '' @ err) | _ \<Rightarrow> Inr ())"

text \<open>
  The API server and the monitor are goroutines; the error of the first is logged in it. The result
  is what the two do, with that log entry, and \<open>nil\<close>.
\<close>

definition gw_Start ::
  "listen_result \<Rightarrow> (gateway_env, GatewayNode) loop_event list \<Rightarrow> GatewayNode \<Rightarrow> (string option \<times> GatewayNode go) \<times> (string + unit)" where
  "gw_Start listen events gn =
     (((case a_Start listen of Inl err \<Rightarrow> Some err | Inr _ \<Rightarrow> None), gw_monitorGateway events gn), Inr ())"

text \<open>A gateway without an API, because its port is taken for instance, starts like any other.\<close>

lemma gateway_starts_without_api: "gw_Start (ListenFailed err) events gn = ((Some (''API server failed: '' @ err), gw_monitorGateway events gn), Inr ())"
  by (simp add: gw_Start_def a_Start_def)

text \<open>The monitor touches the three statistics of the gateway and nothing else.\<close>

lemma monitorGateway_keeps:
  assumes "\<And>g. Meanwhile g \<in> set events \<Longrightarrow> gw_node g = gw_node gn \<and> gw_startTime g = gw_startTime gn"
  shows "\<exists>gn'. gw_monitorGateway events gn = Ret gn' \<and> gw_node gn' = gw_node gn \<and> gw_startTime gn' = gw_startTime gn"
proof -
  obtain gn' where r: "gw_monitorGateway events gn = Ret gn'"
    using ticker_loop_returns [of "\<lambda>ge gn. Ret (gw_updateGatewayStats ge gn)" events gn] by (auto simp: gw_monitorGateway_def)
  have "gw_node gn' = gw_node gn \<and> gw_startTime gn' = gw_startTime gn"
    by (rule ticker_loop_keeps [where P = "\<lambda>g. gw_node g = gw_node gn \<and> gw_startTime g = gw_startTime gn",
        OF _ assms _ r [unfolded gw_monitorGateway_def]]) (auto simp: gw_updateGatewayStats_def Let_def)
  with r show ?thesis by blast
qed

section \<open>Reports\<close>

text \<open>The lines of the two reports, with what they print.\<close>

datatype debug_line = TotalPeers nat | TotalFiles nat | FileOn string "peer_id list" | FileNotFoundLine string

definition dn_DebugNetworkView :: "NetworkView \<Rightarrow> debug_line list" where
  "dn_DebugNetworkView nv =
     [TotalPeers (length (nv_peers nv)), TotalFiles (length (nv_fileIndex nv))] @
     map (\<lambda>(fileHash, peers). FileOn fileHash peers) (nv_fileIndex nv)"

fun first_files :: "nat \<Rightarrow> (string, peer_id list) gomap \<Rightarrow> debug_line list" where
  "first_files shown [] = []"
| "first_files shown ((availableHash, availablePeers) # files) =
     FileOn availableHash availablePeers # (if 5 \<le> shown + 1 then [] else first_files (shown + 1) files)"

definition so_DebugFileLocation :: "string \<Rightarrow> NetworkView \<Rightarrow> debug_line list" where
  "so_DebugFileLocation fileHash nv =
     (case gm_get (nv_fileIndex nv) fileHash of
        Some peers \<Rightarrow> [FileOn fileHash peers]
      | None \<Rightarrow> [FileNotFoundLine fileHash, TotalFiles (length (nv_fileIndex nv))] @ first_files 0 (nv_fileIndex nv))"

lemma first_files_take: "n < 5 \<Longrightarrow> first_files n m = map (\<lambda>(h, ps). FileOn h ps) (take (5 - n) m)"
proof (induction n m rule: first_files.induct)
  case (2 shown h ps files)
  show ?case
  proof (cases "5 \<le> shown + 1")
    case True
    with "2.prems" have "5 - shown = Suc 0" by simp
    with True show ?thesis by simp
  next
    case False
    then have "5 - shown = Suc (5 - (shown + 1))" by simp
    with 2 False show ?thesis by simp
  qed
qed simp

text \<open>A file that is not in the view is reported with at most five others.\<close>

lemma debug_lines_bounded: "length (so_DebugFileLocation h nv) \<le> 7"
  by (simp add: so_DebugFileLocation_def first_files_take split: option.splits)

text \<open>\<open>conns\<close> is what libp2p lists, one entry per connection; a peer with two connections is listed twice.\<close>

definition pd_GetConnectedPeers :: "peer_id list \<Rightarrow> peer_id list" where
  "pd_GetConnectedPeers conns = fold (\<lambda>conn peers. peers @ [conn]) conns []"

lemma GetConnectedPeers_eq: "pd_GetConnectedPeers conns = conns"
proof -
  have "fold (\<lambda>conn peers. peers @ [conn]) conns acc = acc @ conns" for acc :: "peer_id list"
    by (induction conns arbitrary: acc) simp_all
  then show ?thesis by (simp add: pd_GetConnectedPeers_def)
qed

end
