(* ===== verification/Wasm_Sdk.thy ===== *)
theory Wasm_Sdk
  imports Go_Float
begin

text \<open>
  The SDK for browsers (\<open>pkg/wasm\<close>): \<open>wasm.go\<close>, which answers every call with made-up data, and the
  functions \<open>exports.go\<close> gives to JavaScript. A result is the value that is encoded as JSON; the
  configuration arrives parsed or not. Of \<open>syscall/js\<close> the code uses the classes of a value and its
  conversions: \<open>String\<close> never fails, \<open>Int\<close> panics on anything but a number.
\<close>

section \<open>The SDK\<close>

datatype json = JNum int | JDec rat | JStr string | JBytes bytes | JList "json list" | JMap "(string \<times> json) list"

record ShadSpaceSDK =
  sdk_cancelled :: bool

record Config =
  cfg_Port :: int
  cfg_BootstrapPeers :: "string list"
  cfg_NodeType :: string

definition NewShadSpaceSDK :: ShadSpaceSDK where
  "NewShadSpaceSDK = \<lparr>sdk_cancelled = False\<rparr>"

text \<open>\<open>toJSON\<close>: \<open>encoding/json\<close> takes all the values there are here.\<close>

definition sdk_toJSON :: "json \<Rightarrow> string + json" where
  "sdk_toJSON data = Inr data"

definition config_json :: "Config \<Rightarrow> json" where
  "config_json c = JMap [(''port'', JNum (cfg_Port c)), (''bootstrapPeers'', JList (map JStr (cfg_BootstrapPeers c))),
     (''nodeType'', JStr (cfg_NodeType c))]"

definition sdk_Init :: "go_time \<Rightarrow> string + Config \<Rightarrow> string + json" where
  "sdk_Init now config =
     (case config of
        Inl err \<Rightarrow> Inl (''failed to parse config: '' @ err)
      | Inr c \<Rightarrow> sdk_toJSON (JMap [(''nodeId'', JStr (''wasm-node-'' @ dec (now div second))),
          (''status'', JStr ''initialized''), (''config'', config_json c)]))"

definition sdk_UploadFile :: "go_time \<Rightarrow> bytes \<Rightarrow> string \<Rightarrow> int \<Rightarrow> int \<Rightarrow> string + json" where
  "sdk_UploadFile now fileData fileName totalShards requiredShards =
     (let fileHash = ''hash_'' @ dec now
      in sdk_toJSON (JMap [(''fileHash'', JStr fileHash), (''fileName'', JStr fileName), (''size'', JNum (int (length fileData))),
           (''shards'', JMap [(''total'', JNum totalShards), (''required'', JNum requiredShards)]),
           (''message'', JStr ''File uploaded successfully (simulated)'')]))"

definition mock_data :: "string \<Rightarrow> bytes" where
  "mock_data fileHash = map (\<lambda>c. word_of_nat (of_char c)) (''This is simulated file content for hash: '' @ fileHash)"

definition sdk_DownloadFile :: "string \<Rightarrow> string + json" where
  "sdk_DownloadFile fileHash =
     sdk_toJSON (JMap [(''fileHash'', JStr fileHash), (''data'', JBytes (mock_data fileHash)),
       (''size'', JNum (int (length (mock_data fileHash)))), (''message'', JStr ''File downloaded successfully (simulated)'')])"

text \<open>\<open>rfc3339\<close>: the text of a time.\<close>

definition sdk_ListFiles :: "(go_time \<Rightarrow> string) \<Rightarrow> go_time \<Rightarrow> go_time \<Rightarrow> string + json" where
  "sdk_ListFiles rfc3339 now1 now2 =
     (let files = [
        JMap [(''fileHash'', JStr ''abc123''), (''fileName'', JStr ''test1.txt''), (''fileSize'', JNum 1024),
              (''shards'', JNum 3), (''required'', JNum 2), (''createdAt'', JStr (rfc3339 now1)), (''peers'', JNum 2)],
        JMap [(''fileHash'', JStr ''def456''), (''fileName'', JStr ''test2.jpg''), (''fileSize'', JNum 2048),
              (''shards'', JNum 4), (''required'', JNum 3), (''createdAt'', JStr (rfc3339 (now2 - hour))), (''peers'', JNum 3)]]
      in sdk_toJSON (JMap [(''files'', JList files), (''count'', JNum (int (length files)))]))"

definition sdk_GetNetworkStats :: "string + json" where
  "sdk_GetNetworkStats =
     sdk_toJSON (JMap
       [(''network'', JMap [(''peers'', JNum 5), (''knownFiles'', JNum 12), (''dhtPeers'', JNum 8), (''avgReputation'', JDec (85 / 100))]),
        (''storage'', JMap [(''totalFiles'', JNum 2), (''totalSize'', JNum 3072), (''pendingOps'', JNum 0), (''completedOps'', JNum 15)])])"

definition sdk_GetNodeInfo :: "string + json" where
  "sdk_GetNodeInfo =
     sdk_toJSON (JMap [(''nodeId'', JStr ''wasm-node-123''), (''peerId'', JStr ''12D3KooWSimulatedNode''),
       (''addresses'', JList [JStr ''/ip4/127.0.0.1/tcp/4001'']), (''status'', JStr ''connected''), (''type'', JStr ''wasm'')])"

definition sdk_Close :: "ShadSpaceSDK \<Rightarrow> (string + unit) \<times> ShadSpaceSDK" where
  "sdk_Close s = (Inr (), s\<lparr>sdk_cancelled := True\<rparr>)"

section \<open>What JavaScript calls\<close>

datatype js_value = JsUndefined | JsNull | JsBool bool | JsNumber float64 | JsString string | JsUint8Array bytes | JsObject

text \<open>
  What the conversions of \<open>syscall/js\<close> give: the text of a value that is no string, the integer of a
  number; and how \<open>encoding/json\<close> reads a text as a configuration.
\<close>

record js_env =
  je_text :: "js_value \<Rightarrow> string"
  je_int :: "float64 \<Rightarrow> int"
  je_config :: "string \<Rightarrow> string + Config"
  je_rfc3339 :: "go_time \<Rightarrow> string"

definition js_String :: "js_env \<Rightarrow> js_value \<Rightarrow> string" where
  "js_String je v = (case v of JsString s \<Rightarrow> s | _ \<Rightarrow> je_text je v)"

definition js_Int :: "js_env \<Rightarrow> js_value \<Rightarrow> int go" where
  "js_Int je v = (case v of JsNumber x \<Rightarrow> Ret (je_int je x) | _ \<Rightarrow> Panic (ExplicitPanic ''Value.Int''))"

datatype js_result = SuccessResult json | ClosedResult string | ErrorResult string

definition js_answer :: "string + json \<Rightarrow> js_result" where
  "js_answer r = (case r of Inl err \<Rightarrow> ErrorResult err | Inr result \<Rightarrow> SuccessResult result)"

definition js_initSDK :: "js_env \<Rightarrow> go_time \<Rightarrow> js_value list \<Rightarrow> js_result" where
  "js_initSDK je now args =
     (case args of
        [] \<Rightarrow> ErrorResult ''Configuration required''
      | a # _ \<Rightarrow> js_answer (sdk_Init now (je_config je (js_String je a))))"

definition js_uploadFile :: "js_env \<Rightarrow> go_time \<Rightarrow> js_value list \<Rightarrow> js_result go" where
  "js_uploadFile je now args =
     (if length args < 4
      then Ret (ErrorResult ''Invalid arguments: expected fileData, fileName, totalShards, requiredShards'')
      else case args ! 0 of
        JsUint8Array fileData \<Rightarrow>
          go_bind (js_Int je (args ! 2)) (\<lambda>totalShards.
          go_bind (js_Int je (args ! 3)) (\<lambda>requiredShards.
          Ret (js_answer (sdk_UploadFile now fileData (js_String je (args ! 1)) totalShards requiredShards))))
      | _ \<Rightarrow> Ret (ErrorResult ''Expected Uint8Array for file data''))"

definition js_downloadFile :: "js_env \<Rightarrow> js_value list \<Rightarrow> js_result" where
  "js_downloadFile je args =
     (case args of [] \<Rightarrow> ErrorResult ''File hash required'' | a # _ \<Rightarrow> js_answer (sdk_DownloadFile (js_String je a)))"

definition js_listFiles :: "js_env \<Rightarrow> go_time \<Rightarrow> go_time \<Rightarrow> js_result" where
  "js_listFiles je now1 now2 = js_answer (sdk_ListFiles (je_rfc3339 je) now1 now2)"

definition js_getNetworkStats :: js_result where
  "js_getNetworkStats = js_answer sdk_GetNetworkStats"

definition js_getNodeInfo :: js_result where
  "js_getNodeInfo = js_answer sdk_GetNodeInfo"

definition js_closeSDK :: "ShadSpaceSDK \<Rightarrow> js_result \<times> ShadSpaceSDK" where
  "js_closeSDK s =
     (case sdk_Close s of
        (Inl err, s1) \<Rightarrow> (ErrorResult err, s1)
      | (Inr _, s1) \<Rightarrow> (ClosedResult ''SDK closed successfully'', s1))"

text \<open>\<open>RegisterFunctions\<close>: the functions of the global object \<open>ShadSpaceSDK\<close>, one SDK behind them.\<close>

definition js_call ::
  "js_env \<Rightarrow> (nat \<Rightarrow> go_time) \<Rightarrow> string \<Rightarrow> js_value list \<Rightarrow> ShadSpaceSDK \<Rightarrow> (js_result \<times> ShadSpaceSDK) go option" where
  "js_call je clock name args s =
     (if name = ''init'' then Some (Ret (js_initSDK je (clock 0) args, s))
      else if name = ''uploadFile'' then Some (go_bind (js_uploadFile je (clock 0) args) (\<lambda>r. Ret (r, s)))
      else if name = ''downloadFile'' then Some (Ret (js_downloadFile je args, s))
      else if name = ''listFiles'' then Some (Ret (js_listFiles je (clock 0) (clock 1), s))
      else if name = ''getNetworkStats'' then Some (Ret (js_getNetworkStats, s))
      else if name = ''getNodeInfo'' then Some (Ret (js_getNodeInfo, s))
      else if name = ''close'' then Some (Ret (js_closeSDK s))
      else None)"

section \<open>Facts\<close>

definition js_number :: "js_value \<Rightarrow> bool" where
  "js_number v \<longleftrightarrow> (\<exists>x. v = JsNumber x)"

lemma js_Int_panics [simp]: "panics (js_Int je v) \<longleftrightarrow> \<not> js_number v"
  by (cases v) (simp_all add: js_Int_def js_number_def)

text \<open>
  Which calls from JavaScript end the program: an upload of an array whose shard numbers are not both
  numbers, and no other call of a registered function.
\<close>

theorem js_call_panics_iff:
  assumes "js_call je clock name args s = Some r"
  shows "panics r \<longleftrightarrow> name = ''uploadFile'' \<and> 4 \<le> length args \<and> (\<exists>b. args ! 0 = JsUint8Array b) \<and>
    \<not> (js_number (args ! 2) \<and> js_number (args ! 3))"
proof -
  have "panics (js_uploadFile je t args) \<longleftrightarrow> 4 \<le> length args \<and> (\<exists>b. args ! 0 = JsUint8Array b) \<and>
      \<not> (js_number (args ! 2) \<and> js_number (args ! 3))" for t
    using js_Int_panics [of je "args ! 2"]
    by (cases "args ! 0") (auto simp: js_uploadFile_def not_panics_iff simp del: js_Int_panics,
        auto simp: panics_iff [symmetric])
  with assms show ?thesis by (auto simp: js_call_def split: if_splits)
qed

text \<open>
  Nothing is kept: what a download gives for the hash of an upload depends on the hash alone, never on
  the bytes, name or shards that were uploaded, and no listing names it.
\<close>

theorem upload_not_kept:
  assumes "js_uploadFile je now args = Ret (SuccessResult r)" and "r = JMap members" and "map_of members ''fileHash'' = Some (JStr h)"
  shows "h = ''hash_'' @ dec now \<and>
    js_downloadFile je [JsString h] = SuccessResult (JMap [(''fileHash'', JStr h), (''data'', JBytes (mock_data h)),
      (''size'', JNum (int (length (mock_data h)))), (''message'', JStr ''File downloaded successfully (simulated)'')]) \<and>
    (\<forall>t1 t2 files. js_listFiles je t1 t2 = SuccessResult (JMap [(''files'', JList files), (''count'', JNum (int (length files)))]) \<longrightarrow>
      (\<forall>f \<in> set files. \<forall>entry. f = JMap entry \<longrightarrow> map_of entry ''fileHash'' \<noteq> Some (JStr h)))"
proof -
  have h: "h = ''hash_'' @ dec now"
    using assms
    by (auto simp: js_uploadFile_def js_answer_def sdk_UploadFile_def sdk_toJSON_def go_bind_Ret_iff Let_def
        split: if_splits js_value.splits sum.splits)
  then show ?thesis
    by (auto simp: js_downloadFile_def js_answer_def sdk_DownloadFile_def sdk_toJSON_def js_String_def js_listFiles_def
        sdk_ListFiles_def Let_def)
qed

end
